(* ===== verification/Prelude.thy ===== *)
theory Prelude
  imports Main "HOL-Library.Word" "HOL-Library.AList" "HOL-Library.Signed_Division" "HOL-Library.Sublist"
    "HOL-Library.List_Lexorder" "HOL-Library.Char_ord"
begin

text \<open>
  The vocabulary every theory of the development shares: Go's fixed-width integers as
  words read through \<open>sint\<close>, Go's string maps (a nil map is \<open>None\<close>), decimal printing as
  done by the verb for integers of the fmt package, \<open>strings.Split\<close> and \<open>strings.Join\<close>,
  the outcome of a call that may panic, and the lemmas on them that the components use.
\<close>

named_theorems go_simps \<open>definitional unfoldings of small helpers\<close>

section \<open>Machine integers\<close>

type_synonym int32 = "32 word"
type_synonym int64 = "64 word"

text \<open>
  Go's division of signed integers truncates towards zero and its result wraps to the
  width of the operands.
\<close>

definition go_div32 :: "int32 \<Rightarrow> int32 \<Rightarrow> int32" where
  "go_div32 a b = word_of_int (sint a sdiv sint b)"

lemma sint_range32: "- (2 ^ 31) \<le> sint (a :: int32)" "sint a < 2 ^ 31"
  using sint_ge [of a] sint_lt [of a] by simp_all

lemma sint_eq_iff32: "sint (a :: int32) = sint b \<longleftrightarrow> a = b"
  by (metis signed_word_eqI)

lemma sint_eq_iff64: "sint (a :: int64) = sint b \<longleftrightarrow> a = b"
  by (metis signed_word_eqI)

lemma sint_of_int64: "- (2 ^ 63) \<le> x \<Longrightarrow> x < 2 ^ 63 \<Longrightarrow> sint (word_of_int x :: int64) = x"
  by (simp add: signed_of_int signed_take_bit_int_eq_self)

lemma sint_of_int32: "- (2 ^ 31) \<le> x \<Longrightarrow> x < 2 ^ 31 \<Longrightarrow> sint (word_of_int x :: int32) = x"
  by (simp add: signed_of_int signed_take_bit_int_eq_self)

lemma sint_add32:
  "- (2 ^ 31) \<le> sint a + sint b \<Longrightarrow> sint a + sint b < 2 ^ 31 \<Longrightarrow>
   sint (a + b :: int32) = sint a + sint b"
  by (simp add: sint_word_ariths signed_take_bit_int_eq_self)

lemma sint_diff32:
  "- (2 ^ 31) \<le> sint a - sint b \<Longrightarrow> sint a - sint b < 2 ^ 31 \<Longrightarrow>
   sint (a - b :: int32) = sint a - sint b"
  by (simp add: sint_word_ariths signed_take_bit_int_eq_self)

section \<open>Calls that may panic\<close>

text \<open>
  A nil dereference stops the goroutine. Functions that can do so return an \<open>outcome\<close>;
  the others return their Go results directly.
\<close>

datatype 'a outcome = Panic | Return 'a

fun bind_outcome :: "'a outcome \<Rightarrow> ('a \<Rightarrow> 'b outcome) \<Rightarrow> 'b outcome" where
  "bind_outcome Panic f = Panic"
| "bind_outcome (Return x) f = f x"

definition deref :: "'a option \<Rightarrow> 'a outcome" where
  "deref p = (case p of None \<Rightarrow> Panic | Some x \<Rightarrow> Return x)"

lemma deref_simps [simp]: "deref None = Panic" "deref (Some x) = Return x"
  by (simp_all add: deref_def)

lemma bind_outcome_Return:
  "bind_outcome m f = Return y \<longleftrightarrow> (\<exists>x. m = Return x \<and> f x = Return y)"
  by (cases m) auto

lemma deref_Return [simp]: "deref p = Return x \<longleftrightarrow> p = Some x"
  by (cases p) auto

lemma deref_Panic [simp]: "deref p = Panic \<longleftrightarrow> p = None"
  by (cases p) auto

lemma bind_outcome_assoc:
  "bind_outcome (bind_outcome m f) g = bind_outcome m (\<lambda>x. bind_outcome (f x) g)"
  by (cases m) auto

section \<open>Go maps from strings\<close>

text \<open>
  A Go map is a reference that may be nil. Reading a nil map gives the zero value;
  \<open>reflect.DeepEqual\<close> distinguishes a nil map from an empty one, as \<open>None\<close> and
  \<open>Some Map.empty\<close> are distinct here.
\<close>

type_synonym 'v gomap = "(string \<rightharpoonup> 'v) option"
type_synonym smap = "string gomap"

definition mlookup :: "'v gomap \<Rightarrow> string \<Rightarrow> 'v option" where
  "mlookup m k = (case m of None \<Rightarrow> None | Some f \<Rightarrow> f k)"

definition mget :: "smap \<Rightarrow> string \<Rightarrow> string" where
  "mget m k = (case mlookup m k of None \<Rightarrow> '''' | Some v \<Rightarrow> v)"

lemma mlookup_simps [simp]: "mlookup None k = None" "mlookup (Some f) k = f k"
  by (simp_all add: mlookup_def)

lemma mget_simps [simp]:
  "mget None k = ''''"
  "mget (Some f) k = (case f k of None \<Rightarrow> '''' | Some v \<Rightarrow> v)"
  by (simp_all add: mget_def)

section \<open>Decimal printing\<close>

definition digit_char :: "nat \<Rightarrow> char" where
  "digit_char d = ''0123456789'' ! d"

fun show_nat :: "nat \<Rightarrow> string" where
  "show_nat n = (if n < 10 then [digit_char n] else show_nat (n div 10) @ [digit_char (n mod 10)])"

declare show_nat.simps [simp del]

definition show_int :: "int \<Rightarrow> string" where
  "show_int i = (if i < 0 then CHR ''-'' # show_nat (nat (- i)) else show_nat (nat i))"

lemma digit_char_inj: "i < 10 \<Longrightarrow> j < 10 \<Longrightarrow> digit_char i = digit_char j \<longleftrightarrow> i = j"
  unfolding digit_char_def by (rule nth_eq_iff_index_eq) simp_all

lemma digit_char_mem: "i < 10 \<Longrightarrow> digit_char i \<in> set ''0123456789''"
  unfolding digit_char_def by (rule nth_mem) simp

lemma digit_char_not_dash: "i < 10 \<Longrightarrow> digit_char i \<noteq> CHR ''-''"
  using digit_char_mem [of i] by auto

lemma show_nat_not_Nil [simp]: "show_nat n \<noteq> []"
  by (subst show_nat.simps) simp

lemma show_nat_small: "n < 10 \<Longrightarrow> show_nat n = [digit_char n]"
  by (subst show_nat.simps) simp

lemma show_nat_big: "\<not> n < 10 \<Longrightarrow> show_nat n = show_nat (n div 10) @ [digit_char (n mod 10)]"
  by (subst show_nat.simps) simp

lemma show_nat_set: "set (show_nat n) \<subseteq> set ''0123456789''"
proof (induction n rule: show_nat.induct)
  case (1 n)
  show ?case
  proof (cases "n < 10")
    case True
    then show ?thesis using digit_char_mem [of n] by (simp add: show_nat_small)
  next
    case False
    then show ?thesis using 1 [OF False] digit_char_mem [of "n mod 10"]
      by (auto simp: show_nat_big [OF False])
  qed
qed

lemma show_nat_inj: "show_nat m = show_nat n \<Longrightarrow> m = n"
proof (induction m arbitrary: n rule: show_nat.induct)
  case (1 m)
  consider (ss) "m < 10" "n < 10" | (sb) "m < 10" "\<not> n < 10" | (bs) "\<not> m < 10" "n < 10"
    | (bb) "\<not> m < 10" "\<not> n < 10"
    by blast
  then show ?case
  proof cases
    case ss
    with "1.prems" show ?thesis by (simp add: show_nat_small digit_char_inj)
  next
    case sb
    with "1.prems" show ?thesis by (auto simp: show_nat_small show_nat_big dest: sym)
  next
    case bs
    with "1.prems" show ?thesis by (auto simp: show_nat_small show_nat_big dest: sym)
  next
    case bb
    with "1.prems" have eq: "show_nat (m div 10) = show_nat (n div 10)" "m mod 10 = n mod 10"
      by (simp_all add: show_nat_big digit_char_inj)
    from "1.IH" [OF bb(1) eq(1)] have "m div 10 = n div 10" .
    with eq(2) show ?thesis by (metis div_mult_mod_eq)
  qed
qed

lemma show_nat_no_dash: "CHR ''-'' \<notin> set (show_nat n)"
  using show_nat_set [of n] by auto

lemma show_int_inj: "show_int i = show_int j \<Longrightarrow> i = j"
  using show_nat_no_dash
  by (auto simp: show_int_def split: if_splits dest!: show_nat_inj)
    (metis list.set_intros(1))+

section \<open>Splitting and joining on a separator character\<close>

text \<open>\<open>strings.Split(s, sep)\<close> for a one-character separator: always at least one part.\<close>

fun split_on :: "char \<Rightarrow> string \<Rightarrow> string list" where
  "split_on c [] = [[]]"
| "split_on c (x # xs) =
     (if x = c then [] # split_on c xs
      else (case split_on c xs of [] \<Rightarrow> [[x]] | p # ps \<Rightarrow> (x # p) # ps))"

text \<open>\<open>strings.Join(parts, sep)\<close>.\<close>

fun join :: "string \<Rightarrow> string list \<Rightarrow> string" where
  "join sep [] = []"
| "join sep [p] = p"
| "join sep (p # ps) = p @ sep @ join sep ps"

lemma split_on_not_Nil [simp]: "split_on c s \<noteq> []"
  by (induction s) (auto split: list.splits)

lemma join_split_on: "join [c] (split_on c s) = s"
proof (induction s)
  case Nil
  then show ?case by simp
next
  case (Cons x xs)
  obtain p ps where "split_on c xs = p # ps" by (cases "split_on c xs") auto
  with Cons show ?case by (cases ps) auto
qed

lemma split_on_none: "c \<notin> set s \<Longrightarrow> split_on c s = [s]"
  by (induction s) auto

lemma split_on_append: "c \<notin> set s \<Longrightarrow> split_on c (s @ c # t) = s # split_on c t"
  by (induction s) auto

lemma split_on_join:
  assumes "ps \<noteq> []" and "\<forall>p \<in> set ps. c \<notin> set p"
  shows "split_on c (join [c] ps) = ps"
  using assms
proof (induction "[c]" ps rule: join.induct)
  case 1
  then show ?case by simp
next
  case (2 p)
  then show ?case by (simp add: split_on_none)
next
  case (3 p q qs)
  then show ?case by (simp add: split_on_append)
qed

text \<open>The last separator decides a joined name whose suffix has no separator.\<close>

lemma sep_prefix_inj:
  "s @ c # a = t @ c # b \<Longrightarrow> c \<notin> set s \<Longrightarrow> c \<notin> set t \<Longrightarrow> s = t \<and> a = b"
proof (induction s arbitrary: t)
  case Nil
  then show ?case by (cases t) auto
next
  case (Cons x xs)
  then show ?case by (cases t) auto
qed

lemma sep_suffix_inj:
  assumes "a @ c # s = b @ c # t" and "c \<notin> set s" and "c \<notin> set t"
  shows "a = b \<and> s = t"
proof -
  from assms(1) have "rev s @ c # rev a = rev t @ c # rev b"
    by (metis append_assoc append_Cons append_Nil rev_append rev.simps(2))
  with assms(2,3) have "rev s = rev t \<and> rev a = rev b"
    by (intro sep_prefix_inj) simp_all
  then show ?thesis by simp
qed

end
