(* ===== verification/Kube_Meta.thy ===== *)
theory Kube_Meta
  imports Prelude
begin

text \<open>
  The part of the Kubernetes machinery the controllers are written against: errors and
  their reasons (\<open>apimachinery/pkg/api/errors\<close>), object metadata and owner references
  (\<open>apis/meta/v1/controller_ref.go\<close>), label requirements and selectors
  (\<open>apimachinery/pkg/labels\<close>), name formats (\<open>apimachinery/pkg/util/validation\<close>) and the
  keys of the informer caches (\<open>client-go/tools/cache\<close>).
\<close>

section \<open>Errors\<close>

text \<open>
  An \<open>error\<close> result of Go is a \<open>go_error option\<close> with nil as \<open>None\<close>. A formatted error keeps its
  format and arguments; only the API status errors carry a reason that \<open>IsNotFound\<close> and its
  siblings can see, so a wrapped or formatted error has lost it.
\<close>

text \<open>
  \<open>StatusMessage\<close> is a status error whose message is the text of another error. An operand of a
  format may be a reference to an owner; one that is a pointer to a number prints as an address.
\<close>

record OwnerReference =
  or_APIVersion :: string
  or_Kind :: string
  or_Name :: string
  or_UID :: string
  or_Controller :: "bool option"
  or_BlockOwnerDeletion :: "bool option"

datatype reason = NotFound | AlreadyExists | Conflict | OtherReason

datatype go_error =
    StatusError reason string string
  | StatusMessage reason go_error
  | Errorf string "go_arg list"
  | Wrap go_error string "go_arg list"
  | AggregateError "go_error list"
and go_arg = AStr string | AStrs "string list" | AInt int | AIntPtr "int option" | AOwner "OwnerReference option" | AErr go_error

text \<open>A text is a literal or the result of \<open>fmt.Sprintf\<close>, kept as its format and operands.\<close>

datatype go_text = Literal string | Sprintf string "go_arg list"

fun ReasonForError :: "go_error \<Rightarrow> reason option" where
  "ReasonForError (StatusError r k n) = Some r"
| "ReasonForError (StatusMessage r e) = Some r"
| "ReasonForError _ = None"

definition IsNotFound :: "go_error \<Rightarrow> bool" where
  "IsNotFound e \<longleftrightarrow> ReasonForError e = Some NotFound"

definition IsAlreadyExists :: "go_error \<Rightarrow> bool" where
  "IsAlreadyExists e \<longleftrightarrow> ReasonForError e = Some AlreadyExists"

definition NewAggregate :: "go_error option list \<Rightarrow> go_error option" where
  "NewAggregate es = (let errs = List.map_filter (\<lambda>e. e) es
                      in if errs = [] then None else Some (AggregateError errs))"

lemma IsNotFound_simps [simp]:
  "IsNotFound (StatusError r k n) \<longleftrightarrow> r = NotFound" "IsNotFound (StatusMessage r e) \<longleftrightarrow> r = NotFound"
  "\<not> IsNotFound (Errorf f as)" "\<not> IsNotFound (Wrap e f as)" "\<not> IsNotFound (AggregateError es)"
  by (simp_all add: IsNotFound_def)

lemma IsAlreadyExists_simps [simp]:
  "IsAlreadyExists (StatusError r k n) \<longleftrightarrow> r = AlreadyExists"
  "IsAlreadyExists (StatusMessage r e) \<longleftrightarrow> r = AlreadyExists"
  "\<not> IsAlreadyExists (Errorf f as)" "\<not> IsAlreadyExists (Wrap e f as)"
  "\<not> IsAlreadyExists (AggregateError es)"
  by (simp_all add: IsAlreadyExists_def)

lemma NewAggregate_None: "NewAggregate es = None \<longleftrightarrow> (\<forall>e \<in> set es. e = None)"
  unfolding NewAggregate_def Let_def
  by (induction es) (auto simp: List.map_filter_simps split: option.splits if_splits)

section \<open>Object metadata and owners\<close>

record ObjectMeta =
  Name :: string
  Namespace :: string
  UID :: string
  ResourceVersion :: string
  Labels :: smap
  Annotations :: smap
  OwnerReferences :: "OwnerReference list"
  DeletionTimestamp :: "nat option"

definition empty_meta :: ObjectMeta where
  "empty_meta = \<lparr>Name = '''', Namespace = '''', UID = '''', ResourceVersion = '''', Labels = None,
     Annotations = None, OwnerReferences = [], DeletionTimestamp = None\<rparr>"

text \<open>The kind an object says it is of, and the metadata and items of a list; \<open>None\<close> is a nil slice.\<close>

record TypeMeta =
  tm_Kind :: string
  tm_APIVersion :: string

definition empty_type :: TypeMeta where
  "empty_type = \<lparr>tm_Kind = [], tm_APIVersion = []\<rparr>"

record ListMeta =
  lm_SelfLink :: string
  lm_ResourceVersion :: string
  lm_Continue :: string

record 'a object_list =
  list_TypeMeta :: TypeMeta
  list_ListMeta :: ListMeta
  list_Items :: "'a list option"

record GroupVersionKind =
  gvk_Group :: string
  gvk_Version :: string
  gvk_Kind :: string

definition GroupVersion_String :: "string \<Rightarrow> string \<Rightarrow> string" where
  "GroupVersion_String g v =
     (if g = '''' \<and> v = '''' then ''''
      else if g = '''' \<and> v = ''v1'' then v
      else if g \<noteq> '''' then g @ ''/'' @ v
      else v)"

definition NewControllerRef :: "ObjectMeta \<Rightarrow> GroupVersionKind \<Rightarrow> OwnerReference" where
  "NewControllerRef owner gvk =
     \<lparr>or_APIVersion = GroupVersion_String (gvk_Group gvk) (gvk_Version gvk), or_Kind = gvk_Kind gvk,
      or_Name = Name owner, or_UID = UID owner,
      or_Controller = Some True, or_BlockOwnerDeletion = Some True\<rparr>"

fun find_first :: "('a \<Rightarrow> bool) \<Rightarrow> 'a list \<Rightarrow> 'a option" where
  "find_first P [] = None"
| "find_first P (x # xs) = (if P x then Some x else find_first P xs)"

definition GetControllerOf :: "ObjectMeta \<Rightarrow> OwnerReference option" where
  "GetControllerOf controllee =
     find_first (\<lambda>ref. or_Controller ref = Some True) (OwnerReferences controllee)"

definition IsControlledBy :: "ObjectMeta \<Rightarrow> ObjectMeta \<Rightarrow> bool" where
  "IsControlledBy obj owner =
     (case GetControllerOf obj of None \<Rightarrow> False | Some ref \<Rightarrow> or_UID ref = UID owner)"

lemma find_first_Some: "find_first P xs = Some x \<Longrightarrow> x \<in> set xs \<and> P x"
  by (induction xs) (auto split: if_splits)

lemma find_first_None: "find_first P xs = None \<longleftrightarrow> (\<forall>x \<in> set xs. \<not> P x)"
  by (induction xs) auto

lemma find_first_append:
  "find_first P (xs @ ys) = (case find_first P xs of None \<Rightarrow> find_first P ys | Some x \<Rightarrow> Some x)"
  by (induction xs) auto

lemma IsControlledBy_NewControllerRef:
  "OwnerReferences m = [NewControllerRef owner gvk] \<Longrightarrow> IsControlledBy m owner"
  by (simp add: IsControlledBy_def GetControllerOf_def NewControllerRef_def)

section \<open>Name formats\<close>

definition is_lower :: "char \<Rightarrow> bool" where
  "is_lower c \<longleftrightarrow> c \<in> set ''abcdefghijklmnopqrstuvwxyz''"

definition is_upper :: "char \<Rightarrow> bool" where
  "is_upper c \<longleftrightarrow> c \<in> set ''ABCDEFGHIJKLMNOPQRSTUVWXYZ''"

definition is_digit :: "char \<Rightarrow> bool" where
  "is_digit c \<longleftrightarrow> c \<in> set ''0123456789''"

definition to_lower :: "char \<Rightarrow> char" where
  "to_lower c = (if is_upper c then char_of (of_char c + 32 :: nat) else c)"

definition is_alnum :: "char \<Rightarrow> bool" where
  "is_alnum c \<longleftrightarrow> is_lower c \<or> is_upper c \<or> is_digit c"

text \<open>
  The regular expressions of the validation package all have the shape of an edge character,
  optionally followed by inner characters and another edge character.
\<close>

definition edged :: "(char \<Rightarrow> bool) \<Rightarrow> (char \<Rightarrow> bool) \<Rightarrow> string \<Rightarrow> bool" where
  "edged edge inner s \<longleftrightarrow> s \<noteq> [] \<and> edge (hd s) \<and> edge (last s) \<and> list_all inner s"

definition dns1123_label :: "string \<Rightarrow> bool" where
  "dns1123_label = edged (\<lambda>c. is_lower c \<or> is_digit c) (\<lambda>c. is_lower c \<or> is_digit c \<or> c = CHR ''-'')"

definition IsDNS1123Subdomain :: "string \<Rightarrow> bool" where
  "IsDNS1123Subdomain s \<longleftrightarrow> length s \<le> 253 \<and> list_all dns1123_label (split_on CHR ''.'' s)"

definition qualified_part :: "string \<Rightarrow> bool" where
  "qualified_part = edged is_alnum (\<lambda>c. is_alnum c \<or> c = CHR ''-'' \<or> c = CHR ''_'' \<or> c = CHR ''.'')"

definition IsValidLabelValue :: "string \<Rightarrow> bool" where
  "IsValidLabelValue v \<longleftrightarrow> length v \<le> 63 \<and> (v = [] \<or> qualified_part v)"

definition IsQualifiedName :: "string \<Rightarrow> bool" where
  "IsQualifiedName s =
     (case split_on CHR ''/'' s of
        [name] \<Rightarrow> name \<noteq> [] \<and> length name \<le> 63 \<and> qualified_part name
      | [pfx, name] \<Rightarrow> pfx \<noteq> [] \<and> IsDNS1123Subdomain pfx \<and>
                          name \<noteq> [] \<and> length name \<le> 63 \<and> qualified_part name
      | _ \<Rightarrow> False)"

section \<open>Label selectors\<close>

datatype requirement = Equals string string

type_synonym selector = "requirement list"

text \<open>
  \<open>labels.NewRequirement\<close> with the operator \<open>Equals\<close> and one value; the explanations at the end of
  its error messages are left out.
\<close>

definition NewRequirement :: "string \<Rightarrow> string \<Rightarrow> go_error + requirement" where
  "NewRequirement key val =
     (if \<not> IsQualifiedName key then Inl (Errorf ''invalid label key %q: %s'' [AStr key])
      else if \<not> IsValidLabelValue val then Inl (Errorf ''invalid label value: %q: %s'' [AStr val])
      else Inr (Equals key val))"

fun requirement_Matches :: "requirement \<Rightarrow> smap \<Rightarrow> bool" where
  "requirement_Matches (Equals k v) ls \<longleftrightarrow> mlookup ls k = Some v"

definition selector_Matches :: "selector \<Rightarrow> smap \<Rightarrow> bool" where
  "selector_Matches sel ls \<longleftrightarrow> list_all (\<lambda>r. requirement_Matches r ls) sel"

fun requirement_key :: "requirement \<Rightarrow> string" where
  "requirement_key (Equals k v) = k"

text \<open>
  \<open>Add\<close> also sorts the requirements by key. The order decides only the printed form of a selector,
  read here only for a single requirement, so \<open>selector_Add\<close> keeps the order of insertion.
\<close>

definition selector_Add :: "selector \<Rightarrow> requirement \<Rightarrow> selector" where
  "selector_Add sel r = sel @ [r]"

definition Everything :: selector where
  "Everything = []"

lemma selector_Matches_simps [simp]:
  "selector_Matches [] ls"
  "selector_Matches (selector_Add sel r) ls \<longleftrightarrow> selector_Matches sel ls \<and> requirement_Matches r ls"
  by (simp_all add: selector_Matches_def selector_Add_def)

section \<open>Keys of the caches\<close>

definition MetaNamespaceKeyFunc :: "ObjectMeta \<Rightarrow> string" where
  "MetaNamespaceKeyFunc m =
     (if length (Namespace m) > 0 then Namespace m @ ''/'' @ Name m else Name m)"

definition SplitMetaNamespaceKey :: "string \<Rightarrow> go_error + (string \<times> string)" where
  "SplitMetaNamespaceKey key =
     (case split_on CHR ''/'' key of
        [name] \<Rightarrow> Inr ('''', name)
      | [namespace, name] \<Rightarrow> Inr (namespace, name)
      | _ \<Rightarrow> Inl (Errorf ''unexpected key format: %q'' [AStr key]))"

lemma SplitMetaNamespaceKey_key:
  assumes "CHR ''/'' \<notin> set (Namespace m)" and "CHR ''/'' \<notin> set (Name m)"
  shows "SplitMetaNamespaceKey (MetaNamespaceKeyFunc m) = Inr (Namespace m, Name m)"
  using assms
  by (auto simp: SplitMetaNamespaceKey_def MetaNamespaceKeyFunc_def split_on_none split_on_append)

end
