(* ===== verification/Versions.thy ===== *)
theory Versions
  imports Kube_Meta
begin

text \<open>
  Database versions. Elasticsearch versions are the \<open>semver.Version\<close> of
  \<open>vendor/github.com/coreos/go-semver\<close>: parsing, printing and comparison are translated in full.
  Cassandra versions (\<open>pkg/api/version\<close>) keep the string they were read from.
\<close>

section \<open>Reading decimal integers\<close>

definition digit_val :: "char \<Rightarrow> nat" where
  "digit_val c = of_char c - 48"

definition decimal :: "string \<Rightarrow> nat" where
  "decimal s = foldl (\<lambda>n c. 10 * n + digit_val c) 0 s"

text \<open>
  \<open>strconv.ParseInt(s, 10, 64)\<close>, and \<open>strconv.Atoi\<close> where \<open>int\<close> has 64 bits: an optional sign, at
  least one digit, and a value that fits.
\<close>

definition ParseInt64 :: "string \<Rightarrow> int64 option" where
  "ParseInt64 s =
     (let neg = (s \<noteq> [] \<and> hd s = CHR ''-'');
          ds = (if s \<noteq> [] \<and> (hd s = CHR ''-'' \<or> hd s = CHR ''+'') then tl s else s);
          n = int (decimal ds)
      in if ds = [] \<or> \<not> list_all is_digit ds then None
         else if neg then (if n \<le> 2 ^ 63 then Some (word_of_int (- n)) else None)
         else (if n < 2 ^ 63 then Some (word_of_int n) else None))"

lemma digit_val_digit_char: "d < 10 \<Longrightarrow> digit_val (digit_char d) = d"
proof -
  have "\<forall>d \<in> set [0 ..< 10]. digit_val (digit_char d) = d" by code_simp
  then show "d < 10 \<Longrightarrow> digit_val (digit_char d) = d" by simp
qed

lemma decimal_snoc: "decimal (s @ [c]) = 10 * decimal s + digit_val c"
  by (simp add: decimal_def)

lemma decimal_show_nat: "decimal (show_nat n) = n"
proof (induction n rule: show_nat.induct)
  case (1 n)
  show ?case
  proof (cases "n < 10")
    case True
    then show ?thesis by (simp add: show_nat_small decimal_def digit_val_digit_char)
  next
    case False
    then show ?thesis using 1 [OF False]
      by (simp add: show_nat_big [OF False] decimal_snoc digit_val_digit_char)
  qed
qed

lemma show_nat_digits: "list_all is_digit (show_nat n)"
  using show_nat_set [of n] unfolding list_all_iff is_digit_def by blast

lemma not_digit_sign: "\<not> is_digit CHR ''-''" "\<not> is_digit CHR ''+''" "\<not> is_digit CHR ''.''"
  by (simp_all add: is_digit_def)

lemma show_nat_hd: "hd (show_nat n) \<noteq> CHR ''-''" "hd (show_nat n) \<noteq> CHR ''+''"
  using show_nat_digits [of n] not_digit_sign by (cases "show_nat n"; auto)+

lemma ParseInt64_show_nat: "n < 2 ^ 63 \<Longrightarrow> ParseInt64 (show_nat n) = Some (word_of_int (int n))"
  using show_nat_digits [of n] show_nat_hd [of n]
  by (simp add: ParseInt64_def decimal_show_nat)

lemma ParseInt64_show_int:
  assumes "0 \<le> sint (w :: int64)"
  shows "ParseInt64 (show_int (sint w)) = Some w"
proof -
  have "nat (sint w) < 2 ^ 63"
    using assms sint_lt [of w] by (simp add: nat_less_iff)
  from ParseInt64_show_nat [OF this] assms show ?thesis by (simp add: show_int_def)
qed

lemma ParseInt64_nonneg:
  assumes "ParseInt64 s = Some w" and "CHR ''-'' \<notin> set s"
  shows "0 \<le> sint w"
proof -
  from assms(2) have "\<not> (s \<noteq> [] \<and> hd s = CHR ''-'')" by (metis hd_in_set)
  with assms(1) obtain n :: nat where "w = word_of_int (int n)" "int n < 2 ^ 63"
    by (auto simp: ParseInt64_def Let_def split: if_splits)
  then show ?thesis using sint_of_int64 [of "int n"] by simp
qed

section \<open>Semantic versions\<close>

record semver =
  Major :: int64
  Minor :: int64
  Patch :: int64
  PreRelease :: string
  Metadata :: string

text \<open>\<open>splitOff\<close>: what stands before the first delimiter stays, the rest is returned.\<close>

fun splitOff :: "char \<Rightarrow> string \<Rightarrow> string \<times> string" where
  "splitOff d [] = ([], [])"
| "splitOff d (c # cs) = (if c = d then ([], cs) else (c # fst (splitOff d cs), snd (splitOff d cs)))"

text \<open>\<open>strings.SplitN(version, ".", 3)\<close>.\<close>

definition split_dots3 :: "string \<Rightarrow> string list" where
  "split_dots3 s =
     (case split_on CHR ''.'' s of
        a # b # c # cs \<Rightarrow> [a, b, join ''.'' (c # cs)]
      | ps \<Rightarrow> ps)"

definition semver_Set :: "string \<Rightarrow> go_error + semver" where
  "semver_Set input =
     (let (version, metadata) = splitOff CHR ''+'' input;
          (version, preRelease) = splitOff CHR ''-'' version
      in case split_dots3 version of
           [a, b, c] \<Rightarrow>
             (case ParseInt64 a of
                None \<Rightarrow> Inl (Errorf ''ParseInt'' [AStr a])
              | Some ma \<Rightarrow>
                  (case ParseInt64 b of
                     None \<Rightarrow> Inl (Errorf ''ParseInt'' [AStr b])
                   | Some mi \<Rightarrow>
                       (case ParseInt64 c of
                          None \<Rightarrow> Inl (Errorf ''ParseInt'' [AStr c])
                        | Some pa \<Rightarrow> Inr \<lparr>Major = ma, Minor = mi, Patch = pa,
                                          PreRelease = preRelease, Metadata = metadata\<rparr>)))
         | _ \<Rightarrow> Inl (Errorf ''%s is not in dotted-tri format'' [AStr version]))"

definition semver_String :: "semver \<Rightarrow> string" where
  "semver_String v =
     show_int (sint (Major v)) @ ''.'' @ show_int (sint (Minor v)) @ ''.'' @ show_int (sint (Patch v)) @
     (if PreRelease v \<noteq> '''' then ''-'' @ PreRelease v else '''') @
     (if Metadata v \<noteq> '''' then ''+'' @ Metadata v else '''')"

fun recursiveCompare :: "int64 list \<Rightarrow> int64 list \<Rightarrow> int" where
  "recursiveCompare [] bs = 0"
| "recursiveCompare (a # as) [] = 0"
| "recursiveCompare (a # as) (b # bs) =
     (if sint a > sint b then 1 else if sint a < sint b then - 1 else recursiveCompare as bs)"

fun recursivePreReleaseCompare :: "string list \<Rightarrow> string list \<Rightarrow> int" where
  "recursivePreReleaseCompare [] bs = (if length bs > 0 then - 1 else 0)"
| "recursivePreReleaseCompare (a # as) [] = 1"
| "recursivePreReleaseCompare (a # as) (b # bs) =
     (case (ParseInt64 a, ParseInt64 b) of
        (Some aI, Some bI) \<Rightarrow>
          if sint aI > sint bI then 1 else if sint aI < sint bI then - 1
          else if a > b then 1 else if a < b then - 1 else recursivePreReleaseCompare as bs
      | _ \<Rightarrow> if a > b then 1 else if a < b then - 1 else recursivePreReleaseCompare as bs)"

definition preReleaseCompare :: "semver \<Rightarrow> semver \<Rightarrow> int" where
  "preReleaseCompare v w =
     (let a = PreRelease v; b = PreRelease w
      in if length a = 0 \<and> length b > 0 then 1
         else if length b = 0 \<and> length a > 0 then - 1
         else recursivePreReleaseCompare (split_on CHR ''.'' a) (split_on CHR ''.'' b))"

definition semver_Slice :: "semver \<Rightarrow> int64 list" where
  "semver_Slice v = [Major v, Minor v, Patch v]"

definition semver_Compare :: "semver \<Rightarrow> semver \<Rightarrow> int" where
  "semver_Compare v w =
     (let cmp = recursiveCompare (semver_Slice v) (semver_Slice w)
      in if cmp \<noteq> 0 then cmp else preReleaseCompare v w)"

definition semver_Equal :: "semver \<Rightarrow> semver \<Rightarrow> bool" where
  "semver_Equal v w \<longleftrightarrow> semver_Compare v w = 0"

definition semver_LessThan :: "semver \<Rightarrow> semver \<Rightarrow> bool" where
  "semver_LessThan v w \<longleftrightarrow> semver_Compare v w < 0"

subsection \<open>Parsing and printing\<close>

lemma splitOff_none: "d \<notin> set s \<Longrightarrow> splitOff d s = (s, [])"
  by (induction s) auto

lemma splitOff_at: "d \<notin> set s \<Longrightarrow> splitOff d (s @ d # t) = (s, t)"
  by (induction s) auto

lemma splitOff_before: "d \<notin> set (fst (splitOff d s))"
  by (induction s) auto

lemma splitOff_subset: "set (fst (splitOff d s)) \<subseteq> set s" "set (snd (splitOff d s)) \<subseteq> set s"
  by (induction s) auto

lemma show_int_nondigit: "0 \<le> i \<Longrightarrow> \<not> is_digit c \<Longrightarrow> c \<notin> set (show_int i)"
  using show_nat_digits [of "nat i"] by (auto simp: show_int_def list_all_iff)

lemma split_dots3_show:
  assumes "CHR ''.'' \<notin> set a" "CHR ''.'' \<notin> set b" "CHR ''.'' \<notin> set c"
  shows "split_dots3 (a @ ''.'' @ b @ ''.'' @ c) = [a, b, c]"
  using assms by (simp add: split_dots3_def split_on_append split_on_none)

definition semver_wf :: "semver \<Rightarrow> bool" where
  "semver_wf v \<longleftrightarrow> 0 \<le> sint (Major v) \<and> 0 \<le> sint (Minor v) \<and> 0 \<le> sint (Patch v) \<and>
     CHR ''+'' \<notin> set (PreRelease v)"

lemma set_join_dot: "set (join ''.'' ps) \<subseteq> insert CHR ''.'' (\<Union>p \<in> set ps. set p)"
  by (induction "''.''" ps rule: join.induct) auto

lemma split_on_parts: "q \<in> set (split_on c s) \<Longrightarrow> set q \<subseteq> set s"
proof (induction s arbitrary: q)
  case Nil
  then show ?case by simp
next
  case (Cons x xs)
  obtain p ps where ps: "split_on c xs = p # ps" by (cases "split_on c xs") auto
  with Cons.IH have "set p \<subseteq> set xs" "\<And>q. q \<in> set ps \<Longrightarrow> set q \<subseteq> set xs" by auto
  with Cons.prems ps show ?case by (fastforce split: if_splits)
qed

lemma split_on_sep: "length (split_on c s) > 1 \<Longrightarrow> c \<in> set s"
  by (rule ccontr) (simp add: split_on_none)

lemma split_dots3_cases:
  obtains (few) "split_dots3 s = split_on CHR ''.'' s"
    | (many) a b c cs where "split_on CHR ''.'' s = a # b # c # cs"
        "split_dots3 s = [a, b, join ''.'' (c # cs)]"
proof (cases "split_on CHR ''.'' s")
  case (Cons a as)
  note C1 = Cons
  show ?thesis
  proof (cases as)
    case (Cons b bs)
    with C1 few many show ?thesis by (cases bs) (auto simp: split_dots3_def)
  qed (use C1 few in \<open>simp add: split_dots3_def\<close>)
qed simp

lemma split_dots3_subset:
  assumes "p \<in> set (split_dots3 s)"
  shows "set p \<subseteq> set s"
proof (cases s rule: split_dots3_cases)
  case few
  then show ?thesis using assms split_on_parts by metis
next
  case (many a b c cs)
  have sub: "\<And>q. q \<in> set (a # b # c # cs) \<Longrightarrow> set q \<subseteq> set s"
    using split_on_parts [of _ "CHR ''.''" s] many(1) by metis
  have "CHR ''.'' \<in> set s" using split_on_sep [of "CHR ''.''" s] many(1) by simp
  moreover have "(\<Union>p \<in> set (c # cs). set p) \<subseteq> set s" using sub by auto
  ultimately have "set (join ''.'' (c # cs)) \<subseteq> set s" using set_join_dot [of "c # cs"] by blast
  then show ?thesis using assms many(2) sub [of a] sub [of b] by auto
qed

lemma semver_Set_wf:
  assumes "semver_Set s = Inr v"
  shows "semver_wf v"
proof -
  obtain ver md where s1: "splitOff CHR ''+'' s = (ver, md)" by force
  obtain ver' pr where s2: "splitOff CHR ''-'' ver = (ver', pr)" by force
  have nominus: "CHR ''-'' \<notin> set ver'" using splitOff_before [of "CHR ''-''" ver] s2 by simp
  have "CHR ''+'' \<notin> set ver" using splitOff_before [of "CHR ''+''" s] s1 by simp
  then have noplus: "CHR ''+'' \<notin> set pr" using splitOff_subset(2) [of "CHR ''-''" ver] s2 by auto
  from assms s1 s2 obtain a b c where parts: "split_dots3 ver' = [a, b, c]"
    by (auto simp: semver_Set_def Let_def split: list.splits)
  have "CHR ''-'' \<notin> set a \<and> CHR ''-'' \<notin> set b \<and> CHR ''-'' \<notin> set c"
    using split_dots3_subset [of _ ver'] parts nominus by auto
  with assms s1 s2 parts noplus show ?thesis
    by (auto simp: semver_Set_def semver_wf_def Let_def split: option.splits
        intro: ParseInt64_nonneg)
qed

lemma semver_Set_String:
  assumes "semver_wf v"
  shows "semver_Set (semver_String v) = Inr v"
proof -
  define core where "core = show_int (sint (Major v)) @ ''.'' @ show_int (sint (Minor v)) @ ''.'' @
    show_int (sint (Patch v))"
  define pre where "pre = core @ (if PreRelease v \<noteq> '''' then ''-'' @ PreRelease v else '''')"
  from assms have nn: "0 \<le> sint (Major v)" "0 \<le> sint (Minor v)" "0 \<le> sint (Patch v)"
    by (auto simp: semver_wf_def)
  note nodig = show_int_nondigit [OF nn(1)] show_int_nondigit [OF nn(2)] show_int_nondigit [OF nn(3)]
  have nocore: "CHR ''-'' \<notin> set core" "CHR ''+'' \<notin> set core"
    by (simp_all add: core_def nodig not_digit_sign)
  then have nopre: "CHR ''+'' \<notin> set pre" using assms by (auto simp: pre_def semver_wf_def)
  have str: "semver_String v = pre @ (if Metadata v \<noteq> '''' then ''+'' @ Metadata v else '''')"
    by (simp add: semver_String_def pre_def core_def)
  have "splitOff CHR ''+'' (semver_String v) = (pre, Metadata v)"
    using nopre by (simp add: str splitOff_none splitOff_at)
  moreover have "splitOff CHR ''-'' pre = (core, PreRelease v)"
    using nocore by (simp add: pre_def splitOff_none splitOff_at)
  moreover have "split_dots3 core = [show_int (sint (Major v)), show_int (sint (Minor v)),
      show_int (sint (Patch v))]"
    unfolding core_def by (rule split_dots3_show) (simp_all add: nodig not_digit_sign)
  ultimately show ?thesis
    using nn by (simp add: semver_Set_def Let_def ParseInt64_show_int)
qed

subsection \<open>Comparison\<close>

lemma recursiveCompare_refl: "recursiveCompare as as = 0"
  by (induction as) auto

lemma recursiveCompare_0:
  "length as = length bs \<Longrightarrow> recursiveCompare as bs = 0 \<longleftrightarrow> as = bs"
  by (induction as bs rule: recursiveCompare.induct)
    (auto simp: sint_eq_iff64 split: if_splits)

text \<open>One step of the comparison: the first difference decides, equal heads are skipped.\<close>

definition part_Compare :: "string \<Rightarrow> string \<Rightarrow> int" where
  "part_Compare a b = recursivePreReleaseCompare [a] [b]"

lemma part_Compare_simps:
  "part_Compare a a = 0"
  "a \<noteq> b \<Longrightarrow> part_Compare a b = 1 \<or> part_Compare a b = - 1"
  "part_Compare b a = - part_Compare a b"
    apply (simp add: part_Compare_def split: option.split)
   apply (cases a b rule: linorder_cases; simp add: part_Compare_def less_imp_not_less less_imp_neq less_imp_neq [symmetric] split: option.split)
  apply (cases a b rule: linorder_cases; simp add: part_Compare_def less_imp_not_less less_imp_neq less_imp_neq [symmetric] split: option.split)
  done

lemma recursivePreReleaseCompare_Cons:
  "recursivePreReleaseCompare (a # as) (b # bs) =
     (if a = b then recursivePreReleaseCompare as bs else part_Compare a b)"
  by (cases a b rule: linorder_cases; simp add: part_Compare_def less_imp_not_less less_imp_neq less_imp_neq [symmetric] split: option.split)

declare recursivePreReleaseCompare.simps(3) [simp del]

lemma part_Compare_0: "part_Compare a b = 0 \<longleftrightarrow> a = b"
  using part_Compare_simps(1) [of a] part_Compare_simps(2) [of a b] by force

lemma recursivePreReleaseCompare_0: "recursivePreReleaseCompare as bs = 0 \<longleftrightarrow> as = bs"
proof (induction as arbitrary: bs)
  case (Cons a as)
  then show ?case
    by (cases bs) (simp_all add: recursivePreReleaseCompare_Cons part_Compare_0)
qed simp

lemma split_on_eq_iff: "split_on c s = split_on c t \<longleftrightarrow> s = t"
proof
  assume "split_on c s = split_on c t"
  then have "join [c] (split_on c s) = join [c] (split_on c t)" by (rule arg_cong)
  then show "s = t" by (simp only: join_split_on)
qed simp

lemma semver_Slice_eq: "semver_Slice v = semver_Slice w \<longleftrightarrow>
    Major v = Major w \<and> Minor v = Minor w \<and> Patch v = Patch w"
  by (simp add: semver_Slice_def)

lemma semver_Slice_length: "length (semver_Slice v) = 3"
  by (simp add: semver_Slice_def)

lemma preReleaseCompare_0: "preReleaseCompare v w = 0 \<longleftrightarrow> PreRelease v = PreRelease w"
  unfolding preReleaseCompare_def Let_def
  by (cases "PreRelease v = []"; cases "PreRelease w = []";
      simp add: recursivePreReleaseCompare_0 split_on_eq_iff)

lemma semver_Equal_iff:
  "semver_Equal v w \<longleftrightarrow>
     Major v = Major w \<and> Minor v = Minor w \<and> Patch v = Patch w \<and> PreRelease v = PreRelease w"
proof -
  have "recursiveCompare (semver_Slice v) (semver_Slice w) = 0 \<longleftrightarrow> semver_Slice v = semver_Slice w"
    by (rule recursiveCompare_0) (simp add: semver_Slice_length)
  then show ?thesis
    by (auto simp: semver_Equal_def semver_Compare_def Let_def preReleaseCompare_0 semver_Slice_eq)
qed

lemma semver_Equal_refl [simp]: "semver_Equal v v"
  by (simp add: semver_Equal_iff)

lemma recursiveCompare_swap:
  "length as = length bs \<Longrightarrow> recursiveCompare bs as = - recursiveCompare as bs"
  by (induction as bs rule: recursiveCompare.induct) auto

lemma recursivePreReleaseCompare_swap:
  "recursivePreReleaseCompare bs as = - recursivePreReleaseCompare as bs"
proof (induction as arbitrary: bs)
  case Nil
  then show ?case by (cases bs) simp_all
next
  case (Cons a as)
  show ?case
  proof (cases bs)
    case (Cons b bs')
    show ?thesis
      unfolding Cons recursivePreReleaseCompare_Cons Cons.IH [of bs'] part_Compare_simps(3) [of a b]
      by simp
  qed simp
qed

lemma preReleaseCompare_swap: "preReleaseCompare w v = - preReleaseCompare v w"
  unfolding preReleaseCompare_def Let_def
    recursivePreReleaseCompare_swap [of "split_on CHR ''.'' (PreRelease w)"
      "split_on CHR ''.'' (PreRelease v)"]
  by (cases "PreRelease v = []"; cases "PreRelease w = []"; simp)

lemma semver_Compare_swap: "semver_Compare w v = - semver_Compare v w"
proof -
  have "recursiveCompare (semver_Slice w) (semver_Slice v) = - recursiveCompare (semver_Slice v) (semver_Slice w)"
    by (rule recursiveCompare_swap) (simp add: semver_Slice_length)
  then show ?thesis
    unfolding semver_Compare_def Let_def preReleaseCompare_swap [of w v] by simp
qed

section \<open>Cassandra versions\<close>

text \<open>
  The versions of \<open>vendor/github.com/hashicorp/go-version\<close> have any number of segments (at least
  three once parsed); comparison pads the shorter one with zeros.
\<close>

record hc_version =
  hc_metadata :: string
  hc_pre :: string
  hc_segments :: "int64 list"
  hc_si :: nat

definition hc_String :: "hc_version \<Rightarrow> string" where
  "hc_String v =
     join ''.'' (map (\<lambda>s. show_int (sint s)) (hc_segments v)) @
     (if hc_pre v \<noteq> '''' then ''-'' @ hc_pre v else '''') @
     (if hc_metadata v \<noteq> '''' then ''+'' @ hc_metadata v else '''')"

definition allZero :: "int64 list \<Rightarrow> bool" where
  "allZero segs \<longleftrightarrow> list_all (\<lambda>s. s = 0) segs"

text \<open>
  The number \<open>strconv.ParseInt\<close> returns next to its error: for a number out of range the nearest one. The
  digits are read from the left, and those that no longer fit 64 bits end the search for other characters.
\<close>

definition ParseInt64_number :: "string \<Rightarrow> int" where
  "ParseInt64_number s =
     (let neg = (s \<noteq> [] \<and> hd s = CHR ''-''); ds = (if s \<noteq> [] \<and> (hd s = CHR ''-'' \<or> hd s = CHR ''+'') then tl s else s);
          digits = takeWhile is_digit ds
      in if ds = [] \<or> digits \<noteq> ds \<and> decimal digits < 2 ^ 64 then 0
         else if neg then max (- (2 ^ 63)) (- int (decimal digits)) else min (2 ^ 63 - 1) (int (decimal digits)))"

definition comparePart :: "string \<Rightarrow> string \<Rightarrow> int" where
  "comparePart preSelf preOther =
     (if preSelf = preOther then 0
      else let selfNumeric = (ParseInt64 preSelf \<noteq> None); otherNumeric = (ParseInt64 preOther \<noteq> None);
               selfInt = ParseInt64_number preSelf; otherInt = ParseInt64_number preOther
      in if preSelf = '''' then (if otherNumeric then - 1 else 1)
         else if preOther = '''' then (if selfNumeric then 1 else - 1)
         else if selfNumeric \<and> \<not> otherNumeric then - 1
         else if \<not> selfNumeric \<and> otherNumeric then 1
         else if \<not> selfNumeric \<and> \<not> otherNumeric \<and> preSelf > preOther then 1
         else if selfInt > otherInt then 1
         else - 1)"

fun comparePrereleaseParts :: "string list \<Rightarrow> string list \<Rightarrow> int" where
  "comparePrereleaseParts [] [] = 0"
| "comparePrereleaseParts (a # as) [] =
     (if comparePart a '''' \<noteq> 0 then comparePart a '''' else comparePrereleaseParts as [])"
| "comparePrereleaseParts [] (b # bs) =
     (if comparePart '''' b \<noteq> 0 then comparePart '''' b else comparePrereleaseParts [] bs)"
| "comparePrereleaseParts (a # as) (b # bs) =
     (if comparePart a b \<noteq> 0 then comparePart a b else comparePrereleaseParts as bs)"

definition comparePrereleases :: "string \<Rightarrow> string \<Rightarrow> int" where
  "comparePrereleases v w =
     (if v = w then 0 else comparePrereleaseParts (split_on CHR ''.'' v) (split_on CHR ''.'' w))"

fun compareSegments :: "int64 list \<Rightarrow> int64 list \<Rightarrow> int" where
  "compareSegments [] bs = (if \<not> allZero bs then - 1 else 0)"
| "compareSegments (a # as) [] = (if \<not> allZero (a # as) then 1 else 0)"
| "compareSegments (a # as) (b # bs) =
     (if a = b then compareSegments as bs else if sint a < sint b then - 1 else 1)"

definition hc_Compare :: "hc_version \<Rightarrow> hc_version \<Rightarrow> int" where
  "hc_Compare v w =
     (if hc_String v = hc_String w then 0
      else if hc_segments v = hc_segments w then
        (if hc_pre v = '''' \<and> hc_pre w = '''' then 0
         else if hc_pre v = '''' then 1
         else if hc_pre w = '''' then - 1
         else comparePrereleases (hc_pre v) (hc_pre w))
      else compareSegments (hc_segments v) (hc_segments w))"

record Version =
  versionString :: string
  Semver :: "hc_version option"

text \<open>\<open>Equal\<close> dereferences both parsed versions, so the zero value makes it panic.\<close>

definition Version_Equal :: "Version \<Rightarrow> Version \<Rightarrow> bool outcome" where
  "Version_Equal v w =
     bind_outcome (deref (Semver v)) (\<lambda>a. bind_outcome (deref (Semver w)) (\<lambda>b.
       Return (hc_Compare a b = 0)))"

definition seg_at :: "int64 list \<Rightarrow> nat \<Rightarrow> int64" where
  "seg_at segs i = (if i < length segs then segs ! i else 0)"

lemma seg_at_simps [simp]:
  "seg_at [] i = 0" "seg_at (a # as) 0 = a" "seg_at (a # as) (Suc i) = seg_at as i"
  by (simp_all add: seg_at_def)

lemma all_nat_Suc: "(\<forall>i :: nat. P i) \<longleftrightarrow> P 0 \<and> (\<forall>i. P (Suc i))"
  by (metis not0_implies_Suc)

lemma allZero_seg_at: "allZero segs \<longleftrightarrow> (\<forall>i. seg_at segs i = 0)"
proof (induction segs)
  case (Cons a segs)
  then show ?case
    by (subst all_nat_Suc) (simp add: allZero_def)
qed (simp add: allZero_def)

lemma compareSegments_0: "compareSegments as bs = 0 \<longleftrightarrow> (\<forall>i. seg_at as i = seg_at bs i)"
proof (induction as bs rule: compareSegments.induct)
  case (1 bs)
  then show ?case by (auto simp: allZero_seg_at dest: sym)
next
  case (2 a as)
  then show ?case using allZero_seg_at [of "a # as"] by simp
next
  case (3 a as b bs)
  then show ?case by (subst all_nat_Suc) simp
qed

end
