(* ===== verification/Kube_Objects.thy ===== *)
theory Kube_Objects
  imports Versions
begin

text \<open>
  The Kubernetes objects the controllers read and write, as records with the fields the code sets
  or reads. Field names carry a prefix per type since HOL record fields are global.
\<close>

section \<open>Quantities and resource requirements\<close>

text \<open>A \<open>resource.Quantity\<close> is an unscaled integer times a power of ten, with a display format.\<close>

record Quantity =
  q_unscaled :: int
  q_scale :: int
  q_format :: string

definition Quantity_Sign :: "Quantity \<Rightarrow> int" where
  "Quantity_Sign q = sgn (q_unscaled q)"

definition cpu_10m :: Quantity where
  "cpu_10m = \<lparr>q_unscaled = 10, q_scale = - 3, q_format = ''DecimalSI''\<rparr>"

definition mem_50Mi :: Quantity where
  "mem_50Mi = \<lparr>q_unscaled = 52428800, q_scale = 0, q_format = ''BinarySI''\<rparr>"

record ResourceRequirements =
  rr_Limits :: "Quantity gomap"
  rr_Requests :: "Quantity gomap"

section \<open>Pods\<close>

record EnvVar =
  ev_Name :: string
  ev_Value :: string
  ev_FieldPath :: "string option"

definition env_value :: "string \<Rightarrow> string \<Rightarrow> EnvVar" where
  "env_value n v = \<lparr>ev_Name = n, ev_Value = v, ev_FieldPath = None\<rparr>"

definition env_field :: "string \<Rightarrow> string \<Rightarrow> EnvVar" where
  "env_field n p = \<lparr>ev_Name = n, ev_Value = '''', ev_FieldPath = Some p\<rparr>"

record VolumeMount =
  vm_Name :: string
  vm_MountPath :: string
  vm_ReadOnly :: bool

record ContainerPort =
  cp_Name :: string
  cp_ContainerPort :: int

text \<open>An HTTP GET probe; unset thresholds are zero and are defaulted by the API server.\<close>

record Probe =
  pr_Port :: int
  pr_Path :: string
  pr_InitialDelaySeconds :: int
  pr_TimeoutSeconds :: int
  pr_PeriodSeconds :: int
  pr_SuccessThreshold :: int
  pr_FailureThreshold :: int

record SecurityContext =
  sc_RunAsUser :: "int64 option"
  sc_CapabilitiesAdd :: "string list"

record Container =
  c_Name :: string
  c_Image :: string
  c_ImagePullPolicy :: string
  c_Command :: "string list"
  c_Args :: "string list"
  c_Env :: "EnvVar list"
  c_Ports :: "ContainerPort list"
  c_VolumeMounts :: "VolumeMount list"
  c_ReadinessProbe :: "Probe option"
  c_LivenessProbe :: "Probe option"
  c_Resources :: ResourceRequirements
  c_SecurityContext :: "SecurityContext option"

datatype VolumeSource = EmptyDir | ConfigMapVolume string

record Volume =
  v_Name :: string
  v_Source :: VolumeSource

record PodSpec =
  ps_TerminationGracePeriodSeconds :: "int64 option"
  ps_ServiceAccountName :: string
  ps_NodeSelector :: smap
  ps_SchedulerName :: string
  ps_FSGroup :: "int64 option"
  ps_Volumes :: "Volume list"
  ps_InitContainers :: "Container list"
  ps_Containers :: "Container list"

record PodTemplateSpec =
  pt_ObjectMeta :: ObjectMeta
  pt_Spec :: PodSpec

record Pod =
  pod_ObjectMeta :: ObjectMeta
  pod_Spec :: PodSpec

section \<open>Stateful sets\<close>

record PersistentVolumeClaim =
  pvc_ObjectMeta :: ObjectMeta
  pvc_AccessModes :: "string list"
  pvc_StorageClassName :: "string option"
  pvc_Requests :: "Quantity gomap"

record RollingUpdateStrategy =
  ru_Partition :: "int32 option"

record UpdateStrategy =
  us_Type :: string
  us_RollingUpdate :: "RollingUpdateStrategy option"

record StatefulSetSpec =
  sss_Replicas :: "int32 option"
  sss_Selector :: smap
  sss_Template :: PodTemplateSpec
  sss_VolumeClaimTemplates :: "PersistentVolumeClaim list"
  sss_ServiceName :: string
  sss_PodManagementPolicy :: string
  sss_UpdateStrategy :: UpdateStrategy

record StatefulSetStatus =
  sst_ReadyReplicas :: int32
  sst_CurrentReplicas :: int32
  sst_UpdatedReplicas :: int32

record StatefulSet =
  ss_ObjectMeta :: ObjectMeta
  ss_Spec :: StatefulSetSpec
  ss_Status :: StatefulSetStatus

abbreviation ss_Name :: "StatefulSet \<Rightarrow> string" where
  "ss_Name ss \<equiv> Name (ss_ObjectMeta ss)"

abbreviation ss_Replicas :: "StatefulSet \<Rightarrow> int32 option" where
  "ss_Replicas ss \<equiv> sss_Replicas (ss_Spec ss)"

definition empty_StatefulSetStatus :: StatefulSetStatus where
  "empty_StatefulSetStatus = \<lparr>sst_ReadyReplicas = 0, sst_CurrentReplicas = 0, sst_UpdatedReplicas = 0\<rparr>"

section \<open>Services, accounts, roles and config maps\<close>

record ServicePort =
  sp_Name :: string
  sp_Port :: int
  sp_TargetPort :: int

record Service =
  svc_ObjectMeta :: ObjectMeta
  svc_ClusterIP :: string
  svc_Type :: string
  svc_Selector :: smap
  svc_Ports :: "ServicePort list"
  svc_PublishNotReadyAddresses :: bool

record ServiceAccount =
  sa_ObjectMeta :: ObjectMeta

record PolicyRule =
  pol_APIGroups :: "string list"
  pol_Verbs :: "string list"
  pol_Resources :: "string list"

record Role =
  role_ObjectMeta :: ObjectMeta
  role_Rules :: "PolicyRule list"

record Subject =
  sub_Kind :: string
  sub_APIGroup :: string
  sub_Name :: string
  sub_Namespace :: string

record RoleRef =
  rref_APIGroup :: string
  rref_Kind :: string
  rref_Name :: string

record RoleBinding =
  rb_ObjectMeta :: ObjectMeta
  rb_Subjects :: "Subject list"
  rb_RoleRef :: RoleRef

record ConfigMap =
  cm_ObjectMeta :: ObjectMeta
  cm_Data :: smap

end
