(* ===== verification/Navigator_API.thy ===== *)
theory Navigator_API
  imports Kube_Objects
begin

text \<open>
  The API types of \<open>pkg/apis/navigator/v1alpha1/types.go\<close> with their helpers (\<open>helpers.go\<close>) and
  defaults (\<open>defaults.go\<close>, \<open>zz_generated.defaults.go\<close>). The internal types of
  \<open>pkg/apis/navigator/types.go\<close> have the same fields, so the validation works on these records too.
\<close>

section \<open>Constants\<close>

definition GroupName :: string where
  "GroupName = ''navigator.jetstack.io''"

definition ElasticsearchClusterNameLabel :: string where
  "ElasticsearchClusterNameLabel = ''navigator.jetstack.io/elasticsearch-cluster-name''"

definition ElasticsearchNodePoolNameLabel :: string where
  "ElasticsearchNodePoolNameLabel = ''navigator.jetstack.io/elasticsearch-node-pool-name''"

definition ElasticsearchNodePoolVersionAnnotation :: string where
  "ElasticsearchNodePoolVersionAnnotation = ''navigator.jetstack.io/elasticsearch-version''"

definition ElasticsearchRoleLabelPrefix :: string where
  "ElasticsearchRoleLabelPrefix = ''navigator.jetstack.io/elasticsearch-role-''"

definition CassandraClusterNameLabel :: string where
  "CassandraClusterNameLabel = ''navigator.jetstack.io/cassandra-cluster-name''"

definition CassandraNodePoolNameLabel :: string where
  "CassandraNodePoolNameLabel = ''navigator.jetstack.io/cassandra-node-pool-name''"

definition PilotLabel :: string where
  "PilotLabel = ''navigator.jetstack.io/has-pilot''"

lemmas label_defs = ElasticsearchClusterNameLabel_def ElasticsearchNodePoolNameLabel_def
  ElasticsearchNodePoolVersionAnnotation_def ElasticsearchRoleLabelPrefix_def
  CassandraClusterNameLabel_def CassandraNodePoolNameLabel_def PilotLabel_def

lemma label_keys_qualified:
  "IsQualifiedName ElasticsearchClusterNameLabel" "IsQualifiedName ElasticsearchNodePoolNameLabel"
  "IsQualifiedName CassandraClusterNameLabel"
  by code_simp+

lemma label_keys_distinct [simp]:
  "ElasticsearchClusterNameLabel \<noteq> ElasticsearchNodePoolNameLabel"
  "ElasticsearchNodePoolNameLabel \<noteq> ElasticsearchClusterNameLabel"
  "CassandraClusterNameLabel \<noteq> CassandraNodePoolNameLabel"
  "CassandraNodePoolNameLabel \<noteq> CassandraClusterNameLabel"
  "PilotLabel \<noteq> CassandraClusterNameLabel" "PilotLabel \<noteq> CassandraNodePoolNameLabel"
  "CassandraClusterNameLabel \<noteq> PilotLabel" "CassandraNodePoolNameLabel \<noteq> PilotLabel"
  by (simp_all add: label_defs)

section \<open>Types shared by the clusters\<close>

record ImageSpec =
  img_Repository :: string
  img_Tag :: string
  img_PullPolicy :: string

record NavigatorSecurityContext =
  nsc_RunAsUser :: "int64 option"

record NavigatorClusterConfig =
  PilotImage :: ImageSpec
  SecurityContextOf :: NavigatorSecurityContext
  Paused :: bool

record PersistenceConfig =
  pc_Size :: Quantity
  pc_StorageClass :: "string option"

datatype ConditionStatus = ConditionTrue | ConditionFalse | ConditionUnknown | OtherStatus string

record ClusterCondition =
  cc_Type :: string
  cc_Status :: ConditionStatus
  cc_LastTransitionTime :: nat
  cc_Reason :: string
  cc_Message :: string

definition ClusterConditionAvailable :: string where
  "ClusterConditionAvailable = ''Available''"

definition ClusterConditionProgressing :: string where
  "ClusterConditionProgressing = ''Progressing''"

definition PausedClusterReason :: string where
  "PausedClusterReason = ''ClusterPaused''"

definition ResumedClusterReason :: string where
  "ResumedClusterReason = ''ClusterResumed''"

section \<open>CassandraCluster\<close>

record CassandraNodePool =
  cnp_Name :: string
  cnp_Replicas :: "int32 option"
  cnp_Persistence :: "PersistenceConfig option"
  cnp_NodeSelector :: smap
  cnp_Rack :: "string option"
  cnp_Datacenter :: "string option"
  cnp_Resources :: ResourceRequirements
  cnp_SchedulerName :: string

record CassandraClusterSpec =
  cs_Config :: NavigatorClusterConfig
  cs_NodePools :: "CassandraNodePool list"
  cs_Image :: "ImageSpec option"
  cs_Version :: Version

record CassandraNodePoolStatus =
  cns_ReadyReplicas :: int32

record CassandraClusterStatus =
  cst_Conditions :: "ClusterCondition list"
  cst_NodePools :: "CassandraNodePoolStatus gomap"

record CassandraCluster =
  cass_TypeMeta :: TypeMeta
  cass_ObjectMeta :: ObjectMeta
  cass_Spec :: CassandraClusterSpec
  cass_Status :: CassandraClusterStatus

type_synonym CassandraClusterList = "CassandraCluster object_list"

section \<open>ElasticsearchCluster\<close>

datatype ElasticsearchClusterHealth =
  ElasticsearchClusterHealthRed | ElasticsearchClusterHealthYellow | ElasticsearchClusterHealthGreen
  | OtherHealth string

definition ElasticsearchRoleData :: string where
  "ElasticsearchRoleData = ''data''"

definition ElasticsearchRoleMaster :: string where
  "ElasticsearchRoleMaster = ''master''"

definition ElasticsearchRoleIngest :: string where
  "ElasticsearchRoleIngest = ''ingest''"

record ElasticsearchNodePool =
  enp_Name :: string
  enp_Replicas :: "int32 option"
  enp_Roles :: "string list"
  enp_NodeSelector :: smap
  enp_Resources :: ResourceRequirements
  enp_Persistence :: "PersistenceConfig option"
  enp_SchedulerName :: string

record ElasticsearchClusterSpec =
  es_Config :: NavigatorClusterConfig
  es_Version :: semver
  es_Plugins :: "string list"
  es_NodePools :: "ElasticsearchNodePool list"
  es_Image :: "ImageSpec option"
  es_MinimumMasters :: "int32 option"

record ElasticsearchNodePoolStatus =
  ens_ReadyReplicas :: int32

record ElasticsearchClusterStatus =
  est_Conditions :: "ClusterCondition list"
  est_NodePools :: "ElasticsearchNodePoolStatus gomap"
  est_Health :: "ElasticsearchClusterHealth option"

record ElasticsearchCluster =
  esc_TypeMeta :: TypeMeta
  esc_ObjectMeta :: ObjectMeta
  esc_Spec :: ElasticsearchClusterSpec
  esc_Status :: ElasticsearchClusterStatus

type_synonym ElasticsearchClusterList = "ElasticsearchCluster object_list"

section \<open>Pilot\<close>

definition PilotConditionReady :: string where
  "PilotConditionReady = ''Ready''"

definition PilotConditionStarted :: string where
  "PilotConditionStarted = ''Started''"

definition PilotConditionStopped :: string where
  "PilotConditionStopped = ''Stopped''"

record PilotCondition =
  pcond_Type :: string
  pcond_Status :: ConditionStatus
  pcond_LastTransitionTime :: nat
  pcond_Reason :: string
  pcond_Message :: go_text

record ElasticsearchPilotStatus =
  eps_Documents :: "int64 option"
  eps_Version :: "semver option"

record CassandraPilotStatus =
  cps_Version :: "Version option"

record PilotStatus =
  pst_Conditions :: "PilotCondition list"
  pst_Elasticsearch :: "ElasticsearchPilotStatus option"
  pst_Cassandra :: "CassandraPilotStatus option"

record Pilot =
  pilot_TypeMeta :: TypeMeta
  pilot_ObjectMeta :: ObjectMeta
  pilot_Status :: PilotStatus

type_synonym PilotList = "Pilot object_list"

end
