(* ===== verification/Navigator_Helpers.thy ===== *)
theory Navigator_Helpers
  imports Navigator_API
begin

text \<open>
  Conditions (\<open>v1alpha1/helpers.go\<close>) and defaults (\<open>v1alpha1/defaults.go\<close> and the generated
  \<open>zz_generated.defaults.go\<close>). The two \<open>UpdateStatusCondition\<close> methods are the same loop over two
  condition types, so the loop and its lemmas stand in a locale over the accessors of a condition
  type, interpreted for pilot and cluster conditions.
\<close>

section \<open>Conditions\<close>

definition Pilot_HasCondition :: "Pilot \<Rightarrow> PilotCondition \<Rightarrow> bool" where
  "Pilot_HasCondition p condition =
     (if length (pst_Conditions (pilot_Status p)) = 0 then False
      else list_ex (\<lambda>cond. pcond_Type condition = pcond_Type cond \<and> pcond_Status condition = pcond_Status cond)
             (pst_Conditions (pilot_Status p)))"

text \<open>The loop over existing pilot conditions: the first one of the type is replaced.\<close>

fun replace_pilot_condition :: "nat \<Rightarrow> PilotCondition \<Rightarrow> PilotCondition list \<Rightarrow> PilotCondition list" where
  "replace_pilot_condition t new [] = []"
| "replace_pilot_condition t new (cond # conds) =
     (if pcond_Type cond = pcond_Type new then
        new\<lparr>pcond_LastTransitionTime :=
              (if pcond_Status cond \<noteq> pcond_Status new then t else pcond_LastTransitionTime cond)\<rparr> # conds
      else cond # replace_pilot_condition t new conds)"

text \<open>
  The operands of the format reach \<open>Sprintf\<close> as one slice, since \<open>format\<close> is not spread there.
\<close>

definition Pilot_UpdateStatusCondition ::
  "nat \<Rightarrow> string \<Rightarrow> ConditionStatus \<Rightarrow> string \<Rightarrow> string \<Rightarrow> string list \<Rightarrow> Pilot \<Rightarrow> Pilot" where
  "Pilot_UpdateStatusCondition t conditionType status reason message format p =
     (let newCondition = \<lparr>pcond_Type = conditionType, pcond_Status = status,
            pcond_LastTransitionTime = t, pcond_Reason = reason,
            pcond_Message = Sprintf message [AStrs format]\<rparr>;
          conds = pst_Conditions (pilot_Status p)
      in p\<lparr>pilot_Status := (pilot_Status p)\<lparr>pst_Conditions :=
            (if length conds = 0 then [newCondition]
             else replace_pilot_condition t newCondition conds)\<rparr>\<rparr>)"

definition GetStatusCondition :: "string \<Rightarrow> ClusterCondition list \<Rightarrow> ClusterCondition option" where
  "GetStatusCondition conditionType conds = find_first (\<lambda>c. cc_Type c = conditionType) conds"

fun replace_cluster_condition :: "nat \<Rightarrow> ClusterCondition \<Rightarrow> ClusterCondition list \<Rightarrow> ClusterCondition list" where
  "replace_cluster_condition t new [] = []"
| "replace_cluster_condition t new (cond # conds) =
     (if cc_Type cond = cc_Type new then
        new\<lparr>cc_LastTransitionTime :=
              (if cc_Status cond \<noteq> cc_Status new then t else cc_LastTransitionTime cond)\<rparr> # conds
      else cond # replace_cluster_condition t new conds)"

definition UpdateStatusCondition ::
  "nat \<Rightarrow> string \<Rightarrow> ConditionStatus \<Rightarrow> string \<Rightarrow> string \<Rightarrow> ClusterCondition list \<Rightarrow> ClusterCondition list" where
  "UpdateStatusCondition t conditionType status reason message conds =
     (let newCondition = \<lparr>cc_Type = conditionType, cc_Status = status, cc_LastTransitionTime = t,
            cc_Reason = reason, cc_Message = message\<rparr>
      in if length conds = 0 then [newCondition] else replace_cluster_condition t newCondition conds)"

subsection \<open>The replacement loop\<close>

locale condition_list =
  fixes ctype :: "'c \<Rightarrow> string" and cstatus :: "'c \<Rightarrow> ConditionStatus" and ctime :: "'c \<Rightarrow> nat"
    and settime :: "nat \<Rightarrow> 'c \<Rightarrow> 'c" and replace :: "nat \<Rightarrow> 'c \<Rightarrow> 'c list \<Rightarrow> 'c list"
  assumes settime_type: "ctype (settime u c) = ctype c"
    and settime_status: "cstatus (settime u c) = cstatus c"
    and settime_time: "ctime (settime u c) = u"
    and replace_Nil: "replace t new [] = []"
    and replace_Cons: "replace t new (c # cs) =
      (if ctype c = ctype new
       then settime (if cstatus c \<noteq> cstatus new then t else ctime c) new # cs
       else c # replace t new cs)"
begin

definition lookup :: "string \<Rightarrow> 'c list \<Rightarrow> 'c option" where
  "lookup ty cs = find_first (\<lambda>c. ctype c = ty) cs"

lemma replace_length: "length (replace t new cs) = length cs"
  by (induction cs) (auto simp: replace_Nil replace_Cons)

lemma replace_absent: "lookup (ctype new) cs = None \<Longrightarrow> replace t new cs = cs"
  by (induction cs) (auto simp: lookup_def replace_Nil replace_Cons split: if_splits)

lemma replace_present:
  "lookup (ctype new) cs = Some old \<Longrightarrow>
   lookup (ctype new) (replace t new cs) =
     Some (settime (if cstatus old \<noteq> cstatus new then t else ctime old) new)"
  by (induction cs)
    (auto simp: lookup_def replace_Nil replace_Cons settime_type split: if_splits)

lemma replace_other: "ty \<noteq> ctype new \<Longrightarrow> lookup ty (replace t new cs) = lookup ty cs"
  by (induction cs) (auto simp: lookup_def replace_Nil replace_Cons settime_type)

lemma replace_types: "map ctype (replace t new cs) = map ctype cs"
  by (induction cs) (auto simp: replace_Nil replace_Cons settime_type)

end

interpretation pilot_conds: condition_list pcond_Type pcond_Status pcond_LastTransitionTime
  "\<lambda>u c. c\<lparr>pcond_LastTransitionTime := u\<rparr>" replace_pilot_condition
  by unfold_locales simp_all

interpretation cluster_conds: condition_list cc_Type cc_Status cc_LastTransitionTime
  "\<lambda>u c. c\<lparr>cc_LastTransitionTime := u\<rparr>" replace_cluster_condition
  by unfold_locales simp_all

lemma GetStatusCondition_lookup: "GetStatusCondition ty cs = cluster_conds.lookup ty cs"
  by (simp add: GetStatusCondition_def cluster_conds.lookup_def)

lemma GetStatusCondition_update_present:
  assumes "GetStatusCondition ty cs = Some old"
  shows "GetStatusCondition ty (UpdateStatusCondition t ty st re ms cs) =
    Some \<lparr>cc_Type = ty, cc_Status = st,
      cc_LastTransitionTime = (if cc_Status old \<noteq> st then t else cc_LastTransitionTime old),
      cc_Reason = re, cc_Message = ms\<rparr>"
proof -
  let ?new = "\<lparr>cc_Type = ty, cc_Status = st, cc_LastTransitionTime = t, cc_Reason = re, cc_Message = ms\<rparr>"
  from assms have "cs \<noteq> []" by (auto simp: GetStatusCondition_def)
  then show ?thesis
    using cluster_conds.replace_present [of ?new cs old t] assms
    by (simp add: UpdateStatusCondition_def GetStatusCondition_lookup)
qed

lemma GetStatusCondition_update_empty:
  "GetStatusCondition ty (UpdateStatusCondition t ty st re ms []) =
    Some \<lparr>cc_Type = ty, cc_Status = st, cc_LastTransitionTime = t, cc_Reason = re, cc_Message = ms\<rparr>"
  by (simp add: UpdateStatusCondition_def GetStatusCondition_def)

lemma GetStatusCondition_update_other:
  "ty' \<noteq> ty \<Longrightarrow> GetStatusCondition ty' (UpdateStatusCondition t ty st re ms cs) =
     GetStatusCondition ty' cs"
  using cluster_conds.replace_other
    [of ty' "\<lparr>cc_Type = ty, cc_Status = st, cc_LastTransitionTime = t, cc_Reason = re, cc_Message = ms\<rparr>" t cs]
  by (auto simp: UpdateStatusCondition_def Let_def GetStatusCondition_lookup cluster_conds.lookup_def)

lemma UpdateStatusCondition_absent:
  assumes "cs \<noteq> []" and "GetStatusCondition ty cs = None"
  shows "UpdateStatusCondition t ty st re ms cs = cs"
  using assms cluster_conds.replace_absent
    [of "\<lparr>cc_Type = ty, cc_Status = st, cc_LastTransitionTime = t, cc_Reason = re, cc_Message = ms\<rparr>" cs t]
  by (simp add: UpdateStatusCondition_def GetStatusCondition_lookup)

section \<open>Defaults\<close>

definition SetDefaults_CassandraClusterNodePool :: "CassandraNodePool \<Rightarrow> CassandraNodePool" where
  "SetDefaults_CassandraClusterNodePool np = np
     \<lparr>cnp_Datacenter := (if cnp_Datacenter np = None then Some ''navigator-default-datacenter''
                         else cnp_Datacenter np),
      cnp_Rack := (if cnp_Rack np = None then Some (cnp_Name np) else cnp_Rack np),
      cnp_Replicas := (if cnp_Replicas np = None then Some 1 else cnp_Replicas np),
      cnp_NodeSelector := (if cnp_NodeSelector np = None then Some Map.empty else cnp_NodeSelector np)\<rparr>"

definition SetDefaults_ElasticsearchClusterNodePool :: "ElasticsearchNodePool \<Rightarrow> ElasticsearchNodePool" where
  "SetDefaults_ElasticsearchClusterNodePool np = np
     \<lparr>enp_Replicas := (if enp_Replicas np = None then Some 1 else enp_Replicas np),
      enp_NodeSelector := (if enp_NodeSelector np = None then Some Map.empty else enp_NodeSelector np)\<rparr>"

definition SetDefaults_ImageSpec :: "ImageSpec \<Rightarrow> ImageSpec" where
  "SetDefaults_ImageSpec spec =
     (if img_PullPolicy spec = '''' then spec\<lparr>img_PullPolicy := ''IfNotPresent''\<rparr> else spec)"

definition default_config :: "NavigatorClusterConfig \<Rightarrow> NavigatorClusterConfig" where
  "default_config cfg = cfg\<lparr>PilotImage := SetDefaults_ImageSpec (PilotImage cfg)\<rparr>"

definition SetObjectDefaults_CassandraCluster :: "CassandraCluster \<Rightarrow> CassandraCluster" where
  "SetObjectDefaults_CassandraCluster c =
     c\<lparr>cass_Spec := (cass_Spec c)
         \<lparr>cs_Config := default_config (cs_Config (cass_Spec c)),
          cs_NodePools := map SetDefaults_CassandraClusterNodePool (cs_NodePools (cass_Spec c)),
          cs_Image := map_option SetDefaults_ImageSpec (cs_Image (cass_Spec c))\<rparr>\<rparr>"

definition SetObjectDefaults_ElasticsearchCluster :: "ElasticsearchCluster \<Rightarrow> ElasticsearchCluster" where
  "SetObjectDefaults_ElasticsearchCluster c =
     c\<lparr>esc_Spec := (esc_Spec c)
         \<lparr>es_Config := default_config (es_Config (esc_Spec c)),
          es_NodePools := map SetDefaults_ElasticsearchClusterNodePool (es_NodePools (esc_Spec c)),
          es_Image := map_option SetDefaults_ImageSpec (es_Image (esc_Spec c))\<rparr>\<rparr>"

definition SetObjectDefaults_CassandraClusterList :: "CassandraClusterList \<Rightarrow> CassandraClusterList" where
  "SetObjectDefaults_CassandraClusterList l =
     l\<lparr>list_Items := map_option (map SetObjectDefaults_CassandraCluster) (list_Items l)\<rparr>"

definition SetObjectDefaults_ElasticsearchClusterList :: "ElasticsearchClusterList \<Rightarrow> ElasticsearchClusterList" where
  "SetObjectDefaults_ElasticsearchClusterList l =
     l\<lparr>list_Items := map_option (map SetObjectDefaults_ElasticsearchCluster) (list_Items l)\<rparr>"

lemma SetDefaults_ImageSpec_idem [simp]:
  "SetDefaults_ImageSpec (SetDefaults_ImageSpec s) = SetDefaults_ImageSpec s"
  by (simp add: SetDefaults_ImageSpec_def)

lemma SetDefaults_Cassandra_idem [simp]:
  "SetDefaults_CassandraClusterNodePool (SetDefaults_CassandraClusterNodePool np) =
   SetDefaults_CassandraClusterNodePool np"
  by (simp add: SetDefaults_CassandraClusterNodePool_def)

lemma SetDefaults_Elasticsearch_idem [simp]:
  "SetDefaults_ElasticsearchClusterNodePool (SetDefaults_ElasticsearchClusterNodePool np) =
   SetDefaults_ElasticsearchClusterNodePool np"
  by (simp add: SetDefaults_ElasticsearchClusterNodePool_def)

lemma default_config_idem [simp]: "default_config (default_config c) = default_config c"
  by (simp add: default_config_def)

lemma SetDefaults_Cassandra_fields:
  "cnp_Name (SetDefaults_CassandraClusterNodePool np) = cnp_Name np"
  "cnp_Replicas (SetDefaults_CassandraClusterNodePool np) =
     Some (case cnp_Replicas np of None \<Rightarrow> 1 | Some n \<Rightarrow> n)"
  "cnp_Rack (SetDefaults_CassandraClusterNodePool np) =
     Some (case cnp_Rack np of None \<Rightarrow> cnp_Name np | Some r \<Rightarrow> r)"
  by (auto simp: SetDefaults_CassandraClusterNodePool_def split: option.split)

lemma SetDefaults_Elasticsearch_fields:
  "enp_Name (SetDefaults_ElasticsearchClusterNodePool np) = enp_Name np"
  "enp_Roles (SetDefaults_ElasticsearchClusterNodePool np) = enp_Roles np"
  "enp_Replicas (SetDefaults_ElasticsearchClusterNodePool np) =
     Some (case enp_Replicas np of None \<Rightarrow> 1 | Some n \<Rightarrow> n)"
  by (auto simp: SetDefaults_ElasticsearchClusterNodePool_def split: option.split)

end
