(* ===== verification/Machine.thy ===== *)
theory Machine
  imports Navigator_Helpers
begin

text \<open>
  What a controller can see and do: the informer caches behind its listers, the requests it sends
  to the API server and the events it records. A method of a controller is a program over this
  state that may panic. The API server and the faults of the listers are parameters (\<open>env\<close>): the
  answer to a request may depend on every request sent before it, and nothing is assumed of it.
\<close>

section \<open>State\<close>

datatype request =
    CreateStatefulSet StatefulSet | UpdateStatefulSet StatefulSet | DeleteStatefulSet string string
  | CreateService Service | CreateServiceAccount ServiceAccount
  | CreateRole Role | UpdateRole Role | CreateRoleBinding RoleBinding | UpdateRoleBinding RoleBinding
  | CreateConfigMap ConfigMap | UpdatePod Pod
  | CreatePilot Pilot | UpdatePilotStatus Pilot
  | UpdateCassandraStatus CassandraCluster | UpdateElasticsearchStatus ElasticsearchCluster

datatype event = Event (ev_object: string) (ev_type: string) (ev_reason: string) (ev_text: go_text)

record world =
  w_statefulsets :: "StatefulSet list"
  w_services :: "Service list"
  w_serviceaccounts :: "ServiceAccount list"
  w_roles :: "Role list"
  w_rolebindings :: "RoleBinding list"
  w_configmaps :: "ConfigMap list"
  w_pods :: "Pod list"
  w_pilots :: "Pilot list"
  w_cassandraclusters :: "CassandraCluster list"
  w_elasticsearchclusters :: "ElasticsearchCluster list"
  requests :: "request list"
  events :: "event list"

record env =
  lister_fault :: "string \<Rightarrow> string \<Rightarrow> string \<Rightarrow> go_error option"
  list_fault :: "string \<Rightarrow> string \<Rightarrow> go_error option"
  respond :: "request list \<Rightarrow> request \<Rightarrow> go_error option"
  key_order :: "string list \<Rightarrow> string list"
  now :: nat

text \<open>Go iterates over a map in some order: every key once.\<close>

definition iterates_keys :: "env \<Rightarrow> bool" where
  "iterates_keys env \<longleftrightarrow> (\<forall>ks. distinct ks \<longrightarrow> distinct (key_order env ks) \<and> set (key_order env ks) = set ks)"

section \<open>Programs\<close>

text \<open>A run panics, never returns, or returns; the world is what it has left so far.\<close>

datatype 'a run = Panicked world | Looping world | Done 'a world

type_synonym 'a prog = "world \<Rightarrow> 'a run"

fun final :: "'a run \<Rightarrow> world" where
  "final (Panicked w) = w"
| "final (Looping w) = w"
| "final (Done x w) = w"

definition ret :: "'a \<Rightarrow> 'a prog" where
  "ret x = (\<lambda>w. Done x w)"

definition panic :: "'a prog" where
  "panic = (\<lambda>w. Panicked w)"

definition diverge :: "'a prog" where
  "diverge = (\<lambda>w. Looping w)"

definition andThen :: "'a prog \<Rightarrow> ('a \<Rightarrow> 'b prog) \<Rightarrow> 'b prog" where
  "andThen m k = (\<lambda>w. case m w of Panicked w' \<Rightarrow> Panicked w' | Looping w' \<Rightarrow> Looping w' | Done x w' \<Rightarrow> k x w')"

definition reads :: "(world \<Rightarrow> 'a) \<Rightarrow> 'a prog" where
  "reads f = (\<lambda>w. Done (f w) w)"

definition lift :: "'a outcome \<Rightarrow> 'a prog" where
  "lift x = (\<lambda>w. case x of Panic \<Rightarrow> Panicked w | Return y \<Rightarrow> Done y w)"

text \<open>Sending a request to the API server and recording an event.\<close>

definition api :: "env \<Rightarrow> request \<Rightarrow> go_error option prog" where
  "api env r = (\<lambda>w. Done (respond env (requests w) r) (w\<lparr>requests := requests w @ [r]\<rparr>))"

definition eventf :: "string \<Rightarrow> string \<Rightarrow> string \<Rightarrow> string \<Rightarrow> go_arg list \<Rightarrow> unit prog" where
  "eventf obj ty reason message args =
     (\<lambda>w. Done () (w\<lparr>events := events w @ [Event obj ty reason (Sprintf message args)]\<rparr>))"

text \<open>\<open>if err != nil { return err }\<close> after a call.\<close>

definition unless_error :: "go_error option prog \<Rightarrow> go_error option prog \<Rightarrow> go_error option prog" where
  "unless_error m k = andThen m (\<lambda>err. case err of Some e \<Rightarrow> ret (Some e) | None \<Rightarrow> k)"

lemmas prog_defs [go_simps] = ret_def panic_def diverge_def andThen_def reads_def lift_def api_def eventf_def
  unless_error_def

lemma andThen_ret [simp]: "andThen (ret x) k = k x"
  by (simp add: go_simps)

lemma andThen_Done: "m w = Done x w' \<Longrightarrow> andThen m k w = k x w'"
  by (simp add: andThen_def)

lemma andThen_eq_Done:
  "andThen m k w = Done y w'' \<longleftrightarrow> (\<exists>x w'. m w = Done x w' \<and> k x w' = Done y w'')"
  by (simp add: andThen_def split: run.splits)

lemma andThen_assoc: "andThen (andThen m k) h = andThen m (\<lambda>x. andThen (k x) h)"
  by (rule ext) (simp add: andThen_def split: run.splits)

lemma ret_Done [simp]: "ret x w = Done x w"
  by (simp add: ret_def)

lemma reads_Done [simp]: "reads f w = Done (f w) w"
  by (simp add: reads_def)

lemma lift_simps [simp]: "lift Panic w = Panicked w" "lift (Return x) w = Done x w"
  by (simp_all add: lift_def)

lemma api_Done: "api env r w = Done (respond env (requests w) r) (w\<lparr>requests := requests w @ [r]\<rparr>)"
  by (simp add: api_def)

section \<open>What a program sends and keeps\<close>

text \<open>
  \<open>caches_of\<close> forgets the logs. \<open>sends J P m\<close>: started with caches that satisfy \<open>J\<close>, the program
  keeps \<open>J\<close> and every request it sends satisfies \<open>P\<close>, whether it returns, panics or loops.
\<close>

definition caches_of :: "world \<Rightarrow> world" where
  "caches_of w = w\<lparr>requests := [], events := []\<rparr>"

definition sends :: "(world \<Rightarrow> bool) \<Rightarrow> (request \<Rightarrow> bool) \<Rightarrow> 'a prog \<Rightarrow> bool" where
  "sends J P m \<longleftrightarrow>
     (\<forall>w. J (caches_of w) \<longrightarrow> J (caches_of (final (m w))) \<and>
        (\<exists>rs. requests (final (m w)) = requests w @ rs \<and> list_all P rs))"

named_theorems prog_intros \<open>compositional rules for sends\<close>

lemma caches_of_simps [simp]:
  "w_statefulsets (caches_of w) = w_statefulsets w" "w_services (caches_of w) = w_services w"
  "w_serviceaccounts (caches_of w) = w_serviceaccounts w" "w_roles (caches_of w) = w_roles w"
  "w_rolebindings (caches_of w) = w_rolebindings w" "w_configmaps (caches_of w) = w_configmaps w"
  "w_pods (caches_of w) = w_pods w" "w_pilots (caches_of w) = w_pilots w"
  "w_cassandraclusters (caches_of w) = w_cassandraclusters w"
  "w_elasticsearchclusters (caches_of w) = w_elasticsearchclusters w"
  "caches_of (w\<lparr>requests := rs\<rparr>) = caches_of w" "caches_of (w\<lparr>events := es\<rparr>) = caches_of w"
  "caches_of (caches_of w) = caches_of w"
  by (simp_all add: caches_of_def)

lemma sendsD:
  assumes "sends J P m" and "J (caches_of w)"
  obtains rs where "J (caches_of (final (m w)))" "requests (final (m w)) = requests w @ rs" "list_all P rs"
  using assms by (auto simp: sends_def)

lemma sends_ret [prog_intros]: "sends J P (ret x)"
  by (simp add: sends_def ret_def)

lemma sends_panic [prog_intros]: "sends J P panic"
  by (simp add: sends_def panic_def)

lemma sends_diverge [prog_intros]: "sends J P diverge"
  by (simp add: sends_def diverge_def)

lemma sends_bare [prog_intros]: "sends J P (Done x)" "sends J P (reads f)"
  by (simp_all add: sends_def)

lemma sends_lift [prog_intros]: "sends J P (lift x)"
  by (cases x) (simp_all add: sends_def)

lemma sends_api [prog_intros]: "P r \<Longrightarrow> sends J P (api env r)"
  by (simp add: sends_def api_def)

lemma sends_eventf [prog_intros]: "sends J P (eventf obj ty re ms as)"
  by (simp add: sends_def eventf_def)

lemma sends_andThen:
  assumes "sends J P m" and "\<And>w x w'. J (caches_of w) \<Longrightarrow> m w = Done x w' \<Longrightarrow> sends J P (k x)"
  shows "sends J P (andThen m k)"
  unfolding sends_def
proof (intro allI impI)
  fix w
  assume J: "J (caches_of w)"
  obtain rs where rs: "J (caches_of (final (m w)))" "requests (final (m w)) = requests w @ rs" "list_all P rs"
    using assms(1) J by (rule sendsD)
  show "J (caches_of (final (andThen m k w))) \<and>
    (\<exists>rs. requests (final (andThen m k w)) = requests w @ rs \<and> list_all P rs)"
  proof (cases "m w")
    case (Panicked w')
    with rs show ?thesis by (auto simp: andThen_def)
  next
    case (Looping w')
    with rs show ?thesis by (auto simp: andThen_def)
  next
    case (Done x w')
    with rs(1) have J': "J (caches_of w')" by simp
    obtain rs' where "J (caches_of (final (k x w')))" "requests (final (k x w')) = requests w' @ rs'"
      "list_all P rs'"
      using assms(2) [OF J Done] J' by (rule sendsD)
    with Done rs show ?thesis by (auto simp: andThen_def)
  qed
qed

lemma sends_seq [prog_intros]: "sends J P m \<Longrightarrow> (\<And>x. sends J P (k x)) \<Longrightarrow> sends J P (andThen m k)"
  by (rule sends_andThen)

text \<open>After reading the state the rest of the program may use what was read.\<close>

lemma sends_reads: "(\<And>w. J (caches_of w) \<Longrightarrow> sends J P (k (f w))) \<Longrightarrow> sends J P (andThen (reads f) k)"
  by (rule sends_andThen) (auto simp: sends_def)

lemma sends_unless_error [prog_intros]:
  "sends J P m \<Longrightarrow> sends J P k \<Longrightarrow> sends J P (unless_error m k)"
  unfolding unless_error_def by (rule sends_seq) (auto split: option.split intro: prog_intros)

lemma sends_mono: "sends J P m \<Longrightarrow> (\<And>r. P r \<Longrightarrow> Q r) \<Longrightarrow> sends J Q m"
  unfolding sends_def by (meson list.pred_mono_strong)

text \<open>The programs that send nothing and leave the caches alone.\<close>

abbreviation silent :: "'a prog \<Rightarrow> bool" where
  "silent m \<equiv> (\<forall>c. sends (\<lambda>d. d = c) (\<lambda>_. False) m)"

lemma silentD: "silent m \<Longrightarrow> caches_of (final (m w)) = caches_of w \<and> requests (final (m w)) = requests w"
  by (auto simp: sends_def list_all_iff)

text \<open>\<open>at_most Q n m\<close>: no run sends more than \<open>n\<close> requests that satisfy \<open>Q\<close>.\<close>

definition at_most :: "(request \<Rightarrow> bool) \<Rightarrow> nat \<Rightarrow> 'a prog \<Rightarrow> bool" where
  "at_most Q n m \<longleftrightarrow>
     (\<forall>w. \<exists>rs. requests (final (m w)) = requests w @ rs \<and> length (filter Q rs) \<le> n)"

named_theorems count_intros \<open>syntax-directed rules for at_most\<close>

lemma at_most_sends: "sends (\<lambda>_. True) (\<lambda>r. \<not> Q r) m \<Longrightarrow> at_most Q n m"
  unfolding at_most_def sends_def by (metis filter_False list.pred_set list.size(3) zero_le)

lemma at_most_ret [count_intros]: "at_most Q n (ret x)"
  by (simp add: at_most_def)

lemma at_most_andThen:
  assumes "at_most Q n m" and "\<And>x. at_most Q n' (k x)"
  shows "at_most Q (n + n') (andThen m k)"
  unfolding at_most_def
proof
  fix w
  from assms(1) obtain rs where rs: "requests (final (m w)) = requests w @ rs" "length (filter Q rs) \<le> n"
    by (auto simp: at_most_def)
  show "\<exists>rs. requests (final (andThen m k w)) = requests w @ rs \<and> length (filter Q rs) \<le> n + n'"
  proof (cases "m w")
    case (Panicked w')
    with rs show ?thesis by (auto simp: andThen_def)
  next
    case (Looping w')
    with rs show ?thesis by (auto simp: andThen_def)
  next
    case (Done x w')
    from assms(2) [of x] obtain rs' where
      "requests (final (k x w')) = requests w' @ rs'" "length (filter Q rs') \<le> n'"
      by (auto simp: at_most_def)
    with Done rs show ?thesis by (intro exI [of _ "rs @ rs'"]) (simp add: andThen_def)
  qed
qed

lemma at_most_before:
  "sends (\<lambda>_. True) (\<lambda>r. \<not> Q r) m \<Longrightarrow> (\<And>x. at_most Q n (k x)) \<Longrightarrow> at_most Q n (andThen m k)"
  using at_most_andThen [of Q 0 m n k] at_most_sends [of Q m 0] by simp

lemma at_most_lift [count_intros]: "(\<And>x. at_most Q n (k x)) \<Longrightarrow> at_most Q n (andThen (lift y) k)"
  by (rule at_most_before) (auto intro: prog_intros)

lemma at_most_reads [count_intros]: "(\<And>x. at_most Q n (k x)) \<Longrightarrow> at_most Q n (andThen (reads f) k)"
  by (rule at_most_before) (auto simp: sends_def)

lemma at_most_eventf [count_intros]:
  "(\<And>x. at_most Q n (k x)) \<Longrightarrow> at_most Q n (andThen (eventf obj ty re ms as) k)"
  by (rule at_most_before) (auto intro: prog_intros)

lemma at_most_api [count_intros]:
  "(\<And>x. at_most Q n (k x)) \<Longrightarrow> at_most Q (Suc n) (andThen (api env r) k)"
  using at_most_andThen [of Q 1 "api env r" n k] by (simp add: at_most_def api_def)

text \<open>\<open>returns J m\<close>: from caches that satisfy \<open>J\<close> the program returns, with \<open>J\<close> kept.\<close>

definition returns :: "(world \<Rightarrow> bool) \<Rightarrow> 'a prog \<Rightarrow> bool" where
  "returns J m \<longleftrightarrow> (\<forall>w. J (caches_of w) \<longrightarrow> (\<exists>x w'. m w = Done x w' \<and> J (caches_of w')))"

named_theorems return_intros \<open>compositional rules for returns\<close>

lemma returns_ret [return_intros]: "returns J (ret x)"
  by (simp add: returns_def)

lemma returns_bare [return_intros]: "returns J (Done x)" "returns J (reads f)"
  by (simp_all add: returns_def)

lemma returns_lift [return_intros]: "x \<noteq> Panic \<Longrightarrow> returns J (lift x)"
  by (cases x) (simp_all add: returns_def)

lemma returns_api [return_intros]: "returns J (api env r)"
  by (simp add: returns_def api_def)

lemma returns_eventf [return_intros]: "returns J (eventf obj ty re ms as)"
  by (simp add: returns_def eventf_def)

lemma returns_andThen:
  assumes "returns J m" and "\<And>w x w'. J (caches_of w) \<Longrightarrow> m w = Done x w' \<Longrightarrow> returns J (k x)"
  shows "returns J (andThen m k)"
  unfolding returns_def
proof (intro allI impI)
  fix w
  assume J: "J (caches_of w)"
  with assms(1) obtain x w' where m: "m w = Done x w'" "J (caches_of w')" by (auto simp: returns_def)
  with assms(2) [OF J m(1)] show "\<exists>x w'. andThen m k w = Done x w' \<and> J (caches_of w')"
    by (auto simp: returns_def andThen_def)
qed

lemma returns_seq [return_intros]: "returns J m \<Longrightarrow> (\<And>x. returns J (k x)) \<Longrightarrow> returns J (andThen m k)"
  by (rule returns_andThen)

lemma returns_reads: "(\<And>w. J (caches_of w) \<Longrightarrow> returns J (k (f w))) \<Longrightarrow> returns J (andThen (reads f) k)"
  by (rule returns_andThen) (auto simp: returns_def)

lemma returns_unless_error [return_intros]:
  "returns J m \<Longrightarrow> returns J k \<Longrightarrow> returns J (unless_error m k)"
  unfolding unless_error_def by (rule returns_seq) (auto split: option.split intro: return_intros)

section \<open>Listers\<close>

definition lister_get ::
  "env \<Rightarrow> string \<Rightarrow> ('a \<Rightarrow> ObjectMeta) \<Rightarrow> 'a list \<Rightarrow> string \<Rightarrow> string \<Rightarrow> go_error + 'a" where
  "lister_get env kind meta cache ns name =
     (case lister_fault env kind ns name of
        Some e \<Rightarrow> Inl e
      | None \<Rightarrow> (case find_first (\<lambda>x. Namespace (meta x) = ns \<and> Name (meta x) = name) cache of
                   None \<Rightarrow> Inl (StatusError NotFound kind name)
                 | Some x \<Rightarrow> Inr x))"

definition lister_list ::
  "env \<Rightarrow> string \<Rightarrow> ('a \<Rightarrow> ObjectMeta) \<Rightarrow> 'a list \<Rightarrow> string \<Rightarrow> selector \<Rightarrow> go_error + 'a list" where
  "lister_list env kind meta cache ns sel =
     (case list_fault env kind ns of
        Some e \<Rightarrow> Inl e
      | None \<Rightarrow> Inr (filter (\<lambda>x. (ns = '''' \<or> Namespace (meta x) = ns) \<and>
                                 selector_Matches sel (Labels (meta x))) cache))"

text \<open>The contract of a namespace lister, and what its clients get from it.\<close>

locale lister =
  fixes get :: "string \<Rightarrow> string \<Rightarrow> go_error + 'a"
    and list :: "string \<Rightarrow> selector \<Rightarrow> go_error + 'a list"
    and meta :: "'a \<Rightarrow> ObjectMeta" and cache :: "'a list"
  assumes get_sound: "get ns n = Inr x \<Longrightarrow> x \<in> set cache \<and> Namespace (meta x) = ns \<and> Name (meta x) = n"
    and list_sound: "list ns sel = Inr xs \<Longrightarrow> ns \<noteq> '''' \<Longrightarrow>
      set xs = {x \<in> set cache. Namespace (meta x) = ns \<and> selector_Matches sel (Labels (meta x))}"
begin

lemma get_unique:
  assumes "get ns n = Inr x" and "y \<in> set cache" "Namespace (meta y) = ns" "Name (meta y) = n"
    and "distinct (map (\<lambda>x. (Namespace (meta x), Name (meta x))) cache)"
  shows "x = y"
  using get_sound [OF assms(1)] assms(2-5)
  by (metis (no_types, lifting) distinct_map inj_onD)

lemma list_in:
  "list ns sel = Inr xs \<Longrightarrow> ns \<noteq> '''' \<Longrightarrow> x \<in> set xs \<Longrightarrow>
   x \<in> set cache \<and> Namespace (meta x) = ns \<and> selector_Matches sel (Labels (meta x))"
  using list_sound by blast

end

interpretation cached: lister "lister_get env kind meta cache" "lister_list env kind meta cache" meta cache
  for env kind meta cache
proof unfold_locales
  fix ns n x
  assume "lister_get env kind meta cache ns n = Inr x"
  then show "x \<in> set cache \<and> Namespace (meta x) = ns \<and> Name (meta x) = n"
    by (auto simp: lister_get_def split: option.splits dest: find_first_Some)
next
  fix ns sel xs
  assume "lister_list env kind meta cache ns sel = Inr xs" and "ns \<noteq> ''''"
  then show "set xs = {x \<in> set cache. Namespace (meta x) = ns \<and> selector_Matches sel (Labels (meta x))}"
    by (auto simp: lister_list_def split: option.splits)
qed

text \<open>
  The store itself is keyed by \<open>namespace/name\<close>; for namespaced objects whose names have no slash
  this is the comparison of namespace and name used above.
\<close>

lemma lister_key:
  assumes "Namespace (meta x) \<noteq> ''''" and "CHR ''/'' \<notin> set (Namespace (meta x))" "CHR ''/'' \<notin> set ns"
  shows "MetaNamespaceKeyFunc (meta x) = ns @ ''/'' @ n \<longleftrightarrow> Namespace (meta x) = ns \<and> Name (meta x) = n"
  using assms sep_prefix_inj [of "Namespace (meta x)" "CHR ''/''" "Name (meta x)" ns n]
  by (auto simp: MetaNamespaceKeyFunc_def)

end
