(* ===== verification/Cassandra_Resources.thy ===== *)
theory Cassandra_Resources
  imports Machine
begin

text \<open>
  The objects the Cassandra controller creates: names, labels and selectors
  (\<open>pkg/controllers/cassandra/util\<close>), the stateful set of a node pool (\<open>nodepool/resource.go\<close>,
  \<open>nodepool/util.go\<close>), the two services (\<open>service/control.go\<close>), the service account, role and role
  binding.
\<close>

section \<open>Names and labels\<close>

abbreviation cass_Name :: "CassandraCluster \<Rightarrow> string" where
  "cass_Name c \<equiv> Name (cass_ObjectMeta c)"

abbreviation cass_Namespace :: "CassandraCluster \<Rightarrow> string" where
  "cass_Namespace c \<equiv> Namespace (cass_ObjectMeta c)"

definition cass_NewControllerRef :: "CassandraCluster \<Rightarrow> OwnerReference" where
  "cass_NewControllerRef c = NewControllerRef (cass_ObjectMeta c)
     \<lparr>gvk_Group = GroupName, gvk_Version = ''v1alpha1'', gvk_Kind = ''CassandraCluster''\<rparr>"

definition cass_ResourceBaseName :: "CassandraCluster \<Rightarrow> string" where
  "cass_ResourceBaseName c = ''cass'' @ ''-'' @ cass_Name c"

definition cass_NodePoolResourceName :: "CassandraCluster \<Rightarrow> CassandraNodePool \<Rightarrow> string" where
  "cass_NodePoolResourceName c np = cass_ResourceBaseName c @ ''-'' @ cnp_Name np"

definition SeedsServiceName :: "CassandraCluster \<Rightarrow> string" where
  "SeedsServiceName c = cass_ResourceBaseName c @ ''-seeds''"

definition cass_ServiceAccountName :: "CassandraCluster \<Rightarrow> string" where
  "cass_ServiceAccountName c = cass_ResourceBaseName c"

definition PilotRBACRoleName :: "CassandraCluster \<Rightarrow> string" where
  "PilotRBACRoleName c = cass_ResourceBaseName c @ ''-pilot''"

definition cass_ClusterLabels :: "CassandraCluster \<Rightarrow> (string \<rightharpoonup> string)" where
  "cass_ClusterLabels c = [''app'' \<mapsto> ''cassandracluster'', CassandraClusterNameLabel \<mapsto> cass_Name c]"

definition cass_SelectorForCluster :: "CassandraCluster \<Rightarrow> go_error + selector" where
  "cass_SelectorForCluster c =
     (case NewRequirement CassandraClusterNameLabel (cass_Name c) of
        Inl err \<Rightarrow> Inl err
      | Inr clusterNameReq \<Rightarrow> Inr (selector_Add [] clusterNameReq))"

definition cass_NodePoolLabels :: "CassandraCluster \<Rightarrow> string \<Rightarrow> (string \<rightharpoonup> string)" where
  "cass_NodePoolLabels c poolName = (cass_ClusterLabels c)(CassandraNodePoolNameLabel \<mapsto> poolName)"

definition OwnerCheck :: "ObjectMeta \<Rightarrow> ObjectMeta \<Rightarrow> go_error option" where
  "OwnerCheck obj owner =
     (if \<not> IsControlledBy obj owner then
        Some (Errorf '''%s/%s' is foreign owned: it is owned by '%v', not '%s/%s'.''
          [AStr (Namespace obj), AStr (Name obj),
           AOwner (GetControllerOf obj),
           AStr (Namespace owner), AStr (Name owner)])
      else None)"

text \<open>
  The result is a map from names to sets; a later set of the same name replaces an earlier one.
\<close>

fun collect_owned :: "ObjectMeta \<Rightarrow> StatefulSet list \<Rightarrow> (string \<times> StatefulSet) list \<Rightarrow> (string \<times> StatefulSet) list" where
  "collect_owned owner [] results = results"
| "collect_owned owner (s # sets) results =
     (if OwnerCheck (ss_ObjectMeta s) owner \<noteq> None then collect_owned owner sets results
      else collect_owned owner sets (AList.update (ss_Name s) s results))"

definition StatefulSetsForCluster ::
  "env \<Rightarrow> CassandraCluster \<Rightarrow> world \<Rightarrow> go_error + (string \<times> StatefulSet) list" where
  "StatefulSetsForCluster env cluster w =
     (case cass_SelectorForCluster cluster of
        Inl err \<Rightarrow> Inl err
      | Inr sel \<Rightarrow>
          (case lister_list env ''statefulset'' ss_ObjectMeta (w_statefulsets w) (cass_Namespace cluster) sel of
             Inl err \<Rightarrow> Inl err
           | Inr existingSets \<Rightarrow> Inr (collect_owned (cass_ObjectMeta cluster) existingSets [])))"

section \<open>The stateful set of a node pool\<close>

definition JVMCgroupOpts :: string where
  "JVMCgroupOpts = ''-XX:+UnlockExperimentalVMOptions '' @ ''-XX:+UseCGroupMemoryLimitForHeap '' @
     ''-XX:MaxRAMFraction=1 ''"

definition DerefString :: "string option \<Rightarrow> string" where
  "DerefString s = (case s of None \<Rightarrow> '''' | Some x \<Rightarrow> x)"

definition defaultCassandraImageForVersion :: "Version \<Rightarrow> ImageSpec outcome" where
  "defaultCassandraImageForVersion v =
     bind_outcome (deref (Semver v)) (\<lambda>sv.
       Return \<lparr>img_Repository = ''docker.io/cassandra'', img_Tag = hc_String sv,
               img_PullPolicy = ''IfNotPresent''\<rparr>)"

definition cassImageToUse :: "CassandraClusterSpec \<Rightarrow> ImageSpec outcome" where
  "cassImageToUse spec =
     (case cs_Image spec of
        None \<Rightarrow> defaultCassandraImageForVersion (cs_Version spec)
      | Some img \<Rightarrow> Return img)"

definition cass_pilotInstallationContainer :: "ImageSpec \<Rightarrow> Container" where
  "cass_pilotInstallationContainer img =
     \<lparr>c_Name = ''install-pilot'',
      c_Image = img_Repository img @ '':'' @ img_Tag img,
      c_ImagePullPolicy = img_PullPolicy img,
      c_Command = [''cp'', ''/pilot'', ''/jolokia.jar'', ''/jmx_prometheus_javaagent.jar'',
        ''/jmx_prometheus_javaagent.yaml'', ''/libcassandra-kubernetes-seed-provider.jar'', ''/shared/''],
      c_Args = [], c_Env = [], c_Ports = [],
      c_VolumeMounts = [\<lparr>vm_Name = ''shared'', vm_MountPath = ''/shared'', vm_ReadOnly = False\<rparr>],
      c_ReadinessProbe = None, c_LivenessProbe = None,
      c_Resources = \<lparr>rr_Limits = Some [''cpu'' \<mapsto> cpu_10m, ''memory'' \<mapsto> mem_50Mi],
                     rr_Requests = Some [''cpu'' \<mapsto> cpu_10m, ''memory'' \<mapsto> mem_50Mi]\<rparr>,
      c_SecurityContext = None\<rparr>"

definition cass_ReadinessProbe :: Probe where
  "cass_ReadinessProbe = \<lparr>pr_Port = 12000, pr_Path = '''', pr_InitialDelaySeconds = 60,
     pr_TimeoutSeconds = 10, pr_PeriodSeconds = 15, pr_SuccessThreshold = 3, pr_FailureThreshold = 1\<rparr>"

definition cass_LivenessProbe :: Probe where
  "cass_LivenessProbe = \<lparr>pr_Port = 12001, pr_Path = '''', pr_InitialDelaySeconds = 90,
     pr_TimeoutSeconds = 10, pr_PeriodSeconds = 30, pr_SuccessThreshold = 1, pr_FailureThreshold = 6\<rparr>"

definition cass_Env :: "CassandraCluster \<Rightarrow> CassandraNodePool \<Rightarrow> EnvVar list" where
  "cass_Env cluster np =
     [env_value ''MAX_HEAP_SIZE'' ''512M'', env_value ''HEAP_NEWSIZE'' ''100M'',
      env_value ''CASSANDRA_LISTEN_ADDRESS'' '' '', env_value ''CASSANDRA_BROADCAST_ADDRESS'' '' '',
      env_value ''CASSANDRA_RPC_ADDRESS'' '' '',
      env_value ''CASSANDRA_SEEDS'' ''black-hole-dns-name'',
      env_value ''CASSANDRA_ENDPOINT_SNITCH'' ''GossipingPropertyFileSnitch'',
      env_value ''CASSANDRA_SERVICE'' (SeedsServiceName cluster),
      env_value ''CASSANDRA_CLUSTER_NAME'' (cass_Name cluster),
      env_value ''CASSANDRA_DC'' (DerefString (cnp_Datacenter np)),
      env_value ''CASSANDRA_RACK'' (DerefString (cnp_Rack np)),
      env_value ''JVM_OPTS''
        (''-javaagent:/shared/jolokia.jar=host=127.0.0.1,port=8778,agentContext=/jolokia '' @
         ''-javaagent:/shared/jmx_prometheus_javaagent.jar=8080:/shared/jmx_prometheus_javaagent.yaml '' @
         JVMCgroupOpts),
      env_value ''CLASSPATH'' ''/shared/libcassandra-kubernetes-seed-provider.jar'',
      env_field ''POD_IP'' ''status.podIP'', env_field ''POD_NAME'' ''metadata.name'',
      env_field ''POD_NAMESPACE'' ''metadata.namespace'',
      env_value ''LEADER_ELECTION_CONFIG_MAP'' (''cassandra-'' @ cass_Name cluster @ ''-leaderelection'')]"

definition cass_Container :: "CassandraCluster \<Rightarrow> CassandraNodePool \<Rightarrow> ImageSpec \<Rightarrow> Container" where
  "cass_Container cluster np img =
     \<lparr>c_Name = ''cassandra'',
      c_Image = img_Repository img @ '':'' @ img_Tag img,
      c_ImagePullPolicy = img_PullPolicy img,
      c_Command = [''/shared/pilot''],
      c_Args = [''--v=4'', ''--logtostderr'', ''--pilot-name=$(POD_NAME)'',
        ''--pilot-namespace=$(POD_NAMESPACE)'',
        ''--leader-election-config-map=$(LEADER_ELECTION_CONFIG_MAP)'',
        ''--jolokia-url=http://127.0.0.1:8778/jolokia/''],
      c_Env = cass_Env cluster np,
      c_Ports = [\<lparr>cp_Name = ''intra-node'', cp_ContainerPort = 7000\<rparr>,
        \<lparr>cp_Name = ''intra-node-tls'', cp_ContainerPort = 7001\<rparr>,
        \<lparr>cp_Name = ''jmx'', cp_ContainerPort = 7199\<rparr>, \<lparr>cp_Name = ''cql'', cp_ContainerPort = 9042\<rparr>,
        \<lparr>cp_Name = ''prometheus'', cp_ContainerPort = 8080\<rparr>],
      c_VolumeMounts = [\<lparr>vm_Name = ''shared'', vm_MountPath = ''/shared'', vm_ReadOnly = True\<rparr>,
        \<lparr>vm_Name = ''cassandra-data'', vm_MountPath = ''/var/lib/cassandra'', vm_ReadOnly = False\<rparr>],
      c_ReadinessProbe = Some cass_ReadinessProbe, c_LivenessProbe = Some cass_LivenessProbe,
      c_Resources = cnp_Resources np,
      c_SecurityContext = Some \<lparr>sc_RunAsUser =
          nsc_RunAsUser (SecurityContextOf (cs_Config (cass_Spec cluster))), sc_CapabilitiesAdd = []\<rparr>\<rparr>"

definition storage_claim :: "string \<Rightarrow> PersistenceConfig \<Rightarrow> PersistentVolumeClaim" where
  "storage_claim volumeName p =
     \<lparr>pvc_ObjectMeta = empty_meta\<lparr>Name := volumeName,
        Annotations := Some (case pc_StorageClass p of
            None \<Rightarrow> Map.empty
          | Some sc \<Rightarrow> [''volume.beta.kubernetes.io/storage-class'' \<mapsto> sc])\<rparr>,
      pvc_AccessModes = [''ReadWriteOnce''],
      pvc_StorageClassName = pc_StorageClass p,
      pvc_Requests = Some [''storage'' \<mapsto> pc_Size p]\<rparr>"

definition cass_PodTemplate :: "CassandraCluster \<Rightarrow> CassandraNodePool \<Rightarrow> ImageSpec \<Rightarrow> PodTemplateSpec" where
  "cass_PodTemplate cluster np img =
     \<lparr>pt_ObjectMeta = empty_meta
        \<lparr>Labels := Some ((cass_NodePoolLabels cluster (cnp_Name np))(PilotLabel \<mapsto> '''')),
         Annotations := Some [''prometheus.io/port'' \<mapsto> ''8080'', ''prometheus.io/path'' \<mapsto> ''/'',
           ''prometheus.io/scrape'' \<mapsto> ''true'']\<rparr>,
      pt_Spec =
        \<lparr>ps_TerminationGracePeriodSeconds = None,
         ps_ServiceAccountName = cass_ServiceAccountName cluster,
         ps_NodeSelector = cnp_NodeSelector np,
         ps_SchedulerName = cnp_SchedulerName np,
         ps_FSGroup = nsc_RunAsUser (SecurityContextOf (cs_Config (cass_Spec cluster))),
         ps_Volumes = [\<lparr>v_Name = ''shared'', v_Source = EmptyDir\<rparr>] @
           (if cnp_Persistence np = None then [\<lparr>v_Name = ''cassandra-data'', v_Source = EmptyDir\<rparr>] else []),
         ps_InitContainers = [cass_pilotInstallationContainer (PilotImage (cs_Config (cass_Spec cluster)))],
         ps_Containers = [cass_Container cluster np img]\<rparr>\<rparr>"

definition StatefulSetForCluster :: "CassandraCluster \<Rightarrow> CassandraNodePool \<Rightarrow> StatefulSet outcome" where
  "StatefulSetForCluster cluster np =
     bind_outcome (cassImageToUse (cass_Spec cluster)) (\<lambda>img.
       let statefulSetName = cass_NodePoolResourceName cluster np;
           nodePoolLabels = cass_NodePoolLabels cluster (cnp_Name np)
       in Return
         \<lparr>ss_ObjectMeta = empty_meta
            \<lparr>Name := statefulSetName, Namespace := cass_Namespace cluster,
             Labels := Some nodePoolLabels, Annotations := Some Map.empty,
             OwnerReferences := [cass_NewControllerRef cluster]\<rparr>,
          ss_Spec =
            \<lparr>sss_Replicas = Some 0, sss_Selector = Some nodePoolLabels,
             sss_Template = cass_PodTemplate cluster np img,
             sss_VolumeClaimTemplates =
               (case cnp_Persistence np of None \<Rightarrow> [] | Some p \<Rightarrow> [storage_claim ''cassandra-data'' p]),
             sss_ServiceName = statefulSetName,
             sss_PodManagementPolicy = ''OrderedReady'',
             sss_UpdateStrategy = \<lparr>us_Type = ''RollingUpdate'', us_RollingUpdate = None\<rparr>\<rparr>,
          ss_Status = empty_StatefulSetStatus\<rparr>)"

section \<open>Services, account, role and role binding\<close>

definition SeedLabelKey :: string where
  "SeedLabelKey = ''navigator.jetstack.io/cassandra-seed''"

definition SeedLabelValue :: string where
  "SeedLabelValue = ''true''"

definition cass_owned_meta :: "CassandraCluster \<Rightarrow> string \<Rightarrow> ObjectMeta" where
  "cass_owned_meta cluster name = empty_meta
     \<lparr>Name := name, Namespace := cass_Namespace cluster, Labels := Some (cass_ClusterLabels cluster),
      OwnerReferences := [cass_NewControllerRef cluster]\<rparr>"

definition NodesServiceForCluster :: "CassandraCluster \<Rightarrow> Service" where
  "NodesServiceForCluster cluster =
     \<lparr>svc_ObjectMeta = cass_owned_meta cluster (cass_ResourceBaseName cluster @ ''-nodes''),
      svc_ClusterIP = ''None'', svc_Type = ''ClusterIP'',
      svc_Selector = Some (cass_ClusterLabels cluster),
      svc_Ports = [\<lparr>sp_Name = '''', sp_Port = 65535, sp_TargetPort = 0\<rparr>],
      svc_PublishNotReadyAddresses = False\<rparr>"

text \<open>
  One labels map is both the metadata labels and the selector, so the seed label written through
  the selector is on the service's labels too.
\<close>

definition SeedsServiceForCluster :: "CassandraCluster \<Rightarrow> Service" where
  "SeedsServiceForCluster cluster =
     (let labels = (cass_ClusterLabels cluster)(SeedLabelKey \<mapsto> SeedLabelValue)
      in \<lparr>svc_ObjectMeta = (cass_owned_meta cluster (SeedsServiceName cluster))
            \<lparr>Annotations := Some [''service.alpha.kubernetes.io/tolerate-unready-endpoints'' \<mapsto> ''true''],
             Labels := Some labels\<rparr>,
          svc_ClusterIP = ''None'', svc_Type = ''ClusterIP'',
          svc_Selector = Some labels,
          svc_Ports = [\<lparr>sp_Name = '''', sp_Port = 65535, sp_TargetPort = 0\<rparr>],
          svc_PublishNotReadyAddresses = True\<rparr>)"

definition ServiceAccountForCluster :: "CassandraCluster \<Rightarrow> ServiceAccount" where
  "ServiceAccountForCluster cluster =
     \<lparr>sa_ObjectMeta = cass_owned_meta cluster (cass_ServiceAccountName cluster)\<rparr>"

definition RoleForCluster :: "CassandraCluster \<Rightarrow> Role" where
  "RoleForCluster cluster =
     \<lparr>role_ObjectMeta = cass_owned_meta cluster (PilotRBACRoleName cluster),
      role_Rules =
        [\<lparr>pol_APIGroups = [''''], pol_Verbs = [''create'', ''update'', ''patch''], pol_Resources = [''events'']\<rparr>,
         \<lparr>pol_APIGroups = [''''],
          pol_Verbs = [''create'', ''update'', ''patch'', ''get'', ''list'', ''watch''],
          pol_Resources = [''configmaps'']\<rparr>,
         \<lparr>pol_APIGroups = [''''], pol_Verbs = [''get'', ''list'', ''watch''],
          pol_Resources = [''endpoints'', ''pods'']\<rparr>,
         \<lparr>pol_APIGroups = [''apps''], pol_Verbs = [''get'', ''list'', ''watch''],
          pol_Resources = [''statefulsets'']\<rparr>,
         \<lparr>pol_APIGroups = [GroupName], pol_Verbs = [''get'', ''list'', ''watch''],
          pol_Resources = [''pilots'', ''cassandraclusters'']\<rparr>,
         \<lparr>pol_APIGroups = [GroupName], pol_Verbs = [''update'', ''patch''],
          pol_Resources = [''pilots/status'']\<rparr>]\<rparr>"

definition RoleBindingForCluster :: "CassandraCluster \<Rightarrow> RoleBinding" where
  "RoleBindingForCluster cluster =
     \<lparr>rb_ObjectMeta = cass_owned_meta cluster (PilotRBACRoleName cluster),
      rb_Subjects = [\<lparr>sub_Kind = ''ServiceAccount'', sub_APIGroup = '''',
        sub_Name = cass_ServiceAccountName cluster, sub_Namespace = ''''\<rparr>],
      rb_RoleRef = \<lparr>rref_APIGroup = '''', rref_Kind = ''Role'', rref_Name = PilotRBACRoleName cluster\<rparr>\<rparr>"

section \<open>Facts about the objects\<close>

lemma OwnerCheck_None [simp]: "OwnerCheck obj owner = None \<longleftrightarrow> IsControlledBy obj owner"
  by (simp add: OwnerCheck_def)

lemma cass_owned_meta_controlled: "IsControlledBy (cass_owned_meta c n) (cass_ObjectMeta c)"
  by (simp add: cass_owned_meta_def IsControlledBy_def GetControllerOf_def cass_NewControllerRef_def
      NewControllerRef_def)

lemma cass_NodePoolResourceName_inj:
  "cass_NodePoolResourceName c np = cass_NodePoolResourceName c np' \<longleftrightarrow> cnp_Name np = cnp_Name np'"
  by (simp add: cass_NodePoolResourceName_def)

lemma StatefulSetForCluster_meta:
  assumes "StatefulSetForCluster c np = Return ss"
  shows "ss_Name ss = cass_NodePoolResourceName c np"
    and "Namespace (ss_ObjectMeta ss) = cass_Namespace c"
    and "IsControlledBy (ss_ObjectMeta ss) (cass_ObjectMeta c)"
    and "ss_Replicas ss = Some 0"
    and "Labels (ss_ObjectMeta ss) = Some (cass_NodePoolLabels c (cnp_Name np))"
  using assms
  by (auto simp: StatefulSetForCluster_def Let_def bind_outcome_Return IsControlledBy_def
      GetControllerOf_def cass_NewControllerRef_def NewControllerRef_def)

lemma collect_owned_in:
  "(n, s) \<in> set (collect_owned owner sets rs) \<Longrightarrow>
   (n, s) \<in> set rs \<or> (s \<in> set sets \<and> n = ss_Name s \<and> IsControlledBy (ss_ObjectMeta s) owner)"
proof (induction sets arbitrary: rs)
  case (Cons x sets)
  have "(n, s) \<in> set (AList.update (ss_Name x) x rs) \<Longrightarrow> (n, s) \<in> set rs \<or> (n = ss_Name x \<and> s = x)"
    by (induction rs) (auto split: if_splits)
  with Cons show ?case by (auto split: if_splits)
qed simp

lemma collect_owned_distinct:
  "distinct (map fst rs) \<Longrightarrow> distinct (map fst (collect_owned owner sets rs))"
  by (induction sets arbitrary: rs) (auto simp: distinct_update)

lemma update_fst_set: "fst ` set (AList.update k v rs) = insert k (fst ` set rs)"
  by (induction rs) auto

lemma collect_owned_keys:
  "fst ` set (collect_owned owner sets rs) =
     fst ` set rs \<union> {ss_Name s | s. s \<in> set sets \<and> IsControlledBy (ss_ObjectMeta s) owner}"
proof (induction sets arbitrary: rs)
  case (Cons x sets)
  then show ?case by (cases "IsControlledBy (ss_ObjectMeta x) owner") (auto simp: update_fst_set)
qed simp

end
