(* ===== verification/Cassandra_Control.thy ===== *)
theory Cassandra_Control
  imports Cassandra_Resources
begin

text \<open>
  The Cassandra controller: the controls for services, service account, role and role binding, the
  node pool status (\<open>nodepool/nodepool.go\<close>), the seed labeller, the actions (\<open>actions/\<close>),
  \<open>NextAction\<close>, the cluster \<open>Sync\<close> (\<open>cluster_control.go\<close>) and the controller's \<open>sync\<close>
  (\<open>cassandra.go\<close>).
\<close>

section \<open>The controls for single objects\<close>

definition cass_service_Sync ::
  "env \<Rightarrow> (CassandraCluster \<Rightarrow> Service) \<Rightarrow> CassandraCluster \<Rightarrow> go_error option prog" where
  "cass_service_Sync env serviceFactory cluster =
     (let service = serviceFactory cluster
      in andThen (reads (\<lambda>w. lister_get env ''service'' svc_ObjectMeta (w_services w)
                    (Namespace (svc_ObjectMeta service)) (Name (svc_ObjectMeta service)))) (\<lambda>existing.
           case existing of
             Inr existingService \<Rightarrow> ret (OwnerCheck (svc_ObjectMeta existingService) (cass_ObjectMeta cluster))
           | Inl err \<Rightarrow> if \<not> IsNotFound err then ret (Some err) else api env (CreateService service)))"

definition cass_serviceaccount_Sync :: "env \<Rightarrow> CassandraCluster \<Rightarrow> go_error option prog" where
  "cass_serviceaccount_Sync env cluster =
     (let newAccount = ServiceAccountForCluster cluster
      in andThen (reads (\<lambda>w. lister_get env ''serviceaccount'' sa_ObjectMeta (w_serviceaccounts w)
                    (Namespace (sa_ObjectMeta newAccount)) (Name (sa_ObjectMeta newAccount)))) (\<lambda>existing.
           case existing of
             Inr existingAccount \<Rightarrow> ret (OwnerCheck (sa_ObjectMeta existingAccount) (cass_ObjectMeta cluster))
           | Inl err \<Rightarrow> if \<not> IsNotFound err then ret (Some err) else api env (CreateServiceAccount newAccount)))"

definition cass_role_Sync :: "env \<Rightarrow> CassandraCluster \<Rightarrow> go_error option prog" where
  "cass_role_Sync env cluster =
     (let newRole = RoleForCluster cluster
      in andThen (reads (\<lambda>w. lister_get env ''role'' role_ObjectMeta (w_roles w)
                    (Namespace (role_ObjectMeta newRole)) (Name (role_ObjectMeta newRole)))) (\<lambda>existing.
           case existing of
             Inr existingRole \<Rightarrow> ret (OwnerCheck (role_ObjectMeta existingRole) (cass_ObjectMeta cluster))
           | Inl err \<Rightarrow> if \<not> IsNotFound err then ret (Some err) else api env (CreateRole newRole)))"

definition cass_rolebinding_Sync :: "env \<Rightarrow> CassandraCluster \<Rightarrow> go_error option prog" where
  "cass_rolebinding_Sync env cluster =
     (let newRoleBinding = RoleBindingForCluster cluster
      in andThen (reads (\<lambda>w. lister_get env ''rolebinding'' rb_ObjectMeta (w_rolebindings w)
                    (Namespace (rb_ObjectMeta newRoleBinding)) (Name (rb_ObjectMeta newRoleBinding)))) (\<lambda>existing.
           case existing of
             Inr existingRoleBinding \<Rightarrow> ret (OwnerCheck (rb_ObjectMeta existingRoleBinding) (cass_ObjectMeta cluster))
           | Inl err \<Rightarrow> if \<not> IsNotFound err then ret (Some err) else api env (CreateRoleBinding newRoleBinding)))"

text \<open>
  The contract the four share, over the lister they use: an object that exists is only checked for
  its owner, one that is absent is created as desired, any other error of the lister is returned.
\<close>

locale ensure_object =
  fixes env :: env and sync :: "'c \<Rightarrow> go_error option prog"
    and get :: "world \<Rightarrow> string \<Rightarrow> string \<Rightarrow> go_error + 'o" and meta :: "'o \<Rightarrow> ObjectMeta"
    and desired :: "'c \<Rightarrow> 'o" and owner :: "'c \<Rightarrow> ObjectMeta" and create :: "'o \<Rightarrow> request"
  assumes sync_found: "get w (Namespace (meta (desired c))) (Name (meta (desired c))) = Inr x \<Longrightarrow>
      sync c w = Done (OwnerCheck (meta x) (owner c)) w"
    and sync_absent: "get w (Namespace (meta (desired c))) (Name (meta (desired c))) = Inl e \<Longrightarrow>
      IsNotFound e \<Longrightarrow> sync c w = api env (create (desired c)) w"
    and sync_fault: "get w (Namespace (meta (desired c))) (Name (meta (desired c))) = Inl e \<Longrightarrow>
      \<not> IsNotFound e \<Longrightarrow> sync c w = Done (Some e) w"
    and desired_owned: "IsControlledBy (meta (desired c)) (owner c)"
begin

lemma sync_sends: "sends J (\<lambda>r. r = create (desired c)) (sync c)"
  unfolding sends_def
proof (intro allI impI)
  fix w
  assume J: "J (caches_of w)"
  show "J (caches_of (final (sync c w))) \<and>
    (\<exists>rs. requests (final (sync c w)) = requests w @ rs \<and> list_all (\<lambda>r. r = create (desired c)) rs)"
  proof (cases "get w (Namespace (meta (desired c))) (Name (meta (desired c)))")
    case (Inl e)
    with J show ?thesis
      by (cases "IsNotFound e") (auto simp: sync_absent [OF Inl] sync_fault [OF Inl] api_def)
  next
    case (Inr x)
    with J show ?thesis by (simp add: sync_found [OF Inr])
  qed
qed

lemma sync_total: "\<exists>err. sync c w = Done err (final (sync c w))"
  by (cases "get w (Namespace (meta (desired c))) (Name (meta (desired c)))"; cases "IsNotFound (projl (get w (Namespace (meta (desired c))) (Name (meta (desired c)))))")
    (auto simp: sync_found sync_absent sync_fault api_def)

text \<open>A foreign object of the same name is reported and nothing is written.\<close>

lemma sync_foreign:
  assumes "get w (Namespace (meta (desired c))) (Name (meta (desired c))) = Inr x"
    and "\<not> IsControlledBy (meta x) (owner c)"
  shows "sync c w = Done (OwnerCheck (meta x) (owner c)) w \<and> OwnerCheck (meta x) (owner c) \<noteq> None"
  using assms sync_found by simp

text \<open>Once the cache holds what was created, the control is satisfied and writes nothing more.\<close>

lemma sync_stable:
  assumes "get w (Namespace (meta (desired c))) (Name (meta (desired c))) = Inr (desired c)"
  shows "sync c w = Done None w"
  using sync_found [OF assms] desired_owned by simp

end

interpretation cass_nodes_service: ensure_object env "cass_service_Sync env NodesServiceForCluster"
  "\<lambda>w. lister_get env ''service'' svc_ObjectMeta (w_services w)" svc_ObjectMeta
  NodesServiceForCluster cass_ObjectMeta CreateService for env
  by unfold_locales
    (auto simp: cass_service_Sync_def Let_def go_simps NodesServiceForCluster_def
      cass_owned_meta_controlled)

interpretation cass_seeds_service: ensure_object env "cass_service_Sync env SeedsServiceForCluster"
  "\<lambda>w. lister_get env ''service'' svc_ObjectMeta (w_services w)" svc_ObjectMeta
  SeedsServiceForCluster cass_ObjectMeta CreateService for env
proof unfold_locales
  fix c
  show "IsControlledBy (svc_ObjectMeta (SeedsServiceForCluster c)) (cass_ObjectMeta c)"
    using cass_owned_meta_controlled [of c]
    by (simp add: SeedsServiceForCluster_def Let_def IsControlledBy_def GetControllerOf_def)
qed (auto simp: cass_service_Sync_def Let_def go_simps)

interpretation cass_account: ensure_object env "cass_serviceaccount_Sync env"
  "\<lambda>w. lister_get env ''serviceaccount'' sa_ObjectMeta (w_serviceaccounts w)" sa_ObjectMeta
  ServiceAccountForCluster cass_ObjectMeta CreateServiceAccount for env
  by unfold_locales
    (auto simp: cass_serviceaccount_Sync_def Let_def go_simps ServiceAccountForCluster_def
      cass_owned_meta_controlled)

interpretation cass_role: ensure_object env "cass_role_Sync env"
  "\<lambda>w. lister_get env ''role'' role_ObjectMeta (w_roles w)" role_ObjectMeta
  RoleForCluster cass_ObjectMeta CreateRole for env
  by unfold_locales
    (auto simp: cass_role_Sync_def Let_def go_simps RoleForCluster_def cass_owned_meta_controlled)

interpretation cass_rolebinding: ensure_object env "cass_rolebinding_Sync env"
  "\<lambda>w. lister_get env ''rolebinding'' rb_ObjectMeta (w_rolebindings w)" rb_ObjectMeta
  RoleBindingForCluster cass_ObjectMeta CreateRoleBinding for env
  by unfold_locales
    (auto simp: cass_rolebinding_Sync_def Let_def go_simps RoleBindingForCluster_def
      cass_owned_meta_controlled)

section \<open>Node pool status\<close>

text \<open>Ranging over a Go map visits its entries in the order of the environment.\<close>

definition range_map :: "env \<Rightarrow> (string \<times> 'v) list \<Rightarrow> 'v list" where
  "range_map env m = List.map_filter (map_of m) (key_order env (map fst m))"

definition node_pool_status_of ::
  "StatefulSet list \<Rightarrow> (string \<rightharpoonup> CassandraNodePoolStatus)" where
  "node_pool_status_of sets =
     foldl (\<lambda>m ss. m(mget (Labels (ss_ObjectMeta ss)) CassandraNodePoolNameLabel \<mapsto>
                      \<lparr>cns_ReadyReplicas = sst_ReadyReplicas (ss_Status ss)\<rparr>)) Map.empty sets"

definition with_node_pools :: "(string \<rightharpoonup> CassandraNodePoolStatus) \<Rightarrow> CassandraCluster \<Rightarrow> CassandraCluster" where
  "with_node_pools m c = c\<lparr>cass_Status := (cass_Status c)\<lparr>cst_NodePools := Some m\<rparr>\<rparr>"

definition nodepool_updateStatus ::
  "env \<Rightarrow> CassandraCluster \<Rightarrow> (go_error option \<times> CassandraCluster) prog" where
  "nodepool_updateStatus env cluster =
     andThen (reads (StatefulSetsForCluster env cluster)) (\<lambda>sets.
       case sets of
         Inl err \<Rightarrow> ret (Some err, with_node_pools Map.empty cluster)
       | Inr m \<Rightarrow> ret (None, with_node_pools (node_pool_status_of (range_map env m)) cluster))"

section \<open>Seed labels\<close>

text \<open>
  The pod returned by the lister is the cached object: writing the label into its labels map, when
  it has one, changes the cache before the update is sent.
\<close>

fun update_first :: "('a \<Rightarrow> bool) \<Rightarrow> ('a \<Rightarrow> 'a) \<Rightarrow> 'a list \<Rightarrow> 'a list" where
  "update_first P f [] = []"
| "update_first P f (x # xs) = (if P x then f x # xs else x # update_first P f xs)"

definition set_pod_labels :: "smap \<Rightarrow> Pod \<Rightarrow> Pod" where
  "set_pod_labels ls p = p\<lparr>pod_ObjectMeta := (pod_ObjectMeta p)\<lparr>Labels := ls\<rparr>\<rparr>"

definition write_cached_pod :: "string \<Rightarrow> string \<Rightarrow> smap \<Rightarrow> unit prog" where
  "write_cached_pod ns name ls =
     (\<lambda>w. Done () (w\<lparr>w_pods := update_first (\<lambda>p. Namespace (pod_ObjectMeta p) = ns \<and> Name (pod_ObjectMeta p) = name)
                                 (set_pod_labels ls) (w_pods w)\<rparr>))"

definition labelSeedNodes :: "env \<Rightarrow> CassandraCluster \<Rightarrow> StatefulSet \<Rightarrow> go_error option prog" where
  "labelSeedNodes env cluster ss =
     (let podName = ss_Name ss @ ''-'' @ show_int 0
      in andThen (reads (\<lambda>w. lister_get env ''pod'' pod_ObjectMeta (w_pods w) (cass_Namespace cluster) podName))
           (\<lambda>got. case got of
              Inl err \<Rightarrow> ret None
            | Inr pod \<Rightarrow>
                (let labels = Labels (pod_ObjectMeta pod)
                 in if mget labels SeedLabelKey = SeedLabelValue then ret None
                    else let labels' = Some ((case labels of None \<Rightarrow> Map.empty | Some m \<Rightarrow> m)(SeedLabelKey \<mapsto> SeedLabelValue))
                         in andThen (if labels = None then ret ()
                                     else write_cached_pod (cass_Namespace cluster) podName labels')
                              (\<lambda>_. api env (UpdatePod (set_pod_labels labels' pod))))))"

fun each_error :: "('a \<Rightarrow> go_error option prog) \<Rightarrow> 'a list \<Rightarrow> go_error option prog" where
  "each_error f [] = ret None"
| "each_error f (x # xs) = unless_error (f x) (each_error f xs)"

definition seedlabeller_Sync :: "env \<Rightarrow> CassandraCluster \<Rightarrow> go_error option prog" where
  "seedlabeller_Sync env cluster =
     andThen (reads (StatefulSetsForCluster env cluster)) (\<lambda>sets.
       case sets of
         Inl err \<Rightarrow> ret (Some err)
       | Inr m \<Rightarrow> each_error (labelSeedNodes env cluster) (range_map env m))"

section \<open>Actions\<close>

definition cass_object :: "CassandraCluster \<Rightarrow> string" where
  "cass_object c = ''CassandraCluster/'' @ cass_Namespace c @ ''/'' @ cass_Name c"

definition cass_CreateNodePool_Execute ::
  "env \<Rightarrow> CassandraCluster \<Rightarrow> CassandraNodePool \<Rightarrow> go_error option prog" where
  "cass_CreateNodePool_Execute env cluster np =
     andThen (lift (StatefulSetForCluster cluster np)) (\<lambda>ss.
     andThen (api env (CreateStatefulSet ss)) (\<lambda>err.
       case err of
         Some e \<Rightarrow> if IsAlreadyExists e then ret None else ret (Some e)
       | None \<Rightarrow>
           andThen (eventf (cass_object cluster) ''Normal'' ''CreateNodePool'' ''CreateNodePool: Name=%q''
                     [AStr (cnp_Name np)]) (\<lambda>_. ret None)))"

definition set_replicas :: "int32 \<Rightarrow> StatefulSet \<Rightarrow> StatefulSet" where
  "set_replicas n ss = ss\<lparr>ss_Spec := (ss_Spec ss)\<lparr>sss_Replicas := Some n\<rparr>\<rparr>"

definition ScaleOut_Execute ::
  "env \<Rightarrow> CassandraCluster \<Rightarrow> CassandraNodePool \<Rightarrow> go_error option prog" where
  "ScaleOut_Execute env cluster np =
     andThen (lift (StatefulSetForCluster cluster np)) (\<lambda>baseSet.
     andThen (reads (\<lambda>w. lister_get env ''statefulset'' ss_ObjectMeta (w_statefulsets w)
                (Namespace (ss_ObjectMeta baseSet)) (ss_Name baseSet))) (\<lambda>got.
       case got of
         Inl err \<Rightarrow> ret (Some (Wrap err ''unable to find statefulset'' []))
       | Inr existingSet \<Rightarrow>
           andThen (lift (deref (ss_Replicas existingSet))) (\<lambda>replicas.
           andThen (lift (deref (cnp_Replicas np))) (\<lambda>target.
             if replicas = target then ret None
             else if sint replicas > sint target then ret None
             else if sst_ReadyReplicas (ss_Status existingSet) \<noteq> replicas then ret None
             else andThen (api env (UpdateStatefulSet (set_replicas (replicas + 1) existingSet))) (\<lambda>err.
               case err of
                 Some e \<Rightarrow> ret (Some (Wrap e ''unable to update statefulset replica count'' []))
               | None \<Rightarrow>
                   andThen (eventf (cass_object cluster) ''Normal'' ''ScaleOut''
                     ''ScaleOut: NodePool=%s/%s/%s, ReplicaCount=%d, TargetReplicaCount=%d''
                     [AStr (cass_Namespace cluster), AStr (cass_Name cluster), AStr (cnp_Name np),
                      AInt (sint replicas), AInt (sint target)]) (\<lambda>_. ret None))))))"

datatype cass_action = Cass_CreateNodePool CassandraNodePool | Cass_ScaleOut CassandraNodePool

fun first_unready :: "CassandraNodePoolStatus gomap \<Rightarrow> CassandraNodePool list \<Rightarrow> cass_action option outcome" where
  "first_unready status [] = Return None"
| "first_unready status (np # nps) =
     bind_outcome (deref (cnp_Replicas np)) (\<lambda>replicas.
       let ready = (case mlookup status (cnp_Name np) of None \<Rightarrow> 0 | Some s \<Rightarrow> cns_ReadyReplicas s)
       in if sint replicas > sint ready then Return (Some (Cass_ScaleOut np))
          else first_unready status nps)"

definition cass_NextAction :: "CassandraCluster \<Rightarrow> cass_action option outcome" where
  "cass_NextAction c =
     (let status = cst_NodePools (cass_Status c); pools = cs_NodePools (cass_Spec c)
      in case find_first (\<lambda>np. mlookup status (cnp_Name np) = None) pools of
           Some np \<Rightarrow> Return (Some (Cass_CreateNodePool np))
         | None \<Rightarrow> first_unready status pools)"

fun cass_Execute :: "env \<Rightarrow> CassandraCluster \<Rightarrow> cass_action \<Rightarrow> go_error option prog" where
  "cass_Execute env c (Cass_CreateNodePool np) = cass_CreateNodePool_Execute env c np"
| "cass_Execute env c (Cass_ScaleOut np) = ScaleOut_Execute env c np"

section \<open>Synchronising a cluster\<close>

definition syncPausedConditions :: "nat \<Rightarrow> bool \<Rightarrow> ClusterCondition list \<Rightarrow> ClusterCondition list" where
  "syncPausedConditions t paused conds =
     (let pausedCondExists = (case GetStatusCondition ClusterConditionProgressing conds of
            None \<Rightarrow> False | Some cond \<Rightarrow> cc_Reason cond = PausedClusterReason)
      in if paused \<and> \<not> pausedCondExists then
           UpdateStatusCondition t ClusterConditionProgressing ConditionFalse PausedClusterReason
             ''Cluster is paused'' conds
         else if \<not> paused \<and> pausedCondExists then
           UpdateStatusCondition t ClusterConditionProgressing ConditionTrue ResumedClusterReason
             ''Cluster is resumed'' conds
         else conds)"

definition cass_syncPausedConditions :: "nat \<Rightarrow> CassandraCluster \<Rightarrow> CassandraCluster" where
  "cass_syncPausedConditions t c = c\<lparr>cass_Status := (cass_Status c)\<lparr>cst_Conditions :=
     syncPausedConditions t (Paused (cs_Config (cass_Spec c))) (cst_Conditions (cass_Status c))\<rparr>\<rparr>"

text \<open>A failed step records a warning and ends the synchronisation with its error.\<close>

definition cass_step ::
  "CassandraCluster \<Rightarrow> string \<Rightarrow> go_error option prog \<Rightarrow> (go_error option \<times> CassandraCluster) prog \<Rightarrow>
   (go_error option \<times> CassandraCluster) prog" where
  "cass_step c message m k =
     andThen m (\<lambda>err. case err of
         Some e \<Rightarrow> andThen (eventf (cass_object c) ''Warning'' ''ErrSync'' message [AErr e]) (\<lambda>_. ret (Some e, c))
       | None \<Rightarrow> k)"

definition cass_act :: "env \<Rightarrow> CassandraCluster \<Rightarrow> go_error option prog" where
  "cass_act env c = andThen (lift (cass_NextAction c)) (\<lambda>a.
     case a of None \<Rightarrow> ret None | Some act \<Rightarrow> cass_Execute env c act)"

text \<open>
  \<open>NewCassandra\<close> builds the control whose first field syncs the nodes service and whose second
  syncs the seeds service.
\<close>

definition cass_Sync :: "env \<Rightarrow> CassandraCluster \<Rightarrow> (go_error option \<times> CassandraCluster) prog" where
  "cass_Sync env c0 =
     (let c = cass_syncPausedConditions (now env) c0
      in if Paused (cs_Config (cass_Spec c)) then ret (None, c)
         else
           cass_step c ''Error syncing service: %s'' (cass_service_Sync env NodesServiceForCluster c) (
           cass_step c ''Error syncing service: %s'' (cass_service_Sync env SeedsServiceForCluster c) (
           andThen (nodepool_updateStatus env c) (\<lambda>(err, c).
           cass_step c ''Error syncing node pools: %s'' (ret err) (
           cass_step c ''Error syncing service account: %s'' (cass_serviceaccount_Sync env c) (
           cass_step c ''Error syncing role: %s'' (cass_role_Sync env c) (
           cass_step c ''Error syncing role binding: %s'' (cass_rolebinding_Sync env c) (
           cass_step c ''Error syncing seed labels: %s'' (seedlabeller_Sync env c) (
           cass_step c ''Error syncing: %s'' (cass_act env c) (
           andThen (eventf (cass_object c) ''Normal'' ''SuccessSync'' ''Successfully synced CassandraCluster'' [])
             (\<lambda>_. ret (None, c))))))))))))"

definition cass_controller_sync :: "env \<Rightarrow> string \<Rightarrow> go_error option prog" where
  "cass_controller_sync env key =
     (case SplitMetaNamespaceKey key of
        Inl err \<Rightarrow> ret (Some err)
      | Inr (namespace, name) \<Rightarrow>
          andThen (reads (\<lambda>w. lister_get env ''cassandracluster'' cass_ObjectMeta (w_cassandraclusters w) namespace name))
            (\<lambda>got. case got of
               Inl err \<Rightarrow> if IsNotFound err then ret None else ret (Some err)
             | Inr cass \<Rightarrow>
                 andThen (cass_Sync env cass) (\<lambda>(syncErr, cass').
                 andThen (api env (UpdateCassandraStatus cass')) (\<lambda>updateErr.
                   ret (NewAggregate [syncErr, updateErr])))))"

end
