(* ===== verification/Cassandra_Correct.thy ===== *)
theory Cassandra_Correct
  imports Cassandra_Control
begin

text \<open>
  Properties of the Cassandra controller: which requests a synchronisation can send and when, that
  it sends at most one request for stateful sets, that it returns on defaulted clusters, what the
  reported status says, and how it behaves on paused clusters and on errors.
\<close>

section \<open>The objects depend on metadata and specification only\<close>

definition same_spec :: "CassandraCluster \<Rightarrow> CassandraCluster \<Rightarrow> bool" where
  "same_spec c d \<longleftrightarrow> cass_ObjectMeta c = cass_ObjectMeta d \<and> cass_Spec c = cass_Spec d"

lemma same_spec_simps [simp]:
  "same_spec c c" "same_spec (with_node_pools m c) c" "same_spec (cass_syncPausedConditions t c) c"
  by (simp_all add: same_spec_def with_node_pools_def cass_syncPausedConditions_def)

lemma same_spec_trans: "same_spec c d \<Longrightarrow> same_spec d e \<Longrightarrow> same_spec c e"
  by (simp add: same_spec_def)

lemma same_spec_names:
  assumes "same_spec c d"
  shows "cass_ResourceBaseName c = cass_ResourceBaseName d"
    and "cass_NewControllerRef c = cass_NewControllerRef d"
    and "cass_ClusterLabels c = cass_ClusterLabels d"
    and "cass_owned_meta c = cass_owned_meta d"
    and "cass_SelectorForCluster c = cass_SelectorForCluster d"
    and "cass_NodePoolResourceName c = cass_NodePoolResourceName d"
    and "cass_NodePoolLabels c = cass_NodePoolLabels d"
  using assms
  by (auto simp: same_spec_def cass_ResourceBaseName_def cass_NewControllerRef_def fun_eq_iff
      cass_ClusterLabels_def cass_owned_meta_def cass_SelectorForCluster_def
      cass_NodePoolResourceName_def cass_NodePoolLabels_def)

lemma same_spec_StatefulSet:
  assumes "same_spec c d"
  shows "StatefulSetForCluster c = StatefulSetForCluster d"
proof
  fix np
  have m: "cass_ObjectMeta c = cass_ObjectMeta d" "cass_Spec c = cass_Spec d"
    using assms by (simp_all add: same_spec_def)
  have "cass_PodTemplate c np = cass_PodTemplate d np"
    by (rule ext)
      (simp add: cass_PodTemplate_def cass_Container_def cass_Env_def cass_ServiceAccountName_def
        SeedsServiceName_def same_spec_names [OF assms] m)
  then show "StatefulSetForCluster c np = StatefulSetForCluster d np"
    by (simp add: StatefulSetForCluster_def same_spec_names [OF assms] m)
qed

lemma same_spec_objects:
  assumes "same_spec c d"
  shows "NodesServiceForCluster c = NodesServiceForCluster d"
    and "SeedsServiceForCluster c = SeedsServiceForCluster d"
    and "ServiceAccountForCluster c = ServiceAccountForCluster d"
    and "RoleForCluster c = RoleForCluster d"
    and "RoleBindingForCluster c = RoleBindingForCluster d"
  by (simp_all add: NodesServiceForCluster_def SeedsServiceForCluster_def Let_def
      SeedsServiceName_def ServiceAccountForCluster_def cass_ServiceAccountName_def RoleForCluster_def
      PilotRBACRoleName_def RoleBindingForCluster_def same_spec_names [OF assms])

section \<open>What a synchronisation may send\<close>

text \<open>
  The contract of the controller towards the API server, over the stateful sets in its cache: it
  creates the objects of the cluster as built from the specification, labels first pods of its stateful sets as seeds, and
  raises a node pool by one replica, only below the desired number and only when every existing
  replica is ready.
\<close>

definition scales_up :: "CassandraCluster \<Rightarrow> StatefulSet list \<Rightarrow> StatefulSet \<Rightarrow> bool" where
  "scales_up c sets new \<longleftrightarrow>
     (\<exists>np \<in> set (cs_NodePools (cass_Spec c)). \<exists>old \<in> set sets. \<exists>n target.
        ss_Name old = cass_NodePoolResourceName c np \<and> Namespace (ss_ObjectMeta old) = cass_Namespace c \<and>
        cnp_Replicas np = Some target \<and> ss_Replicas old = Some n \<and>
        sst_ReadyReplicas (ss_Status old) = n \<and> sint n < sint target \<and>
        new = set_replicas (n + 1) old)"

definition labelled_seed :: "Pod \<Rightarrow> bool" where
  "labelled_seed p \<longleftrightarrow> mlookup (Labels (pod_ObjectMeta p)) SeedLabelKey = Some SeedLabelValue"

definition labels_seed :: "CassandraCluster \<Rightarrow> StatefulSet list \<Rightarrow> Pod \<Rightarrow> bool" where
  "labels_seed c sets p \<longleftrightarrow> labelled_seed p \<and> Namespace (pod_ObjectMeta p) = cass_Namespace c \<and>
     (\<exists>ss \<in> set sets. IsControlledBy (ss_ObjectMeta ss) (cass_ObjectMeta c) \<and>
        Name (pod_ObjectMeta p) = ss_Name ss @ ''-'' @ show_int 0)"

fun cass_request_ok :: "CassandraCluster \<Rightarrow> StatefulSet list \<Rightarrow> request \<Rightarrow> bool" where
  "cass_request_ok c sets (CreateService s) \<longleftrightarrow>
     s = NodesServiceForCluster c \<or> s = SeedsServiceForCluster c"
| "cass_request_ok c sets (CreateServiceAccount a) \<longleftrightarrow> a = ServiceAccountForCluster c"
| "cass_request_ok c sets (CreateRole r) \<longleftrightarrow> r = RoleForCluster c"
| "cass_request_ok c sets (CreateRoleBinding b) \<longleftrightarrow> b = RoleBindingForCluster c"
| "cass_request_ok c sets (UpdatePod p) \<longleftrightarrow> labels_seed c sets p"
| "cass_request_ok c sets (CreateStatefulSet s) \<longleftrightarrow>
     (\<exists>np \<in> set (cs_NodePools (cass_Spec c)). StatefulSetForCluster c np = Return s)"
| "cass_request_ok c sets (UpdateStatefulSet s) \<longleftrightarrow> scales_up c sets s"
| "cass_request_ok c sets _ \<longleftrightarrow> False"

abbreviation sets_are :: "StatefulSet list \<Rightarrow> world \<Rightarrow> bool" where
  "sets_are sets \<equiv> (\<lambda>d. w_statefulsets d = sets)"

lemma cass_request_ok_cong:
  assumes "same_spec c d"
  shows "cass_request_ok c sets r = cass_request_ok d sets r"
proof -
  have m: "cass_ObjectMeta c = cass_ObjectMeta d" "cass_Spec c = cass_Spec d"
    using assms by (simp_all add: same_spec_def)
  show ?thesis
    by (cases r) (simp_all add: same_spec_objects [OF assms] same_spec_StatefulSet [OF assms]
        scales_up_def labels_seed_def same_spec_names [OF assms] m)
qed

lemma sends_cass_step [prog_intros]:
  "sends J P m \<Longrightarrow> sends J P k \<Longrightarrow> sends J P (cass_step c msg m k)"
  unfolding cass_step_def by (rule sends_seq) (auto split: option.split intro!: prog_intros)

lemma nodepool_updateStatus_Done:
  assumes "nodepool_updateStatus env c w = Done x w'"
  shows "w' = w" and "\<exists>m. snd x = with_node_pools m c"
  using assms by (auto simp: nodepool_updateStatus_def go_simps split: sum.splits)

lemma sends_nodepool_updateStatus [prog_intros]: "sends J P (nodepool_updateStatus env c)"
  unfolding nodepool_updateStatus_def by (rule sends_reads) (auto split: sum.split intro: prog_intros)

lemma sends_write_cached_pod:
  assumes "\<And>d ps. J (d\<lparr>w_pods := ps\<rparr>) = J d"
  shows "sends J P (write_cached_pod ns n ls)"
proof -
  have "caches_of (w\<lparr>w_pods := ps\<rparr>) = (caches_of w)\<lparr>w_pods := ps\<rparr>" for w ps
    by (simp add: caches_of_def)
  with assms show ?thesis by (simp add: sends_def write_cached_pod_def)
qed

lemma set_map_filter_Some: "set (List.map_filter f xs) = {y. \<exists>x \<in> set xs. f x = Some y}"
  by (induction xs) (auto simp: List.map_filter_simps split: option.splits)

lemma StatefulSetsForCluster_Inr:
  assumes "StatefulSetsForCluster env c w = Inr m"
  obtains sel sets where "cass_SelectorForCluster c = Inr sel"
    and "lister_list env ''statefulset'' ss_ObjectMeta (w_statefulsets w) (cass_Namespace c) sel = Inr sets"
    and "m = collect_owned (cass_ObjectMeta c) sets []"
proof (cases "cass_SelectorForCluster c")
  case (Inr sel)
  with assms that show ?thesis
    by (cases "lister_list env ''statefulset'' ss_ObjectMeta (w_statefulsets w) (cass_Namespace c) sel")
      (simp_all add: StatefulSetsForCluster_def)
qed (use assms in \<open>simp add: StatefulSetsForCluster_def\<close>)

lemma StatefulSetsForCluster_owned:
  assumes "StatefulSetsForCluster env c w = Inr m" and "ss \<in> set (range_map env m)"
  shows "ss \<in> set (w_statefulsets w)" and "IsControlledBy (ss_ObjectMeta ss) (cass_ObjectMeta c)"
proof -
  from assms(1) obtain sel sets where
    l: "lister_list env ''statefulset'' ss_ObjectMeta (w_statefulsets w) (cass_Namespace c) sel = Inr sets"
    and m: "m = collect_owned (cass_ObjectMeta c) sets []"
    by (rule StatefulSetsForCluster_Inr)
  from assms(2) obtain n where "(n, ss) \<in> set m"
    by (auto simp: range_map_def set_map_filter_Some dest: map_of_SomeD)
  from collect_owned_in [OF this [unfolded m]] have "ss \<in> set sets" "IsControlledBy (ss_ObjectMeta ss) (cass_ObjectMeta c)"
    by simp_all
  moreover have "set sets \<subseteq> set (w_statefulsets w)"
    using l by (auto simp: lister_list_def split: option.splits)
  ultimately show "ss \<in> set (w_statefulsets w)" "IsControlledBy (ss_ObjectMeta ss) (cass_ObjectMeta c)" by blast+
qed

lemma sends_labelSeedNodes:
  assumes "\<And>d ps. J (d\<lparr>w_pods := ps\<rparr>) = J d"
    and "\<And>p. labelled_seed p \<Longrightarrow> Namespace (pod_ObjectMeta p) = cass_Namespace d \<Longrightarrow>
      Name (pod_ObjectMeta p) = ss_Name ss @ ''-'' @ show_int 0 \<Longrightarrow> P (UpdatePod p)"
  shows "sends J P (labelSeedNodes env d ss)"
  unfolding labelSeedNodes_def Let_def
  by (rule sends_reads)
    (auto split: sum.split intro!: prog_intros assms(2) sends_write_cached_pod [OF assms(1)]
      simp: set_pod_labels_def labelled_seed_def dest: cached.get_sound)

lemma sends_each_error: "(\<And>x. x \<in> set xs \<Longrightarrow> sends J P (f x)) \<Longrightarrow> sends J P (each_error f xs)"
  by (induction xs) (auto intro: prog_intros)

lemma sends_seedlabeller:
  assumes pods: "\<And>d ps. J (d\<lparr>w_pods := ps\<rparr>) = J d"
    and ok: "\<And>w p. J w \<Longrightarrow> labels_seed d (w_statefulsets w) p \<Longrightarrow> P (UpdatePod p)"
  shows "sends J P (seedlabeller_Sync env d)"
  unfolding seedlabeller_Sync_def
proof (rule sends_reads)
  fix w
  assume J: "J (caches_of w)"
  have "sends J P (labelSeedNodes env d ss)"
    if "StatefulSetsForCluster env d w = Inr m" "ss \<in> set (range_map env m)" for m ss
    using StatefulSetsForCluster_owned [OF that] ok [OF J]
    by (intro sends_labelSeedNodes [OF pods]) (auto simp: labels_seed_def caches_of_def)
  then show "sends J P (case StatefulSetsForCluster env d w of Inl err \<Rightarrow> ret (Some err)
      | Inr m \<Rightarrow> each_error (labelSeedNodes env d) (range_map env m))"
    by (auto split: sum.split intro: prog_intros sends_each_error)
qed

lemma sends_own_seeds: "sends (sets_are sets) (cass_request_ok c sets) (seedlabeller_Sync env c)"
  by (rule sends_seedlabeller) auto

lemma first_unready_in:
  "first_unready st nps = Return (Some a) \<Longrightarrow> \<exists>np \<in> set nps. a = Cass_ScaleOut np \<and> cnp_Replicas np \<noteq> None"
  by (induction nps) (auto simp: bind_outcome_Return Let_def split: if_splits)

lemma cass_NextAction_in:
  assumes "cass_NextAction c = Return (Some a)"
  shows "\<exists>np \<in> set (cs_NodePools (cass_Spec c)). a = Cass_CreateNodePool np \<or> a = Cass_ScaleOut np"
  using assms first_unready_in
  by (fastforce simp: cass_NextAction_def Let_def split: option.splits dest: find_first_Some)

lemma lift_Done: "lift x w = Done y w' \<longleftrightarrow> x = Return y \<and> w' = w"
  by (cases x) auto

lemma sends_CreateNodePool:
  "np \<in> set (cs_NodePools (cass_Spec c)) \<Longrightarrow>
   sends J (cass_request_ok c sets) (cass_CreateNodePool_Execute env c np)"
  unfolding cass_CreateNodePool_Execute_def
  by (rule sends_andThen) (auto simp: lift_Done split: option.split intro!: prog_intros)

lemma sends_ScaleOut:
  assumes np: "np \<in> set (cs_NodePools (cass_Spec c))"
  shows "sends (sets_are sets) (cass_request_ok c sets) (ScaleOut_Execute env c np)"
  unfolding ScaleOut_Execute_def
proof (rule sends_andThen [OF sends_lift], goal_cases)
  case (1 w baseSet w')
  then have base: "ss_Name baseSet = cass_NodePoolResourceName c np"
    "Namespace (ss_ObjectMeta baseSet) = cass_Namespace c"
    by (auto simp: lift_Done dest: StatefulSetForCluster_meta)
  show ?case
  proof (rule sends_reads, goal_cases)
    case (1 v)
    let ?got = "lister_get env ''statefulset'' ss_ObjectMeta (w_statefulsets v)
      (Namespace (ss_ObjectMeta baseSet)) (ss_Name baseSet)"
    show ?case
    proof (cases ?got)
      case (Inr old)
      from cached.get_sound [OF Inr] 1 base
      have old: "old \<in> set sets" "ss_Name old = cass_NodePoolResourceName c np"
        "Namespace (ss_ObjectMeta old) = cass_Namespace c" by auto
      have "scales_up c sets (set_replicas (n + 1) old)"
        if "ss_Replicas old = Some n" "cnp_Replicas np = Some target" "n \<noteq> target" "\<not> sint target < sint n"
          "sst_ReadyReplicas (ss_Status old) = n" for n target
        unfolding scales_up_def using old np that sint_eq_iff32 [of n target]
        by (intro bexI [of _ np] bexI [of _ old] exI [of _ n] exI [of _ target]) auto
      with Inr show ?thesis
        by (auto simp: lift_Done split: option.split intro!: prog_intros
            sends_andThen [OF sends_lift])
    qed (auto intro: prog_intros)
  qed
qed

lemma sends_cass_act: "sends (sets_are sets) (cass_request_ok c sets) (cass_act env c)"
  unfolding cass_act_def
proof (rule sends_andThen [OF sends_lift], goal_cases)
  case (1 w a w')
  then have "cass_NextAction c = Return a" by (simp add: lift_Done)
  then show ?case
    using cass_NextAction_in [of c] sends_CreateNodePool [of _ c] sends_ScaleOut [of _ c]
    by (cases a) (fastforce intro: prog_intros)+
qed

lemma sends_cass_Sync: "sends (sets_are sets) (cass_request_ok c sets) (cass_Sync env c)"
proof -
  let ?ok = "cass_request_ok c sets"
  have okc: "cass_request_ok d sets = ?ok" if "same_spec d c" for d
    using cass_request_ok_cong [OF that] by (rule ext)
  have svc: "sends (sets_are sets) ?ok (cass_service_Sync env NodesServiceForCluster d)"
    "sends (sets_are sets) ?ok (cass_service_Sync env SeedsServiceForCluster d)"
    "sends (sets_are sets) ?ok (cass_serviceaccount_Sync env d)"
    "sends (sets_are sets) ?ok (cass_role_Sync env d)"
    "sends (sets_are sets) ?ok (cass_rolebinding_Sync env d)"
    "sends (sets_are sets) ?ok (seedlabeller_Sync env d)"
    "sends (sets_are sets) ?ok (cass_act env d)" if "same_spec d c" for d
    using same_spec_objects [OF that] okc [OF that] sends_cass_act [of sets d env] sends_own_seeds [of sets d env]
    by (auto intro: sends_mono [OF cass_nodes_service.sync_sends]
        sends_mono [OF cass_seeds_service.sync_sends] sends_mono [OF cass_account.sync_sends]
        sends_mono [OF cass_role.sync_sends] sends_mono [OF cass_rolebinding.sync_sends])
  define c1 where "c1 = cass_syncPausedConditions (now env) c"
  have c1: "same_spec c1 c" by (simp add: c1_def)
  show ?thesis
    unfolding cass_Sync_def Let_def c1_def [symmetric]
  proof (split if_split, intro conjI impI, rule sends_ret, rule sends_cass_step [OF svc(1) [OF c1]],
      rule sends_cass_step [OF svc(2) [OF c1]], rule sends_andThen [OF sends_nodepool_updateStatus],
      goal_cases)
    case (1 w x w')
    then obtain m where "snd x = with_node_pools m c1"
      using nodepool_updateStatus_Done(2) by blast
    then have "same_spec (snd x) c" using c1 same_spec_trans [of "snd x" c1 c] by simp
    then show ?case by (cases x) (auto intro!: prog_intros svc)
  qed
qed

section \<open>One request for stateful sets at a time\<close>

fun is_statefulset_request :: "request \<Rightarrow> bool" where
  "is_statefulset_request (CreateStatefulSet s) = True"
| "is_statefulset_request (UpdateStatefulSet s) = True"
| "is_statefulset_request (DeleteStatefulSet ns n) = True"
| "is_statefulset_request _ = False"

abbreviation quiet :: "'a prog \<Rightarrow> bool" where
  "quiet m \<equiv> sends (\<lambda>_. True) (\<lambda>r. \<not> is_statefulset_request r) m"

lemma quiet_controls:
  "quiet (cass_service_Sync env NodesServiceForCluster c)"
  "quiet (cass_service_Sync env SeedsServiceForCluster c)"
  "quiet (cass_serviceaccount_Sync env c)" "quiet (cass_role_Sync env c)"
  "quiet (cass_rolebinding_Sync env c)" "quiet (seedlabeller_Sync env c)"
  by (auto intro: sends_seedlabeller sends_mono [OF cass_nodes_service.sync_sends]
      sends_mono [OF cass_seeds_service.sync_sends] sends_mono [OF cass_account.sync_sends]
      sends_mono [OF cass_role.sync_sends] sends_mono [OF cass_rolebinding.sync_sends])

lemma at_most_step:
  assumes "quiet m" and "at_most is_statefulset_request n k"
  shows "at_most is_statefulset_request n (cass_step c msg m k)"
  unfolding cass_step_def
  by (rule at_most_before) (auto split: option.split intro: assms count_intros)

lemma at_most_act: "at_most is_statefulset_request (Suc 0) (cass_act env c)"
proof -
  have "at_most is_statefulset_request (Suc 0) (cass_Execute env c a)" for a
    by (cases a) (auto simp: cass_CreateNodePool_Execute_def ScaleOut_Execute_def
        split: sum.split option.split intro!: count_intros)
  then show ?thesis unfolding cass_act_def by (auto split: option.split intro!: count_intros)
qed

lemma at_most_last_step:
  assumes "at_most is_statefulset_request n m" and "quiet k"
  shows "at_most is_statefulset_request n (cass_step c msg m k)"
  unfolding cass_step_def
  by (rule at_most_andThen [where n' = 0, simplified])
    (auto split: option.split intro: assms count_intros at_most_sends)

lemma at_most_cass_Sync: "at_most is_statefulset_request (Suc 0) (cass_Sync env c)"
proof -
  have tail: "at_most is_statefulset_request (Suc 0)
     (cass_step d m1 (ret err) (cass_step d m2 (cass_serviceaccount_Sync env d)
       (cass_step d m3 (cass_role_Sync env d) (cass_step d m4 (cass_rolebinding_Sync env d)
         (cass_step d m5 (seedlabeller_Sync env d) (cass_step d m6 (cass_act env d)
           (andThen (eventf ob ty re ms as) (\<lambda>_. ret (None, d)))))))))"
    for d err m1 m2 m3 m4 m5 m6 ob ty re ms as
    by (intro at_most_step quiet_controls at_most_last_step at_most_act prog_intros)
  show ?thesis
    unfolding cass_Sync_def Let_def
    by (auto intro!: count_intros at_most_step quiet_controls tail
        at_most_before [OF sends_nodepool_updateStatus])
qed

section \<open>Returning\<close>

definition replicas_known :: "world \<Rightarrow> bool" where
  "replicas_known w \<longleftrightarrow> list_all (\<lambda>s. ss_Replicas s \<noteq> None) (w_statefulsets w)"

lemma replicas_known_caches [simp]: "replicas_known (caches_of w) = replicas_known w"
  by (simp add: replicas_known_def)

lemma known_replicas:
  assumes "lister_get env k ss_ObjectMeta (w_statefulsets v) ns n = Inr s" and "replicas_known v"
  shows "\<exists>n. ss_Replicas s = Some n"
  using cached.get_sound [OF assms(1)] assms(2) by (auto simp: replicas_known_def list_all_iff)

lemma returns_cass_step [return_intros]:
  "returns J m \<Longrightarrow> returns J k \<Longrightarrow> returns J (cass_step c msg m k)"
  unfolding cass_step_def by (rule returns_seq) (auto split: option.split intro!: return_intros)

lemma returns_controls [return_intros]:
  "returns J (cass_service_Sync env f c)" "returns J (cass_serviceaccount_Sync env c)"
  "returns J (cass_role_Sync env c)" "returns J (cass_rolebinding_Sync env c)"
  "returns J (nodepool_updateStatus env c)"
  unfolding cass_service_Sync_def cass_serviceaccount_Sync_def cass_role_Sync_def
    cass_rolebinding_Sync_def nodepool_updateStatus_def Let_def
  by (rule returns_reads, auto split: sum.split intro!: return_intros)+

lemma returns_labelSeedNodes:
  assumes "\<And>d ps. J (d\<lparr>w_pods := ps\<rparr>) = J d"
  shows "returns J (labelSeedNodes env c ss)"
proof -
  have "returns J (write_cached_pod ns n ls)" for ns n ls
  proof -
    have "caches_of (w\<lparr>w_pods := ps\<rparr>) = (caches_of w)\<lparr>w_pods := ps\<rparr>" for w ps
      by (simp add: caches_of_def)
    with assms show ?thesis by (simp add: returns_def write_cached_pod_def)
  qed
  then show ?thesis
    unfolding labelSeedNodes_def Let_def
    by (intro returns_reads) (auto split: sum.split intro!: return_intros)
qed

lemma returns_seedlabeller:
  assumes "\<And>d ps. J (d\<lparr>w_pods := ps\<rparr>) = J d"
  shows "returns J (seedlabeller_Sync env c)"
proof -
  have "returns J (each_error (labelSeedNodes env c) xs)" for xs
    by (induction xs) (auto intro!: return_intros returns_labelSeedNodes assms)
  then show ?thesis
    unfolding seedlabeller_Sync_def
    by (intro returns_reads) (auto split: sum.split intro!: return_intros)
qed

definition image_known :: "CassandraClusterSpec \<Rightarrow> bool" where
  "image_known spec \<longleftrightarrow> cs_Image spec \<noteq> None \<or> Semver (cs_Version spec) \<noteq> None"

lemma StatefulSetForCluster_Return: "image_known (cass_Spec c) \<Longrightarrow> StatefulSetForCluster c np \<noteq> Panic"
  by (auto simp: StatefulSetForCluster_def cassImageToUse_def defaultCassandraImageForVersion_def
      image_known_def Let_def split: option.split)

lemma first_unready_Return: "list_all (\<lambda>np. cnp_Replicas np \<noteq> None) nps \<Longrightarrow> first_unready st nps \<noteq> Panic"
  by (induction nps) (auto simp: Let_def split: if_splits)

lemma returns_cass_act:
  assumes "image_known (cass_Spec c)" and reps: "list_all (\<lambda>np. cnp_Replicas np \<noteq> None) (cs_NodePools (cass_Spec c))"
  shows "returns replicas_known (cass_act env c)"
  unfolding cass_act_def
proof (rule returns_andThen, goal_cases)
  case 1
  show ?case using reps first_unready_Return
    by (auto simp: cass_NextAction_def Let_def split: option.split intro!: return_intros)
next
  case (2 w a w')
  show ?case
  proof (cases a)
    case (Some act)
    with 2 have a: "cass_NextAction c = Return (Some act)" by (simp add: lift_Done)
    from cass_NextAction_in [OF a] obtain np where np: "np \<in> set (cs_NodePools (cass_Spec c))"
      and act: "act = Cass_CreateNodePool np \<or> act = Cass_ScaleOut np" by blast
    have "cnp_Replicas np \<noteq> None" using np reps by (auto simp: list_all_iff)
    then show ?thesis
      using act Some StatefulSetForCluster_Return [OF assms(1)]
      by (auto simp: cass_CreateNodePool_Execute_def ScaleOut_Execute_def
          split: sum.split option.split intro!: return_intros returns_reads dest!: known_replicas)
  qed (auto intro: return_intros)
qed

lemma returns_cass_Sync:
  assumes "image_known (cass_Spec c)" and "list_all (\<lambda>np. cnp_Replicas np \<noteq> None) (cs_NodePools (cass_Spec c))"
  shows "returns replicas_known (cass_Sync env c)"
proof -
  have pods: "\<And>d ps. replicas_known (d\<lparr>w_pods := ps\<rparr>) = replicas_known d"
    by (simp add: replicas_known_def)
  define c1 where "c1 = cass_syncPausedConditions (now env) c"
  show ?thesis
    unfolding cass_Sync_def Let_def c1_def [symmetric]
  proof (split if_split, intro conjI impI, rule returns_ret, rule returns_cass_step [OF returns_controls(1)],
      rule returns_cass_step [OF returns_controls(1)], rule returns_andThen [OF returns_controls(5)], goal_cases)
    case (1 w x w')
    then obtain m where "snd x = with_node_pools m c1"
      using nodepool_updateStatus_Done(2) by blast
    then have "cass_Spec (snd x) = cass_Spec c"
      by (simp add: c1_def with_node_pools_def cass_syncPausedConditions_def)
    with assms have "returns replicas_known (cass_act env (snd x))" by (intro returns_cass_act) simp_all
    then show ?case by (cases x) (auto intro!: return_intros returns_seedlabeller pods)
  qed
qed

section \<open>The reported node pool status\<close>

lemma range_map_set:
  assumes "iterates_keys env" and "distinct (map fst m)"
  shows "set (range_map env m) = snd ` set m"
proof -
  have keys: "set (key_order env (map fst m)) = fst ` set m"
    using assms by (simp add: iterates_keys_def)
  have "set (range_map env m) = {v. \<exists>k \<in> fst ` set m. map_of m k = Some v}"
    by (simp add: range_map_def set_map_filter_Some keys)
  also have "\<dots> = {v. \<exists>k. (k, v) \<in> set m}"
    using map_of_eq_Some_iff [OF assms(2)] by force
  also have "\<dots> = snd ` set m" by force
  finally show ?thesis .
qed

definition pool_label :: "StatefulSet \<Rightarrow> string" where
  "pool_label ss = mget (Labels (ss_ObjectMeta ss)) CassandraNodePoolNameLabel"

lemma node_pool_status_of_snoc:
  "node_pool_status_of (xs @ [ss]) = (node_pool_status_of xs)
     (pool_label ss \<mapsto> \<lparr>cns_ReadyReplicas = sst_ReadyReplicas (ss_Status ss)\<rparr>)"
  by (simp add: node_pool_status_of_def pool_label_def)

lemma node_pool_status_of_Nil: "node_pool_status_of [] = Map.empty"
  by (simp add: node_pool_status_of_def)

lemma node_pool_status_of_dom: "node_pool_status_of sets n = None \<longleftrightarrow> (\<forall>ss \<in> set sets. pool_label ss \<noteq> n)"
  by (induction sets rule: rev_induct) (auto simp: node_pool_status_of_snoc node_pool_status_of_Nil)

lemma node_pool_status_of_Some:
  "node_pool_status_of sets n = Some s \<Longrightarrow>
   \<exists>ss \<in> set sets. pool_label ss = n \<and> cns_ReadyReplicas s = sst_ReadyReplicas (ss_Status ss)"
proof (induction sets rule: rev_induct)
  case Nil
  then show ?case by (simp add: node_pool_status_of_def)
next
  case (snoc ss sets)
  then show ?case by (cases "pool_label ss = n") (auto simp: node_pool_status_of_snoc)
qed

definition owned_set :: "CassandraCluster \<Rightarrow> StatefulSet \<Rightarrow> bool" where
  "owned_set c ss \<longleftrightarrow> Namespace (ss_ObjectMeta ss) = cass_Namespace c \<and>
     mlookup (Labels (ss_ObjectMeta ss)) CassandraClusterNameLabel = Some (cass_Name c) \<and>
     IsControlledBy (ss_ObjectMeta ss) (cass_ObjectMeta c)"

definition unique_sets :: "StatefulSet list \<Rightarrow> bool" where
  "unique_sets sets \<longleftrightarrow> distinct (map (\<lambda>s. (Namespace (ss_ObjectMeta s), ss_Name s)) sets)"

lemma cass_SelectorForCluster_Inr:
  "cass_SelectorForCluster c = Inr sel \<Longrightarrow>
   selector_Matches sel ls \<longleftrightarrow> mlookup ls CassandraClusterNameLabel = Some (cass_Name c)"
  by (auto simp: cass_SelectorForCluster_def NewRequirement_def split: if_splits)

lemma collect_owned_values:
  assumes inj: "inj_on (\<lambda>s. Name (ss_ObjectMeta s)) (set sets)"
  shows "snd ` set (collect_owned owner sets []) = {s \<in> set sets. IsControlledBy (ss_ObjectMeta s) owner}"
    (is "snd ` set ?m = ?R")
proof
  show "snd ` set ?m \<subseteq> ?R"
  proof
    fix s
    assume "s \<in> snd ` set ?m"
    then obtain n where "(n, s) \<in> set ?m" by force
    from collect_owned_in [OF this] show "s \<in> ?R" by simp
  qed
  show "?R \<subseteq> snd ` set ?m"
  proof
    fix s
    assume s: "s \<in> ?R"
    then have "ss_Name s \<in> fst ` set ?m" unfolding collect_owned_keys by blast
    then obtain t where t: "(ss_Name s, t) \<in> set ?m" by force
    from collect_owned_in [OF t] have "t \<in> set sets" "ss_Name t = ss_Name s" by simp_all
    with s inj have "t = s" by (simp add: inj_on_def)
    with t show "s \<in> snd ` set ?m" by force
  qed
qed

lemma StatefulSetsForCluster_sets:
  assumes m: "StatefulSetsForCluster env c w = Inr m" and ns: "cass_Namespace c \<noteq> ''''"
    and uniq: "unique_sets (w_statefulsets w)"
  shows "distinct (map fst m)" and "snd ` set m = {ss \<in> set (w_statefulsets w). owned_set c ss}"
proof -
  from m obtain sel sets where sel: "cass_SelectorForCluster c = Inr sel"
    and l: "lister_list env ''statefulset'' ss_ObjectMeta (w_statefulsets w) (cass_Namespace c) sel = Inr sets"
    and col: "m = collect_owned (cass_ObjectMeta c) sets []"
    by (rule StatefulSetsForCluster_Inr)
  show "distinct (map fst m)" unfolding col by (rule collect_owned_distinct) simp
  have sets: "set sets = {ss \<in> set (w_statefulsets w). Namespace (ss_ObjectMeta ss) = cass_Namespace c \<and>
      mlookup (Labels (ss_ObjectMeta ss)) CassandraClusterNameLabel = Some (cass_Name c)}"
    unfolding cached.list_sound [OF l ns] cass_SelectorForCluster_Inr [OF sel] by (rule refl)
  have "inj_on (\<lambda>s. (Namespace (ss_ObjectMeta s), ss_Name s)) (set (w_statefulsets w))"
    using uniq by (simp add: unique_sets_def distinct_map)
  then have "inj_on (\<lambda>s. ss_Name s) (set sets)"
    unfolding sets inj_on_def by simp
  from collect_owned_values [OF this] show "snd ` set m = {ss \<in> set (w_statefulsets w). owned_set c ss}"
    unfolding col sets owned_set_def by blast
qed

lemma find_update_first:
  assumes "find_first P xs = Some x" and "P (f x)"
  shows "find_first P (update_first P f xs) = Some (f x)"
  using assms by (induction xs) (auto split: if_splits)

lemma first_unready_None:
  "first_unready st nps = Return None \<longleftrightarrow>
     (\<forall>np \<in> set nps. \<exists>n. cnp_Replicas np = Some n \<and>
        sint n \<le> sint (case mlookup st (cnp_Name np) of None \<Rightarrow> 0 | Some s \<Rightarrow> cns_ReadyReplicas s))"
  by (induction nps) (auto simp: bind_outcome_Return Let_def not_less split: if_splits)

lemma nodepool_updateStatus_long_name:
  assumes "\<not> IsValidLabelValue (cass_Name c)"
  shows "\<exists>e. nodepool_updateStatus env c w = Done (Some e, with_node_pools Map.empty c) w"
  using assms
  by (simp add: nodepool_updateStatus_def go_simps StatefulSetsForCluster_def cass_SelectorForCluster_def
      NewRequirement_def label_keys_qualified)

lemma cass_step_Done:
  assumes "cass_step d msg m k w = Done x w'"
  obtains (failed) e w1 where "m w = Done (Some e) w1" "x = (Some e, d)"
    | (passed) w1 where "m w = Done None w1" "k w1 = Done x w'"
proof (cases "m w")
  case (Panicked w1)
  with assms show ?thesis by (simp add: cass_step_def andThen_def)
next
  case (Looping w1)
  with assms show ?thesis by (simp add: cass_step_def andThen_def)
next
  case (Done err w1)
  with assms failed passed show ?thesis
    by (cases err) (auto simp: cass_step_def andThen_def eventf_def)
qed

section \<open>Sample objects\<close>

text \<open>A small cluster, its caches and a server that accepts everything, for the witnesses.\<close>

definition ok_env :: env where
  "ok_env = \<lparr>lister_fault = (\<lambda>_ _ _. None), list_fault = (\<lambda>_ _. None), respond = (\<lambda>_ _. None),
     key_order = (\<lambda>ks. ks), now = 7\<rparr>"

definition empty_world :: world where
  "empty_world = \<lparr>w_statefulsets = [], w_services = [], w_serviceaccounts = [], w_roles = [],
     w_rolebindings = [], w_configmaps = [], w_pods = [], w_pilots = [], w_cassandraclusters = [],
     w_elasticsearchclusters = [], requests = [], events = []\<rparr>"

definition sample_pool :: "string \<Rightarrow> int32 option \<Rightarrow> CassandraNodePool" where
  "sample_pool n r = \<lparr>cnp_Name = n, cnp_Replicas = r, cnp_Persistence = None, cnp_NodeSelector = None,
     cnp_Rack = None, cnp_Datacenter = None, cnp_Resources = \<lparr>rr_Limits = None, rr_Requests = None\<rparr>,
     cnp_SchedulerName = ''''\<rparr>"

definition sample_config :: "bool \<Rightarrow> NavigatorClusterConfig" where
  "sample_config p = \<lparr>PilotImage = \<lparr>img_Repository = ''quay.io/pilot'', img_Tag = ''v1'', img_PullPolicy = ''''\<rparr>,
     SecurityContextOf = \<lparr>nsc_RunAsUser = Some 1000\<rparr>, Paused = p\<rparr>"

definition sample_version :: Version where
  "sample_version = \<lparr>versionString = ''3.11'', Semver = Some \<lparr>hc_metadata = '''', hc_pre = '''',
     hc_segments = [3, 11, 0], hc_si = 2\<rparr>\<rparr>"

definition sample_cluster :: "string \<Rightarrow> bool \<Rightarrow> CassandraNodePool list \<Rightarrow> CassandraCluster" where
  "sample_cluster n p pools =
     \<lparr>cass_TypeMeta = empty_type, cass_ObjectMeta = empty_meta\<lparr>Name := n, Namespace := ''ns'', UID := ''u1''\<rparr>,
      cass_Spec = \<lparr>cs_Config = sample_config p, cs_NodePools = pools, cs_Image = None,
                   cs_Version = sample_version\<rparr>,
      cass_Status = \<lparr>cst_Conditions = [], cst_NodePools = None\<rparr>\<rparr>"

definition sample_pod :: "string \<Rightarrow> smap \<Rightarrow> Pod" where
  "sample_pod n ls = \<lparr>pod_ObjectMeta = empty_meta\<lparr>Name := n, Namespace := ''ns'', Labels := ls\<rparr>,
     pod_Spec = \<lparr>ps_TerminationGracePeriodSeconds = None, ps_ServiceAccountName = '''', ps_NodeSelector = None,
       ps_SchedulerName = '''', ps_FSGroup = None, ps_Volumes = [], ps_InitContainers = [], ps_Containers = []\<rparr>\<rparr>"

definition sample_set :: "CassandraCluster \<Rightarrow> CassandraNodePool \<Rightarrow> int32 \<Rightarrow> int32 \<Rightarrow> StatefulSet" where
  "sample_set c np n ready =
     (case StatefulSetForCluster c np of
        Return s \<Rightarrow> (set_replicas n s)\<lparr>ss_Status := \<lparr>sst_ReadyReplicas = ready, sst_CurrentReplicas = n,
                                          sst_UpdatedReplicas = n\<rparr>\<rparr>
      | Panic \<Rightarrow> undefined)"

definition sample_x :: CassandraCluster where
  "sample_x = sample_cluster ''x'' False [sample_pool ''a'' (Some 2)]"

definition sample_x_set :: StatefulSet where
  "sample_x_set = sample_set sample_x (sample_pool ''a'' (Some 2)) 1 1"

definition sample_x_world :: world where
  "sample_x_world = empty_world\<lparr>w_statefulsets := [sample_x_set]\<rparr>"

lemma sample_x_facts:
  "owned_set sample_x sample_x_set" "pool_label sample_x_set = ''a''" "cass_Namespace sample_x = ''ns''"
  "cass_SelectorForCluster sample_x = Inr [Equals CassandraClusterNameLabel ''x'']"
  "ss_Name sample_x_set = ''cass-x-a''" "Namespace (ss_ObjectMeta sample_x_set) = ''ns''"
  "ss_Replicas sample_x_set = Some 1" "sst_ReadyReplicas (ss_Status sample_x_set) = 1"
  by code_simp+

lemma sample_x_world_sets [simp]: "w_statefulsets sample_x_world = [sample_x_set]"
  by (simp add: sample_x_world_def)

lemma ok_env_iterates: "iterates_keys ok_env"
  by (simp add: iterates_keys_def ok_env_def)

section \<open>Properties\<close>

text \<open>
  C1: every request a synchronisation of a CassandraCluster sends is one the controller's contract
  allows: it creates the services, account, role, binding and stateful sets built from the
  specification, marks the first pod of a stateful set it controls as a seed, or raises a pool's stateful set by exactly one replica while
  it is below the desired number and all its replicas are ready. It never deletes, never scales
  down and never touches another object, even when it panics or the server answers with errors.
\<close>

theorem cass_sync_requests:
  "\<exists>rs. requests (final (cass_Sync env c w)) = requests w @ rs \<and>
        list_all (cass_request_ok c (w_statefulsets w)) rs"
  using sends_cass_Sync [of "w_statefulsets w" c env] by (rule sendsD [where w = w]) auto

text \<open>
  C6: one synchronisation sends at most one request for stateful sets, so node pools are created
  and scaled one step at a time across the whole cluster.
\<close>

theorem cass_sync_one_statefulset_request:
  "\<exists>rs. requests (final (cass_Sync env c w)) = requests w @ rs \<and>
        length (filter is_statefulset_request rs) \<le> 1"
  using at_most_cass_Sync [of env c] by (simp add: at_most_def)

text \<open>
  C14: on a defaulted cluster whose image or version is known, and with replica counts present on
  the cached stateful sets, a synchronisation returns: no nil replica count is dereferenced.
\<close>

theorem cass_sync_returns:
  assumes "cs_Image (cass_Spec c) \<noteq> None \<or> Semver (cs_Version (cass_Spec c)) \<noteq> None"
    and "list_all (\<lambda>s. ss_Replicas s \<noteq> None) (w_statefulsets w)"
  shows "\<exists>err c' w'. cass_Sync env (SetObjectDefaults_CassandraCluster c) w = Done (err, c') w'"
proof -
  let ?d = "SetObjectDefaults_CassandraCluster c"
  have "image_known (cass_Spec ?d)"
    using assms(1) by (auto simp: image_known_def SetObjectDefaults_CassandraCluster_def)
  moreover have "list_all (\<lambda>np. cnp_Replicas np \<noteq> None) (cs_NodePools (cass_Spec ?d))"
    by (simp add: SetObjectDefaults_CassandraCluster_def list_all_iff SetDefaults_Cassandra_fields)
  ultimately have "returns replicas_known (cass_Sync env ?d)" by (rule returns_cass_Sync)
  moreover have "replicas_known (caches_of w)" using assms(2) by (simp add: replicas_known_def)
  ultimately show ?thesis unfolding returns_def by (metis surj_pair)
qed

theorem cass_sync_returns_witness:
  "\<exists>err c' w'. cass_Sync ok_env (SetObjectDefaults_CassandraCluster
     (sample_cluster ''x'' False [sample_pool ''a'' None])) empty_world = Done (err, c') w'"
  by (rule cass_sync_returns) (simp_all add: sample_cluster_def sample_version_def empty_world_def)

text \<open>
  C16: after a successful update of the status, a node pool has an entry exactly if the cache holds
  a stateful set of the cluster's namespace that carries the cluster's label and is controlled by
  the cluster, and the entry's ready count is the one of such a set.
\<close>

theorem cass_status_reports_owned_sets:
  assumes "nodepool_updateStatus env c w = Done (None, c') w'" and "iterates_keys env"
    and "cass_Namespace c \<noteq> ''''" and "unique_sets (w_statefulsets w)"
  shows "(mlookup (cst_NodePools (cass_Status c')) n \<noteq> None \<longleftrightarrow>
           (\<exists>ss \<in> set (w_statefulsets w). owned_set c ss \<and> pool_label ss = n)) \<and>
         (\<forall>s. mlookup (cst_NodePools (cass_Status c')) n = Some s \<longrightarrow>
           (\<exists>ss \<in> set (w_statefulsets w). owned_set c ss \<and> pool_label ss = n \<and>
              cns_ReadyReplicas s = sst_ReadyReplicas (ss_Status ss)))"
proof -
  from assms(1) obtain m where m: "StatefulSetsForCluster env c w = Inr m"
    and c': "c' = with_node_pools (node_pool_status_of (range_map env m)) c"
    by (cases "StatefulSetsForCluster env c w") (auto simp: nodepool_updateStatus_def go_simps)
  have "set (range_map env m) = {ss \<in> set (w_statefulsets w). owned_set c ss}"
    using range_map_set [OF assms(2) StatefulSetsForCluster_sets(1) [OF m assms(3,4)]]
      StatefulSetsForCluster_sets(2) [OF m assms(3,4)] by simp
  then show ?thesis
    using node_pool_status_of_dom [of "range_map env m" n] node_pool_status_of_Some [of "range_map env m" n]
    by (auto simp: c' with_node_pools_def)
qed

theorem cass_status_reports_owned_sets_witness:
  "\<exists>c' w'. nodepool_updateStatus ok_env sample_x sample_x_world = Done (None, c') w' \<and>
     mlookup (cst_NodePools (cass_Status c')) ''a'' \<noteq> None"
proof -
  obtain c' where r: "nodepool_updateStatus ok_env sample_x sample_x_world = Done (None, c') sample_x_world"
    by (simp add: nodepool_updateStatus_def go_simps StatefulSetsForCluster_def sample_x_facts
        lister_list_def ok_env_def)
  have "unique_sets (w_statefulsets sample_x_world)" by (simp add: unique_sets_def)
  with cass_status_reports_owned_sets [OF r ok_env_iterates, of "''a''"] r sample_x_facts
  show ?thesis by auto
qed

text \<open>
  C32: synchronising a paused cluster sends the status update and nothing else, leaves caches and
  events alone and keeps metadata and specification; if the cluster had no conditions or already
  had a Progressing condition, the reported one gives the pause as its reason.
\<close>

theorem cass_paused_sync:
  assumes "SplitMetaNamespaceKey key = Inr (ns, n)"
    and "lister_get env ''cassandracluster'' cass_ObjectMeta (w_cassandraclusters w) ns n = Inr c"
    and "Paused (cs_Config (cass_Spec c))"
  shows "\<exists>c' err. cass_controller_sync env key w =
           Done err (w\<lparr>requests := requests w @ [UpdateCassandraStatus c']\<rparr>) \<and> same_spec c' c \<and>
           (cst_Conditions (cass_Status c) = [] \<or>
              GetStatusCondition ClusterConditionProgressing (cst_Conditions (cass_Status c)) \<noteq> None \<longrightarrow>
            (\<exists>cond. GetStatusCondition ClusterConditionProgressing (cst_Conditions (cass_Status c')) = Some cond \<and>
               cc_Reason cond = PausedClusterReason))"
proof -
  let ?c' = "cass_syncPausedConditions (now env) c"
  let ?old = "GetStatusCondition ClusterConditionProgressing (cst_Conditions (cass_Status c))"
  have "cass_Sync env c w = Done (None, ?c') w"
    using assms(3) by (simp add: cass_Sync_def Let_def cass_syncPausedConditions_def)
  then have run: "cass_controller_sync env key w =
      Done (NewAggregate [None, respond env (requests w) (UpdateCassandraStatus ?c')])
        (w\<lparr>requests := requests w @ [UpdateCassandraStatus ?c']\<rparr>)"
    using assms(1,2) by (simp add: cass_controller_sync_def go_simps)
  have conds: "cst_Conditions (cass_Status ?c') =
      syncPausedConditions (now env) True (cst_Conditions (cass_Status c))"
    using assms(3) by (simp add: cass_syncPausedConditions_def)
  have "\<exists>cond. GetStatusCondition ClusterConditionProgressing (cst_Conditions (cass_Status ?c')) = Some cond \<and>
      cc_Reason cond = PausedClusterReason"
    if "cst_Conditions (cass_Status c) = [] \<or> ?old \<noteq> None"
  proof (cases ?old)
    case None
    with that show ?thesis unfolding conds
      by (simp add: syncPausedConditions_def GetStatusCondition_update_empty)
  next
    case (Some old)
    then show ?thesis unfolding conds
      by (simp add: syncPausedConditions_def Let_def GetStatusCondition_update_present [OF Some])
  qed
  with run show ?thesis by (intro exI [of _ ?c'] exI) auto
qed

theorem cass_paused_sync_witness:
  "\<exists>c' err. cass_controller_sync ok_env ''ns/x''
       (empty_world\<lparr>w_cassandraclusters := [sample_cluster ''x'' True []]\<rparr>) =
     Done err (empty_world\<lparr>w_cassandraclusters := [sample_cluster ''x'' True []],
                           requests := [UpdateCassandraStatus c']\<rparr>)"
proof -
  let ?w = "empty_world\<lparr>w_cassandraclusters := [sample_cluster ''x'' True []]\<rparr>"
  have "SplitMetaNamespaceKey ''ns/x'' = Inr (''ns'', ''x'')" by code_simp
  moreover have "lister_get ok_env ''cassandracluster'' cass_ObjectMeta (w_cassandraclusters ?w) ''ns'' ''x'' =
      Inr (sample_cluster ''x'' True [])"
    by (simp add: lister_get_def ok_env_def sample_cluster_def)
  moreover have "Paused (cs_Config (cass_Spec (sample_cluster ''x'' True [])))"
    by (simp add: sample_cluster_def sample_config_def)
  ultimately show ?thesis
    using cass_paused_sync [of "''ns/x''" "''ns''" "''x''" ok_env ?w "sample_cluster ''x'' True []"]
    by (auto simp: empty_world_def)
qed

text \<open>
  C17: nothing is left to do exactly if every node pool of the specification is reported in the
  status and has a replica count that its ready replicas reach.
\<close>

theorem cass_NextAction_done:
  "cass_NextAction c = Return None \<longleftrightarrow>
     (\<forall>np \<in> set (cs_NodePools (cass_Spec c)). \<exists>n s.
        cnp_Replicas np = Some n \<and> mlookup (cst_NodePools (cass_Status c)) (cnp_Name np) = Some s \<and>
        sint n \<le> sint (cns_ReadyReplicas s))"
  (is "?l \<longleftrightarrow> ?r")
proof
  assume ?l
  then have "find_first (\<lambda>np. mlookup (cst_NodePools (cass_Status c)) (cnp_Name np) = None)
      (cs_NodePools (cass_Spec c)) = None"
    and "first_unready (cst_NodePools (cass_Status c)) (cs_NodePools (cass_Spec c)) = Return None"
    by (auto simp: cass_NextAction_def Let_def split: option.splits)
  then show ?r by (fastforce simp: find_first_None first_unready_None)
next
  assume ?r
  then have "find_first (\<lambda>np. mlookup (cst_NodePools (cass_Status c)) (cnp_Name np) = None)
      (cs_NodePools (cass_Spec c)) = None"
    and "first_unready (cst_NodePools (cass_Status c)) (cs_NodePools (cass_Spec c)) = Return None"
    by (fastforce simp: find_first_None first_unready_None)+
  then show ?l by (simp add: cass_NextAction_def)
qed

theorem cass_NextAction_done_witness:
  "cass_NextAction (with_node_pools [''a'' \<mapsto> \<lparr>cns_ReadyReplicas = 2\<rparr>] sample_x) = Return None"
  using cass_NextAction_done [of "with_node_pools [''a'' \<mapsto> \<lparr>cns_ReadyReplicas = 2\<rparr>] sample_x"]
  by (simp add: with_node_pools_def sample_x_def sample_cluster_def sample_pool_def)

text \<open>
  C37: when the update that marks a pod as a seed fails, the label has already been written into the
  cached pod, so a second synchronisation from that cache sees a labelled pod and sends nothing:
  the label reaches the server only after the cache is refreshed.
\<close>

theorem cass_seed_label_not_retried:
  assumes "lister_get env ''pod'' pod_ObjectMeta (w_pods w) (cass_Namespace c) (ss_Name ss @ ''-0'') = Inr pod"
    and "Labels (pod_ObjectMeta pod) = Some ls" and "ls SeedLabelKey \<noteq> Some SeedLabelValue"
    and "respond env (requests w)
           (UpdatePod (set_pod_labels (Some (ls(SeedLabelKey \<mapsto> SeedLabelValue))) pod)) = Some e"
  shows "\<exists>w1. labelSeedNodes env c ss w = Done (Some e) w1 \<and> labelSeedNodes env c ss w1 = Done None w1"
proof -
  let ?n = "ss_Name ss @ ''-0''"
  let ?P = "\<lambda>p. Namespace (pod_ObjectMeta p) = cass_Namespace c \<and> Name (pod_ObjectMeta p) = ?n"
  let ?ls = "Some (ls(SeedLabelKey \<mapsto> SeedLabelValue))"
  let ?w = "w\<lparr>w_pods := update_first ?P (set_pod_labels ?ls) (w_pods w),
              requests := requests w @ [UpdatePod (set_pod_labels ?ls pod)]\<rparr>"
  have zero: "show_int 0 = ''0''" by (simp add: show_int_def show_nat_small digit_char_def)
  have nz: "mget (Some ls) SeedLabelKey \<noteq> SeedLabelValue"
    using assms(3) by (auto simp: SeedLabelValue_def split: option.splits)
  from assms(1) have f: "lister_fault env ''pod'' (cass_Namespace c) ?n = None"
    and pod: "find_first ?P (w_pods w) = Some pod"
    by (auto simp: lister_get_def split: option.splits)
  have "?P (set_pod_labels ?ls pod)" using find_first_Some [OF pod] by (simp add: set_pod_labels_def)
  then have pod': "find_first ?P (update_first ?P (set_pod_labels ?ls) (w_pods w)) =
      Some (set_pod_labels ?ls pod)" by (rule find_update_first [OF pod])
  have "labelSeedNodes env c ss w = Done (Some e) ?w"
    using assms nz by (simp add: labelSeedNodes_def Let_def go_simps zero write_cached_pod_def)
  moreover have "labelSeedNodes env c ss ?w = Done None ?w"
    using f pod' by (simp add: labelSeedNodes_def Let_def go_simps zero lister_get_def set_pod_labels_def)
  ultimately show ?thesis by blast
qed

theorem cass_seed_label_not_retried_witness:
  "\<exists>w1. labelSeedNodes (ok_env\<lparr>respond := \<lambda>_ _. Some (StatusError Conflict ''pod'' ''cass-x-a-0'')\<rparr>)
      sample_x sample_x_set (empty_world\<lparr>w_pods := [sample_pod ''cass-x-a-0'' (Some Map.empty)]\<rparr>) =
    Done (Some (StatusError Conflict ''pod'' ''cass-x-a-0'')) w1"
  using cass_seed_label_not_retried [of "ok_env\<lparr>respond := \<lambda>_ _. Some (StatusError Conflict ''pod'' ''cass-x-a-0'')\<rparr>"
      "empty_world\<lparr>w_pods := [sample_pod ''cass-x-a-0'' (Some Map.empty)]\<rparr>" sample_x sample_x_set
      "sample_pod ''cass-x-a-0'' (Some Map.empty)" Map.empty "StatusError Conflict ''pod'' ''cass-x-a-0''"]
  by (auto simp: lister_get_def ok_env_def sample_pod_def sample_x_facts)

text \<open>
  A cluster whose name is not a label value, such as a valid object name of more than 63
  characters, is never brought up: every synchronisation of it, unless paused, ends with an error
  and sends no request for a stateful set.
\<close>

theorem cass_long_name_never_syncs:
  assumes "\<not> IsValidLabelValue (cass_Name c)" and "\<not> Paused (cs_Config (cass_Spec c))"
  shows "\<exists>e c' w' rs. cass_Sync env c w = Done (Some e, c') w' \<and> requests w' = requests w @ rs \<and>
           list_all (\<lambda>r. \<not> is_statefulset_request r) rs"
proof -
  let ?c = "cass_syncPausedConditions (now env) c"
  let ?err = "\<lambda>m. returns (\<lambda>_. True) m \<and> quiet m \<and> (\<forall>w x w'. m w = Done x w' \<longrightarrow> fst x \<noteq> None)"
  have step: "?err (cass_step d msg m k)" if "returns (\<lambda>_. True) m" "quiet m" "?err k" for d msg m k
  proof (intro conjI allI impI)
    show "returns (\<lambda>_. True) (cass_step d msg m k)" using that by (intro returns_cass_step) auto
    show "quiet (cass_step d msg m k)" using that by (intro sends_cass_step) auto
    fix w x w'
    assume "cass_step d msg m k w = Done x w'"
    then show "fst x \<noteq> None"
    proof (cases rule: cass_step_Done)
      case (passed w1)
      then show ?thesis using that(3) by blast
    qed simp
  qed
  have name: "cass_Name ?c = cass_Name c" "cs_Config (cass_Spec ?c) = cs_Config (cass_Spec c)"
    by (simp_all add: cass_syncPausedConditions_def)
  have upd: "?err (andThen (nodepool_updateStatus env ?c)
      (\<lambda>(err, c). cass_step c ''Error syncing node pools: %s'' (ret err) (k c)))" for k
  proof -
    obtain e where e: "\<And>w. nodepool_updateStatus env ?c w = Done (Some e, with_node_pools Map.empty ?c) w"
      using nodepool_updateStatus_long_name [of ?c env] assms(1) name
      by (simp add: nodepool_updateStatus_def go_simps StatefulSetsForCluster_def
          cass_SelectorForCluster_def NewRequirement_def label_keys_qualified)
    show ?thesis
      by (auto simp: returns_def sends_def andThen_def e cass_step_def eventf_def)
  qed
  have err: "?err (cass_Sync env c)"
    unfolding cass_Sync_def Let_def name using assms(2)
    by (simp only: if_False) (intro step upd returns_controls quiet_controls)
  then obtain x w' where r: "cass_Sync env c w = Done x w'" unfolding returns_def by blast
  moreover from err r have "fst x \<noteq> None" by blast
  moreover obtain rs where "requests w' = requests w @ rs" "list_all (\<lambda>r. \<not> is_statefulset_request r) rs"
    using sendsD [of "\<lambda>_. True" _ "cass_Sync env c" w] err r by (metis final.simps(3))
  ultimately show ?thesis by (cases x) auto
qed

theorem cass_long_name_never_syncs_witness:
  "IsDNS1123Subdomain (replicate 64 (CHR ''a'')) \<and>
   (\<exists>e c' w'. cass_Sync ok_env (sample_cluster (replicate 64 (CHR ''a'')) False []) empty_world =
      Done (Some e, c') w')"
proof
  show "IsDNS1123Subdomain (replicate 64 (CHR ''a''))" by code_simp
  have "\<not> IsValidLabelValue (replicate 64 (CHR ''a''))" by code_simp
  then show "\<exists>e c' w'. cass_Sync ok_env (sample_cluster (replicate 64 (CHR ''a'')) False []) empty_world =
      Done (Some e, c') w'"
    using cass_long_name_never_syncs [of "sample_cluster (replicate 64 (CHR ''a'')) False []" ok_env empty_world]
    by (auto simp: sample_cluster_def sample_config_def)
qed

end
