(* ===== verification/Internal_API.thy ===== *)
theory Internal_API
  imports Navigator_Helpers
begin

text \<open>
  The internal API types (\<open>pkg/apis/navigator/types.go\<close>) and the generated conversions between them
  and the versioned types (\<open>v1alpha1/zz_generated.conversion.go\<close>). A conversion in the source that
  casts a slice, a map or a pointer with \<open>unsafe.Pointer\<close> keeps the bytes; since the two structs list
  the same fields in the same order, that is the conversion of every element, field by field. String
  types (roles, health, condition types and statuses) are shared, and \<open>PilotSpec\<close> has no fields.
  No conversion can fail, so the error results are left out. The conversion of an object sets every
  field of the object it fills but \<open>TypeMeta\<close>, which is its second argument; the items of a list are
  filled into new objects, whose \<open>TypeMeta\<close> is empty.
\<close>

section \<open>Casting maps\<close>

definition convert_map :: "('a \<Rightarrow> 'b) \<Rightarrow> 'a gomap \<Rightarrow> 'b gomap" where
  "convert_map f m = map_option (\<lambda>g k. map_option f (g k)) m"

section \<open>Filling lists\<close>

definition convert_list :: "('a \<Rightarrow> TypeMeta \<Rightarrow> 'b) \<Rightarrow> 'a object_list \<Rightarrow> TypeMeta \<Rightarrow> 'b object_list" where
  "convert_list f l t =
     \<lparr>list_TypeMeta = t, list_ListMeta = list_ListMeta l, list_Items = map_option (map (\<lambda>x. f x empty_type)) (list_Items l)\<rparr>"


section \<open>The internal types\<close>

record nImageSpec =
  nimg_Repository :: string
  nimg_Tag :: string
  nimg_PullPolicy :: string

record nNavigatorSecurityContext =
  nnsc_RunAsUser :: "int64 option"

record nNavigatorClusterConfig =
  nPilotImage :: nImageSpec
  nSecurityContextOf :: nNavigatorSecurityContext
  nPaused :: bool

record nPersistenceConfig =
  npc_Size :: Quantity
  npc_StorageClass :: "string option"

record nClusterCondition =
  ncc_Type :: string
  ncc_Status :: ConditionStatus
  ncc_LastTransitionTime :: nat
  ncc_Reason :: string
  ncc_Message :: string

record nCassandraClusterNodePool =
  ncnp_Name :: string
  ncnp_Replicas :: "int32 option"
  ncnp_Persistence :: "nPersistenceConfig option"
  ncnp_NodeSelector :: smap
  ncnp_Rack :: "string option"
  ncnp_Datacenter :: "string option"
  ncnp_Resources :: ResourceRequirements
  ncnp_SchedulerName :: string

record nCassandraClusterSpec =
  ncs_Config :: nNavigatorClusterConfig
  ncs_NodePools :: "nCassandraClusterNodePool list"
  ncs_Version :: Version
  ncs_Image :: "nImageSpec option"

record nCassandraClusterNodePoolStatus =
  ncns_ReadyReplicas :: int32

record nCassandraClusterStatus =
  ncst_Conditions :: "nClusterCondition list"
  ncst_NodePools :: "nCassandraClusterNodePoolStatus gomap"

record nCassandraCluster =
  ncass_TypeMeta :: TypeMeta
  ncass_ObjectMeta :: ObjectMeta
  ncass_Spec :: nCassandraClusterSpec
  ncass_Status :: nCassandraClusterStatus

record nElasticsearchClusterNodePool =
  nenp_Name :: string
  nenp_Replicas :: "int32 option"
  nenp_Roles :: "string list"
  nenp_NodeSelector :: smap
  nenp_Resources :: ResourceRequirements
  nenp_Persistence :: "nPersistenceConfig option"
  nenp_SchedulerName :: string

record nElasticsearchClusterSpec =
  nes_Config :: nNavigatorClusterConfig
  nes_Version :: semver
  nes_Image :: "nImageSpec option"
  nes_Plugins :: "string list"
  nes_NodePools :: "nElasticsearchClusterNodePool list"
  nes_MinimumMasters :: "int32 option"

record nElasticsearchClusterNodePoolStatus =
  nens_ReadyReplicas :: int32

record nElasticsearchClusterStatus =
  nest_Conditions :: "nClusterCondition list"
  nest_NodePools :: "nElasticsearchClusterNodePoolStatus gomap"
  nest_Health :: "ElasticsearchClusterHealth option"

record nElasticsearchCluster =
  nesc_TypeMeta :: TypeMeta
  nesc_ObjectMeta :: ObjectMeta
  nesc_Spec :: nElasticsearchClusterSpec
  nesc_Status :: nElasticsearchClusterStatus

record nPilotCondition =
  npcond_Type :: string
  npcond_Status :: ConditionStatus
  npcond_LastTransitionTime :: nat
  npcond_Reason :: string
  npcond_Message :: go_text

record nElasticsearchPilotStatus =
  neps_Documents :: "int64 option"
  neps_Version :: "semver option"

record nCassandraPilotStatus =
  ncps_Version :: "Version option"

record nPilotStatus =
  npst_Conditions :: "nPilotCondition list"
  npst_Elasticsearch :: "nElasticsearchPilotStatus option"
  npst_Cassandra :: "nCassandraPilotStatus option"

record nPilot =
  npilot_TypeMeta :: TypeMeta
  npilot_ObjectMeta :: ObjectMeta
  npilot_Status :: nPilotStatus

section \<open>Conversion functions\<close>

definition Convert_v1alpha1_ImageSpec_To_navigator_ImageSpec :: "ImageSpec \<Rightarrow> nImageSpec" where
  "Convert_v1alpha1_ImageSpec_To_navigator_ImageSpec x =
     \<lparr>nimg_Repository = img_Repository x,
      nimg_Tag = img_Tag x,
      nimg_PullPolicy = img_PullPolicy x\<rparr>"

definition Convert_navigator_ImageSpec_To_v1alpha1_ImageSpec :: "nImageSpec \<Rightarrow> ImageSpec" where
  "Convert_navigator_ImageSpec_To_v1alpha1_ImageSpec x =
     \<lparr>img_Repository = nimg_Repository x,
      img_Tag = nimg_Tag x,
      img_PullPolicy = nimg_PullPolicy x\<rparr>"

definition Convert_v1alpha1_NavigatorSecurityContext_To_navigator_NavigatorSecurityContext :: "NavigatorSecurityContext \<Rightarrow> nNavigatorSecurityContext" where
  "Convert_v1alpha1_NavigatorSecurityContext_To_navigator_NavigatorSecurityContext x =
     \<lparr>nnsc_RunAsUser = nsc_RunAsUser x\<rparr>"

definition Convert_navigator_NavigatorSecurityContext_To_v1alpha1_NavigatorSecurityContext :: "nNavigatorSecurityContext \<Rightarrow> NavigatorSecurityContext" where
  "Convert_navigator_NavigatorSecurityContext_To_v1alpha1_NavigatorSecurityContext x =
     \<lparr>nsc_RunAsUser = nnsc_RunAsUser x\<rparr>"

definition Convert_v1alpha1_NavigatorClusterConfig_To_navigator_NavigatorClusterConfig :: "NavigatorClusterConfig \<Rightarrow> nNavigatorClusterConfig" where
  "Convert_v1alpha1_NavigatorClusterConfig_To_navigator_NavigatorClusterConfig x =
     \<lparr>nPilotImage = Convert_v1alpha1_ImageSpec_To_navigator_ImageSpec (PilotImage x),
      nSecurityContextOf = Convert_v1alpha1_NavigatorSecurityContext_To_navigator_NavigatorSecurityContext (SecurityContextOf x),
      nPaused = Paused x\<rparr>"

definition Convert_navigator_NavigatorClusterConfig_To_v1alpha1_NavigatorClusterConfig :: "nNavigatorClusterConfig \<Rightarrow> NavigatorClusterConfig" where
  "Convert_navigator_NavigatorClusterConfig_To_v1alpha1_NavigatorClusterConfig x =
     \<lparr>PilotImage = Convert_navigator_ImageSpec_To_v1alpha1_ImageSpec (nPilotImage x),
      SecurityContextOf = Convert_navigator_NavigatorSecurityContext_To_v1alpha1_NavigatorSecurityContext (nSecurityContextOf x),
      Paused = nPaused x\<rparr>"

definition Convert_v1alpha1_PersistenceConfig_To_navigator_PersistenceConfig :: "PersistenceConfig \<Rightarrow> nPersistenceConfig" where
  "Convert_v1alpha1_PersistenceConfig_To_navigator_PersistenceConfig x =
     \<lparr>npc_Size = pc_Size x,
      npc_StorageClass = pc_StorageClass x\<rparr>"

definition Convert_navigator_PersistenceConfig_To_v1alpha1_PersistenceConfig :: "nPersistenceConfig \<Rightarrow> PersistenceConfig" where
  "Convert_navigator_PersistenceConfig_To_v1alpha1_PersistenceConfig x =
     \<lparr>pc_Size = npc_Size x,
      pc_StorageClass = npc_StorageClass x\<rparr>"

definition Convert_v1alpha1_ClusterCondition_To_navigator_ClusterCondition :: "ClusterCondition \<Rightarrow> nClusterCondition" where
  "Convert_v1alpha1_ClusterCondition_To_navigator_ClusterCondition x =
     \<lparr>ncc_Type = cc_Type x,
      ncc_Status = cc_Status x,
      ncc_LastTransitionTime = cc_LastTransitionTime x,
      ncc_Reason = cc_Reason x,
      ncc_Message = cc_Message x\<rparr>"

definition Convert_navigator_ClusterCondition_To_v1alpha1_ClusterCondition :: "nClusterCondition \<Rightarrow> ClusterCondition" where
  "Convert_navigator_ClusterCondition_To_v1alpha1_ClusterCondition x =
     \<lparr>cc_Type = ncc_Type x,
      cc_Status = ncc_Status x,
      cc_LastTransitionTime = ncc_LastTransitionTime x,
      cc_Reason = ncc_Reason x,
      cc_Message = ncc_Message x\<rparr>"

definition Convert_v1alpha1_CassandraClusterNodePool_To_navigator_CassandraClusterNodePool :: "CassandraNodePool \<Rightarrow> nCassandraClusterNodePool" where
  "Convert_v1alpha1_CassandraClusterNodePool_To_navigator_CassandraClusterNodePool x =
     \<lparr>ncnp_Name = cnp_Name x,
      ncnp_Replicas = cnp_Replicas x,
      ncnp_Persistence = map_option Convert_v1alpha1_PersistenceConfig_To_navigator_PersistenceConfig (cnp_Persistence x),
      ncnp_NodeSelector = cnp_NodeSelector x,
      ncnp_Rack = cnp_Rack x,
      ncnp_Datacenter = cnp_Datacenter x,
      ncnp_Resources = cnp_Resources x,
      ncnp_SchedulerName = cnp_SchedulerName x\<rparr>"

definition Convert_navigator_CassandraClusterNodePool_To_v1alpha1_CassandraClusterNodePool :: "nCassandraClusterNodePool \<Rightarrow> CassandraNodePool" where
  "Convert_navigator_CassandraClusterNodePool_To_v1alpha1_CassandraClusterNodePool x =
     \<lparr>cnp_Name = ncnp_Name x,
      cnp_Replicas = ncnp_Replicas x,
      cnp_Persistence = map_option Convert_navigator_PersistenceConfig_To_v1alpha1_PersistenceConfig (ncnp_Persistence x),
      cnp_NodeSelector = ncnp_NodeSelector x,
      cnp_Rack = ncnp_Rack x,
      cnp_Datacenter = ncnp_Datacenter x,
      cnp_Resources = ncnp_Resources x,
      cnp_SchedulerName = ncnp_SchedulerName x\<rparr>"

definition Convert_v1alpha1_CassandraClusterSpec_To_navigator_CassandraClusterSpec :: "CassandraClusterSpec \<Rightarrow> nCassandraClusterSpec" where
  "Convert_v1alpha1_CassandraClusterSpec_To_navigator_CassandraClusterSpec x =
     \<lparr>ncs_Config = Convert_v1alpha1_NavigatorClusterConfig_To_navigator_NavigatorClusterConfig (cs_Config x),
      ncs_NodePools = map Convert_v1alpha1_CassandraClusterNodePool_To_navigator_CassandraClusterNodePool (cs_NodePools x),
      ncs_Version = cs_Version x,
      ncs_Image = map_option Convert_v1alpha1_ImageSpec_To_navigator_ImageSpec (cs_Image x)\<rparr>"

definition Convert_navigator_CassandraClusterSpec_To_v1alpha1_CassandraClusterSpec :: "nCassandraClusterSpec \<Rightarrow> CassandraClusterSpec" where
  "Convert_navigator_CassandraClusterSpec_To_v1alpha1_CassandraClusterSpec x =
     \<lparr>cs_Config = Convert_navigator_NavigatorClusterConfig_To_v1alpha1_NavigatorClusterConfig (ncs_Config x),
      cs_NodePools = map Convert_navigator_CassandraClusterNodePool_To_v1alpha1_CassandraClusterNodePool (ncs_NodePools x),
      cs_Image = map_option Convert_navigator_ImageSpec_To_v1alpha1_ImageSpec (ncs_Image x),
      cs_Version = ncs_Version x\<rparr>"

definition Convert_v1alpha1_CassandraClusterNodePoolStatus_To_navigator_CassandraClusterNodePoolStatus :: "CassandraNodePoolStatus \<Rightarrow> nCassandraClusterNodePoolStatus" where
  "Convert_v1alpha1_CassandraClusterNodePoolStatus_To_navigator_CassandraClusterNodePoolStatus x =
     \<lparr>ncns_ReadyReplicas = cns_ReadyReplicas x\<rparr>"

definition Convert_navigator_CassandraClusterNodePoolStatus_To_v1alpha1_CassandraClusterNodePoolStatus :: "nCassandraClusterNodePoolStatus \<Rightarrow> CassandraNodePoolStatus" where
  "Convert_navigator_CassandraClusterNodePoolStatus_To_v1alpha1_CassandraClusterNodePoolStatus x =
     \<lparr>cns_ReadyReplicas = ncns_ReadyReplicas x\<rparr>"

definition Convert_v1alpha1_CassandraClusterStatus_To_navigator_CassandraClusterStatus :: "CassandraClusterStatus \<Rightarrow> nCassandraClusterStatus" where
  "Convert_v1alpha1_CassandraClusterStatus_To_navigator_CassandraClusterStatus x =
     \<lparr>ncst_Conditions = map Convert_v1alpha1_ClusterCondition_To_navigator_ClusterCondition (cst_Conditions x),
      ncst_NodePools = convert_map Convert_v1alpha1_CassandraClusterNodePoolStatus_To_navigator_CassandraClusterNodePoolStatus (cst_NodePools x)\<rparr>"

definition Convert_navigator_CassandraClusterStatus_To_v1alpha1_CassandraClusterStatus :: "nCassandraClusterStatus \<Rightarrow> CassandraClusterStatus" where
  "Convert_navigator_CassandraClusterStatus_To_v1alpha1_CassandraClusterStatus x =
     \<lparr>cst_Conditions = map Convert_navigator_ClusterCondition_To_v1alpha1_ClusterCondition (ncst_Conditions x),
      cst_NodePools = convert_map Convert_navigator_CassandraClusterNodePoolStatus_To_v1alpha1_CassandraClusterNodePoolStatus (ncst_NodePools x)\<rparr>"

definition Convert_v1alpha1_CassandraCluster_To_navigator_CassandraCluster :: "CassandraCluster \<Rightarrow> TypeMeta \<Rightarrow> nCassandraCluster" where
  "Convert_v1alpha1_CassandraCluster_To_navigator_CassandraCluster x tm =
     \<lparr>ncass_TypeMeta = tm,
      ncass_ObjectMeta = cass_ObjectMeta x,
      ncass_Spec = Convert_v1alpha1_CassandraClusterSpec_To_navigator_CassandraClusterSpec (cass_Spec x),
      ncass_Status = Convert_v1alpha1_CassandraClusterStatus_To_navigator_CassandraClusterStatus (cass_Status x)\<rparr>"

definition Convert_navigator_CassandraCluster_To_v1alpha1_CassandraCluster :: "nCassandraCluster \<Rightarrow> TypeMeta \<Rightarrow> CassandraCluster" where
  "Convert_navigator_CassandraCluster_To_v1alpha1_CassandraCluster x tm =
     \<lparr>cass_TypeMeta = tm,
      cass_ObjectMeta = ncass_ObjectMeta x,
      cass_Spec = Convert_navigator_CassandraClusterSpec_To_v1alpha1_CassandraClusterSpec (ncass_Spec x),
      cass_Status = Convert_navigator_CassandraClusterStatus_To_v1alpha1_CassandraClusterStatus (ncass_Status x)\<rparr>"

definition Convert_v1alpha1_ElasticsearchClusterNodePool_To_navigator_ElasticsearchClusterNodePool :: "ElasticsearchNodePool \<Rightarrow> nElasticsearchClusterNodePool" where
  "Convert_v1alpha1_ElasticsearchClusterNodePool_To_navigator_ElasticsearchClusterNodePool x =
     \<lparr>nenp_Name = enp_Name x,
      nenp_Replicas = enp_Replicas x,
      nenp_Roles = enp_Roles x,
      nenp_NodeSelector = enp_NodeSelector x,
      nenp_Resources = enp_Resources x,
      nenp_Persistence = map_option Convert_v1alpha1_PersistenceConfig_To_navigator_PersistenceConfig (enp_Persistence x),
      nenp_SchedulerName = enp_SchedulerName x\<rparr>"

definition Convert_navigator_ElasticsearchClusterNodePool_To_v1alpha1_ElasticsearchClusterNodePool :: "nElasticsearchClusterNodePool \<Rightarrow> ElasticsearchNodePool" where
  "Convert_navigator_ElasticsearchClusterNodePool_To_v1alpha1_ElasticsearchClusterNodePool x =
     \<lparr>enp_Name = nenp_Name x,
      enp_Replicas = nenp_Replicas x,
      enp_Roles = nenp_Roles x,
      enp_NodeSelector = nenp_NodeSelector x,
      enp_Resources = nenp_Resources x,
      enp_Persistence = map_option Convert_navigator_PersistenceConfig_To_v1alpha1_PersistenceConfig (nenp_Persistence x),
      enp_SchedulerName = nenp_SchedulerName x\<rparr>"

definition Convert_v1alpha1_ElasticsearchClusterSpec_To_navigator_ElasticsearchClusterSpec :: "ElasticsearchClusterSpec \<Rightarrow> nElasticsearchClusterSpec" where
  "Convert_v1alpha1_ElasticsearchClusterSpec_To_navigator_ElasticsearchClusterSpec x =
     \<lparr>nes_Config = Convert_v1alpha1_NavigatorClusterConfig_To_navigator_NavigatorClusterConfig (es_Config x),
      nes_Version = es_Version x,
      nes_Image = map_option Convert_v1alpha1_ImageSpec_To_navigator_ImageSpec (es_Image x),
      nes_Plugins = es_Plugins x,
      nes_NodePools = map Convert_v1alpha1_ElasticsearchClusterNodePool_To_navigator_ElasticsearchClusterNodePool (es_NodePools x),
      nes_MinimumMasters = es_MinimumMasters x\<rparr>"

definition Convert_navigator_ElasticsearchClusterSpec_To_v1alpha1_ElasticsearchClusterSpec :: "nElasticsearchClusterSpec \<Rightarrow> ElasticsearchClusterSpec" where
  "Convert_navigator_ElasticsearchClusterSpec_To_v1alpha1_ElasticsearchClusterSpec x =
     \<lparr>es_Config = Convert_navigator_NavigatorClusterConfig_To_v1alpha1_NavigatorClusterConfig (nes_Config x),
      es_Version = nes_Version x,
      es_Plugins = nes_Plugins x,
      es_NodePools = map Convert_navigator_ElasticsearchClusterNodePool_To_v1alpha1_ElasticsearchClusterNodePool (nes_NodePools x),
      es_Image = map_option Convert_navigator_ImageSpec_To_v1alpha1_ImageSpec (nes_Image x),
      es_MinimumMasters = nes_MinimumMasters x\<rparr>"

definition Convert_v1alpha1_ElasticsearchClusterNodePoolStatus_To_navigator_ElasticsearchClusterNodePoolStatus :: "ElasticsearchNodePoolStatus \<Rightarrow> nElasticsearchClusterNodePoolStatus" where
  "Convert_v1alpha1_ElasticsearchClusterNodePoolStatus_To_navigator_ElasticsearchClusterNodePoolStatus x =
     \<lparr>nens_ReadyReplicas = ens_ReadyReplicas x\<rparr>"

definition Convert_navigator_ElasticsearchClusterNodePoolStatus_To_v1alpha1_ElasticsearchClusterNodePoolStatus :: "nElasticsearchClusterNodePoolStatus \<Rightarrow> ElasticsearchNodePoolStatus" where
  "Convert_navigator_ElasticsearchClusterNodePoolStatus_To_v1alpha1_ElasticsearchClusterNodePoolStatus x =
     \<lparr>ens_ReadyReplicas = nens_ReadyReplicas x\<rparr>"

definition Convert_v1alpha1_ElasticsearchClusterStatus_To_navigator_ElasticsearchClusterStatus :: "ElasticsearchClusterStatus \<Rightarrow> nElasticsearchClusterStatus" where
  "Convert_v1alpha1_ElasticsearchClusterStatus_To_navigator_ElasticsearchClusterStatus x =
     \<lparr>nest_Conditions = map Convert_v1alpha1_ClusterCondition_To_navigator_ClusterCondition (est_Conditions x),
      nest_NodePools = convert_map Convert_v1alpha1_ElasticsearchClusterNodePoolStatus_To_navigator_ElasticsearchClusterNodePoolStatus (est_NodePools x),
      nest_Health = est_Health x\<rparr>"

definition Convert_navigator_ElasticsearchClusterStatus_To_v1alpha1_ElasticsearchClusterStatus :: "nElasticsearchClusterStatus \<Rightarrow> ElasticsearchClusterStatus" where
  "Convert_navigator_ElasticsearchClusterStatus_To_v1alpha1_ElasticsearchClusterStatus x =
     \<lparr>est_Conditions = map Convert_navigator_ClusterCondition_To_v1alpha1_ClusterCondition (nest_Conditions x),
      est_NodePools = convert_map Convert_navigator_ElasticsearchClusterNodePoolStatus_To_v1alpha1_ElasticsearchClusterNodePoolStatus (nest_NodePools x),
      est_Health = nest_Health x\<rparr>"

definition Convert_v1alpha1_ElasticsearchCluster_To_navigator_ElasticsearchCluster :: "ElasticsearchCluster \<Rightarrow> TypeMeta \<Rightarrow> nElasticsearchCluster" where
  "Convert_v1alpha1_ElasticsearchCluster_To_navigator_ElasticsearchCluster x tm =
     \<lparr>nesc_TypeMeta = tm,
      nesc_ObjectMeta = esc_ObjectMeta x,
      nesc_Spec = Convert_v1alpha1_ElasticsearchClusterSpec_To_navigator_ElasticsearchClusterSpec (esc_Spec x),
      nesc_Status = Convert_v1alpha1_ElasticsearchClusterStatus_To_navigator_ElasticsearchClusterStatus (esc_Status x)\<rparr>"

definition Convert_navigator_ElasticsearchCluster_To_v1alpha1_ElasticsearchCluster :: "nElasticsearchCluster \<Rightarrow> TypeMeta \<Rightarrow> ElasticsearchCluster" where
  "Convert_navigator_ElasticsearchCluster_To_v1alpha1_ElasticsearchCluster x tm =
     \<lparr>esc_TypeMeta = tm,
      esc_ObjectMeta = nesc_ObjectMeta x,
      esc_Spec = Convert_navigator_ElasticsearchClusterSpec_To_v1alpha1_ElasticsearchClusterSpec (nesc_Spec x),
      esc_Status = Convert_navigator_ElasticsearchClusterStatus_To_v1alpha1_ElasticsearchClusterStatus (nesc_Status x)\<rparr>"

definition Convert_v1alpha1_PilotCondition_To_navigator_PilotCondition :: "PilotCondition \<Rightarrow> nPilotCondition" where
  "Convert_v1alpha1_PilotCondition_To_navigator_PilotCondition x =
     \<lparr>npcond_Type = pcond_Type x,
      npcond_Status = pcond_Status x,
      npcond_LastTransitionTime = pcond_LastTransitionTime x,
      npcond_Reason = pcond_Reason x,
      npcond_Message = pcond_Message x\<rparr>"

definition Convert_navigator_PilotCondition_To_v1alpha1_PilotCondition :: "nPilotCondition \<Rightarrow> PilotCondition" where
  "Convert_navigator_PilotCondition_To_v1alpha1_PilotCondition x =
     \<lparr>pcond_Type = npcond_Type x,
      pcond_Status = npcond_Status x,
      pcond_LastTransitionTime = npcond_LastTransitionTime x,
      pcond_Reason = npcond_Reason x,
      pcond_Message = npcond_Message x\<rparr>"

definition Convert_v1alpha1_ElasticsearchPilotStatus_To_navigator_ElasticsearchPilotStatus :: "ElasticsearchPilotStatus \<Rightarrow> nElasticsearchPilotStatus" where
  "Convert_v1alpha1_ElasticsearchPilotStatus_To_navigator_ElasticsearchPilotStatus x =
     \<lparr>neps_Documents = eps_Documents x,
      neps_Version = eps_Version x\<rparr>"

definition Convert_navigator_ElasticsearchPilotStatus_To_v1alpha1_ElasticsearchPilotStatus :: "nElasticsearchPilotStatus \<Rightarrow> ElasticsearchPilotStatus" where
  "Convert_navigator_ElasticsearchPilotStatus_To_v1alpha1_ElasticsearchPilotStatus x =
     \<lparr>eps_Documents = neps_Documents x,
      eps_Version = neps_Version x\<rparr>"

definition Convert_v1alpha1_CassandraPilotStatus_To_navigator_CassandraPilotStatus :: "CassandraPilotStatus \<Rightarrow> nCassandraPilotStatus" where
  "Convert_v1alpha1_CassandraPilotStatus_To_navigator_CassandraPilotStatus x =
     \<lparr>ncps_Version = cps_Version x\<rparr>"

definition Convert_navigator_CassandraPilotStatus_To_v1alpha1_CassandraPilotStatus :: "nCassandraPilotStatus \<Rightarrow> CassandraPilotStatus" where
  "Convert_navigator_CassandraPilotStatus_To_v1alpha1_CassandraPilotStatus x =
     \<lparr>cps_Version = ncps_Version x\<rparr>"

definition Convert_v1alpha1_PilotStatus_To_navigator_PilotStatus :: "PilotStatus \<Rightarrow> nPilotStatus" where
  "Convert_v1alpha1_PilotStatus_To_navigator_PilotStatus x =
     \<lparr>npst_Conditions = map Convert_v1alpha1_PilotCondition_To_navigator_PilotCondition (pst_Conditions x),
      npst_Elasticsearch = map_option Convert_v1alpha1_ElasticsearchPilotStatus_To_navigator_ElasticsearchPilotStatus (pst_Elasticsearch x),
      npst_Cassandra = map_option Convert_v1alpha1_CassandraPilotStatus_To_navigator_CassandraPilotStatus (pst_Cassandra x)\<rparr>"

definition Convert_navigator_PilotStatus_To_v1alpha1_PilotStatus :: "nPilotStatus \<Rightarrow> PilotStatus" where
  "Convert_navigator_PilotStatus_To_v1alpha1_PilotStatus x =
     \<lparr>pst_Conditions = map Convert_navigator_PilotCondition_To_v1alpha1_PilotCondition (npst_Conditions x),
      pst_Elasticsearch = map_option Convert_navigator_ElasticsearchPilotStatus_To_v1alpha1_ElasticsearchPilotStatus (npst_Elasticsearch x),
      pst_Cassandra = map_option Convert_navigator_CassandraPilotStatus_To_v1alpha1_CassandraPilotStatus (npst_Cassandra x)\<rparr>"

definition Convert_v1alpha1_Pilot_To_navigator_Pilot :: "Pilot \<Rightarrow> TypeMeta \<Rightarrow> nPilot" where
  "Convert_v1alpha1_Pilot_To_navigator_Pilot x tm =
     \<lparr>npilot_TypeMeta = tm,
      npilot_ObjectMeta = pilot_ObjectMeta x,
      npilot_Status = Convert_v1alpha1_PilotStatus_To_navigator_PilotStatus (pilot_Status x)\<rparr>"

definition Convert_navigator_Pilot_To_v1alpha1_Pilot :: "nPilot \<Rightarrow> TypeMeta \<Rightarrow> Pilot" where
  "Convert_navigator_Pilot_To_v1alpha1_Pilot x tm =
     \<lparr>pilot_TypeMeta = tm,
      pilot_ObjectMeta = npilot_ObjectMeta x,
      pilot_Status = Convert_navigator_PilotStatus_To_v1alpha1_PilotStatus (npilot_Status x)\<rparr>"

type_synonym nCassandraClusterList = "nCassandraCluster object_list"

definition Convert_v1alpha1_CassandraClusterList_To_navigator_CassandraClusterList ::
  "CassandraClusterList \<Rightarrow> TypeMeta \<Rightarrow> nCassandraClusterList" where
  "Convert_v1alpha1_CassandraClusterList_To_navigator_CassandraClusterList =
     convert_list Convert_v1alpha1_CassandraCluster_To_navigator_CassandraCluster"

definition Convert_navigator_CassandraClusterList_To_v1alpha1_CassandraClusterList ::
  "nCassandraClusterList \<Rightarrow> TypeMeta \<Rightarrow> CassandraClusterList" where
  "Convert_navigator_CassandraClusterList_To_v1alpha1_CassandraClusterList =
     convert_list Convert_navigator_CassandraCluster_To_v1alpha1_CassandraCluster"

type_synonym nElasticsearchClusterList = "nElasticsearchCluster object_list"

definition Convert_v1alpha1_ElasticsearchClusterList_To_navigator_ElasticsearchClusterList ::
  "ElasticsearchClusterList \<Rightarrow> TypeMeta \<Rightarrow> nElasticsearchClusterList" where
  "Convert_v1alpha1_ElasticsearchClusterList_To_navigator_ElasticsearchClusterList =
     convert_list Convert_v1alpha1_ElasticsearchCluster_To_navigator_ElasticsearchCluster"

definition Convert_navigator_ElasticsearchClusterList_To_v1alpha1_ElasticsearchClusterList ::
  "nElasticsearchClusterList \<Rightarrow> TypeMeta \<Rightarrow> ElasticsearchClusterList" where
  "Convert_navigator_ElasticsearchClusterList_To_v1alpha1_ElasticsearchClusterList =
     convert_list Convert_navigator_ElasticsearchCluster_To_v1alpha1_ElasticsearchCluster"

type_synonym nPilotList = "nPilot object_list"

definition Convert_v1alpha1_PilotList_To_navigator_PilotList ::
  "PilotList \<Rightarrow> TypeMeta \<Rightarrow> nPilotList" where
  "Convert_v1alpha1_PilotList_To_navigator_PilotList =
     convert_list Convert_v1alpha1_Pilot_To_navigator_Pilot"

definition Convert_navigator_PilotList_To_v1alpha1_PilotList ::
  "nPilotList \<Rightarrow> TypeMeta \<Rightarrow> PilotList" where
  "Convert_navigator_PilotList_To_v1alpha1_PilotList =
     convert_list Convert_navigator_Pilot_To_v1alpha1_Pilot"

section \<open>Round trips\<close>

text \<open>A pair of conversions that lose nothing, and what follows for the values built from them.\<close>

locale conversion =
  fixes to_internal :: "'v \<Rightarrow> 'i" and to_versioned :: "'i \<Rightarrow> 'v"
  assumes versioned_internal: "to_versioned (to_internal x) = x"
    and internal_versioned: "to_internal (to_versioned y) = y"
begin

lemma list_round: "map to_versioned (map to_internal xs) = xs" "map to_internal (map to_versioned ys) = ys"
  by (simp_all add: comp_def versioned_internal internal_versioned)

lemma option_round:
  "map_option to_versioned (map_option to_internal a) = a" "map_option to_internal (map_option to_versioned b) = b"
  by (simp_all add: option.map_comp comp_def versioned_internal internal_versioned option.map_ident)

lemma map_round:
  "convert_map to_versioned (convert_map to_internal m) = m" "convert_map to_internal (convert_map to_versioned n) = n"
  by (simp_all add: convert_map_def option.map_comp comp_def versioned_internal internal_versioned option.map_ident)

lemma comp_round [simp]:
  "to_versioned \<circ> to_internal = id" "to_internal \<circ> to_versioned = id"
  by (simp_all add: fun_eq_iff versioned_internal internal_versioned)

lemmas laws = versioned_internal internal_versioned list_round option_round map_round comp_round

lemma to_internal_inj: "to_internal x = to_internal y \<longleftrightarrow> x = y"
  by (metis versioned_internal)

end

text \<open>
  The conversions of objects lose the \<open>TypeMeta\<close> and nothing else: \<open>typed t x\<close> and \<open>ityped t y\<close> are the
  objects with another one.
\<close>

locale object_conversion =
  fixes to_internal :: "'v \<Rightarrow> TypeMeta \<Rightarrow> 'i" and to_versioned :: "'i \<Rightarrow> TypeMeta \<Rightarrow> 'v"
    and typed :: "TypeMeta \<Rightarrow> 'v \<Rightarrow> 'v" and ityped :: "TypeMeta \<Rightarrow> 'i \<Rightarrow> 'i"
  assumes versioned_internal: "to_versioned (to_internal x t) t' = typed t' x"
    and internal_versioned: "to_internal (to_versioned y t) t' = ityped t' y"
begin

lemma list_round:
  "convert_list to_versioned (convert_list to_internal l t) t' =
     l\<lparr>list_TypeMeta := t', list_Items := map_option (map (typed empty_type)) (list_Items l)\<rparr>"
  "convert_list to_internal (convert_list to_versioned nl t) t' =
     nl\<lparr>list_TypeMeta := t', list_Items := map_option (map (ityped empty_type)) (list_Items nl)\<rparr>"
  by (simp_all add: convert_list_def option.map_comp comp_def versioned_internal internal_versioned)

lemmas round = versioned_internal internal_versioned

end


interpretation conv_ImageSpec: conversion Convert_v1alpha1_ImageSpec_To_navigator_ImageSpec Convert_navigator_ImageSpec_To_v1alpha1_ImageSpec
  by unfold_locales (simp_all add: Convert_v1alpha1_ImageSpec_To_navigator_ImageSpec_def Convert_navigator_ImageSpec_To_v1alpha1_ImageSpec_def)

interpretation conv_NavigatorSecurityContext: conversion Convert_v1alpha1_NavigatorSecurityContext_To_navigator_NavigatorSecurityContext Convert_navigator_NavigatorSecurityContext_To_v1alpha1_NavigatorSecurityContext
  by unfold_locales (simp_all add: Convert_v1alpha1_NavigatorSecurityContext_To_navigator_NavigatorSecurityContext_def Convert_navigator_NavigatorSecurityContext_To_v1alpha1_NavigatorSecurityContext_def)

interpretation conv_NavigatorClusterConfig: conversion Convert_v1alpha1_NavigatorClusterConfig_To_navigator_NavigatorClusterConfig Convert_navigator_NavigatorClusterConfig_To_v1alpha1_NavigatorClusterConfig
  by unfold_locales (simp_all add: Convert_v1alpha1_NavigatorClusterConfig_To_navigator_NavigatorClusterConfig_def Convert_navigator_NavigatorClusterConfig_To_v1alpha1_NavigatorClusterConfig_def conv_ImageSpec.laws conv_NavigatorSecurityContext.laws)

interpretation conv_PersistenceConfig: conversion Convert_v1alpha1_PersistenceConfig_To_navigator_PersistenceConfig Convert_navigator_PersistenceConfig_To_v1alpha1_PersistenceConfig
  by unfold_locales (simp_all add: Convert_v1alpha1_PersistenceConfig_To_navigator_PersistenceConfig_def Convert_navigator_PersistenceConfig_To_v1alpha1_PersistenceConfig_def)

interpretation conv_ClusterCondition: conversion Convert_v1alpha1_ClusterCondition_To_navigator_ClusterCondition Convert_navigator_ClusterCondition_To_v1alpha1_ClusterCondition
  by unfold_locales (simp_all add: Convert_v1alpha1_ClusterCondition_To_navigator_ClusterCondition_def Convert_navigator_ClusterCondition_To_v1alpha1_ClusterCondition_def)

interpretation conv_CassandraClusterNodePool: conversion Convert_v1alpha1_CassandraClusterNodePool_To_navigator_CassandraClusterNodePool Convert_navigator_CassandraClusterNodePool_To_v1alpha1_CassandraClusterNodePool
  by unfold_locales (simp_all add: Convert_v1alpha1_CassandraClusterNodePool_To_navigator_CassandraClusterNodePool_def Convert_navigator_CassandraClusterNodePool_To_v1alpha1_CassandraClusterNodePool_def conv_PersistenceConfig.laws)

interpretation conv_CassandraClusterSpec: conversion Convert_v1alpha1_CassandraClusterSpec_To_navigator_CassandraClusterSpec Convert_navigator_CassandraClusterSpec_To_v1alpha1_CassandraClusterSpec
  by unfold_locales (simp_all add: Convert_v1alpha1_CassandraClusterSpec_To_navigator_CassandraClusterSpec_def Convert_navigator_CassandraClusterSpec_To_v1alpha1_CassandraClusterSpec_def conv_CassandraClusterNodePool.laws conv_ImageSpec.laws conv_NavigatorClusterConfig.laws)

interpretation conv_CassandraClusterNodePoolStatus: conversion Convert_v1alpha1_CassandraClusterNodePoolStatus_To_navigator_CassandraClusterNodePoolStatus Convert_navigator_CassandraClusterNodePoolStatus_To_v1alpha1_CassandraClusterNodePoolStatus
  by unfold_locales (simp_all add: Convert_v1alpha1_CassandraClusterNodePoolStatus_To_navigator_CassandraClusterNodePoolStatus_def Convert_navigator_CassandraClusterNodePoolStatus_To_v1alpha1_CassandraClusterNodePoolStatus_def)

interpretation conv_CassandraClusterStatus: conversion Convert_v1alpha1_CassandraClusterStatus_To_navigator_CassandraClusterStatus Convert_navigator_CassandraClusterStatus_To_v1alpha1_CassandraClusterStatus
  by unfold_locales (simp_all add: Convert_v1alpha1_CassandraClusterStatus_To_navigator_CassandraClusterStatus_def Convert_navigator_CassandraClusterStatus_To_v1alpha1_CassandraClusterStatus_def conv_CassandraClusterNodePoolStatus.laws conv_ClusterCondition.laws)

interpretation conv_CassandraCluster: object_conversion Convert_v1alpha1_CassandraCluster_To_navigator_CassandraCluster
  Convert_navigator_CassandraCluster_To_v1alpha1_CassandraCluster "\<lambda>t x. x\<lparr>cass_TypeMeta := t\<rparr>" "\<lambda>t x. x\<lparr>ncass_TypeMeta := t\<rparr>"
  by unfold_locales (simp_all add: Convert_v1alpha1_CassandraCluster_To_navigator_CassandraCluster_def Convert_navigator_CassandraCluster_To_v1alpha1_CassandraCluster_def conv_CassandraClusterSpec.laws conv_CassandraClusterStatus.laws)

interpretation conv_ElasticsearchClusterNodePool: conversion Convert_v1alpha1_ElasticsearchClusterNodePool_To_navigator_ElasticsearchClusterNodePool Convert_navigator_ElasticsearchClusterNodePool_To_v1alpha1_ElasticsearchClusterNodePool
  by unfold_locales (simp_all add: Convert_v1alpha1_ElasticsearchClusterNodePool_To_navigator_ElasticsearchClusterNodePool_def Convert_navigator_ElasticsearchClusterNodePool_To_v1alpha1_ElasticsearchClusterNodePool_def conv_PersistenceConfig.laws)

interpretation conv_ElasticsearchClusterSpec: conversion Convert_v1alpha1_ElasticsearchClusterSpec_To_navigator_ElasticsearchClusterSpec Convert_navigator_ElasticsearchClusterSpec_To_v1alpha1_ElasticsearchClusterSpec
  by unfold_locales (simp_all add: Convert_v1alpha1_ElasticsearchClusterSpec_To_navigator_ElasticsearchClusterSpec_def Convert_navigator_ElasticsearchClusterSpec_To_v1alpha1_ElasticsearchClusterSpec_def conv_ElasticsearchClusterNodePool.laws conv_ImageSpec.laws conv_NavigatorClusterConfig.laws)

interpretation conv_ElasticsearchClusterNodePoolStatus: conversion Convert_v1alpha1_ElasticsearchClusterNodePoolStatus_To_navigator_ElasticsearchClusterNodePoolStatus Convert_navigator_ElasticsearchClusterNodePoolStatus_To_v1alpha1_ElasticsearchClusterNodePoolStatus
  by unfold_locales (simp_all add: Convert_v1alpha1_ElasticsearchClusterNodePoolStatus_To_navigator_ElasticsearchClusterNodePoolStatus_def Convert_navigator_ElasticsearchClusterNodePoolStatus_To_v1alpha1_ElasticsearchClusterNodePoolStatus_def)

interpretation conv_ElasticsearchClusterStatus: conversion Convert_v1alpha1_ElasticsearchClusterStatus_To_navigator_ElasticsearchClusterStatus Convert_navigator_ElasticsearchClusterStatus_To_v1alpha1_ElasticsearchClusterStatus
  by unfold_locales (simp_all add: Convert_v1alpha1_ElasticsearchClusterStatus_To_navigator_ElasticsearchClusterStatus_def Convert_navigator_ElasticsearchClusterStatus_To_v1alpha1_ElasticsearchClusterStatus_def conv_ClusterCondition.laws conv_ElasticsearchClusterNodePoolStatus.laws)

interpretation conv_ElasticsearchCluster: object_conversion Convert_v1alpha1_ElasticsearchCluster_To_navigator_ElasticsearchCluster
  Convert_navigator_ElasticsearchCluster_To_v1alpha1_ElasticsearchCluster "\<lambda>t x. x\<lparr>esc_TypeMeta := t\<rparr>" "\<lambda>t x. x\<lparr>nesc_TypeMeta := t\<rparr>"
  by unfold_locales (simp_all add: Convert_v1alpha1_ElasticsearchCluster_To_navigator_ElasticsearchCluster_def Convert_navigator_ElasticsearchCluster_To_v1alpha1_ElasticsearchCluster_def conv_ElasticsearchClusterSpec.laws conv_ElasticsearchClusterStatus.laws)

interpretation conv_PilotCondition: conversion Convert_v1alpha1_PilotCondition_To_navigator_PilotCondition Convert_navigator_PilotCondition_To_v1alpha1_PilotCondition
  by unfold_locales (simp_all add: Convert_v1alpha1_PilotCondition_To_navigator_PilotCondition_def Convert_navigator_PilotCondition_To_v1alpha1_PilotCondition_def)

interpretation conv_ElasticsearchPilotStatus: conversion Convert_v1alpha1_ElasticsearchPilotStatus_To_navigator_ElasticsearchPilotStatus Convert_navigator_ElasticsearchPilotStatus_To_v1alpha1_ElasticsearchPilotStatus
  by unfold_locales (simp_all add: Convert_v1alpha1_ElasticsearchPilotStatus_To_navigator_ElasticsearchPilotStatus_def Convert_navigator_ElasticsearchPilotStatus_To_v1alpha1_ElasticsearchPilotStatus_def)

interpretation conv_CassandraPilotStatus: conversion Convert_v1alpha1_CassandraPilotStatus_To_navigator_CassandraPilotStatus Convert_navigator_CassandraPilotStatus_To_v1alpha1_CassandraPilotStatus
  by unfold_locales (simp_all add: Convert_v1alpha1_CassandraPilotStatus_To_navigator_CassandraPilotStatus_def Convert_navigator_CassandraPilotStatus_To_v1alpha1_CassandraPilotStatus_def)

interpretation conv_PilotStatus: conversion Convert_v1alpha1_PilotStatus_To_navigator_PilotStatus Convert_navigator_PilotStatus_To_v1alpha1_PilotStatus
  by unfold_locales (simp_all add: Convert_v1alpha1_PilotStatus_To_navigator_PilotStatus_def Convert_navigator_PilotStatus_To_v1alpha1_PilotStatus_def conv_CassandraPilotStatus.laws conv_ElasticsearchPilotStatus.laws conv_PilotCondition.laws)

interpretation conv_Pilot: object_conversion Convert_v1alpha1_Pilot_To_navigator_Pilot
  Convert_navigator_Pilot_To_v1alpha1_Pilot "\<lambda>t x. x\<lparr>pilot_TypeMeta := t\<rparr>" "\<lambda>t x. x\<lparr>npilot_TypeMeta := t\<rparr>"
  by unfold_locales (simp_all add: Convert_v1alpha1_Pilot_To_navigator_Pilot_def Convert_navigator_Pilot_To_v1alpha1_Pilot_def conv_PilotStatus.laws)

interpretation conv_CassandraClusterList: object_conversion Convert_v1alpha1_CassandraClusterList_To_navigator_CassandraClusterList
  Convert_navigator_CassandraClusterList_To_v1alpha1_CassandraClusterList
  "\<lambda>t l. l\<lparr>list_TypeMeta := t, list_Items := map_option (map (\<lambda>x. x\<lparr>cass_TypeMeta := empty_type\<rparr>)) (list_Items l)\<rparr>"
  "\<lambda>t l. l\<lparr>list_TypeMeta := t, list_Items := map_option (map (\<lambda>x. x\<lparr>ncass_TypeMeta := empty_type\<rparr>)) (list_Items l)\<rparr>"
  by unfold_locales (simp_all add: Convert_v1alpha1_CassandraClusterList_To_navigator_CassandraClusterList_def
      Convert_navigator_CassandraClusterList_To_v1alpha1_CassandraClusterList_def conv_CassandraCluster.list_round)

interpretation conv_ElasticsearchClusterList: object_conversion Convert_v1alpha1_ElasticsearchClusterList_To_navigator_ElasticsearchClusterList
  Convert_navigator_ElasticsearchClusterList_To_v1alpha1_ElasticsearchClusterList
  "\<lambda>t l. l\<lparr>list_TypeMeta := t, list_Items := map_option (map (\<lambda>x. x\<lparr>esc_TypeMeta := empty_type\<rparr>)) (list_Items l)\<rparr>"
  "\<lambda>t l. l\<lparr>list_TypeMeta := t, list_Items := map_option (map (\<lambda>x. x\<lparr>nesc_TypeMeta := empty_type\<rparr>)) (list_Items l)\<rparr>"
  by unfold_locales (simp_all add: Convert_v1alpha1_ElasticsearchClusterList_To_navigator_ElasticsearchClusterList_def
      Convert_navigator_ElasticsearchClusterList_To_v1alpha1_ElasticsearchClusterList_def conv_ElasticsearchCluster.list_round)

interpretation conv_PilotList: object_conversion Convert_v1alpha1_PilotList_To_navigator_PilotList
  Convert_navigator_PilotList_To_v1alpha1_PilotList
  "\<lambda>t l. l\<lparr>list_TypeMeta := t, list_Items := map_option (map (\<lambda>x. x\<lparr>pilot_TypeMeta := empty_type\<rparr>)) (list_Items l)\<rparr>"
  "\<lambda>t l. l\<lparr>list_TypeMeta := t, list_Items := map_option (map (\<lambda>x. x\<lparr>npilot_TypeMeta := empty_type\<rparr>)) (list_Items l)\<rparr>"
  by unfold_locales (simp_all add: Convert_v1alpha1_PilotList_To_navigator_PilotList_def
      Convert_navigator_PilotList_To_v1alpha1_PilotList_def conv_Pilot.list_round)

end
