(* ===== verification/Elasticsearch_Resources.thy ===== *)
theory Elasticsearch_Resources
  imports Cassandra_Resources
begin

text \<open>
  The objects the Elasticsearch controller creates: names, labels and selectors
  (\<open>pkg/controllers/elasticsearch/util\<close>), master counts and quorums (\<open>pkg/util/api\<close>,
  \<open>pkg/util/util.go\<close>), the stateful set of a node pool (\<open>actions/create_nodepool.go\<close>,
  \<open>actions/util.go\<close>), config maps, services, service account, role and role binding.
\<close>

section \<open>Names and labels\<close>

abbreviation esc_Name :: "ElasticsearchCluster \<Rightarrow> string" where
  "esc_Name c \<equiv> Name (esc_ObjectMeta c)"

abbreviation esc_Namespace :: "ElasticsearchCluster \<Rightarrow> string" where
  "esc_Namespace c \<equiv> Namespace (esc_ObjectMeta c)"

definition es_NewControllerRef :: "ElasticsearchCluster \<Rightarrow> OwnerReference" where
  "es_NewControllerRef c = NewControllerRef (esc_ObjectMeta c)
     \<lparr>gvk_Group = GroupName, gvk_Version = ''v1alpha1'', gvk_Kind = ''ElasticsearchCluster''\<rparr>"

definition es_ResourceBaseName :: "ElasticsearchCluster \<Rightarrow> string" where
  "es_ResourceBaseName c = ''es'' @ ''-'' @ esc_Name c"

definition es_ClusterLabels :: "ElasticsearchCluster \<Rightarrow> (string \<rightharpoonup> string)" where
  "es_ClusterLabels c = [ElasticsearchClusterNameLabel \<mapsto> esc_Name c]"

definition RoleLabel :: "string \<Rightarrow> string" where
  "RoleLabel role = ElasticsearchRoleLabelPrefix @ role"

definition es_NodePoolLabels :: "ElasticsearchCluster \<Rightarrow> string \<Rightarrow> string list \<Rightarrow> (string \<rightharpoonup> string)" where
  "es_NodePoolLabels c poolName roles =
     foldl (\<lambda>labels role. labels(RoleLabel role \<mapsto> ''true''))
       (if poolName \<noteq> '''' then (es_ClusterLabels c)(ElasticsearchNodePoolNameLabel \<mapsto> poolName)
        else es_ClusterLabels c) roles"

definition es_NodePoolResourceName :: "ElasticsearchCluster \<Rightarrow> ElasticsearchNodePool \<Rightarrow> string" where
  "es_NodePoolResourceName c np = es_ResourceBaseName c @ ''-'' @ enp_Name np"

definition es_SelectorForCluster :: "string \<Rightarrow> go_error + selector" where
  "es_SelectorForCluster clusterName =
     (case NewRequirement ElasticsearchClusterNameLabel clusterName of
        Inl err \<Rightarrow> Inl err
      | Inr clusterNameReq \<Rightarrow> Inr (selector_Add [] clusterNameReq))"

definition es_SelectorForNodePool :: "string \<Rightarrow> string \<Rightarrow> go_error + selector" where
  "es_SelectorForNodePool clusterName poolName =
     (case NewRequirement ElasticsearchNodePoolNameLabel poolName of
        Inl err \<Rightarrow> Inl err
      | Inr nodePoolNameReq \<Rightarrow>
          (case es_SelectorForCluster clusterName of
             Inl err \<Rightarrow> Inl err
           | Inr clusterSelector \<Rightarrow> Inr (selector_Add clusterSelector nodePoolNameReq)))"

definition ConfigMapName :: "ElasticsearchCluster \<Rightarrow> ElasticsearchNodePool \<Rightarrow> string" where
  "ConfigMapName c np = es_NodePoolResourceName c np"

definition RBACRoleName :: "ElasticsearchCluster \<Rightarrow> string" where
  "RBACRoleName c = es_ResourceBaseName c"

definition DiscoveryServiceName :: "ElasticsearchCluster \<Rightarrow> string" where
  "DiscoveryServiceName c = es_ResourceBaseName c @ ''-discovery''"

definition ClientServiceName :: "ElasticsearchCluster \<Rightarrow> string" where
  "ClientServiceName c = es_ResourceBaseName c"

definition es_ServiceAccountName :: "ElasticsearchCluster \<Rightarrow> string" where
  "es_ServiceAccountName c = es_ResourceBaseName c"

section \<open>Masters and quorum\<close>

fun ContainsElasticsearchRole :: "string list \<Rightarrow> string \<Rightarrow> bool" where
  "ContainsElasticsearchRole [] role = False"
| "ContainsElasticsearchRole (s # ss) role = (if s = role then True else ContainsElasticsearchRole ss role)"

fun count_masters :: "int32 \<Rightarrow> ElasticsearchNodePool list \<Rightarrow> int32 outcome" where
  "count_masters masters [] = Return masters"
| "count_masters masters (pool # pools) =
     (if ContainsElasticsearchRole (enp_Roles pool) ElasticsearchRoleMaster
      then bind_outcome (deref (enp_Replicas pool)) (\<lambda>r. count_masters (masters + r) pools)
      else count_masters masters pools)"

definition CountElasticsearchMasters :: "ElasticsearchNodePool list \<Rightarrow> int32 outcome" where
  "CountElasticsearchMasters pools = count_masters 0 pools"

definition CalculateQuorum :: "int32 \<Rightarrow> int32" where
  "CalculateQuorum num = (if num = 0 then 0 else if num = 1 then 1 else go_div32 num 2 + 1)"

section \<open>The stateful set of a node pool\<close>

definition defaultElasticsearchImageForVersion :: "semver \<Rightarrow> go_error + ImageSpec" where
  "defaultElasticsearchImageForVersion v =
     (if Major v = 0 \<and> Minor v = 0 \<and> Patch v = 0 then Inl (Errorf ''version must be specified'' [])
      else Inr \<lparr>img_Repository = ''docker.elastic.co/elasticsearch/elasticsearch'',
                img_Tag = semver_String v, img_PullPolicy = ''IfNotPresent''\<rparr>)"

definition esImageToUse :: "ElasticsearchClusterSpec \<Rightarrow> go_error + ImageSpec" where
  "esImageToUse spec =
     (case es_Image spec of
        None \<Rightarrow> defaultElasticsearchImageForVersion (es_Version spec)
      | Some img \<Rightarrow> Inr img)"

definition buildInitContainers :: "ElasticsearchCluster \<Rightarrow> Container list" where
  "buildInitContainers c =
     (let img = PilotImage (es_Config (esc_Spec c))
      in [\<lparr>c_Name = ''install-pilot'',
           c_Image = img_Repository img @ '':'' @ img_Tag img,
           c_ImagePullPolicy = img_PullPolicy img,
           c_Command = [''cp'', ''/pilot'', ''/shared/pilot''],
           c_Args = [], c_Env = [], c_Ports = [],
           c_VolumeMounts = [\<lparr>vm_Name = ''shared'', vm_MountPath = ''/shared'', vm_ReadOnly = False\<rparr>],
           c_ReadinessProbe = None, c_LivenessProbe = None,
           c_Resources = \<lparr>rr_Limits = Some [''cpu'' \<mapsto> cpu_10m, ''memory'' \<mapsto> mem_50Mi],
                          rr_Requests = Some [''cpu'' \<mapsto> cpu_10m, ''memory'' \<mapsto> mem_50Mi]\<rparr>,
           c_SecurityContext = None\<rparr>])"

definition es_ReadinessProbe :: Probe where
  "es_ReadinessProbe = \<lparr>pr_Port = 12001, pr_Path = ''/'', pr_InitialDelaySeconds = 30,
     pr_TimeoutSeconds = 3, pr_PeriodSeconds = 10, pr_SuccessThreshold = 0, pr_FailureThreshold = 0\<rparr>"

definition es_LivenessProbe :: Probe where
  "es_LivenessProbe = \<lparr>pr_Port = 12000, pr_Path = ''/'', pr_InitialDelaySeconds = 240,
     pr_TimeoutSeconds = 5, pr_PeriodSeconds = 10, pr_SuccessThreshold = 0, pr_FailureThreshold = 5\<rparr>"

definition es_Env :: "ElasticsearchCluster \<Rightarrow> ElasticsearchNodePool \<Rightarrow> EnvVar list" where
  "es_Env c np =
     [env_value ''DISCOVERY_URL'' (DiscoveryServiceName c),
      env_value ''ROLES'' (join '','' (enp_Roles np)),
      env_value ''PLUGINS'' (join '','' (es_Plugins (esc_Spec c))),
      env_value ''ES_JAVA_OPTS'' JVMCgroupOpts,
      env_value ''LEADER_ELECTION_CONFIG_MAP'' (''elastic-'' @ esc_Name c @ ''-leaderelection''),
      env_value ''CLUSTER_URL'' (''http://'' @ ClientServiceName c @ '':9200''),
      env_field ''POD_NAME'' ''metadata.name'', env_field ''POD_NAMESPACE'' ''metadata.namespace'']"

definition es_Container :: "ElasticsearchCluster \<Rightarrow> ElasticsearchNodePool \<Rightarrow> ImageSpec \<Rightarrow> Container" where
  "es_Container c np esImage =
     \<lparr>c_Name = ''elasticsearch'',
      c_Image = img_Repository esImage @ '':'' @ img_Tag esImage,
      c_ImagePullPolicy = img_PullPolicy esImage,
      c_Command = [''/shared/pilot''],
      c_Args = [''--v=4'', ''--logtostderr'', ''--pilot-name=$(POD_NAME)'',
        ''--pilot-namespace=$(POD_NAMESPACE)'', ''--elasticsearch-master-url=$(CLUSTER_URL)'',
        ''--elasticsearch-roles=$(ROLES)'', ''--elasticsearch-plugins=$(PLUGINS)'',
        ''--leader-election-config-map=$(LEADER_ELECTION_CONFIG_MAP)''],
      c_Env = es_Env c np,
      c_Ports = [\<lparr>cp_Name = ''transport'', cp_ContainerPort = 9300\<rparr>,
        \<lparr>cp_Name = ''http'', cp_ContainerPort = 9200\<rparr>],
      c_VolumeMounts =
        [\<lparr>vm_Name = ''elasticsearch-data'', vm_MountPath = ''/usr/share/elasticsearch/data'', vm_ReadOnly = False\<rparr>,
         \<lparr>vm_Name = ''shared'', vm_MountPath = ''/shared'', vm_ReadOnly = True\<rparr>,
         \<lparr>vm_Name = ''config'', vm_MountPath = ''/etc/pilot/elasticsearch/config'', vm_ReadOnly = False\<rparr>],
      c_ReadinessProbe = Some es_ReadinessProbe, c_LivenessProbe = Some es_LivenessProbe,
      c_Resources = enp_Resources np,
      c_SecurityContext = Some \<lparr>sc_RunAsUser = nsc_RunAsUser (SecurityContextOf (es_Config (esc_Spec c))),
        sc_CapabilitiesAdd = [''IPC_LOCK'']\<rparr>\<rparr>"

definition elasticsearchPodTemplateSpec ::
  "ElasticsearchCluster \<Rightarrow> ElasticsearchNodePool \<Rightarrow> go_error + PodTemplateSpec" where
  "elasticsearchPodTemplateSpec c np =
     (case esImageToUse (esc_Spec c) of
        Inl err \<Rightarrow> Inl err
      | Inr esImage \<Rightarrow> Inr
          \<lparr>pt_ObjectMeta = empty_meta
             \<lparr>Labels := Some ((es_NodePoolLabels c (enp_Name np) (enp_Roles np))(PilotLabel \<mapsto> '''')),
              Annotations := Some Map.empty\<rparr>,
           pt_Spec =
             \<lparr>ps_TerminationGracePeriodSeconds = Some 1800,
              ps_ServiceAccountName = es_ServiceAccountName c,
              ps_NodeSelector = enp_NodeSelector np,
              ps_SchedulerName = enp_SchedulerName np,
              ps_FSGroup = nsc_RunAsUser (SecurityContextOf (es_Config (esc_Spec c))),
              ps_Volumes =
                [\<lparr>v_Name = ''shared'', v_Source = EmptyDir\<rparr>,
                 \<lparr>v_Name = ''config'', v_Source = ConfigMapVolume (ConfigMapName c np)\<rparr>] @
                (if enp_Persistence np = None then [\<lparr>v_Name = ''elasticsearch-data'', v_Source = EmptyDir\<rparr>] else []),
              ps_InitContainers = buildInitContainers c,
              ps_Containers = [es_Container c np esImage]\<rparr>\<rparr>)"

definition nodePoolStatefulSet ::
  "ElasticsearchCluster \<Rightarrow> ElasticsearchNodePool \<Rightarrow> go_error + StatefulSet" where
  "nodePoolStatefulSet c np =
     (case elasticsearchPodTemplateSpec c np of
        Inl err \<Rightarrow> Inl (Errorf ''error building elasticsearch container: %s'' [AErr err])
      | Inr template \<Rightarrow> Inr
          \<lparr>ss_ObjectMeta = empty_meta
             \<lparr>Name := es_NodePoolResourceName c np, Namespace := esc_Namespace c,
              OwnerReferences := [es_NewControllerRef c],
              Labels := Labels (pt_ObjectMeta template),
              Annotations := Some [ElasticsearchNodePoolVersionAnnotation \<mapsto> semver_String (es_Version (esc_Spec c))]\<rparr>,
           ss_Spec =
             \<lparr>sss_Replicas = enp_Replicas np,
              sss_Selector = Some (es_NodePoolLabels c (enp_Name np) []),
              sss_Template = template,
              sss_VolumeClaimTemplates =
                (case enp_Persistence np of None \<Rightarrow> [] | Some p \<Rightarrow> [storage_claim ''elasticsearch-data'' p]),
              sss_ServiceName = es_NodePoolResourceName c np,
              sss_PodManagementPolicy = ''Parallel'',
              sss_UpdateStrategy = \<lparr>us_Type = ''RollingUpdate'', us_RollingUpdate = None\<rparr>\<rparr>,
           ss_Status = empty_StatefulSetStatus\<rparr>)"

section \<open>Config maps, services, account, role and role binding\<close>

definition es_owned_meta :: "ElasticsearchCluster \<Rightarrow> string \<Rightarrow> ObjectMeta" where
  "es_owned_meta c name = empty_meta
     \<lparr>Name := name, Namespace := esc_Namespace c, OwnerReferences := [es_NewControllerRef c],
      Labels := Some (es_ClusterLabels c)\<rparr>"

definition config_text :: "int32 \<Rightarrow> string" where
  "config_text minimumMasters = join [CHR 0x0A]
     ['''', ''node.data: ${NODE_DATA}'', ''node.master: ${NODE_MASTER}'', ''node.ingest: ${NODE_INGEST}'',
      ''node.name: ${POD_NAME}'', '''', ''network.host: 0.0.0.0'', '''', ''discovery:'', ''  zen:'',
      ''    ping.unicast.hosts: ${DISCOVERY_URL}'',
      ''    minimum_master_nodes: '' @ show_int (sint minimumMasters), '''',
      ''xpack.security.enabled: false'', '''']"

definition generateConfig :: "ElasticsearchCluster \<Rightarrow> string outcome" where
  "generateConfig c =
     bind_outcome
       (case es_MinimumMasters (esc_Spec c) of
          None \<Rightarrow> bind_outcome (CountElasticsearchMasters (es_NodePools (esc_Spec c)))
                    (\<lambda>totalMasters. Return (CalculateQuorum totalMasters))
        | Some m \<Rightarrow> Return m)
       (\<lambda>minimumMasters. Return (config_text minimumMasters))"

definition esConfigConfigMap :: "ElasticsearchCluster \<Rightarrow> ElasticsearchNodePool \<Rightarrow> ConfigMap outcome" where
  "esConfigConfigMap c np =
     bind_outcome (generateConfig c) (\<lambda>text.
       Return \<lparr>cm_ObjectMeta = es_owned_meta c (ConfigMapName c np),
               cm_Data = Some [''elasticsearch.yml'' \<mapsto> text]\<rparr>)"

definition buildService ::
  "ElasticsearchCluster \<Rightarrow> string \<Rightarrow> bool \<Rightarrow> (string \<rightharpoonup> string) \<Rightarrow> Service" where
  "buildService c name http sel =
     \<lparr>svc_ObjectMeta = (es_owned_meta c name)\<lparr>Annotations := Some Map.empty\<rparr>,
      svc_ClusterIP = '''', svc_Type = ''ClusterIP'', svc_Selector = Some sel,
      svc_Ports = [\<lparr>sp_Name = ''transport'', sp_Port = 9300, sp_TargetPort = 9300\<rparr>] @
        (if http then [\<lparr>sp_Name = ''http'', sp_Port = 9200, sp_TargetPort = 9200\<rparr>] else []),
      svc_PublishNotReadyAddresses = False\<rparr>"

definition discoveryService :: "ElasticsearchCluster \<Rightarrow> Service" where
  "discoveryService c =
     (let svc = buildService c (DiscoveryServiceName c) False (es_NodePoolLabels c '''' [])
      in svc\<lparr>svc_ObjectMeta := (svc_ObjectMeta svc)
           \<lparr>Annotations := map_option
              (\<lambda>m. m(''service.alpha.kubernetes.io/tolerate-unready-endpoints'' \<mapsto> ''true''))
              (Annotations (svc_ObjectMeta svc))\<rparr>\<rparr>)"

definition clientService :: "ElasticsearchCluster \<Rightarrow> Service" where
  "clientService c = buildService c (ClientServiceName c) True
     (es_NodePoolLabels c '''' [ElasticsearchRoleIngest])"

definition clusterServiceAccount :: "ElasticsearchCluster \<Rightarrow> ServiceAccount" where
  "clusterServiceAccount c = \<lparr>sa_ObjectMeta = es_owned_meta c (es_ServiceAccountName c)\<rparr>"

definition roleForCluster :: "ElasticsearchCluster \<Rightarrow> Role" where
  "roleForCluster c =
     \<lparr>role_ObjectMeta = es_owned_meta c (RBACRoleName c),
      role_Rules =
        [\<lparr>pol_APIGroups = [''''], pol_Verbs = [''create'', ''update'', ''patch''], pol_Resources = [''events'']\<rparr>,
         \<lparr>pol_APIGroups = [''''],
          pol_Verbs = [''create'', ''update'', ''patch'', ''get'', ''list'', ''watch''],
          pol_Resources = [''configmaps'']\<rparr>,
         \<lparr>pol_APIGroups = [''''], pol_Verbs = [''get'', ''list'', ''watch''], pol_Resources = [''pods'']\<rparr>,
         \<lparr>pol_APIGroups = [''apps''], pol_Verbs = [''get'', ''list'', ''watch''],
          pol_Resources = [''statefulsets'']\<rparr>,
         \<lparr>pol_APIGroups = [GroupName], pol_Verbs = [''get'', ''list'', ''watch''],
          pol_Resources = [''pilots'', ''elasticsearchclusters'']\<rparr>,
         \<lparr>pol_APIGroups = [GroupName], pol_Verbs = [''update'', ''patch''],
          pol_Resources = [''pilots/status'', ''elasticsearchclusters/status'']\<rparr>]\<rparr>"

definition roleBindingForCluster :: "ElasticsearchCluster \<Rightarrow> RoleBinding" where
  "roleBindingForCluster c =
     \<lparr>rb_ObjectMeta = es_owned_meta c (RBACRoleName c),
      rb_Subjects = [\<lparr>sub_Kind = ''ServiceAccount'', sub_APIGroup = '''',
        sub_Name = es_ServiceAccountName c, sub_Namespace = ''''\<rparr>],
      rb_RoleRef = \<lparr>rref_APIGroup = '''', rref_Kind = ''Role'', rref_Name = RBACRoleName c\<rparr>\<rparr>"

section \<open>Facts about the objects\<close>

lemma ContainsElasticsearchRole_iff [simp]: "ContainsElasticsearchRole rs r \<longleftrightarrow> r \<in> set rs"
  by (induction rs) auto

lemma es_NodePoolResourceName_inj:
  "es_NodePoolResourceName c np = es_NodePoolResourceName c np' \<longleftrightarrow> enp_Name np = enp_Name np'"
  by (simp add: es_NodePoolResourceName_def)

lemma role_label_not_name:
  "RoleLabel r \<noteq> ElasticsearchClusterNameLabel" "RoleLabel r \<noteq> ElasticsearchNodePoolNameLabel"
  "ElasticsearchClusterNameLabel \<noteq> RoleLabel r" "ElasticsearchNodePoolNameLabel \<noteq> RoleLabel r"
  by (simp_all add: RoleLabel_def label_defs)

lemma es_NodePoolLabels_snoc:
  "es_NodePoolLabels c n (rs @ [r]) = (es_NodePoolLabels c n rs)(RoleLabel r \<mapsto> ''true'')"
  by (simp add: es_NodePoolLabels_def)

lemma es_NodePoolLabels_names:
  "es_NodePoolLabels c n rs ElasticsearchClusterNameLabel = Some (esc_Name c)"
  "n \<noteq> '''' \<Longrightarrow> es_NodePoolLabels c n rs ElasticsearchNodePoolNameLabel = Some n"
  by (induction rs rule: rev_induct)
    (simp_all add: es_NodePoolLabels_snoc role_label_not_name, simp_all add: es_NodePoolLabels_def
      es_ClusterLabels_def)

lemma es_owned_meta_controlled: "IsControlledBy (es_owned_meta c n) (esc_ObjectMeta c)"
  by (simp add: es_owned_meta_def IsControlledBy_def GetControllerOf_def es_NewControllerRef_def
      NewControllerRef_def)

subsection \<open>Quorum\<close>

lemma go_div32_2: "0 \<le> sint (n :: int32) \<Longrightarrow> sint (go_div32 n 2) = sint n div 2"
proof -
  assume n: "0 \<le> sint n"
  have "sint n sdiv 2 = sint n div 2"
    using n by (simp add: signed_divide_int_def sgn_if)
  moreover have "sint (2 :: int32) = 2" by simp
  moreover have "sint n div 2 < 2 ^ 31" using sint_range32(2) [of n] n by linarith
  ultimately show ?thesis using n sint_of_int32 [of "sint n div 2"]
    unfolding go_div32_def by simp
qed

lemma CalculateQuorum_sint:
  assumes "0 < sint num"
  shows "sint (CalculateQuorum num) = sint num div 2 + 1"
proof -
  have one: "sint (1 :: int32) = 1" "sint (0 :: int32) = 0" by simp_all
  have "num \<noteq> 0" using assms by auto
  show ?thesis
  proof (cases "num = 1")
    case True
    then show ?thesis by (simp add: CalculateQuorum_def)
  next
    case False
    have d: "sint (go_div32 num 2) = sint num div 2" using assms by (simp add: go_div32_2)
    have "sint (go_div32 num 2 + 1) = sint (go_div32 num 2) + sint (1 :: int32)"
      using d one assms sint_range32(2) [of num] by (intro sint_add32) linarith+
    with False \<open>num \<noteq> 0\<close> d one show ?thesis by (simp add: CalculateQuorum_def)
  qed
qed

end
