(* ===== verification/Validation.thy ===== *)
theory Validation
  imports Internal_API Elasticsearch_Resources
begin

text \<open>
  Validation of the internal API objects (\<open>pkg/apis/navigator/validation\<close>) with the parts of
  \<open>field.Path\<close>, \<open>field.Error\<close>, the name checks and the version constraints it uses. A path is kept
  as its printed form. Of \<open>ValidateObjectMeta\<close> the checks of name and namespace are modelled; its
  other checks concern metadata the model does not have and are the parameter \<open>other_meta\<close>.
  \<open>reflect.DeepEqual\<close> is equality of the records; a nil slice and an empty one are not told apart.
\<close>

section \<open>Fields and errors\<close>

definition path_Child :: "string \<Rightarrow> string \<Rightarrow> string" where
  "path_Child p name = p @ ''.'' @ name"

definition path_Index :: "string \<Rightarrow> nat \<Rightarrow> string" where
  "path_Index p i = p @ ''['' @ show_nat i @ '']''"

datatype field_error_type =
  ErrorTypeRequired | ErrorTypeDuplicate | ErrorTypeInvalid | ErrorTypeNotSupported | ErrorTypeForbidden

datatype bad_value = BadStr string | BadInt int | BadIntPtr "int option" | BadQuantity Quantity

record field_error =
  fe_Type :: field_error_type
  fe_Field :: string
  fe_BadValue :: bad_value
  fe_Detail :: go_text

definition Required :: "string \<Rightarrow> string \<Rightarrow> field_error" where
  "Required p detail = \<lparr>fe_Type = ErrorTypeRequired, fe_Field = p, fe_BadValue = BadStr '''', fe_Detail = Literal detail\<rparr>"

definition Duplicate :: "string \<Rightarrow> bad_value \<Rightarrow> field_error" where
  "Duplicate p v = \<lparr>fe_Type = ErrorTypeDuplicate, fe_Field = p, fe_BadValue = v, fe_Detail = Literal ''''\<rparr>"

definition Invalid :: "string \<Rightarrow> bad_value \<Rightarrow> go_text \<Rightarrow> field_error" where
  "Invalid p v detail = \<lparr>fe_Type = ErrorTypeInvalid, fe_Field = p, fe_BadValue = v, fe_Detail = detail\<rparr>"

definition NotSupported :: "string \<Rightarrow> bad_value \<Rightarrow> string list \<Rightarrow> field_error" where
  "NotSupported p v validValues = \<lparr>fe_Type = ErrorTypeNotSupported, fe_Field = p, fe_BadValue = v,
     fe_Detail = (if validValues = [] then Literal '''' else Sprintf ''supported values: '' [AStrs validValues])\<rparr>"

definition Forbidden :: "string \<Rightarrow> go_text \<Rightarrow> field_error" where
  "Forbidden p detail = \<lparr>fe_Type = ErrorTypeForbidden, fe_Field = p, fe_BadValue = BadStr '''', fe_Detail = detail\<rparr>"

section \<open>Names and metadata\<close>

text \<open>The examples and the pattern at the end of a message on a malformed name are left out.\<close>

definition max_length_msgs :: "nat \<Rightarrow> string \<Rightarrow> go_text list" where
  "max_length_msgs n v = (if length v > n then [Sprintf ''must be no more than %d characters'' [AInt (int n)]] else [])"

definition NameIsDNSSubdomain :: "string \<Rightarrow> go_text list" where
  "NameIsDNSSubdomain v = max_length_msgs 253 v @
     (if \<not> list_all dns1123_label (split_on CHR ''.'' v)
      then [Literal ''a DNS-1123 subdomain must consist of lower case alphanumeric characters, '-' or '.', and must start and end with an alphanumeric character'']
      else [])"

definition NameIsDNSLabel :: "string \<Rightarrow> go_text list" where
  "NameIsDNSLabel v = max_length_msgs 63 v @
     (if \<not> dns1123_label v
      then [Literal ''a DNS-1123 label must consist of lower case alphanumeric characters or '-', and must start and end with an alphanumeric character'']
      else [])"

definition ValidateObjectMeta :: "(ObjectMeta \<Rightarrow> field_error list) \<Rightarrow> ObjectMeta \<Rightarrow> string \<Rightarrow> field_error list" where
  "ValidateObjectMeta other_meta m fldPath =
     (if Name m = '''' then [Required (path_Child fldPath ''name'') ''name or generateName is required'']
      else map (Invalid (path_Child fldPath ''name'') (BadStr (Name m))) (NameIsDNSSubdomain (Name m))) @
     (if Namespace m = '''' then [Required (path_Child fldPath ''namespace'') '''']
      else map (Invalid (path_Child fldPath ''namespace'') (BadStr (Namespace m))) (NameIsDNSLabel (Namespace m))) @
     other_meta m"

definition ValidateDNS1123Subdomain :: "string \<Rightarrow> string \<Rightarrow> field_error list" where
  "ValidateDNS1123Subdomain v fldPath = map (Invalid fldPath (BadStr v)) (NameIsDNSSubdomain v)"

section \<open>Parts shared by the clusters\<close>

definition supportedPullPolicies :: "string list" where
  "supportedPullPolicies = [''Never'', ''IfNotPresent'', ''Always'']"

definition ValidateImageSpec :: "nImageSpec \<Rightarrow> string \<Rightarrow> field_error list" where
  "ValidateImageSpec img fldPath =
     (if nimg_Tag img = '''' then [Required (path_Child fldPath ''tag'') ''''] else []) @
     (if nimg_Repository img = '''' then [Required (path_Child fldPath ''repository'') ''''] else []) @
     (if nimg_PullPolicy img \<noteq> ''Never'' \<and> nimg_PullPolicy img \<noteq> ''IfNotPresent'' \<and> nimg_PullPolicy img \<noteq> ''Always''
      then [NotSupported (path_Child fldPath ''pullPolicy'') (BadStr (nimg_PullPolicy img)) supportedPullPolicies]
      else [])"

definition ValidateNavigatorSecurityContext :: "nNavigatorSecurityContext \<Rightarrow> string \<Rightarrow> field_error list" where
  "ValidateNavigatorSecurityContext ctx fldPath =
     (case nnsc_RunAsUser ctx of
        None \<Rightarrow> []
      | Some user \<Rightarrow>
          if sint user < 0
          then [Invalid (path_Child fldPath ''runAsUser'') (BadInt (sint user)) (Literal ''must be non-negative'')]
          else [])"

definition ValidateNavigatorClusterConfig :: "nNavigatorClusterConfig \<Rightarrow> string \<Rightarrow> field_error list" where
  "ValidateNavigatorClusterConfig cfg fldPath =
     ValidateImageSpec (nPilotImage cfg) (path_Child fldPath ''pilotImage'') @
     ValidateNavigatorSecurityContext (nSecurityContextOf cfg) (path_Child fldPath ''securityContext'')"

definition ValidatePersistenceConfig :: "nPersistenceConfig \<Rightarrow> string \<Rightarrow> field_error list" where
  "ValidatePersistenceConfig cfg fldPath =
     (if Quantity_Sign (npc_Size cfg) = 0 then [Required (path_Child fldPath ''size'') ''''] else []) @
     (if Quantity_Sign (npc_Size cfg) = - 1
      then [Invalid (path_Child fldPath ''size'') (BadQuantity (npc_Size cfg)) (Literal ''must be greater than zero'')]
      else [])"

text \<open>The loop over the node pools with the names seen so far.\<close>

fun validate_pools ::
  "('p \<Rightarrow> string) \<Rightarrow> ('p \<Rightarrow> string \<Rightarrow> field_error list) \<Rightarrow> string \<Rightarrow> nat \<Rightarrow> string set \<Rightarrow> 'p list \<Rightarrow> field_error list" where
  "validate_pools name validate npPath i allNames [] = []"
| "validate_pools name validate npPath i allNames (np # nps) =
     (if name np \<in> allNames then [Duplicate (path_Child (path_Index npPath i) ''name'') (BadStr (name np))] else []) @
     validate np (path_Index npPath i) @
     validate_pools name validate npPath (Suc i) (insert (name np) allNames) nps"

text \<open>
  The loop of an update over the new node pools: each is compared with the first old one of its name,
  with replicas and persistence taken from the old one.
\<close>

fun validate_pool_updates ::
  "('p \<Rightarrow> string) \<Rightarrow> ('p \<Rightarrow> nPersistenceConfig option) \<Rightarrow> ('p \<Rightarrow> 'p \<Rightarrow> 'p) \<Rightarrow> string \<Rightarrow> nat \<Rightarrow> 'p list \<Rightarrow> 'p list \<Rightarrow> field_error list" where
  "validate_pool_updates name persistence restore npPath i olds [] = []"
| "validate_pool_updates name persistence restore npPath i olds (np # nps) =
     (case find_first (\<lambda>oldNp. name np = name oldNp) olds of
        None \<Rightarrow> []
      | Some oldNp \<Rightarrow>
          (if persistence np \<noteq> persistence oldNp \<and> persistence oldNp \<noteq> None
           then [Forbidden (path_Child (path_Index npPath i) ''persistence'')
                   (Literal ''cannot modify persistence configuration once enabled'')]
           else []) @
          (if restore oldNp np \<noteq> oldNp
           then [Forbidden ''spec''
                   (Literal ''updates to nodepool for fields other than 'replicas' and 'persistence' are forbidden.'')]
           else [])) @
     validate_pool_updates name persistence restore npPath (Suc i) olds nps"

section \<open>CassandraCluster\<close>

text \<open>\<open>NewConstraint(">= 3, < 4")\<close>; \<open>NewVersion\<close> pads the two versions to three segments.\<close>

definition constraint_version :: "int64 \<Rightarrow> hc_version" where
  "constraint_version n = \<lparr>hc_metadata = '''', hc_pre = '''', hc_segments = [n, 0, 0], hc_si = 1\<rparr>"

definition prereleaseCheck :: "hc_version \<Rightarrow> hc_version \<Rightarrow> bool" where
  "prereleaseCheck v c =
     (if hc_pre c \<noteq> '''' \<and> hc_pre v \<noteq> '''' then hc_segments c = hc_segments v
      else if hc_pre c = '''' \<and> hc_pre v \<noteq> '''' then False
      else True)"

definition constraintGreaterThanEqual :: "hc_version \<Rightarrow> hc_version \<Rightarrow> bool" where
  "constraintGreaterThanEqual v c \<longleftrightarrow> prereleaseCheck v c \<and> hc_Compare v c \<ge> 0"

definition constraintLessThan :: "hc_version \<Rightarrow> hc_version \<Rightarrow> bool" where
  "constraintLessThan v c \<longleftrightarrow> prereleaseCheck v c \<and> hc_Compare v c = - 1"

definition supportedCassandraVersions_Check :: "hc_version \<Rightarrow> bool" where
  "supportedCassandraVersions_Check v \<longleftrightarrow>
     constraintGreaterThanEqual v (constraint_version 3) \<and> constraintLessThan v (constraint_version 4)"

text \<open>The errors on the persistence are collected and then dropped.\<close>

definition ValidateCassandraClusterNodePool :: "nCassandraClusterNodePool \<Rightarrow> string \<Rightarrow> field_error list" where
  "ValidateCassandraClusterNodePool np fldPath =
     (let el = (case ncnp_Persistence np of
                  None \<Rightarrow> []
                | Some p \<Rightarrow> ValidatePersistenceConfig p (path_Child fldPath ''persistence''))
      in [])"

definition ValidateCassandraClusterSpec :: "nCassandraClusterSpec \<Rightarrow> string \<Rightarrow> field_error list outcome" where
  "ValidateCassandraClusterSpec spec fldPath =
     bind_outcome (deref (Semver (ncs_Version spec))) (\<lambda>v.
       Return (ValidateNavigatorClusterConfig (ncs_Config spec) fldPath @
         (if \<not> supportedCassandraVersions_Check v
          then [Forbidden (path_Child fldPath ''version'')
                  (Sprintf ''%s is not supported. Supported versions are: %s''
                    [AStr (versionString (ncs_Version spec)), AStr ''>= 3, < 4''])]
          else []) @
         validate_pools ncnp_Name ValidateCassandraClusterNodePool (path_Child fldPath ''nodePools'') 0 {} (ncs_NodePools spec) @
         (case ncs_Image spec of None \<Rightarrow> [] | Some img \<Rightarrow> ValidateImageSpec img (path_Child fldPath ''image''))))"

definition ValidateCassandraCluster ::
  "(ObjectMeta \<Rightarrow> field_error list) \<Rightarrow> nCassandraCluster \<Rightarrow> field_error list outcome" where
  "ValidateCassandraCluster other_meta c =
     bind_outcome (ValidateCassandraClusterSpec (ncass_Spec c) ''spec'') (\<lambda>errs.
       Return (ValidateObjectMeta other_meta (ncass_ObjectMeta c) ''metadata'' @ errs))"

definition restore_cass :: "nCassandraClusterNodePool \<Rightarrow> nCassandraClusterNodePool \<Rightarrow> nCassandraClusterNodePool" where
  "restore_cass oldNp newNp = newNp\<lparr>ncnp_Replicas := ncnp_Replicas oldNp, ncnp_Persistence := ncnp_Persistence oldNp\<rparr>"

definition ValidateCassandraClusterUpdate ::
  "(ObjectMeta \<Rightarrow> field_error list) \<Rightarrow> nCassandraCluster \<Rightarrow> nCassandraCluster \<Rightarrow> field_error list outcome" where
  "ValidateCassandraClusterUpdate other_meta old new =
     bind_outcome (ValidateCassandraCluster other_meta new) (\<lambda>errs.
     bind_outcome (Version_Equal (ncs_Version (ncass_Spec new)) (ncs_Version (ncass_Spec old))) (\<lambda>same.
       Return (errs @
         (if \<not> same
          then [Forbidden (path_Child ''spec'' ''version'')
                  (Sprintf ''cannot change the version of an existing cluster. old version: %s, new version: %s''
                    [AStr (versionString (ncs_Version (ncass_Spec old))), AStr (versionString (ncs_Version (ncass_Spec new)))])]
          else []) @
         validate_pool_updates ncnp_Name ncnp_Persistence restore_cass (path_Child ''spec'' ''nodePools'') 0
           (ncs_NodePools (ncass_Spec old)) (ncs_NodePools (ncass_Spec new)))))"

section \<open>ElasticsearchCluster\<close>

definition supportedESClusterRoles :: "string list" where
  "supportedESClusterRoles = [ElasticsearchRoleData, ElasticsearchRoleIngest, ElasticsearchRoleMaster]"

definition ValidateElasticsearchClusterRole :: "string \<Rightarrow> string \<Rightarrow> field_error list" where
  "ValidateElasticsearchClusterRole r fldPath =
     (if r = ElasticsearchRoleData then [] else if r = ElasticsearchRoleIngest then []
      else if r = ElasticsearchRoleMaster then []
      else [NotSupported fldPath (BadStr r) supportedESClusterRoles])"

fun validate_roles :: "string \<Rightarrow> nat \<Rightarrow> string list \<Rightarrow> field_error list" where
  "validate_roles rolesPath i [] = []"
| "validate_roles rolesPath i (r # rs) =
     ValidateElasticsearchClusterRole r (path_Index rolesPath i) @ validate_roles rolesPath (Suc i) rs"

definition ValidateElasticsearchClusterNodePool :: "nElasticsearchClusterNodePool \<Rightarrow> string \<Rightarrow> field_error list" where
  "ValidateElasticsearchClusterNodePool np fldPath =
     ValidateDNS1123Subdomain (nenp_Name np) (path_Child fldPath ''name'') @
     (case nenp_Persistence np of
        None \<Rightarrow> [] | Some p \<Rightarrow> ValidatePersistenceConfig p (path_Child fldPath ''persistence'')) @
     (if nenp_Roles np = [] then [Required (path_Child fldPath ''roles'') ''at least one role must be specified''] else []) @
     validate_roles (path_Child fldPath ''roles'') 0 (nenp_Roles np) @
     (case nenp_Replicas np of
        None \<Rightarrow> []
      | Some r \<Rightarrow> if sint r < 0
                  then [Invalid (path_Child fldPath ''replicas'') (BadIntPtr (Some (sint r))) (Literal ''must be greater than zero'')]
                  else [])"

fun n_count_masters :: "int32 \<Rightarrow> nElasticsearchClusterNodePool list \<Rightarrow> int32 outcome" where
  "n_count_masters masters [] = Return masters"
| "n_count_masters masters (pool # pools) =
     (if ElasticsearchRoleMaster \<in> set (nenp_Roles pool)
      then bind_outcome (deref (nenp_Replicas pool)) (\<lambda>r. n_count_masters (masters + r) pools)
      else n_count_masters masters pools)"

definition validate_masters :: "int32 option \<Rightarrow> int32 \<Rightarrow> string \<Rightarrow> field_error list" where
  "validate_masters minimumMasters numMasters fldPath =
     (let quorum = CalculateQuorum numMasters; mmPath = path_Child fldPath ''minimumMasters''
      in if numMasters = 0
         then [Invalid (path_Child fldPath ''nodePools'') (BadInt (sint numMasters)) (Literal ''must be at least one master node'')]
         else case minimumMasters of
                None \<Rightarrow> []
              | Some m \<Rightarrow>
                  if m = 0 then [Invalid mmPath (BadInt (sint m)) (Literal ''cannot be zero'')]
                  else if sint m < sint quorum
                  then [Invalid mmPath (BadInt (sint m))
                          (Sprintf ''must be a minimum of %d to avoid a split brain scenario'' [AInt (sint quorum)])]
                  else if sint m > sint numMasters
                  then [Invalid mmPath (BadInt (sint m)) (Literal ''cannot be greater than the total number of master nodes'')]
                  else [])"

definition emptySemver :: semver where
  "emptySemver = \<lparr>Major = 0, Minor = 0, Patch = 0, PreRelease = '''', Metadata = ''''\<rparr>"

definition ValidateElasticsearchClusterSpec :: "nElasticsearchClusterSpec \<Rightarrow> string \<Rightarrow> field_error list outcome" where
  "ValidateElasticsearchClusterSpec spec fldPath =
     bind_outcome (n_count_masters 0 (nes_NodePools spec)) (\<lambda>numMasters.
       Return (ValidateNavigatorClusterConfig (nes_Config spec) fldPath @
         (case nes_Image spec of None \<Rightarrow> [] | Some img \<Rightarrow> ValidateImageSpec img (path_Child fldPath ''image'')) @
         validate_pools nenp_Name ValidateElasticsearchClusterNodePool (path_Child fldPath ''nodePools'') 0 {} (nes_NodePools spec) @
         validate_masters (nes_MinimumMasters spec) numMasters fldPath @
         (if semver_Equal (nes_Version spec) emptySemver
          then [Required (path_Child fldPath ''version'') ''must be a semver version''] else [])))"

definition ValidateElasticsearchCluster ::
  "(ObjectMeta \<Rightarrow> field_error list) \<Rightarrow> nElasticsearchCluster \<Rightarrow> field_error list outcome" where
  "ValidateElasticsearchCluster other_meta esc =
     bind_outcome (ValidateElasticsearchClusterSpec (nesc_Spec esc) ''spec'') (\<lambda>errs.
       Return (ValidateObjectMeta other_meta (nesc_ObjectMeta esc) ''metadata'' @ errs))"

definition restore_es :: "nElasticsearchClusterNodePool \<Rightarrow> nElasticsearchClusterNodePool \<Rightarrow> nElasticsearchClusterNodePool" where
  "restore_es oldNp newNp = newNp\<lparr>nenp_Replicas := nenp_Replicas oldNp, nenp_Persistence := nenp_Persistence oldNp\<rparr>"

definition ValidateElasticsearchClusterUpdate ::
  "(ObjectMeta \<Rightarrow> field_error list) \<Rightarrow> nElasticsearchCluster \<Rightarrow> nElasticsearchCluster \<Rightarrow> field_error list outcome" where
  "ValidateElasticsearchClusterUpdate other_meta old new =
     bind_outcome (ValidateElasticsearchCluster other_meta new) (\<lambda>errs.
       Return (errs @
         validate_pool_updates nenp_Name nenp_Persistence restore_es (path_Child ''spec'' ''nodePools'') 0
           (nes_NodePools (nesc_Spec old)) (nes_NodePools (nesc_Spec new))))"

end
