(* ===== verification/Elasticsearch_Actions.thy ===== *)
theory Elasticsearch_Actions
  imports Elasticsearch_Resources Cassandra_Control
begin

text \<open>
  The actions of the Elasticsearch controller (\<open>pkg/controllers/elasticsearch/actions\<close>): creating a
  node pool, scaling it and moving it to another version, with the lookups of pilots they share.
\<close>

definition es_object :: "ElasticsearchCluster \<Rightarrow> string" where
  "es_object c = ''ElasticsearchCluster/'' @ esc_Namespace c @ ''/'' @ esc_Name c"

abbreviation pilot_Name :: "Pilot \<Rightarrow> string" where
  "pilot_Name p \<equiv> Name (pilot_ObjectMeta p)"

section \<open>Creating a node pool\<close>

definition es_CreateNodePool_Execute ::
  "env \<Rightarrow> ElasticsearchCluster \<Rightarrow> ElasticsearchNodePool \<Rightarrow> go_error option prog" where
  "es_CreateNodePool_Execute env c np =
     (case nodePoolStatefulSet c np of
        Inl err \<Rightarrow> ret (Some err)
      | Inr toCreate \<Rightarrow>
          unless_error (api env (CreateStatefulSet toCreate))
            (andThen (eventf (es_object c) ''Normal'' ''CreateNodePool'' ''Created node pool %q'' [AStr (enp_Name np)])
               (\<lambda>_. ret None)))"

section \<open>Pilots of a stateful set\<close>

definition pilotNameForStatefulSetReplica :: "string \<Rightarrow> int32 \<Rightarrow> string" where
  "pilotNameForStatefulSetReplica setName replica = setName @ ''-'' @ show_int (sint replica)"

text \<open>The replicas \<open>0, 1, ..., n - 1\<close>; the list is empty for a negative count.\<close>

definition ordinals :: "int32 \<Rightarrow> int32 list" where
  "ordinals n = map (\<lambda>i. word_of_int (int i)) [0 ..< nat (sint n)]"

fun find_pilots :: "string \<Rightarrow> Pilot list \<Rightarrow> int32 list \<Rightarrow> go_error list \<times> Pilot list" where
  "find_pilots setName pilots [] = ([], [])"
| "find_pilots setName pilots (i # is) =
     (let pilotName = pilotNameForStatefulSetReplica setName i; (errs, output) = find_pilots setName pilots is
      in case find_first (\<lambda>p. pilot_Name p = pilotName) pilots of
           Some p \<Rightarrow> (errs, p # output)
         | None \<Rightarrow> (Errorf ''pilot %q not found'' [AStr pilotName] # errs, output))"

definition pilotsForStatefulSet ::
  "env \<Rightarrow> ElasticsearchCluster \<Rightarrow> ElasticsearchNodePool \<Rightarrow> StatefulSet \<Rightarrow> world \<Rightarrow> go_error + Pilot list" where
  "pilotsForStatefulSet env cluster nodePool statefulSet w =
     (case ss_Replicas statefulSet of
        None \<Rightarrow> Inl (Errorf ''statefulset.spec.replicas cannot be nil'' [])
      | Some replicas \<Rightarrow>
          (case es_SelectorForNodePool (esc_Name cluster) (enp_Name nodePool) of
             Inl err \<Rightarrow> Inl err
           | Inr sel \<Rightarrow>
               (case lister_list env ''pilot'' pilot_ObjectMeta (w_pilots w) (esc_Namespace cluster) sel of
                  Inl err \<Rightarrow> Inl err
                | Inr pilots \<Rightarrow>
                    (let (errs, output) = find_pilots (ss_Name statefulSet) pilots (ordinals replicas)
                     in if length errs > 0 then Inl (StatusMessage NotFound (AggregateError errs))
                        else Inr output))))"

section \<open>Scaling\<close>

text \<open>
  The loop of \<open>determinePilotsToBeRemoved\<close> as written, on 32-bit counters: it counts down from the
  last replica to the desired number, so it never ends for the smallest integer (\<open>None\<close>).
\<close>

partial_function (option) removal_loop ::
  "(int32 \<Rightarrow> Pilot option) \<Rightarrow> int32 \<Rightarrow> int32 \<Rightarrow> Pilot list \<Rightarrow> Pilot list option" where
  "removal_loop lookup i desired acc =
     (if sint i \<ge> sint desired
      then removal_loop lookup (i - 1) desired (acc @ (case lookup i of None \<Rightarrow> [] | Some p \<Rightarrow> [p]))
      else Some acc)"

declare removal_loop.simps [code]

definition pilot_to_remove :: "Pilot list \<Rightarrow> StatefulSet \<Rightarrow> int32 \<Rightarrow> Pilot option" where
  "pilot_to_remove allPilots statefulSet i =
     find_first (\<lambda>p. pilotNameForStatefulSetReplica (ss_Name statefulSet) i = pilot_Name p \<and>
                     Namespace (ss_ObjectMeta statefulSet) = Namespace (pilot_ObjectMeta p)) allPilots"

definition determinePilotsToBeRemoved ::
  "Pilot list \<Rightarrow> StatefulSet \<Rightarrow> int32 \<Rightarrow> (go_error + Pilot list) option" where
  "determinePilotsToBeRemoved allPilots statefulSet replicaDiff =
     (if sint replicaDiff \<ge> 0 then Some (Inr [])
      else case ss_Replicas statefulSet of
             None \<Rightarrow> Some (Inl (Errorf ''current replicas of statefulset cannot be nil'' []))
           | Some currentReplicas \<Rightarrow>
               map_option Inr (removal_loop (pilot_to_remove allPilots statefulSet)
                 (currentReplicas - 1) (currentReplicas + replicaDiff) []))"

text \<open>The first pilot that may still hold documents, with the event recorded for it.\<close>

fun first_not_drained :: "Pilot list \<Rightarrow> (string \<times> string \<times> go_arg list) option" where
  "first_not_drained [] = None"
| "first_not_drained (p # ps) =
     (case pst_Elasticsearch (pilot_Status p) of
        None \<Rightarrow> Some (''Warning'', ''Could not determine document count for pilot %q'', [AStr (pilot_Name p)])
      | Some es \<Rightarrow>
          (case eps_Documents es of
             None \<Rightarrow> Some (''Warning'', ''Could not determine document count for pilot %q'', [AStr (pilot_Name p)])
           | Some documentCount \<Rightarrow>
               if sint documentCount > 0
               then Some (''Normal'', ''Pilot %q still contains %d documents. Will not scale down until empty.'',
                          [AStr (pilot_Name p), AInt (sint documentCount)])
               else first_not_drained ps))"

definition canScaleNodePool ::
  "env \<Rightarrow> ElasticsearchCluster \<Rightarrow> ElasticsearchNodePool \<Rightarrow> StatefulSet \<Rightarrow> int32 \<Rightarrow> (go_error + bool) prog" where
  "canScaleNodePool env cluster np statefulSet replicaDiff =
     (if sint replicaDiff \<ge> 0 then ret (Inr True)
      else if \<not> ContainsElasticsearchRole (enp_Roles np) ElasticsearchRoleData then ret (Inr True)
      else andThen (reads (pilotsForStatefulSet env cluster np statefulSet)) (\<lambda>got.
        case got of
          Inl err \<Rightarrow>
            if IsNotFound err
            then andThen (eventf (es_object cluster) ''Warning'' ''ErrScale''
                   ''Could not get all pilots for statefulset %q: %v'' [AStr (ss_Name statefulSet), AErr err])
                   (\<lambda>_. ret (Inr False))
            else ret (Inl err)
        | Inr allPilots \<Rightarrow>
            (case determinePilotsToBeRemoved allPilots statefulSet replicaDiff of
               None \<Rightarrow> diverge
             | Some (Inl err) \<Rightarrow> ret (Inl err)
             | Some (Inr toRemove) \<Rightarrow>
                 (case first_not_drained toRemove of
                    Some (ty, message, args) \<Rightarrow>
                      andThen (eventf (es_object cluster) ty ''ErrScale'' message args) (\<lambda>_. ret (Inr False))
                  | None \<Rightarrow> ret (Inr True)))))"

definition Scale_Execute ::
  "env \<Rightarrow> ElasticsearchCluster \<Rightarrow> ElasticsearchNodePool \<Rightarrow> int32 \<Rightarrow> go_error option prog" where
  "Scale_Execute env cluster np replicas =
     (let statefulSetName = es_NodePoolResourceName cluster np
      in andThen (reads (\<lambda>w. lister_get env ''statefulset'' ss_ObjectMeta (w_statefulsets w)
                    (esc_Namespace cluster) statefulSetName)) (\<lambda>got.
        case got of
          Inl err \<Rightarrow>
            if IsNotFound err
            then andThen (eventf (es_object cluster) ''Warning'' ''ErrScale''
                   ''Cannot get statefulset %q for node pool %q: %v''
                   [AStr statefulSetName, AStr (enp_Name np), AErr err]) (\<lambda>_. ret None)
            else ret (Some err)
        | Inr statefulSet \<Rightarrow>
            (case ss_Replicas statefulSet of
               None \<Rightarrow> ret (Some (Errorf ''current number of replicas on statefulset cannot be nil'' []))
             | Some currentReplicas \<Rightarrow>
                 (let replicaDiff = replicas - currentReplicas
                  in if replicaDiff = 0 then ret None
                     else andThen (canScaleNodePool env cluster np statefulSet replicaDiff) (\<lambda>can.
                       case can of
                         Inl err \<Rightarrow> ret (Some err)
                       | Inr canScale \<Rightarrow>
                           if \<not> canScale then ret None
                           else unless_error (api env (UpdateStatefulSet (set_replicas replicas statefulSet)))
                                  (andThen (eventf (es_object cluster) ''Normal'' ''Scale''
                                     ''Scaled node pool %q to %d replicas'' [AStr (enp_Name np), AIntPtr (map_option sint (enp_Replicas np))])
                                     (\<lambda>_. ret None)))))))"

section \<open>Moving to another version\<close>

definition pilotVersionUpToDate :: "ElasticsearchClusterSpec \<Rightarrow> PilotStatus \<Rightarrow> bool" where
  "pilotVersionUpToDate spec status =
     (case pst_Elasticsearch status of
        None \<Rightarrow> False
      | Some es \<Rightarrow> (case eps_Version es of None \<Rightarrow> False | Some v \<Rightarrow> semver_Equal v (es_Version spec)))"

definition pilotsUpToDate ::
  "env \<Rightarrow> ElasticsearchCluster \<Rightarrow> ElasticsearchNodePool \<Rightarrow> StatefulSet \<Rightarrow> world \<Rightarrow> go_error option" where
  "pilotsUpToDate env cluster np statefulSet w =
     (case pilotsForStatefulSet env cluster np statefulSet w of
        Inl err \<Rightarrow> Some err
      | Inr pilots \<Rightarrow>
          map_option (\<lambda>p. Errorf ''Pilot %q is not up to date'' [AStr (pilot_Name p)])
            (find_first (\<lambda>p. \<not> pilotVersionUpToDate (esc_Spec cluster) (pilot_Status p)) pilots))"

definition es_partition :: "StatefulSet \<Rightarrow> int32" where
  "es_partition ss =
     (case us_RollingUpdate (sss_UpdateStrategy (ss_Spec ss)) of
        None \<Rightarrow> 0
      | Some ru \<Rightarrow> (case ru_Partition ru of None \<Rightarrow> 0 | Some p \<Rightarrow> p))"

definition nextPartition :: "int32 \<Rightarrow> int32 \<Rightarrow> int32" where
  "nextPartition desiredReplicas updatedReplicas =
     (let next = desiredReplicas - updatedReplicas - 1 in if next = - 1 then 0 else next)"

definition set_version_annotation :: "string \<Rightarrow> StatefulSet \<Rightarrow> StatefulSet" where
  "set_version_annotation v ss = ss\<lparr>ss_ObjectMeta := (ss_ObjectMeta ss)
     \<lparr>Annotations := map_option (\<lambda>m. m(ElasticsearchNodePoolVersionAnnotation \<mapsto> v)) (Annotations (ss_ObjectMeta ss))\<rparr>\<rparr>"

definition set_first_image :: "string \<Rightarrow> Container list \<Rightarrow> Container list" where
  "set_first_image img cs = (case cs of [] \<Rightarrow> [] | d # ds \<Rightarrow> d\<lparr>c_Image := img\<rparr> # ds)"

definition set_partition_and_image :: "int32 \<Rightarrow> string \<Rightarrow> StatefulSet \<Rightarrow> StatefulSet" where
  "set_partition_and_image p img ss =
     (let spec = ss_Spec ss; template = sss_Template spec; podSpec = pt_Spec template
      in ss\<lparr>ss_Spec := spec
          \<lparr>sss_UpdateStrategy := (sss_UpdateStrategy spec)\<lparr>us_RollingUpdate := Some \<lparr>ru_Partition = Some p\<rparr>\<rparr>,
           sss_Template := template\<lparr>pt_Spec := podSpec\<lparr>ps_Containers := set_first_image img (ps_Containers podSpec)\<rparr>\<rparr>\<rparr>\<rparr>)"

text \<open>
  \<open>Execute\<close> formats its messages first and hands some of them to \<open>Eventf\<close> as a format without
  operands; the text recorded is the same unless a name in it contains a percent sign.
\<close>

text \<open>The update of the stateful set at the end of \<open>Execute\<close>.\<close>

definition send_update :: "env \<Rightarrow> ElasticsearchCluster \<Rightarrow> StatefulSet \<Rightarrow> string \<Rightarrow> go_arg list \<Rightarrow> go_error option prog" where
  "send_update env cluster ss message args =
     unless_error (api env (UpdateStatefulSet ss))
       (andThen (eventf (es_object cluster) ''Normal'' ''UpdateVersion'' message args) (\<lambda>_. ret None))"

definition warn_update :: "ElasticsearchCluster \<Rightarrow> string \<Rightarrow> go_arg list \<Rightarrow> go_error option prog" where
  "warn_update cluster message args =
     andThen (eventf (es_object cluster) ''Warning'' ''ErrUpdateVersion'' message args) (\<lambda>_. ret None)"

text \<open>The switch of \<open>Execute\<close>, once every replica is ready.\<close>

definition update_step ::
  "env \<Rightarrow> ElasticsearchCluster \<Rightarrow> ElasticsearchNodePool \<Rightarrow> StatefulSet \<Rightarrow> int32 \<Rightarrow> ImageSpec \<Rightarrow> go_error option prog" where
  "update_step env cluster np statefulSet desiredReplicas newImageSpec =
     (case ps_Containers (pt_Spec (sss_Template (ss_Spec statefulSet))) of
        [] \<Rightarrow> warn_update cluster ''No containers specified on statefulset %q pod template'' [AStr (ss_Name statefulSet)]
      | first # rest \<Rightarrow>
          (let newImage = img_Repository newImageSpec @ '':'' @ img_Tag newImageSpec;
               version = semver_String (es_Version (esc_Spec cluster));
               next = nextPartition desiredReplicas (sst_UpdatedReplicas (ss_Status statefulSet));
               lastUpdated = next + 1;
               proceed = send_update env cluster (set_partition_and_image next newImage statefulSet)
                 ''Updating replica %s to version %s''
                 [AStr (pilotNameForStatefulSetReplica (ss_Name statefulSet) next), AStr version]
           in andThen (reads (pilotsUpToDate env cluster np statefulSet)) (\<lambda>upToDate.
             if upToDate = None
             then send_update env cluster (set_version_annotation version statefulSet)
                    ''Updated node pool %q to version %q'' [AStr (enp_Name np), AStr version]
             else if es_partition statefulSet \<noteq> next \<or> c_Image first \<noteq> newImage
             then (if sint lastUpdated < sint desiredReplicas
                   then andThen (reads (\<lambda>w. lister_get env ''pilot'' pilot_ObjectMeta (w_pilots w) (esc_Namespace cluster)
                                  (pilotNameForStatefulSetReplica (ss_Name statefulSet) lastUpdated))) (\<lambda>got.
                     case got of
                       Inl err \<Rightarrow> ret (Some err)
                     | Inr lastPilot \<Rightarrow>
                         if \<not> pilotVersionUpToDate (esc_Spec cluster) (pilot_Status lastPilot)
                         then warn_update cluster ''Pilot %q has not finished updating to version %q''
                                [AStr (pilot_Name lastPilot), AStr version]
                         else proceed)
                   else proceed)
             else ret None)))"

definition UpdateVersion_Execute ::
  "env \<Rightarrow> ElasticsearchCluster \<Rightarrow> ElasticsearchNodePool \<Rightarrow> go_error option prog" where
  "UpdateVersion_Execute env cluster np =
     andThen (reads (\<lambda>w. lister_get env ''statefulset'' ss_ObjectMeta (w_statefulsets w)
                (esc_Namespace cluster) (es_NodePoolResourceName cluster np))) (\<lambda>got.
       case got of
         Inl err \<Rightarrow> ret (Some err)
       | Inr statefulSet \<Rightarrow>
           (case est_Health (esc_Status cluster) of
              None \<Rightarrow> ret (Some (Errorf ''Could not determine current health of Elasticsearch cluster'' []))
            | Some health \<Rightarrow>
                if health = ElasticsearchClusterHealthRed
                then warn_update cluster ''Cluster is in a red state, refusing to upgrade node pool %q'' [AStr (enp_Name np)]
                else
                  (case mlookup (Annotations (ss_ObjectMeta statefulSet)) ElasticsearchNodePoolVersionAnnotation of
                     None \<Rightarrow> warn_update cluster ''StatefulSet %q does not have an Elasticsearch version annotation''
                               [AStr (ss_Name statefulSet)]
                   | Some currentVersionStr \<Rightarrow>
                       (case semver_Set currentVersionStr of
                          Inl err \<Rightarrow> warn_update cluster ''Invalid version string %q on statefulset %q: %v''
                                       [AStr currentVersionStr, AStr (ss_Name statefulSet), AErr err]
                        | Inr currentVersion \<Rightarrow>
                            if semver_Equal (es_Version (esc_Spec cluster)) currentVersion then ret None
                            else
                              (case esImageToUse (esc_Spec cluster) of
                                 Inl err \<Rightarrow> warn_update cluster
                                   ''Cannot determine Elasticsearch image to use for cluster: %v'' [AErr err]
                               | Inr newImageSpec \<Rightarrow>
                                   andThen (lift (deref (ss_Replicas statefulSet))) (\<lambda>desiredReplicas.
                                     if desiredReplicas \<noteq> sst_ReadyReplicas (ss_Status statefulSet) then ret None
                                     else update_step env cluster np statefulSet desiredReplicas newImageSpec))))))"

end
