(* ===== verification/Elasticsearch_Control.thy ===== *)
theory Elasticsearch_Control
  imports Elasticsearch_Actions
begin

text \<open>
  The Elasticsearch controller: the controls for service account, services, role, role binding and
  config maps, the choice of the next action, the status and the removal of node pools, the cluster
  \<open>Sync\<close> (\<open>cluster_control.go\<close>) and the controller's \<open>sync\<close> (\<open>elasticsearch.go\<close>).
\<close>

section \<open>The controls for single objects\<close>

fun requirement_String :: "requirement \<Rightarrow> string" where
  "requirement_String (Equals k v) = k @ ''='' @ v"

definition selector_String :: "selector \<Rightarrow> string" where
  "selector_String sel = join '','' (map requirement_String sel)"

definition es_serviceaccount_Sync :: "env \<Rightarrow> ElasticsearchCluster \<Rightarrow> go_error option prog" where
  "es_serviceaccount_Sync env c =
     (case es_SelectorForCluster (esc_Name c) of
        Inl err \<Rightarrow> ret (Some (Errorf (''error creating label selector for cluster '%s': %s'')
                                [AStr (esc_Name c), AErr err]))
      | Inr sel \<Rightarrow>
          andThen (reads (\<lambda>w. lister_list env ''serviceaccount'' sa_ObjectMeta (w_serviceaccounts w)
                     (esc_Namespace c) sel)) (\<lambda>got.
            case got of
              Inl err \<Rightarrow> ret (Some err)
            | Inr svcAccts \<Rightarrow>
                if length svcAccts > 1
                then ret (Some (Errorf ''multiple service accounts match label selector (%s)'' [AStr (selector_String sel)]))
                else if length svcAccts = 0 then api env (CreateServiceAccount (clusterServiceAccount c))
                else ret None))"

definition ensureService :: "env \<Rightarrow> Service \<Rightarrow> go_error option prog" where
  "ensureService env svc =
     andThen (reads (\<lambda>w. lister_get env ''service'' svc_ObjectMeta (w_services w)
                (Namespace (svc_ObjectMeta svc)) (Name (svc_ObjectMeta svc)))) (\<lambda>got.
       case got of
         Inl err \<Rightarrow> if IsNotFound err then api env (CreateService svc) else ret (Some err)
       | Inr _ \<Rightarrow> ret None)"

text \<open>\<open>fmt.Errorf\<close> around the error of a call.\<close>

definition wrap_error :: "string \<Rightarrow> go_arg list \<Rightarrow> go_error option prog \<Rightarrow> go_error option prog" where
  "wrap_error message args m = andThen m (\<lambda>err. ret (map_option (\<lambda>e. Errorf message (args @ [AErr e])) err))"

definition es_service_Sync :: "env \<Rightarrow> ElasticsearchCluster \<Rightarrow> go_error option prog" where
  "es_service_Sync env c =
     unless_error (wrap_error ''error ensuring discovery service: %s'' [] (ensureService env (discoveryService c)))
       (wrap_error ''error ensuring client service: %s'' [] (ensureService env (clientService c)))"

definition ensureConfigMap :: "env \<Rightarrow> ConfigMap \<Rightarrow> go_error option prog" where
  "ensureConfigMap env configMap =
     andThen (reads (\<lambda>w. lister_get env ''configmap'' cm_ObjectMeta (w_configmaps w)
                (Namespace (cm_ObjectMeta configMap)) (Name (cm_ObjectMeta configMap)))) (\<lambda>got.
       case got of
         Inl err \<Rightarrow> if IsNotFound err then api env (CreateConfigMap configMap) else ret (Some err)
       | Inr _ \<Rightarrow> ret None)"

definition es_configmap_Sync :: "env \<Rightarrow> ElasticsearchCluster \<Rightarrow> go_error option prog" where
  "es_configmap_Sync env c =
     each_error (\<lambda>np. wrap_error ''error ensuring %q/%q nodepool configmap: %s'' [AStr (esc_Name c), AStr (enp_Name np)]
         (andThen (lift (esConfigConfigMap c np)) (ensureConfigMap env)))
       (es_NodePools (esc_Spec c))"

definition es_ownerCheck :: "ObjectMeta \<Rightarrow> ElasticsearchCluster \<Rightarrow> go_error option" where
  "es_ownerCheck obj cluster =
     (if \<not> IsControlledBy obj (esc_ObjectMeta cluster)
      then Some (Errorf (''foreign owned Role: A Role with name '%s/%s' already exists, but it is controlled by '%v', not '%s/%s''
               @ [CHR 0x27])
             [AStr (Namespace obj), AStr (Name obj), AOwner (GetControllerOf obj),
              AStr (esc_Namespace cluster), AStr (esc_Name cluster)])
      else None)"

definition es_role_Sync :: "env \<Rightarrow> ElasticsearchCluster \<Rightarrow> go_error option prog" where
  "es_role_Sync env c =
     (let desiredRole = roleForCluster c
      in andThen (reads (\<lambda>w. lister_get env ''role'' role_ObjectMeta (w_roles w)
                    (Namespace (role_ObjectMeta desiredRole)) (Name (role_ObjectMeta desiredRole)))) (\<lambda>got.
           case got of
             Inl err \<Rightarrow> if IsNotFound err then api env (CreateRole desiredRole) else ret (Some err)
           | Inr existingRole \<Rightarrow>
               (case es_ownerCheck (role_ObjectMeta existingRole) c of
                  Some err \<Rightarrow> ret (Some err)
                | None \<Rightarrow>
                    if role_Rules desiredRole \<noteq> role_Rules existingRole then api env (UpdateRole desiredRole)
                    else ret None)))"

definition es_rolebinding_Sync :: "env \<Rightarrow> ElasticsearchCluster \<Rightarrow> go_error option prog" where
  "es_rolebinding_Sync env c =
     (let desired = roleBindingForCluster c
      in andThen (reads (\<lambda>w. lister_get env ''rolebinding'' rb_ObjectMeta (w_rolebindings w)
                    (Namespace (rb_ObjectMeta desired)) (Name (rb_ObjectMeta desired)))) (\<lambda>got.
           case got of
             Inl err \<Rightarrow> if IsNotFound err then api env (CreateRoleBinding desired) else ret (Some err)
           | Inr existing \<Rightarrow>
               (case es_ownerCheck (rb_ObjectMeta existing) c of
                  Some err \<Rightarrow> ret (Some err)
                | None \<Rightarrow>
                    if rb_RoleRef desired \<noteq> rb_RoleRef existing \<or> rb_Subjects desired \<noteq> rb_Subjects existing
                    then api env (UpdateRoleBinding desired)
                    else ret None)))"

section \<open>The next action\<close>

datatype es_action =
    Es_CreateNodePool ElasticsearchNodePool
  | Es_UpdateVersion ElasticsearchNodePool
  | Es_Scale ElasticsearchNodePool int32

fun es_action_Name :: "es_action \<Rightarrow> string" where
  "es_action_Name (Es_CreateNodePool np) = ''CreateNodePool''"
| "es_action_Name (Es_UpdateVersion np) = ''UpdateVersion''"
| "es_action_Name (Es_Scale np replicas) = ''Scale''"

fun es_Execute :: "env \<Rightarrow> ElasticsearchCluster \<Rightarrow> es_action \<Rightarrow> go_error option prog" where
  "es_Execute env c (Es_CreateNodePool np) = es_CreateNodePool_Execute env c np"
| "es_Execute env c (Es_UpdateVersion np) = UpdateVersion_Execute env c np"
| "es_Execute env c (Es_Scale np replicas) = Scale_Execute env c np replicas"

definition nextActionForNodePool ::
  "env \<Rightarrow> ElasticsearchCluster \<Rightarrow> ElasticsearchNodePool \<Rightarrow> (go_error + es_action option) prog" where
  "nextActionForNodePool env c np =
     andThen (reads (\<lambda>w. lister_get env ''statefulset'' ss_ObjectMeta (w_statefulsets w)
                (esc_Namespace c) (es_NodePoolResourceName c np))) (\<lambda>got.
       case got of
         Inl err \<Rightarrow> if IsNotFound err then ret (Inr (Some (Es_CreateNodePool np))) else ret (Inl err)
       | Inr statefulSet \<Rightarrow>
           (case mlookup (Annotations (ss_ObjectMeta statefulSet)) ElasticsearchNodePoolVersionAnnotation of
              None \<Rightarrow> ret (Inl (Errorf ''cannot determine existing Elasticsearch version of statefulset %q''
                                  [AStr (ss_Name statefulSet)]))
            | Some currentVersionStr \<Rightarrow>
                if semver_String (es_Version (esc_Spec c)) \<noteq> currentVersionStr
                then ret (Inr (Some (Es_UpdateVersion np)))
                else
                  (case ss_Replicas statefulSet of
                     None \<Rightarrow> ret (Inl (Errorf ''current number of replicas on statefulset cannot be nil'' []))
                   | Some currentDesiredReplicas \<Rightarrow>
                       andThen (lift (deref (enp_Replicas np))) (\<lambda>replicas.
                         if currentDesiredReplicas \<noteq> replicas then ret (Inr (Some (Es_Scale np replicas)))
                         else ret (Inr None)))))"

fun next_action_of ::
  "env \<Rightarrow> ElasticsearchCluster \<Rightarrow> ElasticsearchNodePool list \<Rightarrow> (go_error + es_action option) prog" where
  "next_action_of env c [] = ret (Inr None)"
| "next_action_of env c (np # nps) =
     andThen (nextActionForNodePool env c np) (\<lambda>got.
       case got of
         Inl err \<Rightarrow> ret (Inl err)
       | Inr (Some action) \<Rightarrow> ret (Inr (Some action))
       | Inr None \<Rightarrow> next_action_of env c nps)"

definition nextAction :: "env \<Rightarrow> ElasticsearchCluster \<Rightarrow> (go_error + es_action option) prog" where
  "nextAction env c = next_action_of env c (es_NodePools (esc_Spec c))"

section \<open>Status and removed node pools\<close>

text \<open>
  A map of Go is a reference: the maps there are, and \<open>c.Status.NodePools\<close> as the position of one of
  them or nil.
\<close>

type_synonym pool_map = "string \<rightharpoonup> ElasticsearchNodePoolStatus"

definition set_ready ::
  "string \<Rightarrow> int32 \<Rightarrow> pool_map \<Rightarrow> pool_map" where
  "set_ready name ready m =
     m(name \<mapsto> (case m name of None \<Rightarrow> \<lparr>ens_ReadyReplicas = 0\<rparr> | Some s \<Rightarrow> s)\<lparr>ens_ReadyReplicas := ready\<rparr>)"

fun pool_statuses ::
  "env \<Rightarrow> ElasticsearchCluster \<Rightarrow> world \<Rightarrow> nat \<Rightarrow> ElasticsearchNodePool list \<Rightarrow> pool_map list \<Rightarrow>
   go_error option \<times> pool_map list" where
  "pool_statuses env c w ref [] maps = (None, maps)"
| "pool_statuses env c w ref (pool # pools) maps =
     (case lister_get env ''statefulset'' ss_ObjectMeta (w_statefulsets w) (esc_Namespace c)
             (es_NodePoolResourceName c pool) of
        Inl err \<Rightarrow> if IsNotFound err then pool_statuses env c w ref pools maps else (Some err, maps)
      | Inr statefulSet \<Rightarrow>
          pool_statuses env c w ref pools
            (maps[ref := set_ready (enp_Name pool) (sst_ReadyReplicas (ss_Status statefulSet)) (maps ! ref)]))"

text \<open>A nil map is replaced by a new one, in the cluster it is called for.\<close>

definition updateClusterStatus ::
  "env \<Rightarrow> ElasticsearchCluster \<Rightarrow> world \<Rightarrow> nat option \<Rightarrow> pool_map list \<Rightarrow> go_error option \<times> nat option \<times> pool_map list" where
  "updateClusterStatus env c w NodePools maps =
     (let (ref, maps) = (case NodePools of None \<Rightarrow> (length maps, maps @ [Map.empty]) | Some ref \<Rightarrow> (ref, maps));
          (err, maps) = pool_statuses env c w ref (es_NodePools (esc_Spec c)) maps
      in (err, Some ref, maps))"

text \<open>
  \<open>return c.Status, err\<close> copies the status, with the reference to the map, and the error into unnamed
  results; the deferred function runs after that. What it assigns to \<open>c.Status.NodePools\<close> and to \<open>err\<close>
  is not returned, what it writes into the map is.
\<close>

definition returned_status :: "env \<Rightarrow> ElasticsearchCluster \<Rightarrow> world \<Rightarrow> ElasticsearchClusterStatus" where
  "returned_status env c w =
     (let (NodePools, maps) = (case est_NodePools (esc_Status c) of None \<Rightarrow> (None, []) | Some m \<Rightarrow> (Some 0, [m]));
          result = NodePools;
          (err, NodePools, maps) = updateClusterStatus env c w NodePools maps
      in (esc_Status c)\<lparr>est_NodePools := map_option (\<lambda>ref. maps ! ref) result\<rparr>)"

fun remove_first :: "('a \<Rightarrow> bool) \<Rightarrow> 'a list \<Rightarrow> 'a list" where
  "remove_first P [] = []"
| "remove_first P (x # xs) = (if P x then xs else x # remove_first P xs)"

definition pool_of_set :: "string \<Rightarrow> StatefulSet \<Rightarrow> bool" where
  "pool_of_set name ss \<longleftrightarrow> Labels (ss_ObjectMeta ss) \<noteq> None \<and>
     mget (Labels (ss_ObjectMeta ss)) ElasticsearchNodePoolNameLabel = name"

definition unreferenced_sets :: "ElasticsearchNodePool list \<Rightarrow> StatefulSet list \<Rightarrow> StatefulSet list" where
  "unreferenced_sets pools sets = foldl (\<lambda>sets np. remove_first (pool_of_set (enp_Name np)) sets) sets pools"

definition reconcileNodePools :: "env \<Rightarrow> ElasticsearchCluster \<Rightarrow> go_error option prog" where
  "reconcileNodePools env c =
     (case es_SelectorForCluster (esc_Name c) of
        Inl err \<Rightarrow> ret (Some (Errorf (''error creating label selector for cluster '%s': %s'')
                                [AStr (esc_Name c), AErr err]))
      | Inr sel \<Rightarrow>
          andThen (reads (\<lambda>w. lister_list env ''statefulset'' ss_ObjectMeta (w_statefulsets w) (esc_Namespace c) sel))
            (\<lambda>got. case got of
               Inl err \<Rightarrow> ret (Some err)
             | Inr sets \<Rightarrow>
                 each_error (\<lambda>ss. if \<not> IsControlledBy (ss_ObjectMeta ss) (esc_ObjectMeta c) then ret None
                                  else api env (DeleteStatefulSet (Namespace (ss_ObjectMeta ss)) (ss_Name ss)))
                   (unreferenced_sets (es_NodePools (esc_Spec c)) sets)))"

section \<open>Synchronising a cluster\<close>

definition es_syncPausedConditions :: "nat \<Rightarrow> ElasticsearchCluster \<Rightarrow> ElasticsearchCluster" where
  "es_syncPausedConditions t c = c\<lparr>esc_Status := (esc_Status c)\<lparr>est_Conditions :=
     syncPausedConditions t (Paused (es_Config (esc_Spec c))) (est_Conditions (esc_Status c))\<rparr>\<rparr>"

text \<open>A failed step records a warning and ends the synchronisation with its error.\<close>

definition es_step ::
  "ElasticsearchCluster \<Rightarrow> string \<Rightarrow> string \<Rightarrow> go_error option prog \<Rightarrow> go_error option prog \<Rightarrow> go_error option prog" where
  "es_step c reason message m k =
     andThen m (\<lambda>err. case err of
         Some e \<Rightarrow> andThen (eventf (es_object c) ''Warning'' reason message [AErr e]) (\<lambda>_. ret (Some e))
       | None \<Rightarrow> k)"

definition es_act :: "env \<Rightarrow> ElasticsearchCluster \<Rightarrow> go_error option prog" where
  "es_act env c =
     andThen (nextAction env c) (\<lambda>got.
       case got of
         Inl e \<Rightarrow> es_step c ''ErrSync'' ''Error syncing node pools: %s'' (ret (Some e)) (ret None)
       | Inr None \<Rightarrow> reconcileNodePools env c
       | Inr (Some action) \<Rightarrow>
           es_step c (''Err'' @ es_action_Name action) ''Error syncing node pools: %s'' (es_Execute env c action) (ret None))"

definition es_steps :: "env \<Rightarrow> ElasticsearchCluster \<Rightarrow> go_error option prog" where
  "es_steps env c =
     es_step c ''ErrSync'' ''Error syncing service account: %s'' (es_serviceaccount_Sync env c) (
     es_step c ''ErrSync'' ''Error syncing service: %s'' (es_service_Sync env c) (
     es_step c ''ErrSync'' ''Error syncing RBAC roles: %s'' (es_role_Sync env c) (
     es_step c ''ErrSync'' ''Error syncing RBAC role bindings: %s'' (es_rolebinding_Sync env c) (
     es_step c ''ErrSync'' ''Error syncing config map: %s'' (es_configmap_Sync env c) (
     es_act env c)))))"

definition es_Sync :: "env \<Rightarrow> ElasticsearchCluster \<Rightarrow> (ElasticsearchClusterStatus \<times> go_error option) prog" where
  "es_Sync env c0 =
     (let c = es_syncPausedConditions (now env) c0
      in if Paused (es_Config (esc_Spec c)) then ret (esc_Status c, None)
         else andThen (es_steps env c) (\<lambda>err.
              andThen (reads (returned_status env c)) (\<lambda>status. ret (status, err))))"

definition es_updateStatus ::
  "env \<Rightarrow> ElasticsearchCluster \<Rightarrow> ElasticsearchClusterStatus \<Rightarrow> go_error option prog" where
  "es_updateStatus env c status = api env (UpdateElasticsearchStatus (c\<lparr>esc_Status := status\<rparr>))"

definition es_controller_sync :: "env \<Rightarrow> string \<Rightarrow> go_error option prog" where
  "es_controller_sync env key =
     (case SplitMetaNamespaceKey key of
        Inl err \<Rightarrow> ret (Some err)
      | Inr (namespace, name) \<Rightarrow>
          andThen (reads (\<lambda>w. lister_get env ''elasticsearchcluster'' esc_ObjectMeta (w_elasticsearchclusters w)
                     namespace name))
            (\<lambda>got. case got of
               Inl err \<Rightarrow> if IsNotFound err then ret None else ret (Some err)
             | Inr es \<Rightarrow>
                 andThen (es_Sync env es) (\<lambda>(status, err).
                 andThen (es_updateStatus env es status) (\<lambda>updateErr.
                   if err = None then ret updateErr else ret (NewAggregate [err, updateErr])))))"

end
