(* ===== verification/Elasticsearch_Correct.thy ===== *)
theory Elasticsearch_Correct
  imports Elasticsearch_Control Cassandra_Correct
begin

text \<open>
  Correctness of the Elasticsearch controller: the pilots a scale down removes, the steps of a
  version change, the stateful sets a reconciliation deletes, the requests of a synchronisation and
  the status it reports.
\<close>

section \<open>Pilots of a stateful set\<close>

lemma pilotNameForStatefulSetReplica_inj:
  "pilotNameForStatefulSetReplica s i = pilotNameForStatefulSetReplica s j \<longleftrightarrow> i = j"
  by (auto simp: pilotNameForStatefulSetReplica_def sint_eq_iff32 dest: show_int_inj)

lemma find_pilots_found:
  assumes "fst (find_pilots s pilots is) = []" and "i \<in> set is"
  shows "\<exists>p \<in> set (snd (find_pilots s pilots is)). pilot_Name p = pilotNameForStatefulSetReplica s i"
  using assms
  by (induction "is") (auto simp: Let_def split: prod.splits option.splits dest: find_first_Some)

lemma find_pilots_sub: "set (snd (find_pilots s pilots is)) \<subseteq> set pilots"
  by (induction "is") (auto simp: Let_def split: prod.splits option.splits dest: find_first_Some)

lemma ordinals_mem:
  assumes "0 \<le> j" "j < sint n"
  shows "word_of_int j \<in> set (ordinals n)"
proof -
  have "nat j \<in> set [0 ..< nat (sint n)]" using assms by auto
  then have "word_of_int (int (nat j)) \<in> set (ordinals n)" unfolding ordinals_def set_map by (rule imageI)
  with assms(1) show ?thesis by simp
qed

lemma pilotsForStatefulSet_Inr:
  assumes "pilotsForStatefulSet env c np ss w = Inr pilots"
  obtains sel ps n where "ss_Replicas ss = Some n"
    "lister_list env ''pilot'' pilot_ObjectMeta (w_pilots w) (esc_Namespace c) sel = Inr ps"
    "find_pilots (ss_Name ss) ps (ordinals n) = ([], pilots)"
  using assms
  by (auto simp: pilotsForStatefulSet_def Let_def split: option.splits sum.splits prod.splits if_splits)

lemma pilotsForStatefulSet_all:
  assumes "pilotsForStatefulSet env c np ss w = Inr pilots" and "ss_Replicas ss = Some n"
    and "0 \<le> j" "j < sint n"
  shows "\<exists>p \<in> set pilots. pilot_Name p = pilotNameForStatefulSetReplica (ss_Name ss) (word_of_int j)"
proof -
  obtain ps where "find_pilots (ss_Name ss) ps (ordinals n) = ([], pilots)"
    using assms(1,2) by (auto elim: pilotsForStatefulSet_Inr)
  with find_pilots_found [OF _ ordinals_mem [OF assms(3,4)], of "ss_Name ss" ps] show ?thesis by simp
qed

lemma pilotsForStatefulSet_cached:
  assumes "pilotsForStatefulSet env c np ss w = Inr pilots" and "esc_Namespace c \<noteq> ''''" and "p \<in> set pilots"
  shows "p \<in> set (w_pilots w) \<and> Namespace (pilot_ObjectMeta p) = esc_Namespace c"
proof -
  from assms(1) obtain sel ps n where
    ps: "lister_list env ''pilot'' pilot_ObjectMeta (w_pilots w) (esc_Namespace c) sel = Inr ps"
    and f: "find_pilots (ss_Name ss) ps (ordinals n) = ([], pilots)"
    by (rule pilotsForStatefulSet_Inr)
  have "p \<in> set ps" using assms(3) find_pilots_sub [of "ss_Name ss" ps "ordinals n"] f by auto
  with cached.list_sound [OF ps assms(2)] show ?thesis by simp
qed

section \<open>Removed replicas\<close>

text \<open>The loop of \<open>determinePilotsToBeRemoved\<close> on integers, which ends for every pair of bounds.\<close>

function removals :: "(int32 \<Rightarrow> Pilot option) \<Rightarrow> int \<Rightarrow> int \<Rightarrow> Pilot list" where
  "removals lookup i desired =
     (if i \<ge> desired
      then (case lookup (word_of_int i) of None \<Rightarrow> [] | Some p \<Rightarrow> [p]) @ removals lookup (i - 1) desired
      else [])"
  by pat_completeness auto
termination
  by (relation "measure (\<lambda>(lookup, i, desired). nat (i - desired + 1))") auto

declare removals.simps [simp del]

lemma removals_set:
  "set (removals f i d) = {p. \<exists>j. d \<le> j \<and> j \<le> i \<and> f (word_of_int j) = Some p}"
proof (induction f i d rule: removals.induct)
  case (1 f i d)
  show ?case
  proof (cases "d \<le> i")
    case True
    then have "set (removals f i d) = set_option (f (word_of_int i)) \<union> set (removals f (i - 1) d)"
      by (subst removals.simps) (auto split: option.split)
    also have "\<dots> = {p. \<exists>j. d \<le> j \<and> j \<le> i \<and> f (word_of_int j) = Some p}"
      using True unfolding 1 [OF True] by (auto simp: elem_set) (smt (verit))+
    finally show ?thesis .
  next
    case False
    then show ?thesis by (subst removals.simps) auto
  qed
qed

text \<open>The loop on machine integers computes the list above, unless it is to count below the smallest one.\<close>

lemma removal_loop_removals:
  assumes "- (2 ^ 31) < sint d"
  shows "removal_loop f i d acc = Some (acc @ removals f (sint i) (sint d))"
  using assms
proof (induction "nat (sint i - sint d + 1)" arbitrary: i acc rule: less_induct)
  case less
  show ?case
  proof (cases "sint d \<le> sint i")
    case True
    have one: "sint (1 :: int32) = 1" by simp
    have pred: "sint (i - 1) = sint i - 1"
      using sint_diff32 [of i 1] one True less.prems sint_range32(2) [of i] by simp
    have "nat (sint (i - 1) - sint d + 1) < nat (sint i - sint d + 1)" using pred True by simp
    from less.hyps [OF this less.prems] show ?thesis
      using True pred by (subst removal_loop.simps, subst removals.simps) (simp split: option.split)
  next
    case False
    then show ?thesis by (subst removal_loop.simps, subst removals.simps) simp
  qed
qed

lemma removal_loop_returns: "removal_loop f i d acc = Some r \<Longrightarrow> sint d \<noteq> - (2 ^ 31)"
proof (erule removal_loop.raw_induct [rotated, where P = "\<lambda>f i d acc r. sint d \<noteq> - (2 ^ 31)"])
  fix loop :: "(int32 \<Rightarrow> Pilot option) \<Rightarrow> int32 \<Rightarrow> int32 \<Rightarrow> Pilot list \<Rightarrow> Pilot list option"
  fix f i d acc r
  assume hyp: "\<And>f i d acc r. loop f i d acc = Some r \<Longrightarrow> sint d \<noteq> - (2 ^ 31)"
    and body: "(if sint d \<le> sint i
       then loop f (i - 1) d (acc @ (case f i of None \<Rightarrow> [] | Some p \<Rightarrow> [p])) else Some acc) = Some r"
  show "sint d \<noteq> - (2 ^ 31)"
    using body hyp sint_range32(1) [of i] by (cases "sint d \<le> sint i") auto
qed

lemma removal_loop_smallest: "removal_loop f i d acc = None \<longleftrightarrow> sint d = - (2 ^ 31)"
proof (cases "removal_loop f i d acc")
  case None
  then have "\<not> - (2 ^ 31) < sint d" using removal_loop_removals [of d f i acc] by (metis option.distinct(1))
  then show ?thesis using None sint_range32(1) [of d] by simp
next
  case (Some r)
  then show ?thesis using removal_loop_returns by auto
qed

section \<open>Scaling down\<close>

definition pilot_drained :: "Pilot \<Rightarrow> bool" where
  "pilot_drained p \<longleftrightarrow>
     (\<exists>es d. pst_Elasticsearch (pilot_Status p) = Some es \<and> eps_Documents es = Some d \<and> sint d \<le> 0)"

lemma first_not_drained_None: "first_not_drained ps = None \<longleftrightarrow> (\<forall>p \<in> set ps. pilot_drained p)"
  by (induction ps) (auto simp: pilot_drained_def split: option.splits)

definition replica_drained :: "world \<Rightarrow> StatefulSet \<Rightarrow> int \<Rightarrow> bool" where
  "replica_drained w ss j \<longleftrightarrow>
     (\<exists>p \<in> set (w_pilots w). Namespace (pilot_ObjectMeta p) = Namespace (ss_ObjectMeta ss) \<and>
        pilot_Name p = ss_Name ss @ ''-'' @ show_int j \<and> pilot_drained p)"

lemma canScaleNodePool_drained:
  assumes can: "canScaleNodePool env c np ss diff w = Done (Inr True) w'"
    and data: "ElasticsearchRoleData \<in> set (enp_Roles np)"
    and ns: "esc_Namespace c \<noteq> ''''" "Namespace (ss_ObjectMeta ss) = esc_Namespace c"
    and cur: "ss_Replicas ss = Some cur" and diff: "diff = r - cur"
    and r: "0 \<le> sint r" "sint r \<le> j" "j < sint cur"
  shows "replica_drained w ss j"
proof -
  have one: "sint (1 :: int32) = 1" by simp
  have d: "sint diff = sint r - sint cur"
    unfolding diff using r sint_range32(2) [of r] sint_range32(2) [of cur] by (intro sint_diff32) linarith+
  have last: "sint (cur - 1) = sint cur - 1"
    using sint_diff32 [of cur 1] one r sint_range32(2) [of cur] by simp
  have desired: "sint (cur + diff) = sint r" by (simp add: diff)
  have loop: "removal_loop f (cur - 1) (cur + diff) [] = Some (removals f (sint cur - 1) (sint r))" for f
    using removal_loop_removals [of "cur + diff" f "cur - 1" "[]"] r by (simp add: desired last)
  from can d r data obtain pilots where pilots: "pilotsForStatefulSet env c np ss w = Inr pilots"
    by (cases "pilotsForStatefulSet env c np ss w")
      (auto simp: canScaleNodePool_def go_simps split: if_splits)
  from can d r data cur have
    all: "\<forall>p \<in> set (removals (pilot_to_remove pilots ss) (sint cur - 1) (sint r)). pilot_drained p"
    by (auto simp: canScaleNodePool_def go_simps pilots determinePilotsToBeRemoved_def
        loop first_not_drained_None [symmetric] split: if_splits option.splits)
  from pilotsForStatefulSet_all [OF pilots cur, of j] r obtain p where
    p: "p \<in> set pilots" "pilot_Name p = pilotNameForStatefulSetReplica (ss_Name ss) (word_of_int j)" by auto
  with pilotsForStatefulSet_cached [OF pilots ns(1)] ns(2)
  have "pilot_to_remove pilots ss (word_of_int j) \<noteq> None"
    by (auto simp: pilot_to_remove_def find_first_None intro!: bexI [of _ p])
  then obtain q where q: "pilot_to_remove pilots ss (word_of_int j) = Some q" by auto
  then have "q \<in> set (removals (pilot_to_remove pilots ss) (sint cur - 1) (sint r))"
    using r by (auto simp: removals_set intro!: exI [of _ j])
  with all have dr: "pilot_drained q" by simp
  from q have "q \<in> set pilots" "pilot_Name q = pilotNameForStatefulSetReplica (ss_Name ss) (word_of_int j)"
    by (auto simp: pilot_to_remove_def dest!: find_first_Some)
  moreover have "sint (word_of_int j :: int32) = j"
    using r sint_range32(2) [of cur] by (intro sint_of_int32) linarith+
  ultimately show ?thesis
    using dr pilotsForStatefulSet_cached [OF pilots ns(1)] ns(2)
    by (auto simp: replica_drained_def pilotNameForStatefulSetReplica_def)
qed

section \<open>What a synchronisation may send\<close>

definition scale_allowed :: "world \<Rightarrow> ElasticsearchNodePool \<Rightarrow> StatefulSet \<Rightarrow> int32 \<Rightarrow> bool" where
  "scale_allowed w np ss r \<longleftrightarrow>
     (\<exists>cur. ss_Replicas ss = Some cur \<and> cur \<noteq> r \<and>
        (ElasticsearchRoleData \<in> set (enp_Roles np) \<and> 0 \<le> sint r \<longrightarrow>
           (\<forall>j. sint r \<le> j \<and> j < sint cur \<longrightarrow> replica_drained w ss j)))"

definition replica_up_to_date :: "world \<Rightarrow> ElasticsearchCluster \<Rightarrow> StatefulSet \<Rightarrow> int \<Rightarrow> bool" where
  "replica_up_to_date w c ss j \<longleftrightarrow>
     (\<exists>p \<in> set (w_pilots w). Namespace (pilot_ObjectMeta p) = esc_Namespace c \<and>
        pilot_Name p = ss_Name ss @ ''-'' @ show_int j \<and> pilotVersionUpToDate (esc_Spec c) (pilot_Status p))"

text \<open>
  A version change writes the annotation once every replica reports the new version, or moves the
  partition by one replica, with the new image, once the replica moved last reports it.
\<close>

definition version_step_allowed :: "world \<Rightarrow> ElasticsearchCluster \<Rightarrow> StatefulSet \<Rightarrow> StatefulSet \<Rightarrow> bool" where
  "version_step_allowed w c ss s \<longleftrightarrow>
     (\<exists>n health. est_Health (esc_Status c) = Some health \<and> health \<noteq> ElasticsearchClusterHealthRed \<and>
        ss_Replicas ss = Some n \<and> sst_ReadyReplicas (ss_Status ss) = n \<and>
        (s = set_version_annotation (semver_String (es_Version (esc_Spec c))) ss \<and>
           (\<forall>j. 0 \<le> j \<and> j < sint n \<longrightarrow> replica_up_to_date w c ss j) \<or>
         (\<exists>img. esImageToUse (esc_Spec c) = Inr img \<and>
           (let next = nextPartition n (sst_UpdatedReplicas (ss_Status ss))
            in s = set_partition_and_image next (img_Repository img @ '':'' @ img_Tag img) ss \<and>
               (sint (next + 1) < sint n \<longrightarrow> replica_up_to_date w c ss (sint (next + 1)))))))"

fun es_request_ok :: "ElasticsearchCluster \<Rightarrow> world \<Rightarrow> request \<Rightarrow> bool" where
  "es_request_ok c w (CreateStatefulSet s) \<longleftrightarrow>
     (\<exists>np \<in> set (es_NodePools (esc_Spec c)). nodePoolStatefulSet c np = Inr s)"
| "es_request_ok c w (UpdateStatefulSet s) \<longleftrightarrow>
     (\<exists>np \<in> set (es_NodePools (esc_Spec c)). \<exists>ss \<in> set (w_statefulsets w).
        Namespace (ss_ObjectMeta ss) = esc_Namespace c \<and> ss_Name ss = es_NodePoolResourceName c np \<and>
        ((\<exists>r. enp_Replicas np = Some r \<and> s = set_replicas r ss \<and> scale_allowed w np ss r) \<or>
         version_step_allowed w c ss s))"
| "es_request_ok c w (DeleteStatefulSet ns n) \<longleftrightarrow>
     (\<exists>ss \<in> set (w_statefulsets w). Namespace (ss_ObjectMeta ss) = ns \<and> ss_Name ss = n \<and>
        ns = esc_Namespace c \<and> IsControlledBy (ss_ObjectMeta ss) (esc_ObjectMeta c))"
| "es_request_ok c w (CreateService s) \<longleftrightarrow> s = discoveryService c \<or> s = clientService c"
| "es_request_ok c w (CreateServiceAccount a) \<longleftrightarrow> a = clusterServiceAccount c"
| "es_request_ok c w (CreateRole r) \<longleftrightarrow> r = roleForCluster c"
| "es_request_ok c w (UpdateRole r) \<longleftrightarrow> r = roleForCluster c"
| "es_request_ok c w (CreateRoleBinding b) \<longleftrightarrow> b = roleBindingForCluster c"
| "es_request_ok c w (UpdateRoleBinding b) \<longleftrightarrow> b = roleBindingForCluster c"
| "es_request_ok c w (CreateConfigMap m) \<longleftrightarrow>
     (\<exists>np \<in> set (es_NodePools (esc_Spec c)). esConfigConfigMap c np = Return m)"
| "es_request_ok c w _ \<longleftrightarrow> False"

abbreviation caches_are :: "world \<Rightarrow> world \<Rightarrow> bool" where
  "caches_are v \<equiv> (\<lambda>d. d = caches_of v)"

lemma same_caches:
  assumes "caches_of w = caches_of v"
  shows "w_statefulsets w = w_statefulsets v" "w_pilots w = w_pilots v"
  using arg_cong [OF assms, of w_statefulsets] arg_cong [OF assms, of w_pilots] by simp_all

lemma same_caches_pilots:
  assumes "caches_of w = caches_of v"
  shows "pilotsForStatefulSet env c np ss w = pilotsForStatefulSet env c np ss v"
  unfolding pilotsForStatefulSet_def same_caches(2) [OF assms] ..

lemma sends_wrap_error [prog_intros]: "sends J P m \<Longrightarrow> sends J P (wrap_error f as m)"
  unfolding wrap_error_def by (intro prog_intros)

lemma sends_es_step [prog_intros]: "sends J P m \<Longrightarrow> sends J P k \<Longrightarrow> sends J P (es_step c r ms m k)"
  unfolding es_step_def by (rule sends_seq) (auto split: option.split intro!: prog_intros)

lemma sends_warn_update [prog_intros]: "sends J P (warn_update c ms as)"
  unfolding warn_update_def by (intro prog_intros)

lemma sends_send_update [prog_intros]: "P (UpdateStatefulSet s) \<Longrightarrow> sends J P (send_update env c s ms as)"
  unfolding send_update_def by (intro prog_intros)

subsection \<open>The controls\<close>

lemma sends_es_controls [prog_intros]:
  "sends J (es_request_ok c w) (es_serviceaccount_Sync env c)"
  "sends J (es_request_ok c w) (es_service_Sync env c)"
  "sends J (es_request_ok c w) (es_role_Sync env c)"
  "sends J (es_request_ok c w) (es_rolebinding_Sync env c)"
  unfolding es_serviceaccount_Sync_def es_service_Sync_def ensureService_def es_role_Sync_def
    es_rolebinding_Sync_def Let_def
  by (auto split: sum.split option.split intro!: prog_intros)

lemma sends_each_error_mem: "(\<And>x. x \<in> set xs \<Longrightarrow> sends J P (f x)) \<Longrightarrow> sends J P (each_error f xs)"
  by (induction xs) (auto intro!: prog_intros)

lemma sends_es_configmap [prog_intros]: "sends J (es_request_ok c w) (es_configmap_Sync env c)"
  unfolding es_configmap_Sync_def
proof (intro sends_each_error_mem sends_wrap_error sends_andThen)
  fix np v m v'
  assume "np \<in> set (es_NodePools (esc_Spec c))" and "lift (esConfigConfigMap c np) v = Done m v'"
  then show "sends J (es_request_ok c w) (ensureConfigMap env m)"
    unfolding ensureConfigMap_def by (auto simp: lift_Done split: sum.split intro!: prog_intros bexI [of _ np])
qed (rule prog_intros)

subsection \<open>The actions\<close>

lemma sends_es_CreateNodePool:
  "np \<in> set (es_NodePools (esc_Spec c)) \<Longrightarrow> sends J (es_request_ok c w) (es_CreateNodePool_Execute env c np)"
  unfolding es_CreateNodePool_Execute_def by (auto split: sum.split intro!: prog_intros)

lemma silent_canScaleNodePool [prog_intros]: "sends J P (canScaleNodePool env c np ss d)"
  unfolding canScaleNodePool_def by (auto split: sum.split option.split prod.split intro!: prog_intros)

lemma canScale_allowed:
  assumes "canScaleNodePool env c np ss (r - cur) v = Done (Inr True) v'" and "caches_of v = caches_of w"
    and "esc_Namespace c \<noteq> ''''" "Namespace (ss_ObjectMeta ss) = esc_Namespace c"
    and "ss_Replicas ss = Some cur" "r - cur \<noteq> 0"
  shows "scale_allowed w np ss r"
proof -
  have "replica_drained w ss j"
    if "ElasticsearchRoleData \<in> set (enp_Roles np)" "0 \<le> sint r" "sint r \<le> j" "j < sint cur" for j
    using canScaleNodePool_drained [OF assms(1) that(1) assms(3-5) refl that(2-4)] same_caches [OF assms(2)]
    by (simp add: replica_drained_def)
  with assms(5,6) show ?thesis by (auto simp: scale_allowed_def)
qed

lemma sends_Scale:
  assumes np: "np \<in> set (es_NodePools (esc_Spec c))" and r: "enp_Replicas np = Some r"
    and ns: "esc_Namespace c \<noteq> ''''"
  shows "sends (caches_are w) (es_request_ok c w) (Scale_Execute env c np r)"
  unfolding Scale_Execute_def Let_def
proof (rule sends_reads, goal_cases)
  case (1 v)
  let ?get = "lister_get env ''statefulset'' ss_ObjectMeta (w_statefulsets v) (esc_Namespace c) (es_NodePoolResourceName c np)"
  show ?case
  proof (cases ?get)
    case (Inl e)
    then show ?thesis by (auto intro!: prog_intros)
  next
    case (Inr ss)
    note ss = cached.get_sound [OF Inr]
    have ok: "es_request_ok c w (UpdateStatefulSet (set_replicas r ss))" if "scale_allowed w np ss r"
      using np r ss that same_caches(1) [OF 1] by auto
    show ?thesis
    proof (cases "ss_Replicas ss")
      case None
      then show ?thesis unfolding Inr by (simp add: sends_ret)
    next
      case (Some cur)
      show ?thesis
      proof (cases "r - cur = 0")
        case True
        then show ?thesis unfolding Inr by (simp add: Some sends_ret)
      next
        case False
        show ?thesis
          unfolding Inr sum.case Some option.case if_not_P [OF False]
        proof (rule sends_andThen [OF silent_canScaleNodePool], goal_cases)
          case (1 v can v')
          then show ?case
            using canScale_allowed [of env c np ss r cur v v' w] ns ss Some False
            by (cases can) (auto intro!: sends_ret sends_unless_error sends_api sends_seq sends_eventf simp del: es_request_ok.simps intro: ok)
        qed
      qed
    qed
  qed
qed

subsection \<open>Version changes\<close>

lemma pilotsUpToDate_None:
  assumes "pilotsUpToDate env c np ss w = None" and "ss_Replicas ss = Some n" and "esc_Namespace c \<noteq> ''''"
    and "0 \<le> j" "j < sint n"
  shows "replica_up_to_date w c ss j"
proof -
  from assms(1) obtain pilots where pilots: "pilotsForStatefulSet env c np ss w = Inr pilots"
    and all: "\<forall>p \<in> set pilots. pilotVersionUpToDate (esc_Spec c) (pilot_Status p)"
    by (auto simp: pilotsUpToDate_def find_first_None split: sum.splits)
  have "sint (word_of_int j :: int32) = j"
    using assms(4,5) sint_range32(2) [of n] by (intro sint_of_int32) linarith+
  with pilotsForStatefulSet_all [OF pilots assms(2,4,5)] pilotsForStatefulSet_cached [OF pilots assms(3)] all
  show ?thesis by (auto simp: replica_up_to_date_def pilotNameForStatefulSetReplica_def)
qed

lemma sends_update_step:
  assumes ns: "esc_Namespace c \<noteq> ''''" and img: "esImageToUse (esc_Spec c) = Inr img"
    and health: "est_Health (esc_Status c) = Some health" "health \<noteq> ElasticsearchClusterHealthRed"
    and n: "ss_Replicas ss = Some n" "sst_ReadyReplicas (ss_Status ss) = n"
    and ok: "\<And>s. version_step_allowed w c ss s \<Longrightarrow> P (UpdateStatefulSet s)"
  shows "sends (caches_are w) P (update_step env c np ss n img)"
proof (cases "ps_Containers (pt_Spec (sss_Template (ss_Spec ss)))")
  case Nil
  then show ?thesis by (simp add: update_step_def sends_warn_update)
next
  case (Cons d ds)
  let ?next = "nextPartition n (sst_UpdatedReplicas (ss_Status ss))"
  let ?img = "img_Repository img @ '':'' @ img_Tag img"
  have annotate: "P (UpdateStatefulSet (set_version_annotation (semver_String (es_Version (esc_Spec c))) ss))"
    if "pilotsUpToDate env c np ss v = None" "caches_of v = caches_of w" for v
    using pilotsUpToDate_None [OF that(1) n(1) ns] same_caches [OF that(2)] health n
    by (intro ok) (auto simp: version_step_allowed_def replica_up_to_date_def)
  have move: "P (UpdateStatefulSet (set_partition_and_image ?next ?img ss))"
    if "sint (?next + 1) < sint n \<longrightarrow> replica_up_to_date w c ss (sint (?next + 1))"
    using that img health n by (intro ok) (auto simp: version_step_allowed_def Let_def)
  have moved: "replica_up_to_date w c ss (sint (?next + 1))"
    if "lister_get env ''pilot'' pilot_ObjectMeta (w_pilots v) (esc_Namespace c)
          (pilotNameForStatefulSetReplica (ss_Name ss) (?next + 1)) = Inr p"
      and "caches_of v = caches_of w" and "pilotVersionUpToDate (esc_Spec c) (pilot_Status p)" for v p
    using cached.get_sound [OF that(1)] same_caches [OF that(2)] that(3)
    by (auto simp: replica_up_to_date_def pilotNameForStatefulSetReplica_def)
  show ?thesis
    unfolding update_step_def Cons list.case Let_def
  proof (rule sends_reads, goal_cases)
    case (1 v)
    show ?case
    proof (cases "pilotsUpToDate env c np ss v = None")
      case True
      with annotate [OF True] 1 show ?thesis by (auto intro!: sends_send_update)
    next
      case False
      show ?thesis
        unfolding if_not_P [OF False]
        using move moved
        by (auto split: sum.split intro!: sends_ret sends_send_update sends_warn_update sends_reads)
    qed
  qed
qed

lemma sends_UpdateVersion:
  assumes np: "np \<in> set (es_NodePools (esc_Spec c))" and ns: "esc_Namespace c \<noteq> ''''"
  shows "sends (caches_are w) (es_request_ok c w) (UpdateVersion_Execute env c np)"
  unfolding UpdateVersion_Execute_def
proof (rule sends_reads, goal_cases)
  case (1 v)
  show ?case
  proof (cases "lister_get env ''statefulset'' ss_ObjectMeta (w_statefulsets v) (esc_Namespace c) (es_NodePoolResourceName c np)")
    case (Inl e)
    then show ?thesis by (simp add: sends_ret)
  next
    case (Inr ss)
    have ok: "es_request_ok c w (UpdateStatefulSet s)" if "version_step_allowed w c ss s" for s
      using np cached.get_sound [OF Inr] that same_caches(1) [OF 1] by auto
    have step: "sends (caches_are w) (es_request_ok c w) (update_step env c np ss n img)"
      if "esImageToUse (esc_Spec c) = Inr img" "est_Health (esc_Status c) = Some h"
        "h \<noteq> ElasticsearchClusterHealthRed" "ss_Replicas ss = Some n" "n = sst_ReadyReplicas (ss_Status ss)" for img h n
      using ns that ok by (intro sends_update_step) auto
    have replicas: "ss_Replicas ss = Some n" if "lift (deref (ss_Replicas ss)) v = Done n v'" for n v v'
      using that by (cases "ss_Replicas ss") auto
    show ?thesis
      unfolding Inr sum.case
      by (auto simp del: es_request_ok.simps split: option.split sum.split
          intro!: sends_ret sends_warn_update sends_andThen [OF sends_lift] step dest: replicas)
  qed
qed

subsection \<open>Removed node pools\<close>

lemma remove_first_sub: "set (remove_first P xs) \<subseteq> set xs"
  by (induction xs) auto

lemma unreferenced_sets_sub: "set (unreferenced_sets nps sets) \<subseteq> set sets"
  unfolding unreferenced_sets_def
  by (induction nps arbitrary: sets) (auto dest: subsetD [OF remove_first_sub])

lemma sends_reconcileNodePools:
  assumes ns: "esc_Namespace c \<noteq> ''''"
  shows "sends (caches_are w) (es_request_ok c w) (reconcileNodePools env c)"
proof (cases "es_SelectorForCluster (esc_Name c)")
  case (Inl e)
  then show ?thesis by (simp add: reconcileNodePools_def sends_ret)
next
  case (Inr sel)
  show ?thesis
    unfolding reconcileNodePools_def Inr sum.case
  proof (rule sends_reads, goal_cases)
    case (1 v)
    show ?case
    proof (cases "lister_list env ''statefulset'' ss_ObjectMeta (w_statefulsets v) (esc_Namespace c) sel")
      case (Inl e)
      then show ?thesis by (simp add: sends_ret)
    next
      case (Inr sets)
      have "x \<in> set (w_statefulsets w) \<and> Namespace (ss_ObjectMeta x) = esc_Namespace c"
        if "x \<in> set (unreferenced_sets (es_NodePools (esc_Spec c)) sets)" for x
        using that unreferenced_sets_sub cached.list_in [OF Inr ns] same_caches(1) [OF 1] by fastforce
      then show ?thesis
        unfolding Inr sum.case by (intro sends_each_error_mem) (force intro!: sends_ret sends_api)
    qed
  qed
qed

subsection \<open>The whole synchronisation\<close>

lemma nextActionForNodePool_pool:
  assumes "nextActionForNodePool env c np w = Done (Inr (Some a)) w'"
  shows "a = Es_CreateNodePool np \<or> a = Es_UpdateVersion np \<or> (\<exists>r. a = Es_Scale np r \<and> enp_Replicas np = Some r)"
  using assms
  by (cases "enp_Replicas np")
    (auto simp: nextActionForNodePool_def go_simps split: sum.splits option.splits if_splits)

lemma next_action_of_pool:
  assumes "next_action_of env c nps w = Done (Inr (Some a)) w'"
  shows "\<exists>np \<in> set nps. a = Es_CreateNodePool np \<or> a = Es_UpdateVersion np \<or>
    (\<exists>r. a = Es_Scale np r \<and> enp_Replicas np = Some r)"
  using assms
proof (induction nps arbitrary: w)
  case (Cons np nps)
  then obtain x v where x: "nextActionForNodePool env c np w = Done x v"
    by (auto simp: andThen_def split: run.splits)
  then show ?case using Cons nextActionForNodePool_pool [of env c np w _ v]
    by (auto simp: andThen_def split: sum.splits option.splits)
qed simp

lemma silent_nextActionForNodePool [prog_intros]: "sends J P (nextActionForNodePool env c np)"
  unfolding nextActionForNodePool_def by (auto split: sum.split option.split intro!: prog_intros)

lemma silent_next_action_of [prog_intros]: "sends J P (next_action_of env c nps)"
  by (induction nps) (auto split: sum.split option.split intro!: prog_intros)

lemma sends_es_act:
  assumes ns: "esc_Namespace c \<noteq> ''''"
  shows "sends (caches_are w) (es_request_ok c w) (es_act env c)"
  unfolding es_act_def nextAction_def
proof (rule sends_andThen [OF silent_next_action_of], goal_cases)
  case (1 v x v')
  show ?case
  proof (cases x)
    case (Inl e)
    then show ?thesis by (auto intro!: prog_intros)
  next
    case (Inr a)
    with next_action_of_pool [of env c "es_NodePools (esc_Spec c)" v _ v'] 1(2) ns show ?thesis
      by (cases a) (auto simp del: es_request_ok.simps intro!: sends_reconcileNodePools sends_es_step sends_ret
          sends_es_CreateNodePool sends_UpdateVersion sends_Scale)
  qed
qed

lemma sends_es_steps:
  "esc_Namespace c \<noteq> '''' \<Longrightarrow> sends (caches_are w) (es_request_ok c w) (es_steps env c)"
  unfolding es_steps_def by (intro prog_intros sends_es_act)

text \<open>The objects and permitted requests depend on metadata, specification and health only.\<close>

lemma es_same_spec_names:
  assumes "esc_ObjectMeta d = esc_ObjectMeta c"
  shows "es_NodePoolResourceName d = es_NodePoolResourceName c" "es_ResourceBaseName d = es_ResourceBaseName c"
    "es_ClusterLabels d = es_ClusterLabels c" "es_NewControllerRef d = es_NewControllerRef c"
    "es_owned_meta d = es_owned_meta c" "es_NodePoolLabels d = es_NodePoolLabels c"
    "DiscoveryServiceName d = DiscoveryServiceName c" "ClientServiceName d = ClientServiceName c"
    "es_ServiceAccountName d = es_ServiceAccountName c" "ConfigMapName d = ConfigMapName c"
    "RBACRoleName d = RBACRoleName c"
  using assms
  by (simp_all add: fun_eq_iff es_NodePoolResourceName_def es_ResourceBaseName_def es_ClusterLabels_def
      es_NewControllerRef_def es_owned_meta_def es_NodePoolLabels_def DiscoveryServiceName_def
      ClientServiceName_def es_ServiceAccountName_def ConfigMapName_def RBACRoleName_def)

lemma es_same_spec_objects:
  assumes meta: "esc_ObjectMeta d = esc_ObjectMeta c" and spec: "esc_Spec d = esc_Spec c"
  shows "nodePoolStatefulSet d = nodePoolStatefulSet c" "esConfigConfigMap d = esConfigConfigMap c"
    "discoveryService d = discoveryService c" "clientService d = clientService c"
    "clusterServiceAccount d = clusterServiceAccount c" "roleForCluster d = roleForCluster c"
    "roleBindingForCluster d = roleBindingForCluster c"
  unfolding fun_eq_iff nodePoolStatefulSet_def elasticsearchPodTemplateSpec_def es_Container_def es_Env_def
    buildInitContainers_def esConfigConfigMap_def generateConfig_def discoveryService_def clientService_def
    buildService_def clusterServiceAccount_def roleForCluster_def roleBindingForCluster_def
    es_same_spec_names [OF meta] meta spec
  by simp_all

lemma es_request_ok_cong:
  assumes meta: "esc_ObjectMeta d = esc_ObjectMeta c" and spec: "esc_Spec d = esc_Spec c"
    and "est_Health (esc_Status d) = est_Health (esc_Status c)"
  shows "es_request_ok d w = es_request_ok c w"
proof
  fix r
  have "version_step_allowed w d = version_step_allowed w c"
    by (simp add: fun_eq_iff version_step_allowed_def replica_up_to_date_def assms)
  then show "es_request_ok d w r = es_request_ok c w r"
    by (cases r) (simp_all add: es_same_spec_objects [OF meta spec] es_same_spec_names [OF meta] meta spec)
qed

lemma es_syncPausedConditions_fields [simp]:
  "esc_ObjectMeta (es_syncPausedConditions t c) = esc_ObjectMeta c"
  "esc_Spec (es_syncPausedConditions t c) = esc_Spec c"
  "est_Health (esc_Status (es_syncPausedConditions t c)) = est_Health (esc_Status c)"
  "est_NodePools (esc_Status (es_syncPausedConditions t c)) = est_NodePools (esc_Status c)"
  by (simp_all add: es_syncPausedConditions_def)

lemma sends_es_Sync:
  assumes "esc_Namespace c \<noteq> ''''"
  shows "sends (caches_are w) (es_request_ok c w) (es_Sync env c)"
proof -
  let ?d = "es_syncPausedConditions (now env) c"
  have "sends (caches_are w) (es_request_ok ?d w) (es_steps env ?d)"
    using assms by (intro sends_es_steps) simp
  moreover have "es_request_ok ?d w = es_request_ok c w" by (rule es_request_ok_cong) simp_all
  ultimately show ?thesis
    unfolding es_Sync_def Let_def by (auto intro!: sends_ret sends_seq sends_bare)
qed

end
