(* ===== verification/Elasticsearch_Properties.thy ===== *)
theory Elasticsearch_Properties
  imports Elasticsearch_Correct
begin

text \<open>
  The properties of the Elasticsearch controller, the sample objects of their witnesses and the
  lemmas on counting requests, returning and reconciliation they rest on.
\<close>

section \<open>Counting and returning\<close>

fun is_set_write :: "request \<Rightarrow> bool" where
  "is_set_write (CreateStatefulSet s) = True"
| "is_set_write (UpdateStatefulSet s) = True"
| "is_set_write _ = False"

abbreviation writes_no_set :: "'a prog \<Rightarrow> bool" where
  "writes_no_set m \<equiv> sends (\<lambda>_. True) (\<lambda>r. \<not> is_set_write r) m"

lemma no_set_ensure: "writes_no_set (ensureService env s)" "writes_no_set (ensureConfigMap env m)"
  unfolding ensureService_def ensureConfigMap_def by (auto split: sum.split intro!: prog_intros)

lemma no_set_controls:
  "writes_no_set (es_serviceaccount_Sync env c)" "writes_no_set (es_service_Sync env c)"
  "writes_no_set (es_role_Sync env c)" "writes_no_set (es_rolebinding_Sync env c)"
  unfolding es_serviceaccount_Sync_def es_service_Sync_def es_role_Sync_def es_rolebinding_Sync_def Let_def
  by (auto split: sum.split option.split intro!: prog_intros no_set_ensure)

lemma no_set_configmap: "writes_no_set (es_configmap_Sync env c)"
  unfolding es_configmap_Sync_def
  by (intro sends_each_error_mem sends_wrap_error sends_seq sends_lift no_set_ensure)

lemma no_set_reconcile: "writes_no_set (reconcileNodePools env c)"
  unfolding reconcileNodePools_def
  by (auto split: sum.split intro!: sends_ret sends_seq sends_bare sends_each_error_mem sends_api)

lemma at_most_es_step:
  assumes "writes_no_set m" and "at_most is_set_write n k"
  shows "at_most is_set_write n (es_step c r msg m k)"
  unfolding es_step_def
  by (rule at_most_before) (auto split: option.split intro: assms count_intros)

lemma at_most_es_last:
  assumes "at_most is_set_write n m"
  shows "at_most is_set_write n (es_step c r msg m (ret x))"
  unfolding es_step_def
  by (rule at_most_andThen [where n' = 0, simplified])
    (auto split: option.split intro: assms count_intros)

lemma at_most_send_update: "at_most is_set_write (Suc 0) (send_update env c s ms as)"
  unfolding send_update_def unless_error_def by (auto split: option.split intro!: count_intros)

lemma at_most_warn_update: "at_most is_set_write n (warn_update c ms as)"
  unfolding warn_update_def by (intro count_intros)

lemma at_most_update_step: "at_most is_set_write (Suc 0) (update_step env c np ss n img)"
  unfolding update_step_def Let_def
  by (auto split: list.split sum.split intro!: count_intros at_most_send_update at_most_warn_update)

lemma at_most_canScale [count_intros]:
  "(\<And>x. at_most Q n (k x)) \<Longrightarrow> at_most Q n (andThen (canScaleNodePool env c np ss d) k)"
  by (rule at_most_before [OF silent_canScaleNodePool])

lemma at_most_es_Execute: "at_most is_set_write (Suc 0) (es_Execute env c a)"
proof (cases a)
  case (Es_CreateNodePool np)
  then show ?thesis
    by (auto simp: es_CreateNodePool_Execute_def unless_error_def split: sum.split option.split intro!: count_intros)
next
  case (Es_UpdateVersion np)
  then show ?thesis
    by (auto simp: UpdateVersion_Execute_def split: sum.split option.split
        intro!: count_intros at_most_update_step at_most_warn_update)
next
  case (Es_Scale np r)
  then show ?thesis
    by (auto simp: Scale_Execute_def Let_def unless_error_def split: sum.split option.split intro!: count_intros)
qed

lemma at_most_es_act: "at_most is_set_write (Suc 0) (es_act env c)"
  unfolding es_act_def nextAction_def
proof (rule at_most_before [OF silent_next_action_of], goal_cases)
  case (1 x)
  show ?case
    using at_most_sends [OF no_set_reconcile]
    by (auto split: sum.split option.split intro: at_most_es_last at_most_es_Execute at_most_ret)
qed

lemma at_most_es_Sync: "at_most is_set_write (Suc 0) (es_Sync env c)"
proof -
  have "at_most is_set_write (Suc 0) (es_steps env d)" for d
    unfolding es_steps_def by (intro at_most_es_step no_set_controls no_set_configmap at_most_es_act)
  then have "at_most is_set_write (Suc 0) (andThen (es_steps env d) (\<lambda>err. andThen (reads f) (\<lambda>st. ret (st, err))))" for d f
    by (rule at_most_andThen [where n' = 0, simplified]) (intro count_intros)
  then show ?thesis unfolding es_Sync_def Let_def by (auto intro!: count_intros)
qed

section \<open>Reconciliation\<close>








section \<open>Returning\<close>

lemma returns_es_step [return_intros]: "returns J m \<Longrightarrow> returns J k \<Longrightarrow> returns J (es_step c r ms m k)"
  unfolding es_step_def by (rule returns_seq) (auto split: option.split intro!: return_intros)

lemma returns_wrap_error [return_intros]: "returns J m \<Longrightarrow> returns J (wrap_error f as m)"
  unfolding wrap_error_def by (intro return_intros)

lemma returns_es_updates [return_intros]:
  "returns J (send_update env c s ms as)" "returns J (warn_update c ms as)"
  unfolding send_update_def warn_update_def by (intro return_intros)+

lemma returns_each_error: "(\<And>x. x \<in> set xs \<Longrightarrow> returns J (f x)) \<Longrightarrow> returns J (each_error f xs)"
  by (induction xs) (auto intro!: return_intros)

lemma returns_es_controls [return_intros]:
  "returns J (es_serviceaccount_Sync env c)" "returns J (es_service_Sync env c)"
  "returns J (es_role_Sync env c)" "returns J (es_rolebinding_Sync env c)"
  unfolding es_serviceaccount_Sync_def es_service_Sync_def ensureService_def es_role_Sync_def
    es_rolebinding_Sync_def Let_def
  by (auto split: sum.split option.split intro!: return_intros)

lemma returns_reconcile [return_intros]: "returns J (reconcileNodePools env c)"
  unfolding reconcileNodePools_def
  by (auto split: sum.split intro!: return_intros returns_each_error)

abbreviation pools_sized :: "ElasticsearchNodePool list \<Rightarrow> bool" where
  "pools_sized \<equiv> list_all (\<lambda>np. enp_Replicas np \<noteq> None)"

lemma count_masters_Return: "pools_sized nps \<Longrightarrow> count_masters m nps \<noteq> Panic"
  by (induction nps arbitrary: m) auto

lemma esConfigConfigMap_Return:
  assumes "pools_sized (es_NodePools (esc_Spec c))"
  shows "esConfigConfigMap c np \<noteq> Panic"
  using count_masters_Return [OF assms, of 0]
  by (cases "count_masters 0 (es_NodePools (esc_Spec c))")
    (auto simp: esConfigConfigMap_def generateConfig_def CountElasticsearchMasters_def split: option.split)

lemma returns_es_configmap:
  "pools_sized (es_NodePools (esc_Spec c)) \<Longrightarrow> returns J (es_configmap_Sync env c)"
  unfolding es_configmap_Sync_def ensureConfigMap_def
  by (auto split: sum.split intro!: returns_each_error return_intros esConfigConfigMap_Return)

text \<open>Scaling to any number but the smallest integer ends the loop over the removed replicas.\<close>

abbreviation smallest :: "int32 \<Rightarrow> bool" where
  "smallest r \<equiv> sint r = - (2 ^ 31)"

lemma determinePilotsToBeRemoved_returns:
  "ss_Replicas ss = Some cur \<Longrightarrow> \<not> smallest r \<Longrightarrow> determinePilotsToBeRemoved ps ss (r - cur) \<noteq> None"
  using removal_loop_smallest [of "pilot_to_remove ps ss" "cur - 1" r "[]"]
  by (simp add: determinePilotsToBeRemoved_def)

lemma returns_canScale:
  assumes "\<And>ps. determinePilotsToBeRemoved ps ss d \<noteq> None"
  shows "returns J (canScaleNodePool env c np ss d)"
proof -
  have "(case determinePilotsToBeRemoved ps ss d of None \<Rightarrow> diverge | Some x \<Rightarrow> f x) = f (the (determinePilotsToBeRemoved ps ss d))" for ps
    and f :: "go_error + Pilot list \<Rightarrow> (go_error + bool) prog"
    using assms [of ps] by auto
  then show ?thesis
    unfolding canScaleNodePool_def by (auto split: sum.split option.split prod.split intro!: return_intros)
qed

lemma returns_Scale:
  assumes "\<not> smallest r"
  shows "returns J (Scale_Execute env c np r)"
  unfolding Scale_Execute_def Let_def
  by (auto split: sum.split option.split intro!: return_intros returns_canScale [OF determinePilotsToBeRemoved_returns] assms)

lemma returns_update_step [return_intros]: "returns J (update_step env c np ss n img)"
  unfolding update_step_def Let_def by (auto split: list.split sum.split intro!: return_intros)

lemma returns_UpdateVersion: "returns replicas_known (UpdateVersion_Execute env c np)"
  unfolding UpdateVersion_Execute_def
proof (rule returns_reads, goal_cases)
  case (1 w)
  show ?case
  proof (cases "lister_get env ''statefulset'' ss_ObjectMeta (w_statefulsets w) (esc_Namespace c) (es_NodePoolResourceName c np)")
    case (Inl e)
    then show ?thesis by (simp add: returns_ret)
  next
    case (Inr ss)
    have "ss_Replicas ss \<noteq> None"
      using cached.get_sound [OF Inr] 1 by (auto simp: replicas_known_def list_all_iff)
    then show ?thesis
      unfolding Inr sum.case by (auto split: option.split sum.split intro!: return_intros)
  qed
qed

lemma returns_es_Execute:
  "(\<And>np r. a = Es_Scale np r \<Longrightarrow> \<not> smallest r) \<Longrightarrow> returns replicas_known (es_Execute env c a)"
  by (cases a)
    (auto simp: es_CreateNodePool_Execute_def split: sum.split option.split
      intro!: return_intros returns_UpdateVersion returns_Scale)

lemma returns_next_action_of: "pools_sized nps \<Longrightarrow> returns J (next_action_of env c nps)"
  by (induction nps)
    (auto simp: nextActionForNodePool_def split: sum.split option.split intro!: return_intros)

lemma returns_es_steps:
  assumes sized: "pools_sized (es_NodePools (esc_Spec c))"
    and counts: "\<forall>np \<in> set (es_NodePools (esc_Spec c)). \<forall>r. enp_Replicas np = Some r \<longrightarrow> \<not> smallest r"
  shows "returns replicas_known (es_steps env c)"
proof -
  have "returns replicas_known (es_act env c)"
    unfolding es_act_def nextAction_def
  proof (rule returns_andThen [OF returns_next_action_of [OF sized]], goal_cases)
    case (1 w got w')
    have "\<not> smallest r" if "got = Inr (Some (Es_Scale np r))" for np r
      using next_action_of_pool [of env c _ w "Es_Scale np r" w'] 1(2) that counts by auto
    then show ?case
      by (auto split: sum.split option.split intro!: returns_es_Execute return_intros)
  qed
  then show ?thesis unfolding es_steps_def by (intro return_intros returns_es_configmap sized)
qed

text \<open>With the smallest integer and the pilots of the set in the cache, the action never returns.\<close>

lemma scale_to_smallest_loops:
  assumes "lister_get env ''statefulset'' ss_ObjectMeta (w_statefulsets w) (esc_Namespace c)
      (es_NodePoolResourceName c np) = Inr ss"
    and "ss_Replicas ss = Some cur" "sint (r - cur) < 0" "smallest r" "ElasticsearchRoleData \<in> set (enp_Roles np)"
    and "pilotsForStatefulSet env c np ss w = Inr ps"
  shows "Scale_Execute env c np r w = Looping w"
proof -
  have "r - cur \<noteq> 0" using assms(3) by auto
  then show ?thesis
    using assms by (simp add: Scale_Execute_def canScaleNodePool_def Let_def go_simps determinePilotsToBeRemoved_def
        removal_loop_smallest [THEN iffD2])
qed

section \<open>The status that is returned\<close>

lemma pool_statuses_length [simp]: "length (snd (pool_statuses env c w ref pools maps)) = length maps"
  by (induction pools arbitrary: maps) (simp_all split: sum.split)

lemma pool_statuses_other: "i \<noteq> ref \<Longrightarrow> snd (pool_statuses env c w ref pools maps) ! i = maps ! i"
  by (induction pools arbitrary: maps) (simp_all split: sum.split)





section \<open>Sample objects\<close>

definition sample_es_version :: semver where
  "sample_es_version = \<lparr>Major = 6, Minor = 1, Patch = 1, PreRelease = '''', Metadata = ''''\<rparr>"

definition sample_data_pool :: "int32 option \<Rightarrow> ElasticsearchNodePool" where
  "sample_data_pool r = \<lparr>enp_Name = ''d'', enp_Replicas = r, enp_Roles = [''data''], enp_NodeSelector = None,
     enp_Resources = \<lparr>rr_Limits = None, rr_Requests = None\<rparr>, enp_Persistence = None, enp_SchedulerName = ''''\<rparr>"

definition sample_es :: "bool \<Rightarrow> ElasticsearchNodePool list \<Rightarrow> ElasticsearchCluster" where
  "sample_es p pools =
     \<lparr>esc_TypeMeta = empty_type, esc_ObjectMeta = empty_meta\<lparr>Name := ''x'', Namespace := ''ns'', UID := ''u1''\<rparr>,
      esc_Spec = \<lparr>es_Config = sample_config p, es_Version = sample_es_version, es_Plugins = [],
                  es_NodePools = pools, es_Image = None, es_MinimumMasters = None\<rparr>,
      esc_Status = \<lparr>est_Conditions = [], est_NodePools = None, est_Health = Some ElasticsearchClusterHealthGreen\<rparr>\<rparr>"

definition sample_es_set :: "int32 \<Rightarrow> string \<Rightarrow> StatefulSet" where
  "sample_es_set n v =
     (case nodePoolStatefulSet (sample_es False []) (sample_data_pool (Some n)) of
        Inr s \<Rightarrow> (set_version_annotation v s)\<lparr>ss_Status := \<lparr>sst_ReadyReplicas = n, sst_CurrentReplicas = n,
                                                 sst_UpdatedReplicas = 0\<rparr>\<rparr>
      | Inl e \<Rightarrow> undefined)"

definition sample_pilot :: "string \<Rightarrow> int64 \<Rightarrow> Pilot" where
  "sample_pilot n docs =
     \<lparr>pilot_TypeMeta = empty_type, pilot_ObjectMeta = empty_meta\<lparr>Name := n, Namespace := ''ns'',
        Labels := Some (es_NodePoolLabels (sample_es False []) ''d'' [])\<rparr>,
      pilot_Status = \<lparr>pst_Conditions = [], pst_Elasticsearch = Some \<lparr>eps_Documents = Some docs, eps_Version = None\<rparr>,
        pst_Cassandra = None\<rparr>\<rparr>"

definition sample_es_world :: "int32 \<Rightarrow> string \<Rightarrow> world" where
  "sample_es_world n v = empty_world\<lparr>w_statefulsets := [sample_es_set n v],
     w_pilots := [sample_pilot ''es-x-d-0'' 5, sample_pilot ''es-x-d-1'' 0]\<rparr>"

lemma sample_es_set_facts:
  "ss_Name (sample_es_set n v) = ''es-x-d''" "Namespace (ss_ObjectMeta (sample_es_set n v)) = ''ns''"
  "ss_Replicas (sample_es_set n v) = Some n" "sst_ReadyReplicas (ss_Status (sample_es_set n v)) = n"
  "mlookup (Annotations (ss_ObjectMeta (sample_es_set n v))) ElasticsearchNodePoolVersionAnnotation = Some v"
  by (simp_all add: sample_es_set_def nodePoolStatefulSet_def elasticsearchPodTemplateSpec_def esImageToUse_def
      defaultElasticsearchImageForVersion_def sample_es_def sample_es_version_def sample_data_pool_def
      set_version_annotation_def es_NodePoolResourceName_def es_ResourceBaseName_def mlookup_def)

lemma sample_es_name [simp]: "es_NodePoolResourceName (sample_es p nps) (sample_data_pool r) = ''es-x-d''"
  by (simp add: es_NodePoolResourceName_def es_ResourceBaseName_def sample_es_def sample_data_pool_def)

lemma sample_es_get:
  "lister_get ok_env ''statefulset'' ss_ObjectMeta (w_statefulsets (sample_es_world n v)) (esc_Namespace (sample_es p nps))
     (es_NodePoolResourceName (sample_es p nps) (sample_data_pool r)) = Inr (sample_es_set n v)"
  unfolding sample_es_name
  by (simp add: lister_get_def ok_env_def sample_es_world_def sample_es_set_facts sample_es_def)

section \<open>Properties\<close>

text \<open>
  C2: every request a synchronisation of an ElasticsearchCluster sends is one its contract allows.
  It creates the objects built from the specification, sets role and binding back, deletes stateful
  sets the cluster controls, sets a pool's replicas, or makes one step of a version change. A data
  pool is scaled down only if the pilot of every removed replica is known to hold no documents. A
  version step is made only on a cluster known not to be red whose pool has all replicas ready; it
  moves the partition once the replica moved last reports the new version, and it marks the pool
  as done only once all replicas report it.
\<close>

theorem es_sync_requests:
  assumes "esc_Namespace c \<noteq> ''''"
  shows "\<exists>rs. requests (final (es_Sync env c w)) = requests w @ rs \<and> list_all (es_request_ok c w) rs"
  using sends_es_Sync [OF assms, of w env] by (rule sendsD [where w = w]) auto

theorem es_sync_requests_witness:
  "\<exists>rs. requests (final (es_Sync ok_env (sample_es False [sample_data_pool (Some 1)]) (sample_es_world 2 ''6.1.1''))) =
        requests (sample_es_world 2 ''6.1.1'') @ rs \<and>
        list_all (es_request_ok (sample_es False [sample_data_pool (Some 1)]) (sample_es_world 2 ''6.1.1'')) rs"
  by (rule es_sync_requests) (simp add: sample_es_def)

lemma scale_down_drained:
  assumes get: "lister_get env ''statefulset'' ss_ObjectMeta (w_statefulsets w) (esc_Namespace c)
      (es_NodePoolResourceName c np) = Inr ss"
    and cur: "ss_Replicas ss = Some cur" and r: "0 \<le> sint r" "sint r < sint cur"
    and data: "ElasticsearchRoleData \<in> set (enp_Roles np)" and ns: "esc_Namespace c \<noteq> ''''"
    and sent: "requests (final (Scale_Execute env c np r w)) \<noteq> requests w"
  shows "requests (final (Scale_Execute env c np r w)) = requests w @ [UpdateStatefulSet (set_replicas r ss)] \<and>
    (\<forall>j. sint r \<le> j \<and> j < sint cur \<longrightarrow> replica_drained w ss j)"
proof -
  have "r \<noteq> cur" using r by auto
  then have diff: "r - cur \<noteq> 0" by simp
  let ?can = "canScaleNodePool env c np ss (r - cur)"
  have quiet: "requests (final (?can w)) = requests w"
    using silent_canScaleNodePool [of "\<lambda>_. True" "\<lambda>_. False" env c np ss "r - cur"]
    by (auto simp: sends_def list_all_iff)
  from sent get cur diff quiet obtain v where v: "?can w = Done (Inr True) v"
    by (cases "?can w") (auto simp: Scale_Execute_def andThen_def Let_def split: sum.splits if_splits)
  have "requests v = requests w" using quiet v by simp
  then have "requests (final (Scale_Execute env c np r w)) = requests w @ [UpdateStatefulSet (set_replicas r ss)]"
    using get cur diff v
    by (auto simp: Scale_Execute_def Let_def andThen_def unless_error_def api_def eventf_def split: option.split)
  moreover have "replica_drained w ss j" if "sint r \<le> j" "j < sint cur" for j
    using canScaleNodePool_drained [OF v data ns _ cur refl r(1) that] cached.get_sound [OF get] by simp
  ultimately show ?thesis by blast
qed

text \<open>
  C5: when the Scale action lowers the replicas of a data pool, it sends exactly the one update
  that sets them, and the pilot of every replica that goes away is in the cache, in the stateful
  set's namespace, with a document count that is known and not positive.
\<close>

theorem es_scale_down_drained:
  assumes get: "lister_get env ''statefulset'' ss_ObjectMeta (w_statefulsets w) (esc_Namespace c)
      (es_NodePoolResourceName c np) = Inr ss"
    and cur: "ss_Replicas ss = Some cur" and r: "0 \<le> sint r" "sint r < sint cur"
    and data: "ElasticsearchRoleData \<in> set (enp_Roles np)" and ns: "esc_Namespace c \<noteq> ''''"
    and sent: "requests (final (Scale_Execute env c np r w)) \<noteq> requests w"
  shows "requests (final (Scale_Execute env c np r w)) = requests w @ [UpdateStatefulSet (set_replicas r ss)] \<and>
    (\<forall>j. sint r \<le> j \<and> j < sint cur \<longrightarrow> replica_drained w ss j)"
  by (rule scale_down_drained [OF assms])

theorem es_scale_down_drained_witness:
  "requests (final (Scale_Execute ok_env (sample_es False []) (sample_data_pool (Some 1)) 1 (sample_es_world 2 ''6.1.1''))) =
     [UpdateStatefulSet (set_replicas 1 (sample_es_set 2 ''6.1.1''))] \<and>
   replica_drained (sample_es_world 2 ''6.1.1'') (sample_es_set 2 ''6.1.1'') 1"
proof -
  let ?w = "sample_es_world 2 ''6.1.1''" and ?c = "sample_es False []" and ?np = "sample_data_pool (Some 1)"
  have "length (requests (final (Scale_Execute ok_env ?c ?np 1 ?w))) = 1" by code_simp
  then have "requests (final (Scale_Execute ok_env ?c ?np 1 ?w)) \<noteq> []" by auto
  moreover have "requests ?w = []" by (simp add: sample_es_world_def empty_world_def)
  moreover have "ElasticsearchRoleData \<in> set (enp_Roles ?np)" by code_simp
  ultimately show ?thesis
    using es_scale_down_drained [where w = ?w and c = ?c and np = ?np and r = 1, OF sample_es_get sample_es_set_facts(3)] by (simp add: sample_es_def)
qed

text \<open>
  C31: the loop that collects the pilots to be removed ends, with the pilots of the replicas between
  the two bounds in descending order, exactly if the lower bound is not the smallest 32-bit integer.
\<close>

theorem removal_loop_result:
  "removal_loop f i d acc = Some (acc @ removals f (sint i) (sint d)) \<longleftrightarrow> sint d \<noteq> - (2 ^ 31)"
  using removal_loop_removals [of d f i acc] removal_loop_returns [of f i d acc] sint_range32(1) [of d]
  by fastforce

text \<open>
  The automatic minimum of master nodes in the configuration is a majority of the masters and
  not more than there are, as long as there is a master, so no two disjoint groups reach it.
\<close>

theorem es_quorum_majority:
  assumes "CountElasticsearchMasters (es_NodePools (esc_Spec c)) = Return n" and "0 < sint n"
    and "es_MinimumMasters (esc_Spec c) = None"
  shows "\<exists>q. generateConfig c = Return (config_text q) \<and> sint n < 2 * sint q \<and> sint q \<le> sint n"
proof -
  have "generateConfig c = Return (config_text (CalculateQuorum n))"
    using assms by (simp add: generateConfig_def)
  moreover have "sint n < 2 * sint (CalculateQuorum n) \<and> sint (CalculateQuorum n) \<le> sint n"
    using CalculateQuorum_sint [OF assms(2)] assms(2) by linarith
  ultimately show ?thesis by blast
qed

theorem es_quorum_majority_witness:
  "\<exists>q. generateConfig (sample_es False [(sample_data_pool (Some 3))\<lparr>enp_Roles := [''master'']\<rparr>]) = Return (config_text q) \<and>
       3 < 2 * sint q \<and> sint q \<le> 3"
  using es_quorum_majority [of "sample_es False [(sample_data_pool (Some 3))\<lparr>enp_Roles := [''master'']\<rparr>]" 3]
  by (simp add: sample_es_def sample_data_pool_def CountElasticsearchMasters_def ElasticsearchRoleMaster_def)

text \<open>
  C7: one synchronisation creates or updates at most one stateful set, so node pools are created,
  scaled and moved to another version one at a time.
\<close>

theorem es_sync_one_set_write:
  "\<exists>rs. requests (final (es_Sync env c w)) = requests w @ rs \<and> length (filter is_set_write rs) \<le> 1"
  using at_most_es_Sync [of env c] by (simp add: at_most_def)



text \<open>
  C15: on a defaulted cluster, with replica counts present on the cached stateful sets and no pool that
  asks for the smallest 32-bit number of replicas, a synchronisation returns: no nil replica count is
  dereferenced, and the loop over the removed replicas ends. For the smallest number it does not
  (\<open>scale_to_smallest_loops\<close>).
\<close>

theorem es_sync_returns:
  assumes "list_all (\<lambda>s. ss_Replicas s \<noteq> None) (w_statefulsets w)"
    and "\<forall>np \<in> set (es_NodePools (esc_Spec c)). \<forall>r. enp_Replicas np = Some r \<longrightarrow> sint r \<noteq> - (2 ^ 31)"
  shows "\<exists>r w'. es_Sync env (SetObjectDefaults_ElasticsearchCluster c) w = Done r w'"
proof -
  let ?d = "es_syncPausedConditions (now env) (SetObjectDefaults_ElasticsearchCluster c)"
  have "pools_sized (es_NodePools (esc_Spec ?d))"
    by (simp add: SetObjectDefaults_ElasticsearchCluster_def list_all_iff SetDefaults_Elasticsearch_fields)
  moreover have "\<forall>np \<in> set (es_NodePools (esc_Spec ?d)). \<forall>r. enp_Replicas np = Some r \<longrightarrow> \<not> smallest r"
    using assms(2) by (auto simp: SetObjectDefaults_ElasticsearchCluster_def SetDefaults_Elasticsearch_fields split: option.splits)
  moreover have "replicas_known (caches_of w)" using assms(1) by (simp add: replicas_known_def)
  ultimately obtain err w' where "es_steps env ?d w = Done err w'"
    using returns_es_steps [of ?d env] unfolding returns_def by blast
  then show ?thesis by (simp add: es_Sync_def Let_def andThen_def)
qed

theorem es_sync_returns_witness:
  "\<exists>r w'. es_Sync ok_env (SetObjectDefaults_ElasticsearchCluster (sample_es False [sample_data_pool None, sample_data_pool (Some 0)]))
     (sample_es_world 2 ''6.1.1'') = Done r w'"
  by (rule es_sync_returns) (simp_all add: sample_es_world_def sample_es_set_facts sample_es_def sample_data_pool_def)




text \<open>
  C36: if the version annotation and the wanted version differ only in build metadata, the next
  action is always the version change, and the version change does nothing: the pool is stuck there
  and is never scaled.
\<close>

theorem es_version_metadata_stuck:
  assumes "lister_get env ''statefulset'' ss_ObjectMeta (w_statefulsets w) (esc_Namespace c)
      (es_NodePoolResourceName c np) = Inr ss"
    and "mlookup (Annotations (ss_ObjectMeta ss)) ElasticsearchNodePoolVersionAnnotation = Some str"
    and "semver_Set str = Inr v" and "semver_Equal (es_Version (esc_Spec c)) v"
    and "semver_String (es_Version (esc_Spec c)) \<noteq> str"
    and "est_Health (esc_Status c) = Some health" "health \<noteq> ElasticsearchClusterHealthRed"
  shows "nextActionForNodePool env c np w = Done (Inr (Some (Es_UpdateVersion np))) w \<and>
         UpdateVersion_Execute env c np w = Done None w"
  using assms by (simp add: nextActionForNodePool_def UpdateVersion_Execute_def andThen_def)

theorem es_version_metadata_stuck_witness:
  "nextActionForNodePool ok_env (sample_es False []) (sample_data_pool (Some 1)) (sample_es_world 2 ''6.1.1+b'') =
     Done (Inr (Some (Es_UpdateVersion (sample_data_pool (Some 1))))) (sample_es_world 2 ''6.1.1+b'') \<and>
   UpdateVersion_Execute ok_env (sample_es False []) (sample_data_pool (Some 1)) (sample_es_world 2 ''6.1.1+b'') =
     Done None (sample_es_world 2 ''6.1.1+b'')"
proof -
  let ?v = "sample_es_version\<lparr>Metadata := ''b''\<rparr>"
  have "semver_Set ''6.1.1+b'' = Inr ?v" "semver_Equal (es_Version (esc_Spec (sample_es False []))) ?v"
    "semver_String (es_Version (esc_Spec (sample_es False []))) \<noteq> ''6.1.1+b''"
    "est_Health (esc_Status (sample_es False [])) = Some ElasticsearchClusterHealthGreen"
    by code_simp+
  then show ?thesis
    by (intro es_version_metadata_stuck [OF sample_es_get sample_es_set_facts(5)]) auto
qed

text \<open>
  Moving a pool with no replicas to another version only writes the version annotation. The
  pod template keeps the old image, and from then on the pool counts as up to date.
\<close>

theorem es_version_empty_pool:
  assumes get: "lister_get env ''statefulset'' ss_ObjectMeta (w_statefulsets w) (esc_Namespace c)
      (es_NodePoolResourceName c np) = Inr ss"
    and "mlookup (Annotations (ss_ObjectMeta ss)) ElasticsearchNodePoolVersionAnnotation = Some str"
    and "semver_Set str = Inr v" and "\<not> semver_Equal (es_Version (esc_Spec c)) v"
    and "est_Health (esc_Status c) = Some health" "health \<noteq> ElasticsearchClusterHealthRed"
    and "esImageToUse (esc_Spec c) = Inr img"
    and "ss_Replicas ss = Some 0" "sst_ReadyReplicas (ss_Status ss) = 0"
    and "es_SelectorForNodePool (esc_Name c) (enp_Name np) = Inr sel" "list_fault env ''pilot'' (esc_Namespace c) = None"
    and "ps_Containers (pt_Spec (sss_Template (ss_Spec ss))) = d # ds"
  shows "\<exists>s. requests (final (UpdateVersion_Execute env c np w)) = requests w @ [UpdateStatefulSet s] \<and>
    ss_Spec s = ss_Spec ss \<and>
    mlookup (Annotations (ss_ObjectMeta s)) ElasticsearchNodePoolVersionAnnotation =
      Some (semver_String (es_Version (esc_Spec c)))"
proof -
  let ?s = "set_version_annotation (semver_String (es_Version (esc_Spec c))) ss"
  have "pilotsUpToDate env c np ss w = None"
    using assms by (simp add: pilotsUpToDate_def pilotsForStatefulSet_def lister_list_def ordinals_def)
  then have "requests (final (UpdateVersion_Execute env c np w)) = requests w @ [UpdateStatefulSet ?s]"
    using assms
    by (simp add: UpdateVersion_Execute_def update_step_def send_update_def go_simps Let_def split: option.split)
  moreover obtain m where "Annotations (ss_ObjectMeta ss) = Some m"
    using assms(2) by (auto simp: mlookup_def split: option.splits)
  ultimately show ?thesis
    by (intro exI [of _ ?s]) (simp add: set_version_annotation_def mlookup_def)
qed

theorem es_version_empty_pool_witness:
  "\<exists>s. requests (final (UpdateVersion_Execute ok_env (sample_es False []) (sample_data_pool (Some 0))
       (sample_es_world 0 ''6.0.0''))) = [UpdateStatefulSet s] \<and> ss_Spec s = ss_Spec (sample_es_set 0 ''6.0.0'')"
proof -
  let ?c = "sample_es False []" and ?v = "sample_es_version\<lparr>Minor := 0, Patch := 0\<rparr>"
  let ?img = "\<lparr>img_Repository = ''docker.elastic.co/elasticsearch/elasticsearch'', img_Tag = ''6.1.1'',
     img_PullPolicy = ''IfNotPresent''\<rparr>"
  have facts: "semver_Set ''6.0.0'' = Inr ?v" "\<not> semver_Equal (es_Version (esc_Spec ?c)) ?v"
    "est_Health (esc_Status ?c) = Some ElasticsearchClusterHealthGreen"
    "ElasticsearchClusterHealthGreen \<noteq> ElasticsearchClusterHealthRed"
    "esImageToUse (esc_Spec ?c) = Inr ?img"
    by code_simp+
  have sel: "es_SelectorForNodePool (esc_Name ?c) (enp_Name (sample_data_pool (Some 0))) =
      Inr [Equals ElasticsearchClusterNameLabel ''x'', Equals ElasticsearchNodePoolNameLabel ''d'']"
    by code_simp
  have fault: "list_fault ok_env ''pilot'' (esc_Namespace ?c) = None" by (simp add: ok_env_def)
  have "ps_Containers (pt_Spec (sss_Template (ss_Spec (sample_es_set 0 ''6.0.0'')))) =
      [es_Container ?c (sample_data_pool (Some 0)) ?img]"
    using facts(5)
    by (simp add: sample_es_set_def nodePoolStatefulSet_def elasticsearchPodTemplateSpec_def set_version_annotation_def)
  from es_version_empty_pool [OF sample_es_get sample_es_set_facts(5) facts sample_es_set_facts(3,4) sel fault this]
  show ?thesis by (auto simp: sample_es_world_def empty_world_def)
qed

end
