(* ===== verification/Validation_Correct.thy ===== *)
theory Validation_Correct
  imports Validation Elasticsearch_Properties
begin

text \<open>
  What validation accepts: an exact description of the accepted ElasticsearchCluster
  specifications, the supported Cassandra versions, the fields an update may change, and what the
  accepted objects mean for the configuration the controllers write.
\<close>

section \<open>Accepted parts\<close>

lemma max_length_msgs_Nil [simp]: "max_length_msgs n v = [] \<longleftrightarrow> length v \<le> n"
  by (simp add: max_length_msgs_def)

lemma NameIsDNSSubdomain_Nil [simp]: "NameIsDNSSubdomain v = [] \<longleftrightarrow> IsDNS1123Subdomain v"
  by (simp add: NameIsDNSSubdomain_def IsDNS1123Subdomain_def)

lemma NameIsDNSLabel_Nil [simp]: "NameIsDNSLabel v = [] \<longleftrightarrow> length v \<le> 63 \<and> dns1123_label v"
  by (simp add: NameIsDNSLabel_def)

definition image_ok :: "nImageSpec \<Rightarrow> bool" where
  "image_ok img \<longleftrightarrow> nimg_Tag img \<noteq> '''' \<and> nimg_Repository img \<noteq> '''' \<and>
     nimg_PullPolicy img \<in> set supportedPullPolicies"

lemma ValidateImageSpec_Nil [simp]: "ValidateImageSpec img p = [] \<longleftrightarrow> image_ok img"
  by (auto simp: ValidateImageSpec_def image_ok_def supportedPullPolicies_def)

definition config_ok :: "nNavigatorClusterConfig \<Rightarrow> bool" where
  "config_ok cfg \<longleftrightarrow> image_ok (nPilotImage cfg) \<and>
     (\<forall>u. nnsc_RunAsUser (nSecurityContextOf cfg) = Some u \<longrightarrow> 0 \<le> sint u)"

lemma ValidateNavigatorClusterConfig_Nil [simp]: "ValidateNavigatorClusterConfig cfg p = [] \<longleftrightarrow> config_ok cfg"
  by (auto simp: ValidateNavigatorClusterConfig_def ValidateNavigatorSecurityContext_def config_ok_def
      split: option.splits)

lemma ValidatePersistenceConfig_Nil [simp]: "ValidatePersistenceConfig cfg p = [] \<longleftrightarrow> 0 < q_unscaled (npc_Size cfg)"
  by (auto simp: ValidatePersistenceConfig_def Quantity_Sign_def sgn_if)

lemma validate_pools_Nil:
  "validate_pools name validate p i seen nps = [] \<longleftrightarrow>
     distinct (map name nps) \<and> name ` set nps \<inter> seen = {} \<and>
     (\<forall>j < length nps. validate (nps ! j) (path_Index p (i + j)) = [])"
proof (induction nps arbitrary: i seen)
  case (Cons np nps)
  have "(\<forall>j < length (np # nps). validate ((np # nps) ! j) (path_Index p (i + j)) = []) \<longleftrightarrow>
      validate np (path_Index p i) = [] \<and> (\<forall>j < length nps. validate (nps ! j) (path_Index p (Suc i + j)) = [])"
    by (auto simp: nth_Cons split: nat.splits)
  with Cons show ?case by auto
qed simp

definition es_pool_ok :: "nElasticsearchClusterNodePool \<Rightarrow> bool" where
  "es_pool_ok np \<longleftrightarrow> IsDNS1123Subdomain (nenp_Name np) \<and>
     (\<forall>p. nenp_Persistence np = Some p \<longrightarrow> 0 < q_unscaled (npc_Size p)) \<and>
     nenp_Roles np \<noteq> [] \<and> set (nenp_Roles np) \<subseteq> {ElasticsearchRoleData, ElasticsearchRoleIngest, ElasticsearchRoleMaster} \<and>
     (\<forall>r. nenp_Replicas np = Some r \<longrightarrow> 0 \<le> sint r)"

lemma validate_roles_Nil:
  "validate_roles p i rs = [] \<longleftrightarrow> set rs \<subseteq> {ElasticsearchRoleData, ElasticsearchRoleIngest, ElasticsearchRoleMaster}"
  by (induction rs arbitrary: i) (auto simp: ValidateElasticsearchClusterRole_def)

lemma ValidateElasticsearchClusterNodePool_Nil [simp]:
  "ValidateElasticsearchClusterNodePool np p = [] \<longleftrightarrow> es_pool_ok np"
  by (auto simp: ValidateElasticsearchClusterNodePool_def ValidateDNS1123Subdomain_def es_pool_ok_def
      validate_roles_Nil split: option.splits)

definition masters_ok :: "int32 option \<Rightarrow> int32 \<Rightarrow> bool" where
  "masters_ok minimum n \<longleftrightarrow> n \<noteq> 0 \<and>
     (\<forall>m. minimum = Some m \<longrightarrow> m \<noteq> 0 \<and> sint (CalculateQuorum n) \<le> sint m \<and> sint m \<le> sint n)"

lemma validate_masters_Nil [simp]: "validate_masters m n p = [] \<longleftrightarrow> masters_ok m n"
  by (auto simp: validate_masters_def masters_ok_def Let_def split: option.splits)

lemma bind_outcome_eq_Return: "bind_outcome m k = Return y \<longleftrightarrow> (\<exists>x. m = Return x \<and> k x = Return y)"
  by (cases m) auto

lemma es_spec_accepted:
  "ValidateElasticsearchClusterSpec spec p = Return [] \<longleftrightarrow>
     config_ok (nes_Config spec) \<and> (\<forall>img. nes_Image spec = Some img \<longrightarrow> image_ok img) \<and>
     distinct (map nenp_Name (nes_NodePools spec)) \<and> list_all es_pool_ok (nes_NodePools spec) \<and>
     (\<exists>n. n_count_masters 0 (nes_NodePools spec) = Return n \<and> masters_ok (nes_MinimumMasters spec) n) \<and>
     \<not> semver_Equal (nes_Version spec) emptySemver"
  unfolding ValidateElasticsearchClusterSpec_def bind_outcome_eq_Return
  by (auto simp: validate_pools_Nil list_all_length split: option.splits)

section \<open>Masters\<close>

definition total_masters :: "ElasticsearchNodePool list \<Rightarrow> int" where
  "total_masters nps = sum_list (map (\<lambda>np. case enp_Replicas np of None \<Rightarrow> 0 | Some r \<Rightarrow> sint r)
     (filter (\<lambda>np. ElasticsearchRoleMaster \<in> set (enp_Roles np)) nps))"

abbreviation to_internal_pool :: "ElasticsearchNodePool \<Rightarrow> nElasticsearchClusterNodePool" where
  "to_internal_pool \<equiv> Convert_v1alpha1_ElasticsearchClusterNodePool_To_navigator_ElasticsearchClusterNodePool"

abbreviation to_internal_es :: "ElasticsearchCluster \<Rightarrow> nElasticsearchCluster" where
  "to_internal_es c \<equiv> Convert_v1alpha1_ElasticsearchCluster_To_navigator_ElasticsearchCluster c empty_type"

lemma to_internal_pool_fields [simp]:
  "nenp_Name (to_internal_pool np) = enp_Name np" "nenp_Roles (to_internal_pool np) = enp_Roles np"
  "nenp_Replicas (to_internal_pool np) = enp_Replicas np"
  by (simp_all add: Convert_v1alpha1_ElasticsearchClusterNodePool_To_navigator_ElasticsearchClusterNodePool_def)

lemma to_internal_es_fields [simp]:
  "nes_NodePools (nesc_Spec (to_internal_es c)) = map to_internal_pool (es_NodePools (esc_Spec c))"
  "nes_MinimumMasters (nesc_Spec (to_internal_es c)) = es_MinimumMasters (esc_Spec c)"
  "nesc_ObjectMeta (to_internal_es c) = esc_ObjectMeta c"
  by (simp_all add: Convert_v1alpha1_ElasticsearchCluster_To_navigator_ElasticsearchCluster_def
      Convert_v1alpha1_ElasticsearchClusterSpec_To_navigator_ElasticsearchClusterSpec_def)

lemma n_count_masters_conv: "n_count_masters m (map to_internal_pool nps) = count_masters m nps"
  by (induction nps arbitrary: m) simp_all

lemma total_masters_nonneg:
  "list_all (\<lambda>np. \<forall>r. enp_Replicas np = Some r \<longrightarrow> 0 \<le> sint r) nps \<Longrightarrow> 0 \<le> total_masters nps"
  by (auto simp: total_masters_def list_all_iff intro!: sum_list_nonneg split: option.split)

lemma count_masters_total:
  assumes "count_masters m nps = Return n" and "0 \<le> sint m"
    and "list_all (\<lambda>np. \<forall>r. enp_Replicas np = Some r \<longrightarrow> 0 \<le> sint r) nps"
    and "sint m + total_masters nps < 2 ^ 31"
  shows "sint n = sint m + total_masters nps"
  using assms
proof (induction nps arbitrary: m)
  case (Cons np nps)
  show ?case
  proof (cases "ElasticsearchRoleMaster \<in> set (enp_Roles np)")
    case False
    then show ?thesis using Cons by (simp add: total_masters_def)
  next
    case True
    with Cons.prems(1) obtain r where r: "enp_Replicas np = Some r" "count_masters (m + r) nps = Return n"
      by (cases "enp_Replicas np") auto
    have tot: "total_masters (np # nps) = sint r + total_masters nps"
      using True r by (simp add: total_masters_def)
    have "0 \<le> sint r" "0 \<le> total_masters nps" using Cons.prems(3) r total_masters_nonneg by auto
    then have add: "sint (m + r) = sint m + sint r"
      using Cons.prems(2,4) tot by (intro sint_add32) linarith+
    show ?thesis using Cons.IH [OF r(2)] add tot \<open>0 \<le> sint r\<close> Cons.prems by simp
  qed
qed (simp add: total_masters_def)

section \<open>Updates\<close>

lemma validate_pool_updates_Nil:
  assumes "validate_pool_updates name persistence restore p i olds nps = []" and "np \<in> set nps"
    and "find_first (\<lambda>oldNp. name np = name oldNp) olds = Some oldNp"
  shows "restore oldNp np = oldNp \<and> (persistence oldNp \<noteq> None \<longrightarrow> persistence np = persistence oldNp)"
  using assms by (induction nps arbitrary: i) (auto split: if_splits)

section \<open>Supported Cassandra versions\<close>

definition hc_wf :: "hc_version \<Rightarrow> bool" where
  "hc_wf v \<longleftrightarrow> 3 \<le> length (hc_segments v) \<and> list_all (\<lambda>s. 0 \<le> sint s) (hc_segments v)"

lemma sint_small64: "sint (3 :: int64) = 3" "sint (4 :: int64) = 4" "sint (0 :: int64) = 0"
  by simp_all

lemma compareSegments_zero:
  assumes "list_all (\<lambda>s. 0 \<le> sint s) ss"
  shows "0 \<le> compareSegments ss (replicate k 0)"
  using assms
proof (induction ss arbitrary: k)
  case Nil
  then show ?case by (auto simp: allZero_def list_all_iff)
next
  case (Cons s ss)
  then show ?case by (cases k) auto
qed

lemma show_int_no_dot: "CHR ''.'' \<notin> set (show_int i)"
  using show_nat_set by (auto simp: show_int_def split: if_splits)

lemma hc_String_major:
  assumes "hc_String v = hc_String w" and "hc_segments v = a # b # as" and "hc_segments w = c # d # cs"
  shows "a = c"
proof -
  obtain x where x: "hc_String v = show_int (sint a) @ ''.'' @ x"
    using assms(2) by (cases as) (auto simp: hc_String_def)
  obtain y where y: "hc_String w = show_int (sint c) @ ''.'' @ y"
    using assms(3) by (cases cs) (auto simp: hc_String_def)
  have "show_int (sint a) @ CHR ''.'' # x = show_int (sint c) @ CHR ''.'' # y" using assms(1) x y by simp
  then have "show_int (sint a) = show_int (sint c)"
    using sep_prefix_inj [OF _ show_int_no_dot show_int_no_dot] by blast
  then show ?thesis using show_int_inj sint_eq_iff64 by blast
qed

lemma hc_Compare_constraint:
  assumes "hc_wf v" and "hc_pre v = ''''" and seg: "hc_segments v = s # ss"
  shows "(0 \<le> hc_Compare v (constraint_version n) \<longleftrightarrow> sint n \<le> sint s) \<and>
    (hc_Compare v (constraint_version n) = - 1 \<longleftrightarrow> sint s < sint n)"
proof -
  let ?c = "constraint_version n"
  obtain t ts where ss: "ss = t # ts" using assms(1) seg by (cases ss) (auto simp: hc_wf_def)
  have nn: "list_all (\<lambda>s. 0 \<le> sint s) ss" using assms(1) seg by (simp add: hc_wf_def)
  have zeros: "0 \<le> compareSegments ss [0, 0]"
    using compareSegments_zero [OF nn, of 2] by (simp add: numeral_2_eq_2)
  have same: "hc_Compare v ?c = 0 \<and> s = n" if "hc_String v = hc_String ?c"
    using hc_String_major [OF that, of s t ts n 0 "[0]"] that seg ss
    by (simp add: hc_Compare_def constraint_version_def)
  have equal: "hc_Compare v ?c = 0 \<and> s = n" if "hc_segments v = hc_segments ?c"
    using that seg assms(2) by (simp add: hc_Compare_def constraint_version_def)
  have else_case: "hc_Compare v ?c = (if s = n then compareSegments ss [0, 0] else if sint s < sint n then - 1 else 1)"
    if "hc_String v \<noteq> hc_String ?c" "hc_segments v \<noteq> hc_segments ?c"
    using that seg by (simp add: hc_Compare_def constraint_version_def)
  consider "hc_Compare v ?c = 0" "s = n"
    | "hc_Compare v ?c = (if s = n then compareSegments ss [0, 0] else if sint s < sint n then - 1 else 1)"
    using same equal else_case by blast
  then show ?thesis
  proof cases
    case 2
    then show ?thesis using zeros sint_eq_iff64 [of s n] by auto
  qed auto
qed

section \<open>Properties\<close>

text \<open>
  C10: validation accepts the specification of an ElasticsearchCluster exactly if its images and
  pull policies are given, the user is not negative, the pools have distinct DNS names, known roles,
  at least one each, positive storage sizes and no negative replica count, the masters counted in 32
  bits are not zero, a given minimum of masters lies between the quorum and their number, and the
  version is not the zero version.
\<close>

theorem es_validation_accepts:
  "ValidateElasticsearchClusterSpec spec p = Return [] \<longleftrightarrow>
     config_ok (nes_Config spec) \<and> (\<forall>img. nes_Image spec = Some img \<longrightarrow> image_ok img) \<and>
     distinct (map nenp_Name (nes_NodePools spec)) \<and> list_all es_pool_ok (nes_NodePools spec) \<and>
     (\<exists>n. n_count_masters 0 (nes_NodePools spec) = Return n \<and> masters_ok (nes_MinimumMasters spec) n) \<and>
     \<not> semver_Equal (nes_Version spec) emptySemver"
  by (rule es_spec_accepted)

text \<open>
  C11: for a validated ElasticsearchCluster whose master replicas do not add up beyond 32 bits, the
  minimum of master nodes the controller configures, given or computed, is a majority of the masters
  and at most their number.
\<close>

theorem es_validated_quorum:
  assumes "ValidateElasticsearchCluster other (to_internal_es c) = Return []"
    and "total_masters (es_NodePools (esc_Spec c)) < 2 ^ 31"
  shows "\<exists>q. generateConfig c = Return (config_text q) \<and>
    total_masters (es_NodePools (esc_Spec c)) < 2 * sint q \<and> sint q \<le> total_masters (es_NodePools (esc_Spec c))"
proof -
  let ?nps = "es_NodePools (esc_Spec c)" and ?m = "es_MinimumMasters (esc_Spec c)"
  from assms(1) have spec: "ValidateElasticsearchClusterSpec (nesc_Spec (to_internal_es c)) ''spec'' = Return []"
    by (auto simp: ValidateElasticsearchCluster_def bind_outcome_eq_Return)
  then obtain n where n: "count_masters 0 ?nps = Return n" "masters_ok ?m n"
    unfolding es_spec_accepted to_internal_es_fields n_count_masters_conv by blast
  have pools: "list_all (\<lambda>np. \<forall>r. enp_Replicas np = Some r \<longrightarrow> 0 \<le> sint r) ?nps"
    using spec unfolding es_spec_accepted by (auto simp: list_all_iff es_pool_ok_def)
  have total: "sint n = total_masters ?nps" using count_masters_total [OF n(1) _ pools] assms(2) by simp
  have "sint n \<noteq> 0" using n(2) sint_eq_iff32 [of n 0] by (simp add: masters_ok_def)
  then have pos: "0 < sint n" using total total_masters_nonneg [OF pools] by linarith
  note q = CalculateQuorum_sint [OF pos]
  show ?thesis
  proof (cases ?m)
    case None
    then have "generateConfig c = Return (config_text (CalculateQuorum n))"
      using n(1) by (simp add: generateConfig_def CountElasticsearchMasters_def)
    then show ?thesis using q total pos by (intro exI [of _ "CalculateQuorum n"]) auto
  next
    case (Some m)
    then have "generateConfig c = Return (config_text m)" by (simp add: generateConfig_def)
    moreover have "sint (CalculateQuorum n) \<le> sint m" "sint m \<le> sint n"
      using n(2) Some by (auto simp: masters_ok_def)
    ultimately show ?thesis using q total by (intro exI [of _ m]) auto
  qed
qed

definition sample_masters :: "int32 \<Rightarrow> ElasticsearchNodePool" where
  "sample_masters r = (sample_data_pool (Some r))\<lparr>enp_Roles := [''master'']\<rparr>"

definition sample_many :: "ElasticsearchNodePool list" where
  "sample_many = [sample_masters 2147483647, (sample_masters 2147483647)\<lparr>enp_Name := ''e''\<rparr>]"

definition sample_valid_es :: "ElasticsearchNodePool list \<Rightarrow> ElasticsearchCluster" where
  "sample_valid_es nps = SetObjectDefaults_ElasticsearchCluster (sample_es False nps)"

theorem es_validated_quorum_witness:
  "\<exists>q. generateConfig (sample_valid_es [sample_masters 3]) = Return (config_text q) \<and> 3 < 2 * sint q \<and> sint q \<le> 3"
proof -
  have "ValidateElasticsearchCluster (\<lambda>_. []) (to_internal_es (sample_valid_es [sample_masters 3])) = Return []"
    by code_simp
  moreover have "total_masters (es_NodePools (esc_Spec (sample_valid_es [sample_masters 3]))) = 3" by code_simp
  ultimately show ?thesis using es_validated_quorum [of "\<lambda>_. []" "sample_valid_es [sample_masters 3]"] by simp
qed

theorem es_validation_accepts_witness:
  "list_all es_pool_ok (nes_NodePools (nesc_Spec (to_internal_es (sample_valid_es [sample_masters 3]))))"
proof -
  have "ValidateElasticsearchClusterSpec (nesc_Spec (to_internal_es (sample_valid_es [sample_masters 3]))) ''spec'' = Return []"
    by code_simp
  then show ?thesis
    using es_validation_accepts [of "nesc_Spec (to_internal_es (sample_valid_es [sample_masters 3]))" "''spec''"] by simp
qed

lemma sample_valid_es_parts:
  "config_ok (nes_Config (nesc_Spec (to_internal_es (sample_valid_es nps))))"
  "nes_Image (nesc_Spec (to_internal_es (sample_valid_es nps))) = None"
  "\<not> semver_Equal (nes_Version (nesc_Spec (to_internal_es (sample_valid_es nps)))) emptySemver"
  "ValidateObjectMeta (\<lambda>_. []) (nesc_ObjectMeta (to_internal_es (sample_valid_es nps))) ''metadata'' = []"
proof -
  have names: "IsDNS1123Subdomain ''x''" "dns1123_label ''ns''" by code_simp+
  show "config_ok (nes_Config (nesc_Spec (to_internal_es (sample_valid_es nps))))"
    "nes_Image (nesc_Spec (to_internal_es (sample_valid_es nps))) = None"
    "\<not> semver_Equal (nes_Version (nesc_Spec (to_internal_es (sample_valid_es nps)))) emptySemver"
    "ValidateObjectMeta (\<lambda>_. []) (nesc_ObjectMeta (to_internal_es (sample_valid_es nps))) ''metadata'' = []"
    using names
    by (simp_all add: sample_valid_es_def SetObjectDefaults_ElasticsearchCluster_def sample_es_def sample_config_def
        default_config_def SetDefaults_ImageSpec_def config_ok_def image_ok_def supportedPullPolicies_def
        semver_Equal_iff emptySemver_def sample_es_version_def ValidateObjectMeta_def
        Convert_v1alpha1_ElasticsearchCluster_To_navigator_ElasticsearchCluster_def
        Convert_v1alpha1_ElasticsearchClusterSpec_To_navigator_ElasticsearchClusterSpec_def
        Convert_v1alpha1_NavigatorClusterConfig_To_navigator_NavigatorClusterConfig_def
        Convert_v1alpha1_NavigatorSecurityContext_To_navigator_NavigatorSecurityContext_def
        Convert_v1alpha1_ImageSpec_To_navigator_ImageSpec_def)
qed

text \<open>
  The count of masters is a 32-bit sum. Two pools of 2147483647 masters each are accepted, and
  the configuration written for them asks for a minimum of zero master nodes.
\<close>

theorem es_quorum_overflow:
  "ValidateElasticsearchCluster (\<lambda>_. []) (to_internal_es (sample_valid_es sample_many)) = Return [] \<and>
   generateConfig (sample_valid_es sample_many) = Return (config_text 0)"
proof -
  let ?c = "sample_valid_es sample_many"
  have pools: "es_NodePools (esc_Spec ?c) = map SetDefaults_ElasticsearchClusterNodePool sample_many"
    and none: "es_MinimumMasters (esc_Spec ?c) = None"
    by (simp_all add: sample_valid_es_def sample_es_def SetObjectDefaults_ElasticsearchCluster_def)
  have count: "count_masters 0 (es_NodePools (esc_Spec ?c)) = Return (- 2)"
    unfolding pools by (simp add: sample_many_def sample_masters_def sample_data_pool_def SetDefaults_Elasticsearch_fields
        ElasticsearchRoleMaster_def)
  have quorum: "CalculateQuorum (- 2) = 0"
    by (simp add: CalculateQuorum_def go_div32_def signed_divide_int_def)
  have "masters_ok None (- 2)" by (simp add: masters_ok_def)
  moreover have "list_all es_pool_ok (map to_internal_pool (es_NodePools (esc_Spec ?c)))"
  proof -
    have "IsDNS1123Subdomain ''d''" "IsDNS1123Subdomain ''e''" by code_simp+
    then show ?thesis
      unfolding pools by (simp add: sample_many_def sample_masters_def sample_data_pool_def es_pool_ok_def
          SetDefaults_ElasticsearchClusterNodePool_def ElasticsearchRoleMaster_def
          Convert_v1alpha1_ElasticsearchClusterNodePool_To_navigator_ElasticsearchClusterNodePool_def)
  qed
  moreover have "distinct (map nenp_Name (map to_internal_pool (es_NodePools (esc_Spec ?c))))"
    unfolding pools by (simp add: sample_many_def sample_masters_def sample_data_pool_def SetDefaults_Elasticsearch_fields)
  moreover have "config_ok (nes_Config (nesc_Spec (to_internal_es ?c)))"
    "nes_Image (nesc_Spec (to_internal_es ?c)) = None"
    "\<not> semver_Equal (nes_Version (nesc_Spec (to_internal_es ?c))) emptySemver"
    using sample_valid_es_parts by auto
  ultimately have "ValidateElasticsearchClusterSpec (nesc_Spec (to_internal_es ?c)) ''spec'' = Return []"
    unfolding es_spec_accepted to_internal_es_fields n_count_masters_conv count none by simp
  moreover have "generateConfig ?c = Return (config_text 0)"
    using count none quorum by (simp add: generateConfig_def CountElasticsearchMasters_def)
  ultimately show ?thesis using sample_valid_es_parts(4) by (simp add: ValidateElasticsearchCluster_def)
qed

text \<open>
  C12: an accepted update of an ElasticsearchCluster leaves a node pool of an existing name as it
  was, except for its replicas and for persistence that was not enabled before.
\<close>

theorem es_update_keeps_pools:
  assumes "ValidateElasticsearchClusterUpdate other old new = Return []"
    and "np \<in> set (nes_NodePools (nesc_Spec new))"
    and "find_first (\<lambda>oldNp. nenp_Name np = nenp_Name oldNp) (nes_NodePools (nesc_Spec old)) = Some oldNp"
  shows "np = oldNp\<lparr>nenp_Replicas := nenp_Replicas np, nenp_Persistence := nenp_Persistence np\<rparr> \<and>
    (nenp_Persistence oldNp \<noteq> None \<longrightarrow> nenp_Persistence np = nenp_Persistence oldNp)"
proof -
  have "validate_pool_updates nenp_Name nenp_Persistence restore_es (path_Child ''spec'' ''nodePools'') 0
      (nes_NodePools (nesc_Spec old)) (nes_NodePools (nesc_Spec new)) = []"
    using assms(1) by (auto simp: ValidateElasticsearchClusterUpdate_def bind_outcome_eq_Return)
  note restored = validate_pool_updates_Nil [OF this assms(2,3)]
  then have "oldNp = np\<lparr>nenp_Replicas := nenp_Replicas oldNp, nenp_Persistence := nenp_Persistence oldNp\<rparr>"
    by (simp add: restore_es_def)
  then have "oldNp\<lparr>nenp_Replicas := nenp_Replicas np, nenp_Persistence := nenp_Persistence np\<rparr> = np"
    by (cases np; cases oldNp) simp
  with restored show ?thesis by simp
qed

theorem es_update_keeps_pools_witness:
  "\<exists>np oldNp :: nElasticsearchClusterNodePool. nenp_Replicas np = Some 5 \<and> nenp_Replicas oldNp = Some 3 \<and>
     np = oldNp\<lparr>nenp_Replicas := nenp_Replicas np, nenp_Persistence := nenp_Persistence np\<rparr>"
proof -
  let ?old = "to_internal_es (sample_valid_es [sample_masters 3])" and ?new = "to_internal_es (sample_valid_es [sample_masters 5])"
  let ?np = "to_internal_pool (SetDefaults_ElasticsearchClusterNodePool (sample_masters 5))"
  let ?op = "to_internal_pool (SetDefaults_ElasticsearchClusterNodePool (sample_masters 3))"
  have pools: "nes_NodePools (nesc_Spec ?old) = [?op]" "nes_NodePools (nesc_Spec ?new) = [?np]"
    by (simp_all add: sample_valid_es_def sample_es_def SetObjectDefaults_ElasticsearchCluster_def)
  have "ValidateElasticsearchCluster (\<lambda>_. []) ?new = Return []" by code_simp
  moreover have "restore_es ?op ?np = ?op" "nenp_Persistence ?op = None" "nenp_Name ?np = nenp_Name ?op"
    by (simp_all add: restore_es_def sample_masters_def sample_data_pool_def SetDefaults_ElasticsearchClusterNodePool_def
        Convert_v1alpha1_ElasticsearchClusterNodePool_To_navigator_ElasticsearchClusterNodePool_def)
  ultimately have "ValidateElasticsearchClusterUpdate (\<lambda>_. []) ?old ?new = Return []"
    and "find_first (\<lambda>oldNp. nenp_Name ?np = nenp_Name oldNp) (nes_NodePools (nesc_Spec ?old)) = Some ?op"
    unfolding ValidateElasticsearchClusterUpdate_def pools by simp_all
  from es_update_keeps_pools [OF this(1) _ this(2)] have
    "?np = ?op\<lparr>nenp_Replicas := nenp_Replicas ?np, nenp_Persistence := nenp_Persistence ?np\<rparr>"
    unfolding pools by (metis list.set_intros(1))
  moreover have "nenp_Replicas ?np = Some 5" "nenp_Replicas ?op = Some 3"
    by (simp_all add: SetDefaults_Elasticsearch_fields) (simp_all add: sample_masters_def sample_data_pool_def)
  ultimately show ?thesis by (intro exI [of _ ?np] exI [of _ ?op] conjI)
qed

text \<open>
  C33: a well-formed parsed version is supported for Cassandra exactly if it is no pre-release and
  its major number is 3.
\<close>

theorem cass_supported_versions:
  assumes "hc_wf v"
  shows "supportedCassandraVersions_Check v \<longleftrightarrow> hc_pre v = '''' \<and> sint (hd (hc_segments v)) = 3"
proof (cases "hc_pre v = ''''")
  case True
  obtain s ss where seg: "hc_segments v = s # ss" using assms by (cases "hc_segments v") (auto simp: hc_wf_def)
  have pre: "prereleaseCheck v (constraint_version n)" for n using True by (simp add: prereleaseCheck_def)
  show ?thesis
    using hc_Compare_constraint [OF assms True seg, of 3] hc_Compare_constraint [OF assms True seg, of 4] True pre seg
    by (auto simp: supportedCassandraVersions_Check_def constraintGreaterThanEqual_def constraintLessThan_def)
next
  case False
  then show ?thesis
    by (simp add: supportedCassandraVersions_Check_def constraintGreaterThanEqual_def prereleaseCheck_def
        constraint_version_def)
qed

theorem cass_supported_versions_witness:
  "supportedCassandraVersions_Check (the (Semver sample_version))"
proof -
  have "hc_wf (the (Semver sample_version))" by code_simp
  from cass_supported_versions [OF this] show ?thesis by (simp add: sample_version_def)
qed

text \<open>
  C38: the validation of a CassandraCluster that is created does not look at the persistence of its
  node pools: replacing it by any other, such as one of size zero, does not change the outcome. (An
  update does look at it, in that persistence once enabled may not change.)
\<close>

theorem cass_creation_ignores_persistence:
  "ValidateCassandraCluster other (c\<lparr>ncass_Spec := (ncass_Spec c)
     \<lparr>ncs_NodePools := map (\<lambda>np. np\<lparr>ncnp_Persistence := f np\<rparr>) (ncs_NodePools (ncass_Spec c))\<rparr>\<rparr>) =
   ValidateCassandraCluster other c"
proof -
  have "validate_pools ncnp_Name ValidateCassandraClusterNodePool q i seen (map (\<lambda>np. np\<lparr>ncnp_Persistence := f np\<rparr>) nps) =
      validate_pools ncnp_Name ValidateCassandraClusterNodePool q i seen nps" for q i seen nps
    by (induction nps arbitrary: i seen) (simp_all add: ValidateCassandraClusterNodePool_def)
  then show ?thesis by (simp add: ValidateCassandraCluster_def ValidateCassandraClusterSpec_def cong: if_cong)
qed

text \<open>
  C13: an accepted update of a CassandraCluster keeps its version, compared as parsed, and leaves a
  node pool of an existing name as it was, except for its replicas and for persistence that was not
  enabled before.
\<close>

theorem cass_update_keeps:
  assumes "ValidateCassandraClusterUpdate other old new = Return []"
  shows "Version_Equal (ncs_Version (ncass_Spec new)) (ncs_Version (ncass_Spec old)) = Return True \<and>
    (\<forall>np \<in> set (ncs_NodePools (ncass_Spec new)). \<forall>oldNp.
       find_first (\<lambda>oldNp. ncnp_Name np = ncnp_Name oldNp) (ncs_NodePools (ncass_Spec old)) = Some oldNp \<longrightarrow>
       np = oldNp\<lparr>ncnp_Replicas := ncnp_Replicas np, ncnp_Persistence := ncnp_Persistence np\<rparr> \<and>
       (ncnp_Persistence oldNp \<noteq> None \<longrightarrow> ncnp_Persistence np = ncnp_Persistence oldNp))"
proof -
  from assms have eq: "Version_Equal (ncs_Version (ncass_Spec new)) (ncs_Version (ncass_Spec old)) = Return True"
    and upd: "validate_pool_updates ncnp_Name ncnp_Persistence restore_cass (path_Child ''spec'' ''nodePools'') 0
      (ncs_NodePools (ncass_Spec old)) (ncs_NodePools (ncass_Spec new)) = []"
    by (auto simp: ValidateCassandraClusterUpdate_def bind_outcome_eq_Return split: if_splits)
  have "oldNp\<lparr>ncnp_Replicas := ncnp_Replicas np, ncnp_Persistence := ncnp_Persistence np\<rparr> = np"
    if "restore_cass oldNp np = oldNp" for oldNp np
    using that by (cases np; cases oldNp) (simp add: restore_cass_def)
  with validate_pool_updates_Nil [OF upd] eq show ?thesis by metis
qed

definition sample_valid_cass :: nCassandraCluster where
  "sample_valid_cass = Convert_v1alpha1_CassandraCluster_To_navigator_CassandraCluster
     (SetObjectDefaults_CassandraCluster (sample_cluster ''x'' False [])) empty_type"

theorem cass_update_keeps_witness:
  "Version_Equal (ncs_Version (ncass_Spec sample_valid_cass)) (ncs_Version (ncass_Spec sample_valid_cass)) = Return True"
proof -
  have "ncs_NodePools (ncass_Spec sample_valid_cass) = []"
    by (simp add: sample_valid_cass_def sample_cluster_def SetObjectDefaults_CassandraCluster_def
        Convert_v1alpha1_CassandraCluster_To_navigator_CassandraCluster_def
        Convert_v1alpha1_CassandraClusterSpec_To_navigator_CassandraClusterSpec_def)
  moreover have "ValidateCassandraCluster (\<lambda>_. []) sample_valid_cass = Return []" by code_simp
  moreover have "Version_Equal (ncs_Version (ncass_Spec sample_valid_cass)) (ncs_Version (ncass_Spec sample_valid_cass)) = Return True"
    by code_simp
  ultimately have "ValidateCassandraClusterUpdate (\<lambda>_. []) sample_valid_cass sample_valid_cass = Return []"
    by (simp add: ValidateCassandraClusterUpdate_def)
  from cass_update_keeps [OF this] show ?thesis by simp
qed


text \<open>
  Parsing the printed form of a version with non-negative numbers gives the version back, and
  every version that parses is of that kind.
\<close>

theorem semver_round_trip:
  "(semver_wf v \<longrightarrow> semver_Set (semver_String v) = Inr v) \<and> (semver_Set s = Inr u \<longrightarrow> semver_wf u)"
  using semver_Set_String semver_Set_wf by blast

theorem semver_round_trip_witness: "semver_Set (semver_String sample_es_version) = Inr sample_es_version"
proof -
  have "semver_wf sample_es_version" by code_simp
  then show ?thesis using semver_round_trip [of sample_es_version "''''" sample_es_version] by blast
qed

end
