(* ===== verification/Work_Queue.thy ===== *)
theory Work_Queue
  imports Kube_Meta
begin

text \<open>
  The rate limited work queue the controllers share (\<open>client-go/util/workqueue\<close>: \<open>queue.go\<close>,
  \<open>delaying_queue.go\<close>, \<open>rate_limitting_queue.go\<close>, \<open>default_rate_limiters.go\<close>) and the loop of their
  workers (\<open>processNextWorkItem\<close>). Time is not modelled: an item that waits for its delay is in a set
  from which the waiting loop may take it at any moment, and the wait the token bucket asks for is an
  argument. The keys the workers hold are kept beside the queue.
\<close>

section \<open>Rate limiter\<close>

text \<open>
  Durations are nanoseconds. The product of the base delay and a power of two is exact in a
  \<open>float64\<close>, and it is never \<open>2 ^ 63\<close>, to which \<open>math.MaxInt64\<close> is rounded in the comparison.
\<close>

definition baseDelay :: int where
  "baseDelay = 5 * 1000000"

definition maxDelay :: int where
  "maxDelay = 1000 * 1000000000"

definition exponential_When :: "(string \<Rightarrow> nat) \<Rightarrow> string \<Rightarrow> int \<times> (string \<Rightarrow> nat)" where
  "exponential_When failures item =
     (let exp = failures item;
          failures' = failures(item := failures item + 1);
          backoff = baseDelay * 2 ^ exp
      in if backoff > 2 ^ 63 - 1 then (maxDelay, failures')
         else if backoff > maxDelay then (maxDelay, failures')
         else (backoff, failures'))"

definition max_of :: "int list \<Rightarrow> int" where
  "max_of = foldl (\<lambda>ret curr. if curr > ret then curr else ret) 0"

definition controller_When :: "int \<Rightarrow> (string \<Rightarrow> nat) \<Rightarrow> string \<Rightarrow> int \<times> (string \<Rightarrow> nat)" where
  "controller_When bucket failures item =
     (let (d, failures') = exponential_When failures item in (max_of [d, bucket], failures'))"

lemma exponential_When_min:
  "exponential_When failures item =
     (min (baseDelay * 2 ^ failures item) maxDelay, failures(item := failures item + 1))"
  by (simp add: exponential_When_def Let_def maxDelay_def min_def)

lemma exponential_When_bounds: "0 < fst (exponential_When failures item)" "fst (exponential_When failures item) \<le> maxDelay"
  by (simp_all add: exponential_When_min baseDelay_def maxDelay_def)

lemma controller_When_fst:
  "fst (controller_When bucket failures item) = max (fst (exponential_When failures item)) bucket"
  using exponential_When_bounds(1) [of failures item]
  by (cases "exponential_When failures item") (simp add: controller_When_def max_of_def max_def)

lemma controller_When_pos: "0 < fst (controller_When bucket failures item)"
  using exponential_When_bounds(1) [of failures item] by (simp add: controller_When_fst less_max_iff_disj)

section \<open>Queue\<close>

record workqueue =
  wq_queue :: "string list"
  wq_dirty :: "string set"
  wq_processing :: "string set"
  wq_waiting :: "string set"
  wq_failures :: "string \<Rightarrow> nat"
  wq_shuttingDown :: bool

definition wq_New :: workqueue where
  "wq_New = \<lparr>wq_queue = [], wq_dirty = {}, wq_processing = {}, wq_waiting = {}, wq_failures = (\<lambda>_. 0),
     wq_shuttingDown = False\<rparr>"

definition wq_Add :: "string \<Rightarrow> workqueue \<Rightarrow> workqueue" where
  "wq_Add item q =
     (if wq_shuttingDown q then q
      else if item \<in> wq_dirty q then q
      else let q1 = q\<lparr>wq_dirty := insert item (wq_dirty q)\<rparr>
           in if item \<in> wq_processing q1 then q1 else q1\<lparr>wq_queue := wq_queue q1 @ [item]\<rparr>)"

text \<open>\<open>None\<close> while \<open>Get\<close> waits; no item when the queue is shutting down and drained.\<close>

definition wq_Get :: "workqueue \<Rightarrow> (string option \<times> workqueue) option" where
  "wq_Get q =
     (case wq_queue q of
        [] \<Rightarrow> if wq_shuttingDown q then Some (None, q) else None
      | item # rest \<Rightarrow> Some (Some item, q\<lparr>wq_queue := rest, wq_processing := insert item (wq_processing q),
                                           wq_dirty := wq_dirty q - {item}\<rparr>))"

definition wq_Done :: "string \<Rightarrow> workqueue \<Rightarrow> workqueue" where
  "wq_Done item q =
     (let q1 = q\<lparr>wq_processing := wq_processing q - {item}\<rparr>
      in if item \<in> wq_dirty q1 then q1\<lparr>wq_queue := wq_queue q1 @ [item]\<rparr> else q1)"

definition wq_ShutDown :: "workqueue \<Rightarrow> workqueue" where
  "wq_ShutDown q = q\<lparr>wq_shuttingDown := True\<rparr>"

definition wq_AddAfter :: "string \<Rightarrow> int \<Rightarrow> workqueue \<Rightarrow> workqueue" where
  "wq_AddAfter item duration q =
     (if wq_shuttingDown q then q
      else if duration \<le> 0 then wq_Add item q
      else q\<lparr>wq_waiting := insert item (wq_waiting q)\<rparr>)"

text \<open>The waiting loop adds an entry whose time has come.\<close>

definition wq_ready :: "string \<Rightarrow> workqueue \<Rightarrow> workqueue" where
  "wq_ready item q = (let q1 = wq_Add item q in q1\<lparr>wq_waiting := wq_waiting q1 - {item}\<rparr>)"

definition wq_AddRateLimited :: "int \<Rightarrow> string \<Rightarrow> workqueue \<Rightarrow> workqueue" where
  "wq_AddRateLimited bucket item q =
     (let (d, failures) = controller_When bucket (wq_failures q) item
      in wq_AddAfter item d (q\<lparr>wq_failures := failures\<rparr>))"

definition wq_Forget :: "string \<Rightarrow> workqueue \<Rightarrow> workqueue" where
  "wq_Forget item q = q\<lparr>wq_failures := (wq_failures q)(item := 0)\<rparr>"

section \<open>Workers\<close>

text \<open>What follows \<open>sync\<close> in \<open>processNextWorkItem\<close>; the deferred \<open>Done\<close> comes last.\<close>

definition finish_item :: "int \<Rightarrow> string \<Rightarrow> go_error option \<Rightarrow> workqueue \<Rightarrow> workqueue" where
  "finish_item bucket key err q =
     wq_Done key (if err \<noteq> None then wq_AddRateLimited bucket key q else wq_Forget key q)"

definition processNextWorkItem ::
  "(string \<Rightarrow> go_error option) \<Rightarrow> int \<Rightarrow> workqueue \<Rightarrow> (bool \<times> workqueue) option" where
  "processNextWorkItem sync bucket q =
     (case wq_Get q of
        None \<Rightarrow> None
      | Some (None, q') \<Rightarrow> Some (False, q')
      | Some (Some key, q') \<Rightarrow> Some (True, finish_item bucket key (sync key) q'))"

text \<open>
  Event handlers, the waiting loop and any number of workers interleave between the operations of
  the queue, each of which holds its lock. A step is labelled with the key it hands to a worker;
  \<open>busy\<close> lists the keys the workers hold. The controllers shut their queue down once.
\<close>

record wq_state =
  st_queue :: workqueue
  busy :: "string list"

inductive wq_step :: "wq_state \<Rightarrow> string list \<Rightarrow> wq_state \<Rightarrow> bool" where
  add: "wq_step s [] (s\<lparr>st_queue := wq_Add k (st_queue s)\<rparr>)"
| limited: "wq_step s [] (s\<lparr>st_queue := wq_AddRateLimited b k (st_queue s)\<rparr>)"
| ready: "k \<in> wq_waiting (st_queue s) \<Longrightarrow> wq_step s [] (s\<lparr>st_queue := wq_ready k (st_queue s)\<rparr>)"
| hand_out: "wq_Get (st_queue s) = Some (Some k, q') \<Longrightarrow> wq_step s [k] (s\<lparr>st_queue := q', busy := k # busy s\<rparr>)"
| finish: "k \<in> set (busy s) \<Longrightarrow>
    wq_step s [] (s\<lparr>st_queue := finish_item b k err (st_queue s), busy := remove1 k (busy s)\<rparr>)"
| shut: "\<not> wq_shuttingDown (st_queue s) \<Longrightarrow> wq_step s [] (s\<lparr>st_queue := wq_ShutDown (st_queue s)\<rparr>)"

inductive wq_steps :: "wq_state \<Rightarrow> string list \<Rightarrow> wq_state \<Rightarrow> bool" where
  none: "wq_steps s [] s"
| more: "wq_steps s ks t \<Longrightarrow> wq_step t ls u \<Longrightarrow> wq_steps s (ks @ ls) u"

definition wq_start :: wq_state where
  "wq_start = \<lparr>st_queue = wq_New, busy = []\<rparr>"

section \<open>Invariant\<close>

definition wq_inv :: "wq_state \<Rightarrow> bool" where
  "wq_inv s \<longleftrightarrow> (let q = st_queue s in
     distinct (wq_queue q) \<and> set (wq_queue q) = wq_dirty q - wq_processing q \<and>
     distinct (busy s) \<and> set (busy s) = wq_processing q)"

lemma wq_Get_Some: "wq_Get q = Some (Some k, q') \<longleftrightarrow>
    (\<exists>rest. wq_queue q = k # rest \<and> q' = q\<lparr>wq_queue := rest, wq_processing := insert k (wq_processing q),
       wq_dirty := wq_dirty q - {k}\<rparr>)"
  by (auto simp: wq_Get_def split: list.splits if_splits)

lemma wq_AddRateLimited_waits:
  "wq_AddRateLimited b k q =
     (let q1 = q\<lparr>wq_failures := (wq_failures q)(k := wq_failures q k + 1)\<rparr>
      in if wq_shuttingDown q then q1 else q1\<lparr>wq_waiting := insert k (wq_waiting q)\<rparr>)"
  using controller_When_pos [of b "wq_failures q" k]
  by (auto simp: wq_AddRateLimited_def wq_AddAfter_def controller_When_def exponential_When_min Let_def)

lemmas wq_ops = wq_Add_def wq_Done_def wq_ready_def wq_ShutDown_def wq_AddRateLimited_waits wq_Forget_def
  finish_item_def wq_Get_Some Let_def

lemma wq_inv_step: "wq_step s ls t \<Longrightarrow> wq_inv s \<Longrightarrow> wq_inv t"
  by (cases rule: wq_step.cases, assumption) (auto simp: wq_inv_def wq_ops)

lemma wq_inv_steps: "wq_steps s ks t \<Longrightarrow> wq_inv s \<Longrightarrow> wq_inv t"
  by (induction rule: wq_steps.induct) (auto intro: wq_inv_step)

lemma wq_inv_start: "wq_inv wq_start"
  by (simp add: wq_inv_def wq_start_def wq_New_def)

text \<open>A key that is still to be processed: marked dirty or waiting for its delay.\<close>

definition marked :: "string \<Rightarrow> workqueue \<Rightarrow> bool" where
  "marked k q \<longleftrightarrow> k \<in> wq_dirty q \<or> k \<in> wq_waiting q"

lemma shuttingDown_step: "wq_step s ls t \<Longrightarrow> wq_shuttingDown (st_queue s) \<Longrightarrow> wq_shuttingDown (st_queue t)"
  by (cases rule: wq_step.cases, assumption) (auto simp: wq_ops)

lemma marked_step:
  "wq_step s ls t \<Longrightarrow> marked k (st_queue s) \<Longrightarrow> \<not> wq_shuttingDown (st_queue t) \<Longrightarrow> k \<notin> set ls \<Longrightarrow>
   marked k (st_queue t)"
  by (cases rule: wq_step.cases, assumption) (auto simp: marked_def wq_ops split: if_splits)

lemma marked_steps:
  "wq_steps s ks t \<Longrightarrow> marked k (st_queue s) \<Longrightarrow> \<not> wq_shuttingDown (st_queue t) \<Longrightarrow> k \<notin> set ks \<Longrightarrow>
   marked k (st_queue t)"
  by (induction rule: wq_steps.induct) (auto dest: shuttingDown_step intro: marked_step)

lemma marked_added [simp]:
  "\<not> wq_shuttingDown q \<Longrightarrow> marked k (wq_Add k q)"
  "\<not> wq_shuttingDown q \<Longrightarrow> marked k (wq_AddRateLimited b k q)"
  by (simp_all add: marked_def wq_ops)

lemma marked_failed: "\<not> wq_shuttingDown q \<Longrightarrow> marked k (finish_item b k (Some e) q)"
  by (simp add: marked_def wq_ops)

text \<open>Keys are handed out in the order of the queue, and added at its end only.\<close>

lemma queue_order_step: "wq_step s ls t \<Longrightarrow> \<exists>new. wq_queue (st_queue s) @ new = ls @ wq_queue (st_queue t)"
  by (cases rule: wq_step.cases, assumption) (auto simp: wq_ops)

lemma queue_order: "wq_steps s ks t \<Longrightarrow> \<exists>new. wq_queue (st_queue s) @ new = ks @ wq_queue (st_queue t)"
proof (induction rule: wq_steps.induct)
  case (none s)
  show ?case by simp
next
  case (more s ks t ls u)
  then obtain new where new: "wq_queue (st_queue s) @ new = ks @ wq_queue (st_queue t)" by blast
  from queue_order_step [OF more.hyps(2)] obtain new' where
    "wq_queue (st_queue t) @ new' = ls @ wq_queue (st_queue u)" by blast
  with new have "wq_queue (st_queue s) @ (new @ new') = (ks @ ls) @ wq_queue (st_queue u)"
    by (metis append_assoc)
  then show ?case by blast
qed

end
