(* ===== verification/Event_Handlers.thy ===== *)
theory Event_Handlers
  imports Machine Work_Queue
begin

text \<open>
  From notifications of the informers to keys in the work queues: the two event handlers of
  \<open>controllers/util.go\<close>, the \<open>handleObject\<close> and \<open>handlePodObject\<close> of the two cluster controllers, the
  search for the root owner of an object (\<open>RootControllerRef\<close>, \<open>PodControlledByCluster\<close>), and the
  pilot controller (\<open>pilotcontroller/pilot.go\<close>), which creates a Pilot for every pod that wants one.
\<close>

section \<open>Event handlers\<close>

text \<open>
  A notification carries an object, or for a deletion that was missed its key and last known state.
  \<open>None\<close> is an object without metadata, such as nil.
\<close>

datatype notified = Obj "ObjectMeta option" | DeletedFinalStateUnknown string "ObjectMeta option"

fun KeyFunc :: "notified \<Rightarrow> string option" where
  "KeyFunc (DeletedFinalStateUnknown key obj) = Some key"
| "KeyFunc (Obj obj) = map_option MetaNamespaceKeyFunc obj"

fun untomb :: "notified \<Rightarrow> notified" where
  "untomb (DeletedFinalStateUnknown key obj) = Obj obj"
| "untomb (Obj obj) = Obj obj"

definition Queuing_Enqueue :: "notified \<Rightarrow> workqueue \<Rightarrow> workqueue" where
  "Queuing_Enqueue obj q = (case KeyFunc obj of None \<Rightarrow> q | Some key \<Rightarrow> wq_Add key q)"

definition Queuing_OnAdd :: "notified \<Rightarrow> workqueue \<Rightarrow> workqueue" where
  "Queuing_OnAdd obj = Queuing_Enqueue obj"

definition Queuing_OnUpdate :: "ObjectMeta \<Rightarrow> ObjectMeta \<Rightarrow> workqueue \<Rightarrow> workqueue" where
  "Queuing_OnUpdate old new q =
     (if ResourceVersion old \<noteq> ResourceVersion new then Queuing_Enqueue (Obj (Some new)) q else q)"

definition Queuing_OnDelete :: "notified \<Rightarrow> workqueue \<Rightarrow> workqueue" where
  "Queuing_OnDelete obj = Queuing_Enqueue (untomb obj)"

type_synonym work_func = "notified \<Rightarrow> workqueue \<Rightarrow> workqueue"

definition Blocking_OnAdd :: "work_func \<Rightarrow> notified \<Rightarrow> workqueue \<Rightarrow> workqueue" where
  "Blocking_OnAdd WorkFunc obj = WorkFunc obj"

definition Blocking_OnUpdate :: "work_func \<Rightarrow> ObjectMeta \<Rightarrow> ObjectMeta \<Rightarrow> workqueue \<Rightarrow> workqueue" where
  "Blocking_OnUpdate WorkFunc old new q =
     (if ResourceVersion old \<noteq> ResourceVersion new then WorkFunc (Obj (Some new)) q else q)"

definition Blocking_OnDelete :: "work_func \<Rightarrow> notified \<Rightarrow> workqueue \<Rightarrow> workqueue" where
  "Blocking_OnDelete WorkFunc obj = WorkFunc (untomb obj)"

section \<open>Handlers of the cluster controllers\<close>

definition enqueueElasticsearchCluster :: work_func where
  "enqueueElasticsearchCluster obj q = (case KeyFunc obj of None \<Rightarrow> q | Some key \<Rightarrow> wq_Add key q)"

definition es_handleObject :: "env \<Rightarrow> world \<Rightarrow> work_func" where
  "es_handleObject env w obj q =
     (case obj of
        DeletedFinalStateUnknown _ _ \<Rightarrow> q
      | Obj None \<Rightarrow> q
      | Obj (Some object) \<Rightarrow>
          (case GetControllerOf object of
             None \<Rightarrow> q
           | Some ownerRef \<Rightarrow>
               if or_Kind ownerRef \<noteq> ''ElasticsearchCluster'' then q
               else case lister_get env ''elasticsearchcluster'' esc_ObjectMeta (w_elasticsearchclusters w)
                           (Namespace object) (or_Name ownerRef) of
                      Inl err \<Rightarrow> q
                    | Inr cluster \<Rightarrow> enqueueElasticsearchCluster (Obj (Some (esc_ObjectMeta cluster))) q))"

definition es_handlePodObject :: "env \<Rightarrow> world \<Rightarrow> work_func" where
  "es_handlePodObject env w obj q =
     (case obj of
        DeletedFinalStateUnknown _ _ \<Rightarrow> q
      | Obj None \<Rightarrow> q
      | Obj (Some object) \<Rightarrow>
          (case GetControllerOf object of
             None \<Rightarrow> q
           | Some ownerRef \<Rightarrow>
               if or_Kind ownerRef \<noteq> ''StatefulSet'' then q
               else case lister_get env ''statefulset'' ss_ObjectMeta (w_statefulsets w)
                           (Namespace object) (or_Name ownerRef) of
                      Inl err \<Rightarrow> q
                    | Inr ss \<Rightarrow> es_handleObject env w (Obj (Some (ss_ObjectMeta ss))) q))"

definition enqueueCassandraCluster :: "int \<Rightarrow> work_func" where
  "enqueueCassandraCluster bucket obj q =
     (case KeyFunc obj of None \<Rightarrow> q | Some key \<Rightarrow> wq_AddRateLimited bucket key q)"

definition cass_handleObject :: "env \<Rightarrow> world \<Rightarrow> int \<Rightarrow> work_func" where
  "cass_handleObject env w bucket obj q =
     (case obj of
        DeletedFinalStateUnknown _ _ \<Rightarrow> q
      | Obj None \<Rightarrow> q
      | Obj (Some object) \<Rightarrow>
          (case GetControllerOf object of
             None \<Rightarrow> q
           | Some ownerRef \<Rightarrow>
               if or_Kind ownerRef \<noteq> ''CassandraCluster'' then q
               else case lister_get env ''cassandracluster'' cass_ObjectMeta (w_cassandraclusters w)
                           (Namespace object) (or_Name ownerRef) of
                      Inl err \<Rightarrow> q
                    | Inr cluster \<Rightarrow> enqueueCassandraCluster bucket (Obj (Some (cass_ObjectMeta cluster))) q))"

definition cass_handlePodObject :: "env \<Rightarrow> world \<Rightarrow> int \<Rightarrow> work_func" where
  "cass_handlePodObject env w bucket obj q =
     (case obj of
        DeletedFinalStateUnknown _ _ \<Rightarrow> q
      | Obj None \<Rightarrow> q
      | Obj (Some object) \<Rightarrow>
          (case GetControllerOf object of
             None \<Rightarrow> q
           | Some ownerRef \<Rightarrow>
               if or_Kind ownerRef \<noteq> ''StatefulSet'' then q
               else case lister_get env ''statefulset'' ss_ObjectMeta (w_statefulsets w)
                           (Namespace object) (or_Name ownerRef) of
                      Inl err \<Rightarrow> q
                    | Inr ss \<Rightarrow> cass_handleObject env w bucket (Obj (Some (ss_ObjectMeta ss))) q))"

section \<open>Owners\<close>

definition PodControlledByCluster :: "env \<Rightarrow> world \<Rightarrow> ObjectMeta \<Rightarrow> Pod \<Rightarrow> bool \<times> go_error option" where
  "PodControlledByCluster env w cluster pod =
     (if IsControlledBy (pod_ObjectMeta pod) cluster then (True, None)
      else case GetControllerOf (pod_ObjectMeta pod) of
             None \<Rightarrow> (False, None)
           | Some ownerRef \<Rightarrow>
               if or_Kind ownerRef \<noteq> ''StatefulSet'' then (False, None)
               else case lister_get env ''statefulset'' ss_ObjectMeta (w_statefulsets w)
                           (Namespace (pod_ObjectMeta pod)) (or_Name ownerRef) of
                      Inl err \<Rightarrow> if IsNotFound err then (False, None) else (False, Some err)
                    | Inr ss \<Rightarrow> (IsControlledBy (ss_ObjectMeta ss) cluster, None))"

text \<open>
  The search may follow owners for ever, so its value is \<open>None\<close> when it does not return. \<open>kind\<close> is
  the kind recorded in the object; it is empty for the objects of the typed caches.
\<close>

partial_function (option) RootControllerRef ::
  "env \<Rightarrow> world \<Rightarrow> string \<Rightarrow> ObjectMeta \<Rightarrow> (go_error + OwnerReference option) option" where
  "RootControllerRef env w kind obj =
     (case GetControllerOf obj of
        None \<Rightarrow> Some (Inr None)
      | Some ownerRef \<Rightarrow>
          (let objName = Name obj; objNamespace = Namespace obj; ownerName = or_Name ownerRef
           in if or_Kind ownerRef = ''ElasticsearchCluster'' \<or> or_Kind ownerRef = ''CassandraCluster''
              then Some (Inr (Some ownerRef))
              else if or_Kind ownerRef = ''StatefulSet'' \<or> or_Kind ownerRef = ''Pod''
              then (case (if or_Kind ownerRef = ''StatefulSet''
                          then map_sum id ss_ObjectMeta (lister_get env ''statefulset'' ss_ObjectMeta
                                 (w_statefulsets w) objNamespace ownerName)
                          else map_sum id pod_ObjectMeta (lister_get env ''pod'' pod_ObjectMeta
                                 (w_pods w) objNamespace ownerName)) of
                      Inl err \<Rightarrow> Some (Inl (Wrap err ''unable to get owner of object %s/%s/%s''
                                   [AStr kind, AStr objNamespace, AStr objName]))
                    | Inr objController \<Rightarrow> RootControllerRef env w '''' objController)
              else Some (Inl (Errorf ''object %s/%s has unsupported owner type: %v''
                     [AStr objNamespace, AStr objName, AOwner (Some ownerRef)]))))"

section \<open>Pilot controller\<close>

text \<open>The filter in front of the handler for pods; a missed deletion is not a pod.\<close>

fun pod_FilterFunc :: "notified \<Rightarrow> bool" where
  "pod_FilterFunc (Obj (Some pod)) \<longleftrightarrow> mlookup (Labels pod) PilotLabel \<noteq> None"
| "pod_FilterFunc _ \<longleftrightarrow> False"

definition Filtering_OnAdd :: "notified \<Rightarrow> workqueue \<Rightarrow> workqueue" where
  "Filtering_OnAdd obj q = (if \<not> pod_FilterFunc obj then q else Queuing_OnAdd obj q)"

definition Filtering_OnUpdate :: "ObjectMeta \<Rightarrow> ObjectMeta \<Rightarrow> workqueue \<Rightarrow> workqueue" where
  "Filtering_OnUpdate oldObj newObj q =
     (let newer = pod_FilterFunc (Obj (Some newObj)); older = pod_FilterFunc (Obj (Some oldObj))
      in if newer \<and> older then Queuing_OnUpdate oldObj newObj q
         else if newer \<and> \<not> older then Queuing_OnAdd (Obj (Some newObj)) q
         else if \<not> newer \<and> older then Queuing_OnDelete (Obj (Some oldObj)) q
         else q)"

definition Filtering_OnDelete :: "notified \<Rightarrow> workqueue \<Rightarrow> workqueue" where
  "Filtering_OnDelete obj q = (if \<not> pod_FilterFunc obj then q else Queuing_OnDelete obj q)"

definition PilotForPod :: "Pod \<Rightarrow> Pilot" where
  "PilotForPod pod =
     \<lparr>pilot_TypeMeta = empty_type,
      pilot_ObjectMeta = empty_meta
        \<lparr>Name := Name (pod_ObjectMeta pod), Namespace := Namespace (pod_ObjectMeta pod),
         OwnerReferences := [NewControllerRef (pod_ObjectMeta pod)
           \<lparr>gvk_Group = '''', gvk_Version = ''v1'', gvk_Kind = ''Pod''\<rparr>]\<rparr>,
      pilot_Status = \<lparr>pst_Conditions = [], pst_Elasticsearch = None, pst_Cassandra = None\<rparr>\<rparr>"

definition pilot_object :: "ObjectMeta \<Rightarrow> string" where
  "pilot_object m = ''Pilot/'' @ Namespace m @ ''/'' @ Name m"

text \<open>
  The client decodes the answer into a fresh object: after an error it is empty, and after a success
  it has the name and namespace of the object that was sent, which is what is kept of it here.
\<close>

definition createPilot :: "env \<Rightarrow> Pod \<Rightarrow> (go_error + ObjectMeta) prog" where
  "createPilot env pod =
     (let pilot = PilotForPod pod
      in andThen (api env (CreatePilot pilot)) (\<lambda>err. ret
           (case err of
              None \<Rightarrow> Inr (pilot_ObjectMeta pilot)
            | Some e \<Rightarrow> if IsAlreadyExists e then Inr empty_meta
                        else Inl (Wrap e ''unable to create pilot'' []))))"

definition pilot_sync :: "env \<Rightarrow> string \<Rightarrow> go_error option prog" where
  "pilot_sync env key =
     (case SplitMetaNamespaceKey key of
        Inl err \<Rightarrow> ret None
      | Inr (namespace, name) \<Rightarrow>
          andThen (reads (\<lambda>w. lister_get env ''pod'' pod_ObjectMeta (w_pods w) namespace name)) (\<lambda>got.
          case got of
            Inl err \<Rightarrow> if \<not> IsNotFound err then ret (Some (Wrap err ''unable to get pod'' [])) else ret None
          | Inr pod \<Rightarrow>
              if DeletionTimestamp (pod_ObjectMeta pod) \<noteq> None then ret None
              else andThen (reads (\<lambda>w. lister_get env ''pilot'' pilot_ObjectMeta (w_pilots w) namespace name)) (\<lambda>found.
                   case found of
                     Inr pilot \<Rightarrow> ret None
                   | Inl err \<Rightarrow>
                       if \<not> IsNotFound err then ret (Some (Wrap err ''unable to get pilot'' []))
                       else andThen (createPilot env pod) (\<lambda>created.
                            case created of
                              Inl e \<Rightarrow> ret (Some e)
                            | Inr pilot \<Rightarrow>
                                andThen (eventf (pilot_object pilot) ''Normal'' ''SuccessSync''
                                           ''Successfully synced pods'' []) (\<lambda>_. ret None)))))"

end
