(* ===== verification/Generic_Pilot.thy ===== *)
theory Generic_Pilot
  imports Event_Handlers
begin

text \<open>
  The pilot that runs beside a database process (\<open>pkg/pilot/genericpilot\<close>): the hooks run around the
  life of the process (\<open>hook/hook.go\<close>), the process itself (\<open>processmanager/process.go\<close>), \<open>syncPilot\<close>
  and \<open>stop\<close> (\<open>controller.go\<close>), the choice of the Pilots to act on (\<open>controller/controller.go\<close>,
  \<open>controller/util.go\<close>), and the timers that bring a Pilot back (\<open>controller/scheduler\<close>). What a
  database supplies (hooks, sync functions, the command), the operating system and the API server
  are parameters whose answers may depend on everything done before.
\<close>

section \<open>State and parameters\<close>

datatype action =
    RanHook string string "go_error option"
  | StartProcess "go_error option"
  | SignalProcess "go_error option"
  | ProcessExit "go_error option"
  | RanSync Pilot "go_error option"
  | RanLeaderSync Pilot "go_error option"
  | PilotStatus_sent Pilot "go_error option"
  | Recorded string string string "go_arg list"

record process =
  proc_Pid :: "nat option"
  proc_State :: bool
  proc_doneErr :: "go_error option"

record generic_pilot =
  gp_process :: "process option"
  gp_shutdown :: bool
  gp_executed :: "string \<Rightarrow> string set"
  gp_log :: "action list"

text \<open>
  \<open>gp_start\<close> is \<open>fork\<close> and \<open>exec\<close>, \<open>gp_exits\<close> tells whether the process ends after the stop signal and
  with what error. A nil \<open>LeaderElectedSyncFunc\<close> is \<open>None\<close>.
\<close>

record pilot_options =
  PilotName :: string
  PilotNamespace :: string
  PreStart_hooks :: "string list"
  PostStart_hooks :: "string list"
  PreStop_hooks :: "string list"
  PostStop_hooks :: "string list"
  gp_hook :: "action list \<Rightarrow> string \<Rightarrow> string \<Rightarrow> go_error option"
  gp_cmd :: "action list \<Rightarrow> Pilot \<Rightarrow> go_error option"
  gp_start :: "action list \<Rightarrow> go_error + nat"
  gp_signal :: "action list \<Rightarrow> go_error option"
  gp_exits :: "action list \<Rightarrow> go_error option option"
  SyncFunc :: "action list \<Rightarrow> Pilot \<Rightarrow> go_error option \<times> Pilot"
  LeaderElectedSyncFunc :: "(action list \<Rightarrow> Pilot \<Rightarrow> go_error option \<times> Pilot) option"
  Leading :: "action list \<Rightarrow> bool"
  gp_update :: "action list \<Rightarrow> Pilot \<Rightarrow> go_error option"
  gp_now :: nat

definition logs :: "action \<Rightarrow> generic_pilot \<Rightarrow> generic_pilot" where
  "logs a g = g\<lparr>gp_log := gp_log g @ [a]\<rparr>"

section \<open>Hooks\<close>

text \<open>The record of executed hooks is made on first use; a missing one reads as an empty one.\<close>

definition phase_hooks :: "pilot_options \<Rightarrow> string \<Rightarrow> string list option" where
  "phase_hooks opts p =
     (if p = ''PreStart'' then Some (PreStart_hooks opts)
      else if p = ''PostStart'' then Some (PostStart_hooks opts)
      else if p = ''PreStop'' then Some (PreStop_hooks opts)
      else if p = ''PostStop'' then Some (PostStop_hooks opts)
      else None)"

fun run_hooks :: "pilot_options \<Rightarrow> string \<Rightarrow> string list \<Rightarrow> generic_pilot \<Rightarrow> go_error option \<times> generic_pilot" where
  "run_hooks opts p [] g = (None, g)"
| "run_hooks opts p (h # hs) g =
     (if h \<in> gp_executed g p then run_hooks opts p hs g
      else case gp_hook opts (gp_log g) p h of
             Some e \<Rightarrow> (Some (Errorf ''error executing %s hook %q: %s'' [AStr p, AStr h, AErr e]),
                        logs (RanHook p h (Some e)) g)
           | None \<Rightarrow> run_hooks opts p hs
               (logs (RanHook p h None) (g\<lparr>gp_executed := (gp_executed g)(p := insert h (gp_executed g p))\<rparr>)))"

definition Transition ::
  "pilot_options \<Rightarrow> string \<Rightarrow> Pilot option \<Rightarrow> generic_pilot \<Rightarrow> go_error option \<times> generic_pilot" where
  "Transition opts p pilot g =
     (case pilot of
        None \<Rightarrow> (Some (Errorf ''pilot resource must not be nil'' []), g)
      | Some _ \<Rightarrow> (case phase_hooks opts p of
                     None \<Rightarrow> (Some (Errorf ''invalid phase: %q'' [AStr p]), g)
                   | Some hooks \<Rightarrow> run_hooks opts p hooks g))"

section \<open>Process\<close>

definition process_New :: process where
  "process_New = \<lparr>proc_Pid = None, proc_State = False, proc_doneErr = None\<rparr>"

definition Running :: "process \<Rightarrow> bool" where
  "Running p = (\<not> (proc_Pid p = None \<or> proc_Pid p = Some 0 \<or> proc_State p))"

definition process_String :: "process \<Rightarrow> string" where
  "process_String p =
     (if \<not> Running p then ''inactive'' else (case proc_Pid p of Some n \<Rightarrow> show_nat n | None \<Rightarrow> ''0''))"

text \<open>A command can be started once: \<open>exec.Cmd\<close> refuses to start again.\<close>

definition process_Start :: "pilot_options \<Rightarrow> process \<Rightarrow> generic_pilot \<Rightarrow> go_error option \<times> generic_pilot" where
  "process_Start opts p g =
     (let started = (if proc_Pid p \<noteq> None then Inl (Errorf ''exec: already started'' [])
                     else gp_start opts (gp_log g))
      in case started of
           Inl e \<Rightarrow> let err = Some (Errorf ''error starting process: %s'' [AErr e])
                     in (err, logs (StartProcess err) g)
         | Inr pid \<Rightarrow> (None, logs (StartProcess None) (g\<lparr>gp_process := Some (p\<lparr>proc_Pid := Some pid\<rparr>)\<rparr>)))"

text \<open>\<open>None\<close> when \<open>Stop\<close> waits for a process that does not end.\<close>

definition process_Stop :: "pilot_options \<Rightarrow> process \<Rightarrow> generic_pilot \<Rightarrow> (go_error option \<times> generic_pilot) option" where
  "process_Stop opts p g =
     (if Running p
      then let err = gp_signal opts (gp_log g); g1 = logs (SignalProcess err) g
           in case err of
                Some e \<Rightarrow> Some (Some e, g1)
              | None \<Rightarrow> (case gp_exits opts (gp_log g1) of
                           None \<Rightarrow> None
                         | Some done \<Rightarrow> Some (done, logs (ProcessExit done)
                             (g1\<lparr>gp_process := Some (p\<lparr>proc_State := True, proc_doneErr := done\<rparr>)\<rparr>)))
      else Some (proc_doneErr p, g))"

text \<open>The process ends by itself, as \<open>startWait\<close> sees it.\<close>

definition startWait :: "go_error option \<Rightarrow> generic_pilot \<Rightarrow> generic_pilot" where
  "startWait done g =
     (case gp_process g of
        None \<Rightarrow> g
      | Some p \<Rightarrow> if Running p
                  then logs (ProcessExit done) (g\<lparr>gp_process := Some (p\<lparr>proc_State := True, proc_doneErr := done\<rparr>)\<rparr>)
                  else g)"

section \<open>Synchronising a Pilot\<close>

definition IsThisPilot :: "pilot_options \<Rightarrow> Pilot \<Rightarrow> bool" where
  "IsThisPilot opts pilot \<longleftrightarrow>
     Name (pilot_ObjectMeta pilot) = PilotName opts \<and> Namespace (pilot_ObjectMeta pilot) = PilotNamespace opts"

definition IsRunning :: "generic_pilot \<Rightarrow> bool" where
  "IsRunning g = (case gp_process g of None \<Rightarrow> False | Some p \<Rightarrow> Running p)"

definition the_String :: "generic_pilot \<Rightarrow> string" where
  "the_String g = (case gp_process g of None \<Rightarrow> [] | Some p \<Rightarrow> process_String p)"

definition updatePilotStatus :: "pilot_options \<Rightarrow> Pilot \<Rightarrow> generic_pilot \<Rightarrow> go_error option \<times> generic_pilot" where
  "updatePilotStatus opts pilot g =
     (let pilot' = (if \<not> IsRunning g
                    then Pilot_UpdateStatusCondition (gp_now opts) ''Started'' ConditionFalse '''' '''' [] pilot
                    else Pilot_UpdateStatusCondition (gp_now opts) ''Started'' ConditionTrue ''ProcessStarted''
                           ''Subprocess %q started'' [the_String g] pilot);
          err = gp_update opts (gp_log g) pilot'
      in (err, logs (PilotStatus_sent pilot' err) g))"

definition constructProcess :: "pilot_options \<Rightarrow> Pilot \<Rightarrow> generic_pilot \<Rightarrow> go_error option \<times> generic_pilot" where
  "constructProcess opts pilot g =
     (case gp_cmd opts (gp_log g) pilot of
        Some e \<Rightarrow> (Some e, g)
      | None \<Rightarrow> (None, g\<lparr>gp_process := Some process_New\<rparr>))"

definition hook_failed :: "go_error \<Rightarrow> generic_pilot \<Rightarrow> generic_pilot" where
  "hook_failed e = logs (Recorded ''Warning'' ''ErrExecHook'' ''Error executing hook: %s'' [AErr e])"

text \<open>
  The parts of \<open>syncPilot\<close> that make the process and start it. The process has been made when it is
  started, so the case without one does not arise.
\<close>

definition ensure_process :: "pilot_options \<Rightarrow> Pilot \<Rightarrow> generic_pilot \<Rightarrow> go_error option \<times> generic_pilot" where
  "ensure_process opts pilot g = (if gp_process g = None then constructProcess opts pilot g else (None, g))"

definition ensure_started :: "pilot_options \<Rightarrow> generic_pilot \<Rightarrow> go_error option \<times> generic_pilot" where
  "ensure_started opts g =
     (if \<not> IsRunning g \<and> \<not> gp_shutdown g
      then case gp_process g of
             None \<Rightarrow> (None, g)
           | Some p \<Rightarrow>
               (case process_Start opts p g of
                  (Some e, g1) \<Rightarrow> (Some e, g1)
                | (None, g1) \<Rightarrow> (None, logs (Recorded ''Normal'' ''ProcessStarted'' ''Subprocess %q started''
                                               [AStr (the_String g1)]) g1))
      else (None, g))"

definition syncPilot_body ::
  "pilot_options \<Rightarrow> Pilot \<Rightarrow> generic_pilot \<Rightarrow> go_error option \<times> Pilot \<times> generic_pilot" where
  "syncPilot_body opts pilot g =
     (if \<not> IsThisPilot opts pilot then (None, pilot, g)
      else case Transition opts ''PreStart'' (Some pilot) g of
        (Some e, g1) \<Rightarrow> (Some e, pilot, hook_failed e g1)
      | (None, g1) \<Rightarrow>
          (case ensure_process opts pilot g1 of
             (Some e, g2) \<Rightarrow> (Some e, pilot, g2)
           | (None, g2) \<Rightarrow>
               (case ensure_started opts g2 of
                  (Some e, g3) \<Rightarrow> (Some e, pilot, g3)
                | (None, g3) \<Rightarrow>
                    (case Transition opts ''PostStart'' (Some pilot) g3 of
                       (Some e, g4) \<Rightarrow> (Some e, pilot, hook_failed e g4)
                     | (None, g4) \<Rightarrow>
                         (let (err, pilot') = SyncFunc opts (gp_log g4) pilot
                          in (err, pilot', logs (RanSync pilot err) g4))))))"

text \<open>The deferred calls run in reverse: first the leader's function, then the update of the status.\<close>

definition deferred_leader ::
  "pilot_options \<Rightarrow> go_error option \<times> Pilot \<times> generic_pilot \<Rightarrow> go_error option \<times> Pilot \<times> generic_pilot" where
  "deferred_leader opts r =
     (case r of (err, pilot, g) \<Rightarrow>
        (case LeaderElectedSyncFunc opts of
           None \<Rightarrow> r
         | Some f \<Rightarrow>
             if Leading opts (gp_log g)
             then let (e, pilot') = f (gp_log g) pilot
                  in (NewAggregate [err, e], pilot', logs (RanLeaderSync pilot e) g)
             else r))"

definition deferred_status ::
  "pilot_options \<Rightarrow> go_error option \<times> Pilot \<times> generic_pilot \<Rightarrow> go_error option \<times> generic_pilot" where
  "deferred_status opts r =
     (case r of (err, pilot, g) \<Rightarrow>
        if IsThisPilot opts pilot
        then let (e, g') = updatePilotStatus opts pilot g in (NewAggregate [err, e], g')
        else (err, g))"

definition syncPilot :: "pilot_options \<Rightarrow> Pilot \<Rightarrow> generic_pilot \<Rightarrow> go_error option \<times> generic_pilot" where
  "syncPilot opts pilot g = deferred_status opts (deferred_leader opts (syncPilot_body opts pilot g))"

definition gp_stop :: "pilot_options \<Rightarrow> Pilot \<Rightarrow> generic_pilot \<Rightarrow> (go_error option \<times> generic_pilot) option" where
  "gp_stop opts pilot g0 =
     (let g = g0\<lparr>gp_shutdown := True\<rparr>
      in if \<not> IsRunning g then Some (None, g)
         else case Transition opts ''PreStop'' (Some pilot) g of
           (Some e, g1) \<Rightarrow> Some (Some e, hook_failed e g1)
         | (None, g1) \<Rightarrow>
             (case gp_process g1 of
                None \<Rightarrow> Some (None, g1)
              | Some p \<Rightarrow>
                  (case process_Stop opts p g1 of
                     None \<Rightarrow> None
                   | Some (Some e, g2) \<Rightarrow> Some (Some e, g2)
                   | Some (None, g2) \<Rightarrow>
                       (case Transition opts ''PostStop'' (Some pilot) g2 of
                          (Some e, g3) \<Rightarrow> Some (Some e, hook_failed e g3)
                        | (None, g3) \<Rightarrow> Some (None, g3)))))"

section \<open>Choosing the Pilots\<close>

record pilot_controller =
  pc_Name :: string
  pc_Namespace :: string
  pc_cached :: "Pilot option"

definition pc_isThisPilot :: "pilot_controller \<Rightarrow> string \<Rightarrow> string \<Rightarrow> bool" where
  "pc_isThisPilot c name namespace \<longleftrightarrow> name = pc_Name c \<and> namespace = pc_Namespace c"

definition ThisPilot :: "env \<Rightarrow> world \<Rightarrow> pilot_controller \<Rightarrow> go_error + Pilot" where
  "ThisPilot env w c =
     (case lister_get env ''pilot'' pilot_ObjectMeta (w_pilots w) (pc_Namespace c) (pc_Name c) of
        Inr thisPilot \<Rightarrow> Inr thisPilot
      | Inl err \<Rightarrow> (case pc_cached c of
                      Some p \<Rightarrow> if IsNotFound err then Inr p else Inl err
                    | None \<Rightarrow> Inl err))"

definition same_owner :: "OwnerReference \<Rightarrow> OwnerReference \<Rightarrow> bool" where
  "same_owner a b \<longleftrightarrow> or_Name a = or_Name b \<and> or_UID a = or_UID b \<and> or_Kind a = or_Kind b \<and>
     or_APIVersion a = or_APIVersion b"

definition IsPeer :: "env \<Rightarrow> world \<Rightarrow> pilot_controller \<Rightarrow> Pilot \<Rightarrow> (go_error + bool) option" where
  "IsPeer env w c pilot =
     (let m = pilot_ObjectMeta pilot in
      case ThisPilot env w c of
        Inl err \<Rightarrow> Some (Inl err)
      | Inr thisPilot \<Rightarrow>
          (case RootControllerRef env w '''' (pilot_ObjectMeta thisPilot) of
             None \<Rightarrow> None
           | Some (Inl err) \<Rightarrow> Some (Inl (Wrap err ''unable to get root controller ref for this pilot %s/%s''
                                  [AStr (Namespace m), AStr (Name m)]))
           | Some (Inr None) \<Rightarrow> Some (Inl (Errorf
                 ''cannot determine owner of this Pilot resource (%q) as it is nil. this is an invalid state''
                 [AStr (pc_Name c)]))
           | Some (Inr (Some clusterOwnerRef)) \<Rightarrow>
               (case RootControllerRef env w '''' m of
                  None \<Rightarrow> None
                | Some (Inl err) \<Rightarrow> Some (Inl (Wrap err ''unable to get root controller ref for other pilot %s/%s''
                                       [AStr (Namespace m), AStr (Name m)]))
                | Some (Inr None) \<Rightarrow> Some (Inr False)
                | Some (Inr (Some pilotOwnerRef)) \<Rightarrow> Some (Inr (same_owner clusterOwnerRef pilotOwnerRef)))))"

text \<open>
  \<open>sync\<close> up to the call of the sync function: an error, nothing to do, or the Pilot to act on, with
  the key then scheduled again. \<open>None\<close> if the search for an owner does not return.
\<close>

datatype pilot_choice = Fail go_error | Skip | Act Pilot

definition pilot_choose :: "env \<Rightarrow> world \<Rightarrow> pilot_controller \<Rightarrow> string \<Rightarrow> (pilot_choice \<times> pilot_controller) option" where
  "pilot_choose env w c key =
     (case SplitMetaNamespaceKey key of
        Inl err \<Rightarrow> Some (Fail err, c)
      | Inr (namespace, name) \<Rightarrow>
          (case (case lister_get env ''pilot'' pilot_ObjectMeta (w_pilots w) namespace name of
                   Inr pilot \<Rightarrow> Act pilot
                 | Inl err \<Rightarrow>
                     if IsNotFound err
                     then if \<not> pc_isThisPilot c name namespace then Skip
                          else (case ThisPilot env w c of Inl _ \<Rightarrow> Skip | Inr p \<Rightarrow> Act p)
                     else Fail err) of
             Fail err \<Rightarrow> Some (Fail err, c)
           | Skip \<Rightarrow> Some (Skip, c)
           | Act pilot \<Rightarrow>
               (case IsPeer env w c pilot of
                  None \<Rightarrow> None
                | Some (Inl err) \<Rightarrow> Some (Fail err, c)
                | Some (Inr isPeer) \<Rightarrow>
                    if \<not> isPeer then Some (Skip, c)
                    else Some (Act pilot,
                      (if pc_isThisPilot c (Name (pilot_ObjectMeta pilot)) (Namespace (pilot_ObjectMeta pilot))
                       then c\<lparr>pc_cached := Some pilot\<rparr> else c)))))"

section \<open>Timers\<close>

text \<open>
  \<open>armed\<close> are the timers that may still fire, \<open>running\<close> those whose function has begun, \<open>adding\<close> the
  keys of the calls of \<open>AddWithKey\<close> that are between their two critical sections. Each critical section
  of the scheduler is one operation, so that the calls of other goroutines come between them; a timer
  is named by a number.
\<close>

record scheduler =
  sw_work :: "string \<rightharpoonup> nat"
  sw_armed :: "(nat \<times> string) list"
  sw_running :: "(nat \<times> string) list"
  sw_adding :: "string list"
  sw_next :: nat

definition sw_New :: scheduler where
  "sw_New = \<lparr>sw_work = Map.empty, sw_armed = [], sw_running = [], sw_adding = [], sw_next = 0\<rparr>"

definition clearTimer :: "string \<Rightarrow> scheduler \<Rightarrow> scheduler" where
  "clearTimer key s =
     (case sw_work s key of
        None \<Rightarrow> s
      | Some timer \<Rightarrow> s\<lparr>sw_armed := filter (\<lambda>(t, k). t \<noteq> timer) (sw_armed s), sw_work := (sw_work s)(key := None)\<rparr>)"

definition install :: "string \<Rightarrow> scheduler \<Rightarrow> scheduler" where
  "install key s =
     s\<lparr>sw_work := (sw_work s)(key \<mapsto> sw_next s), sw_armed := sw_armed s @ [(sw_next s, key)],
       sw_next := Suc (sw_next s)\<rparr>"

definition AddWithKey_clear :: "string \<Rightarrow> scheduler \<Rightarrow> scheduler" where
  "AddWithKey_clear key s = clearTimer key (s\<lparr>sw_adding := sw_adding s @ [key]\<rparr>)"

definition AddWithKey_install :: "string \<Rightarrow> scheduler \<Rightarrow> scheduler" where
  "AddWithKey_install key s = install key (s\<lparr>sw_adding := remove1 key (sw_adding s)\<rparr>)"

text \<open>The call when nothing comes between the two sections.\<close>

definition AddWithKey :: "string \<Rightarrow> scheduler \<Rightarrow> scheduler" where
  "AddWithKey key s = AddWithKey_install key (AddWithKey_clear key s)"

definition sw_Forget :: "string \<Rightarrow> scheduler \<Rightarrow> scheduler" where
  "sw_Forget key s = clearTimer key s"

text \<open>A timer goes off; and its function ends, with the deferred \<open>clearTimer\<close>.\<close>

definition sw_fire :: "nat \<times> string \<Rightarrow> scheduler \<Rightarrow> scheduler" where
  "sw_fire t s = s\<lparr>sw_armed := remove1 t (sw_armed s), sw_running := sw_running s @ [t]\<rparr>"

definition sw_finish :: "nat \<times> string \<Rightarrow> scheduler \<Rightarrow> scheduler" where
  "sw_finish t s = clearTimer (snd t) (s\<lparr>sw_running := remove1 t (sw_running s)\<rparr>)"

inductive sw_step :: "scheduler \<Rightarrow> scheduler \<Rightarrow> bool" where
  add_clear: "sw_step s (AddWithKey_clear k s)"
| add_install: "k \<in> set (sw_adding s) \<Longrightarrow> sw_step s (AddWithKey_install k s)"
| forget: "sw_step s (sw_Forget k s)"
| fire: "t \<in> set (sw_armed s) \<Longrightarrow> sw_step s (sw_fire t s)"
| finish: "t \<in> set (sw_running s) \<Longrightarrow> sw_step s (sw_finish t s)"

end
