(* ===== verification/Event_Correct.thy ===== *)
theory Event_Correct
  imports Event_Handlers Elasticsearch_Properties
begin

text \<open>
  What the queues, the event handlers and the pilot controller guarantee: a key is in the hands of
  one worker at a time, a failed key comes back, keys are served in order; the events that reach the
  key of a cluster and those that do not; and when the search for the root owner ends.
\<close>

section \<open>Handlers\<close>

text \<open>The contract of the handlers of a cluster controller, and what an event on a pod leads to.\<close>

locale owner_handlers =
  fixes handleObject handlePodObject :: work_func
    and kind :: string
    and getSet :: "string \<Rightarrow> string \<Rightarrow> go_error + StatefulSet"
    and getCluster :: "string \<Rightarrow> string \<Rightarrow> go_error + 'c"
    and clusterMeta :: "'c \<Rightarrow> ObjectMeta"
  assumes object_marks: "GetControllerOf obj = Some r \<Longrightarrow> or_Kind r = kind \<Longrightarrow>
      getCluster (Namespace obj) (or_Name r) = Inr c \<Longrightarrow> \<not> wq_shuttingDown q \<Longrightarrow>
      marked (MetaNamespaceKeyFunc (clusterMeta c)) (handleObject (Obj (Some obj)) q)"
    and object_ignores: "(\<And>r. GetControllerOf obj = Some r \<Longrightarrow> or_Kind r \<noteq> kind) \<Longrightarrow>
      handleObject (Obj (Some obj)) q = q"
    and pod_forwards: "GetControllerOf obj = Some r \<Longrightarrow> or_Kind r = ''StatefulSet'' \<Longrightarrow>
      getSet (Namespace obj) (or_Name r) = Inr ss \<Longrightarrow>
      handlePodObject (Obj (Some obj)) q = handleObject (Obj (Some (ss_ObjectMeta ss))) q"
    and found: "getCluster ns n = Inr c \<Longrightarrow> Namespace (clusterMeta c) = ns \<and> Name (clusterMeta c) = n"
    and found_set: "getSet ns n = Inr ss \<Longrightarrow> Namespace (ss_ObjectMeta ss) = ns"
begin

lemma pod_update_marks:
  assumes "ResourceVersion old \<noteq> ResourceVersion new" and "\<not> wq_shuttingDown q"
    and "GetControllerOf new = Some r" "or_Kind r = ''StatefulSet''"
    and "getSet (Namespace new) (or_Name r) = Inr ss"
    and "GetControllerOf (ss_ObjectMeta ss) = Some r'" "or_Kind r' = kind"
    and "getCluster (Namespace new) (or_Name r') = Inr c"
  shows "marked (MetaNamespaceKeyFunc (clusterMeta c)) (Blocking_OnUpdate handlePodObject old new q)"
  using assms found_set [OF assms(5)]
  by (simp add: Blocking_OnUpdate_def pod_forwards object_marks)

lemma key_finds:
  assumes "getCluster ns n = Inr c" and "CHR ''/'' \<notin> set ns" "CHR ''/'' \<notin> set n"
  shows "SplitMetaNamespaceKey (MetaNamespaceKeyFunc (clusterMeta c)) = Inr (ns, n)"
  using found [OF assms(1)] assms(2,3) by (simp add: SplitMetaNamespaceKey_key)

lemma foreign_ignored:
  assumes "GetControllerOf new = Some r" "or_Kind r \<noteq> kind"
  shows "Blocking_OnAdd handleObject (Obj (Some new)) q = q"
    and "Blocking_OnUpdate handleObject old new q = q"
    and "Blocking_OnDelete handleObject (Obj (Some new)) q = q"
proof -
  have "handleObject (Obj (Some new)) q = q" using assms by (intro object_ignores) simp
  then show "Blocking_OnAdd handleObject (Obj (Some new)) q = q" "Blocking_OnUpdate handleObject old new q = q"
    "Blocking_OnDelete handleObject (Obj (Some new)) q = q"
    by (simp_all add: Blocking_OnAdd_def Blocking_OnUpdate_def Blocking_OnDelete_def)
qed

end

interpretation es_handlers: owner_handlers "es_handleObject env w" "es_handlePodObject env w"
  "''ElasticsearchCluster''" "lister_get env ''statefulset'' ss_ObjectMeta (w_statefulsets w)"
  "lister_get env ''elasticsearchcluster'' esc_ObjectMeta (w_elasticsearchclusters w)" esc_ObjectMeta
  for env w
  by unfold_locales
    (auto simp: es_handleObject_def es_handlePodObject_def enqueueElasticsearchCluster_def
      dest: cached.get_sound split: option.splits)

interpretation cass_handlers: owner_handlers "cass_handleObject env w b" "cass_handlePodObject env w b"
  "''CassandraCluster''" "lister_get env ''statefulset'' ss_ObjectMeta (w_statefulsets w)"
  "lister_get env ''cassandracluster'' cass_ObjectMeta (w_cassandraclusters w)" cass_ObjectMeta
  for env w b
  by unfold_locales
    (auto simp: cass_handleObject_def cass_handlePodObject_def enqueueCassandraCluster_def
      dest: cached.get_sound split: option.splits)

section \<open>Root owners\<close>

text \<open>Owners as the API server and the controllers set them: no stateful set or pod below a pod.\<close>

definition owners_grounded :: "world \<Rightarrow> bool" where
  "owners_grounded w \<longleftrightarrow>
     list_all (\<lambda>s. case GetControllerOf (ss_ObjectMeta s) of
        None \<Rightarrow> True | Some r \<Rightarrow> or_Kind r \<noteq> ''StatefulSet'' \<and> or_Kind r \<noteq> ''Pod'') (w_statefulsets w) \<and>
     list_all (\<lambda>p. case GetControllerOf (pod_ObjectMeta p) of
        None \<Rightarrow> True | Some r \<Rightarrow> or_Kind r \<noteq> ''Pod'') (w_pods w)"

lemma root_of_set:
  assumes "\<And>r. GetControllerOf m = Some r \<Longrightarrow> or_Kind r \<noteq> ''StatefulSet'' \<and> or_Kind r \<noteq> ''Pod''"
  shows "\<exists>x. RootControllerRef env w k m = Some x"
  using assms by (subst RootControllerRef.simps) (auto simp: Let_def split: option.splits)

lemma root_of_pod:
  assumes "owners_grounded w" and "\<And>r. GetControllerOf m = Some r \<Longrightarrow> or_Kind r \<noteq> ''Pod''"
  shows "\<exists>x. RootControllerRef env w k m = Some x"
proof -
  have "\<exists>x. RootControllerRef env w '''' (ss_ObjectMeta s) = Some x" if "s \<in> set (w_statefulsets w)" for s
    using that assms(1) by (intro root_of_set) (auto simp: owners_grounded_def list_all_iff split: option.splits)
  then show ?thesis using assms(2)
    by (subst RootControllerRef.simps)
      (auto simp: Let_def map_sum_def split: option.splits sum.splits dest!: cached.get_sound)
qed

lemma root_of_any:
  assumes "owners_grounded w"
  shows "\<exists>x. RootControllerRef env w k m = Some x"
proof -
  have sets: "\<exists>x. RootControllerRef env w '''' (ss_ObjectMeta s) = Some x" if "s \<in> set (w_statefulsets w)" for s
    using that assms by (intro root_of_set) (auto simp: owners_grounded_def list_all_iff split: option.splits)
  have pods: "\<exists>x. RootControllerRef env w '''' (pod_ObjectMeta p) = Some x" if "p \<in> set (w_pods w)" for p
    using that assms by (intro root_of_pod) (auto simp: owners_grounded_def list_all_iff split: option.splits)
  show ?thesis
    by (subst RootControllerRef.simps)
      (auto simp: Let_def map_sum_def split: option.splits sum.splits dest!: cached.get_sound intro: sets pods)
qed

section \<open>Pilot controller\<close>

text \<open>The Pilot of a pod has its name and namespace and is controlled by it.\<close>

definition pilot_of_pod :: "Pod \<Rightarrow> Pilot \<Rightarrow> bool" where
  "pilot_of_pod pod p \<longleftrightarrow> Name (pilot_ObjectMeta p) = Name (pod_ObjectMeta pod) \<and>
     Namespace (pilot_ObjectMeta p) = Namespace (pod_ObjectMeta pod) \<and>
     (\<exists>r. GetControllerOf (pilot_ObjectMeta p) = Some r \<and> or_Kind r = ''Pod'' \<and>
        or_Name r = Name (pod_ObjectMeta pod) \<and> or_UID r = UID (pod_ObjectMeta pod))"

lemma PilotForPod_of_pod: "pilot_of_pod pod (PilotForPod pod)"
  by (simp add: pilot_of_pod_def PilotForPod_def NewControllerRef_def GetControllerOf_def)

definition pilot_request_ok :: "env \<Rightarrow> world \<Rightarrow> request \<Rightarrow> bool" where
  "pilot_request_ok env c r \<longleftrightarrow>
     (\<exists>pod \<in> set (w_pods c). \<exists>p. r = CreatePilot p \<and> pilot_of_pod pod p \<and> DeletionTimestamp (pod_ObjectMeta pod) = None \<and>
        (\<exists>e. lister_get env ''pilot'' pilot_ObjectMeta (w_pilots c) (Namespace (pod_ObjectMeta pod))
               (Name (pod_ObjectMeta pod)) = Inl e \<and> IsNotFound e))"

lemma pilot_request_okI:
  assumes "lister_get env ''pod'' pod_ObjectMeta (w_pods v) ns n = Inr pod" "DeletionTimestamp (pod_ObjectMeta pod) = None"
    and "lister_get env ''pilot'' pilot_ObjectMeta (w_pilots u) ns n = Inl e" "IsNotFound e"
    and "caches_of u = caches_of v"
  shows "pilot_request_ok env (caches_of v) (CreatePilot (PilotForPod pod))"
proof -
  have "w_pilots u = w_pilots v" using assms(5) by (metis caches_of_simps(8))
  with cached.get_sound [OF assms(1)] assms(2-4) PilotForPod_of_pod [of pod] show ?thesis
    by (auto simp: pilot_request_ok_def)
qed

lemma sends_pilot_sync: "sends (\<lambda>d. d = c) (pilot_request_ok env c) (pilot_sync env key)"
proof (cases "SplitMetaNamespaceKey key")
  case (Inl e)
  then show ?thesis by (simp add: pilot_sync_def sends_ret)
next
  case (Inr x)
  then show ?thesis
    by (cases x)
      (auto simp: pilot_sync_def createPilot_def Let_def
        intro!: sends_reads sends_ret sends_api sends_seq sends_eventf
        split: sum.split option.split, rule pilot_request_okI, assumption+)
qed

lemma at_most_pilot_sync: "at_most (\<lambda>_. True) 1 (pilot_sync env key)"
  by (auto simp: pilot_sync_def createPilot_def Let_def at_most_def andThen_def api_def eventf_def
      split: sum.split option.split prod.split)

section \<open>Sample objects of the handlers\<close>

definition sample_owned_pod :: "string \<Rightarrow> string \<Rightarrow> string \<Rightarrow> Pod" where
  "sample_owned_pod n kind owner =
     (sample_pod n None)\<lparr>pod_ObjectMeta := (pod_ObjectMeta (sample_pod n None))
        \<lparr>ResourceVersion := ''2'',
         OwnerReferences := [\<lparr>or_APIVersion = ''v1'', or_Kind = kind, or_Name = owner, or_UID = ''u2'',
                              or_Controller = Some True, or_BlockOwnerDeletion = Some True\<rparr>]\<rparr>\<rparr>"

definition sample_owners_world :: "string \<Rightarrow> string \<Rightarrow> world" where
  "sample_owners_world kind owner = empty_world\<lparr>w_statefulsets := [sample_es_set 1 ''6.1.1''],
     w_pods := [sample_owned_pod ''p'' kind owner], w_elasticsearchclusters := [sample_es False []]\<rparr>"

lemma sample_owned_pod_facts [simp]:
  "Name (pod_ObjectMeta (sample_owned_pod n k ow)) = n" "Namespace (pod_ObjectMeta (sample_owned_pod n k ow)) = ''ns''"
  "ResourceVersion (pod_ObjectMeta (sample_owned_pod n k ow)) = ''2''"
  "DeletionTimestamp (pod_ObjectMeta (sample_owned_pod n k ow)) = None"
  "GetControllerOf (pod_ObjectMeta (sample_owned_pod n k ow)) =
     Some \<lparr>or_APIVersion = ''v1'', or_Kind = k, or_Name = ow, or_UID = ''u2'', or_Controller = Some True,
           or_BlockOwnerDeletion = Some True\<rparr>"
  by (simp_all add: sample_owned_pod_def sample_pod_def empty_meta_def GetControllerOf_def)

lemma sample_es_set_owner:
  obtains r where "GetControllerOf (ss_ObjectMeta (sample_es_set n v)) = Some r"
    "or_Kind r = ''ElasticsearchCluster''" "or_Name r = ''x''"
  by (simp add: sample_es_set_def nodePoolStatefulSet_def elasticsearchPodTemplateSpec_def esImageToUse_def
      defaultElasticsearchImageForVersion_def sample_es_def sample_es_version_def sample_data_pool_def
      set_version_annotation_def GetControllerOf_def NewControllerRef_def es_NewControllerRef_def)

section \<open>Properties\<close>

text \<open>
  C19: whatever event handlers, delays and any number of workers do to a work queue, no two workers
  hold the same key at once, the queue holds no key twice, and it holds exactly the keys that are to
  be processed and that no worker holds.
\<close>

theorem queue_one_worker:
  assumes "wq_steps wq_start ks s"
  shows "distinct (busy s) \<and> set (busy s) = wq_processing (st_queue s) \<and> distinct (wq_queue (st_queue s)) \<and>
    set (wq_queue (st_queue s)) = wq_dirty (st_queue s) - set (busy s)"
  using wq_inv_steps [OF assms wq_inv_start] by (simp add: wq_inv_def Let_def)

theorem queue_one_worker_witness:
  "\<exists>s. wq_steps wq_start [''a''] s \<and> busy s = [''a''] \<and> wq_dirty (st_queue s) = {''a''} \<and>
     distinct (busy s) \<and> set (wq_queue (st_queue s)) = wq_dirty (st_queue s) - set (busy s)"
proof -
  let ?q1 = "wq_Add ''a'' wq_New"
  let ?s1 = "wq_start\<lparr>st_queue := ?q1\<rparr>"
  let ?q2 = "?q1\<lparr>wq_queue := [], wq_processing := {''a''}, wq_dirty := {}\<rparr>"
  let ?s2 = "?s1\<lparr>st_queue := ?q2, busy := [''a'']\<rparr>"
  let ?s3 = "?s2\<lparr>st_queue := wq_Add ''a'' ?q2\<rparr>"
  have 1: "wq_step wq_start [] ?s1" using wq_step.add [of wq_start "''a''"] by (simp add: wq_start_def)
  have 2: "wq_step ?s1 [''a''] ?s2"
    using wq_step.hand_out [of ?s1 "''a''" ?q2] by (simp add: wq_start_def wq_Get_def wq_Add_def wq_New_def)
  have 3: "wq_step ?s2 [] ?s3" using wq_step.add [of ?s2 "''a''"] by simp
  have run: "wq_steps wq_start [''a''] ?s3"
    using wq_steps.more [OF wq_steps.more [OF wq_steps.more [OF wq_steps.none 1] 2] 3] by simp
  show ?thesis
    using run queue_one_worker [OF run]
    by (intro exI [of _ ?s3]) (simp add: wq_start_def wq_Add_def wq_New_def Let_def)
qed

text \<open>
  C20: a key whose synchronisation failed is not lost. From then on, as long as the queue is not
  shut down, the key stays marked or waiting until it is handed to a worker again, whatever the
  other workers, the handlers and the delays do meanwhile.
\<close>

theorem queue_failed_retried:
  assumes "\<not> wq_shuttingDown (st_queue s)"
    and "wq_steps (s\<lparr>st_queue := finish_item b k (Some e) (st_queue s), busy := remove1 k (busy s)\<rparr>) ks t"
    and "\<not> wq_shuttingDown (st_queue t)" "k \<notin> set ks"
  shows "marked k (st_queue t)"
  using marked_steps [OF assms(2) _ assms(3,4)] marked_failed [OF assms(1)] by simp

theorem queue_failed_retried_witness:
  "marked ''a'' (finish_item 0 ''a'' (Some (Errorf ''x'' [])) (wq_New\<lparr>wq_processing := {''a''}\<rparr>))"
proof -
  let ?s = "\<lparr>st_queue = wq_New\<lparr>wq_processing := {''a''}\<rparr>, busy = [''a'']\<rparr>"
  let ?t = "?s\<lparr>st_queue := finish_item 0 ''a'' (Some (Errorf ''x'' [])) (st_queue ?s), busy := remove1 ''a'' (busy ?s)\<rparr>"
  have "\<not> wq_shuttingDown (st_queue ?s)" "\<not> wq_shuttingDown (st_queue ?t)"
    by (simp_all add: wq_New_def wq_ops)
  from queue_failed_retried [OF this(1) wq_steps.none this(2)] show ?thesis by simp
qed

text \<open>
  C21: the queue is fair. The keys handed to workers from some moment on are those of the queue at
  that moment in their order, as far as either goes, so a key with \<open>n\<close> keys before it is the
  one handed out after them; and a worker that asks a queue with keys is given one and comes back.
\<close>

theorem queue_in_order:
  "(\<forall>ks t. wq_steps s ks t \<longrightarrow> prefix ks (wq_queue (st_queue s)) \<or> prefix (wq_queue (st_queue s)) ks) \<and>
   (wq_queue (st_queue s) \<noteq> [] \<longrightarrow> (\<exists>q. processNextWorkItem sync b (st_queue s) = Some (True, q)))"
proof (intro conjI allI impI)
  fix ks t
  assume "wq_steps s ks t"
  from queue_order [OF this] show "prefix ks (wq_queue (st_queue s)) \<or> prefix (wq_queue (st_queue s)) ks"
    by (metis prefixI prefix_same_cases)
next
  assume "wq_queue (st_queue s) \<noteq> []"
  then show "\<exists>q. processNextWorkItem sync b (st_queue s) = Some (True, q)"
    by (cases "wq_queue (st_queue s)") (simp_all add: processNextWorkItem_def wq_Get_def)
qed

theorem queue_in_order_witness:
  "\<exists>q. processNextWorkItem (\<lambda>_. None) 0 (wq_Add ''b'' (wq_Add ''a'' wq_New)) = Some (True, q)"
  using queue_in_order [of "\<lparr>st_queue = wq_Add ''b'' (wq_Add ''a'' wq_New), busy = []\<rparr>" "\<lambda>_. None" 0]
  by (simp add: wq_Add_def wq_New_def Let_def)

text \<open>
  C28: when a pod of an ElasticsearchCluster changes, the key of the cluster is put in the queue of the
  controller, and that key leads the controller back to the namespace and name under which the cluster
  is cached.
\<close>

theorem es_pod_event_reaches_cluster:
  assumes "ResourceVersion old \<noteq> ResourceVersion new" and "\<not> wq_shuttingDown q"
    and "GetControllerOf new = Some r" "or_Kind r = ''StatefulSet''"
    and "lister_get env ''statefulset'' ss_ObjectMeta (w_statefulsets w) (Namespace new) (or_Name r) = Inr ss"
    and "GetControllerOf (ss_ObjectMeta ss) = Some r'" "or_Kind r' = ''ElasticsearchCluster''"
    and "lister_get env ''elasticsearchcluster'' esc_ObjectMeta (w_elasticsearchclusters w)
           (Namespace new) (or_Name r') = Inr c"
    and "CHR ''/'' \<notin> set (Namespace new)" "CHR ''/'' \<notin> set (or_Name r')"
  shows "\<exists>key. marked key (Blocking_OnUpdate (es_handlePodObject env w) old new q) \<and>
    SplitMetaNamespaceKey key = Inr (Namespace new, or_Name r')"
  using es_handlers.pod_update_marks [OF assms(1-8)] es_handlers.key_finds [OF assms(8-10)] by blast

theorem es_pod_event_reaches_cluster_witness:
  "\<exists>key. marked key (Blocking_OnUpdate (es_handlePodObject ok_env (sample_owners_world ''StatefulSet'' ''es-x-d''))
       empty_meta (pod_ObjectMeta (sample_owned_pod ''p'' ''StatefulSet'' ''es-x-d'')) wq_New) \<and>
     SplitMetaNamespaceKey key = Inr (''ns'', ''x'')"
proof -
  let ?w = "sample_owners_world ''StatefulSet'' ''es-x-d''"
  let ?pod = "pod_ObjectMeta (sample_owned_pod ''p'' ''StatefulSet'' ''es-x-d'')"
  obtain r where r: "GetControllerOf (ss_ObjectMeta (sample_es_set 1 ''6.1.1'')) = Some r"
    "or_Kind r = ''ElasticsearchCluster''" "or_Name r = ''x''"
    by (rule sample_es_set_owner)
  have set: "lister_get ok_env ''statefulset'' ss_ObjectMeta (w_statefulsets ?w) ''ns'' ''es-x-d'' = Inr (sample_es_set 1 ''6.1.1'')"
    by (simp add: lister_get_def ok_env_def sample_owners_world_def sample_es_set_facts)
  have es: "lister_get ok_env ''elasticsearchcluster'' esc_ObjectMeta (w_elasticsearchclusters ?w) ''ns'' ''x'' = Inr (sample_es False [])"
    by (simp add: lister_get_def ok_env_def sample_owners_world_def sample_es_def)
  show ?thesis
    using es_pod_event_reaches_cluster [of empty_meta ?pod wq_New _ ok_env ?w "sample_es_set 1 ''6.1.1''" r "sample_es False []"]
      r set es by (simp add: wq_New_def empty_meta_def)
qed

text \<open>
  C39: no event on a Pilot the pilot controller made ever queues an ElasticsearchCluster. The
  controller subscribes its \<open>handleObject\<close> to Pilots, but that follows only objects controlled by an
  ElasticsearchCluster, and a Pilot is controlled by its Pod. So a Pilot that reports its version or
  its last document leaving does not by itself resume the version change or scale-down that waits
  for it.
\<close>

theorem es_pilot_event_ignored:
  assumes "OwnerReferences pilot = OwnerReferences (pilot_ObjectMeta (PilotForPod pod))"
  shows "Blocking_OnAdd (es_handleObject env w) (Obj (Some pilot)) q = q \<and>
    Blocking_OnUpdate (es_handleObject env w) old pilot q = q \<and>
    Blocking_OnDelete (es_handleObject env w) (Obj (Some pilot)) q = q"
proof -
  have "\<exists>r. GetControllerOf pilot = Some r \<and> or_Kind r \<noteq> ''ElasticsearchCluster''"
    using assms by (simp add: GetControllerOf_def PilotForPod_def NewControllerRef_def)
  then show ?thesis using es_handlers.foreign_ignored by blast
qed

theorem es_pilot_event_ignored_witness:
  "Blocking_OnUpdate (es_handleObject ok_env (sample_owners_world ''StatefulSet'' ''es-x-d'')) empty_meta
     ((pilot_ObjectMeta (PilotForPod (sample_pod ''p'' None)))\<lparr>ResourceVersion := ''2''\<rparr>) wq_New = wq_New"
  using es_pilot_event_ignored [of "(pilot_ObjectMeta (PilotForPod (sample_pod ''p'' None)))\<lparr>ResourceVersion := ''2''\<rparr>"
      "sample_pod ''p'' None"] by simp

text \<open>
  C29: the pilot controller sends at most one request for a key, and it is the creation of the Pilot
  of a cached pod that is not being deleted and has no Pilot in the cache; the Pilot has the name and
  namespace of the pod and is controlled by it.
\<close>

theorem pilot_sync_requests:
  "\<exists>rs. requests (final (pilot_sync env key w)) = requests w @ rs \<and> length rs \<le> 1 \<and>
    list_all (pilot_request_ok env (caches_of w)) rs"
proof -
  obtain rs where rs: "requests (final (pilot_sync env key w)) = requests w @ rs"
    "list_all (pilot_request_ok env (caches_of w)) rs"
    by (rule sendsD [OF sends_pilot_sync [of "caches_of w" env key], of w]) auto
  obtain rs' where "requests (final (pilot_sync env key w)) = requests w @ rs'" "length rs' \<le> 1"
    using at_most_pilot_sync [of env key] by (auto simp: at_most_def)
  with rs show ?thesis by auto
qed

text \<open>
  C30: the search for the root owner of an object returns, for every object, if the cached stateful
  sets are not controlled by stateful sets or pods and the cached pods are not controlled by pods.
\<close>

theorem root_owner_returns:
  assumes "owners_grounded w"
  shows "\<exists>result. RootControllerRef env w kind obj = Some result"
  using assms by (rule root_of_any)

theorem root_owner_returns_witness:
  "\<exists>result. RootControllerRef ok_env (sample_owners_world ''StatefulSet'' ''es-x-d'') ''''
     (pilot_ObjectMeta (PilotForPod (sample_owned_pod ''p'' ''StatefulSet'' ''es-x-d''))) = Some result"
proof (rule root_owner_returns)
  obtain r where "GetControllerOf (ss_ObjectMeta (sample_es_set 1 ''6.1.1'')) = Some r"
    "or_Kind r = ''ElasticsearchCluster''" by (rule sample_es_set_owner)
  then show "owners_grounded (sample_owners_world ''StatefulSet'' ''es-x-d'')"
    by (simp add: owners_grounded_def sample_owners_world_def)
qed

text \<open>
  Without that condition it need not: from a pod that names itself as its controller the search
  never comes back.
\<close>

theorem root_owner_loops:
  assumes "GetControllerOf (pod_ObjectMeta pod) = Some r" "or_Kind r = ''Pod''"
    and "lister_get env ''pod'' pod_ObjectMeta (w_pods w) (Namespace (pod_ObjectMeta pod)) (or_Name r) = Inr pod"
  shows "RootControllerRef env w kind (pod_ObjectMeta pod) = None"
proof -
  have "\<not> (e = env \<and> v = w \<and> m = pod_ObjectMeta pod)" if "RootControllerRef e v k m = Some y" for e v k m y
    by (rule RootControllerRef.raw_induct [OF _ that]) (use assms in \<open>fastforce simp: Let_def\<close>)
  then show ?thesis by (metis option.exhaust)
qed

theorem root_owner_loops_witness:
  "RootControllerRef ok_env (sample_owners_world ''Pod'' ''p'') '''' (pod_ObjectMeta (sample_owned_pod ''p'' ''Pod'' ''p'')) = None"
  using root_owner_loops [of "sample_owned_pod ''p'' ''Pod'' ''p''" _ ok_env "sample_owners_world ''Pod'' ''p''" "[]"]
  by (simp add: lister_get_def ok_env_def sample_owners_world_def)


end
