(* ===== verification/Generic_Pilot_Correct.thy ===== *)
theory Generic_Pilot_Correct
  imports Generic_Pilot Event_Correct
begin

text \<open>
  What the generic pilot guarantees over its whole life: each hook succeeds once, the process starts
  after the hooks that precede it and once, the status is always reported, only Pilots of the same
  cluster are acted on; and a race in the timers that bring a Pilot back.
\<close>

section \<open>Life of a pilot\<close>

definition succeeded :: "string \<Rightarrow> action list \<Rightarrow> string list" where
  "succeeded p log = List.map_filter (\<lambda>a. case a of RanHook p' h None \<Rightarrow> if p' = p then Some h else None | _ \<Rightarrow> None) log"

definition started_after :: "string list \<Rightarrow> action list \<Rightarrow> bool" where
  "started_after hooks log \<longleftrightarrow>
     (\<forall>i < length log. case log ! i of
        StartProcess r \<Rightarrow> set hooks \<subseteq> set (succeeded ''PreStart'' (take i log)) | _ \<Rightarrow> True)"

definition gp_new :: generic_pilot where
  "gp_new = \<lparr>gp_process = None, gp_shutdown = False, gp_executed = (\<lambda>_. {}), gp_log = []\<rparr>"

inductive gp_life :: "pilot_options \<Rightarrow> generic_pilot \<Rightarrow> bool" for opts where
  new: "gp_life opts gp_new"
| sync: "gp_life opts g \<Longrightarrow> gp_life opts (snd (syncPilot opts pilot g))"
| stop: "gp_life opts g \<Longrightarrow> gp_stop opts pilot g = Some (err, g') \<Longrightarrow> gp_life opts g'"
| exit: "gp_life opts g \<Longrightarrow> gp_life opts (startWait done g)"

definition gp_inv :: "pilot_options \<Rightarrow> generic_pilot \<Rightarrow> bool" where
  "gp_inv opts g \<longleftrightarrow>
     (\<forall>p. distinct (succeeded p (gp_log g)) \<and> set (succeeded p (gp_log g)) = gp_executed g p) \<and>
     started_after (PreStart_hooks opts) (gp_log g) \<and>
     count_list (gp_log g) (StartProcess None) =
       (case gp_process g of Some p \<Rightarrow> if proc_Pid p = None then 0 else 1 | None \<Rightarrow> 0)"

lemma succeeded_simps [simp]:
  "succeeded p [] = []"
  "succeeded p (xs @ ys) = succeeded p xs @ succeeded p ys"
  "succeeded p [RanHook p' h r] = (if r = None \<and> p' = p then [h] else [])"
  "succeeded p [StartProcess r] = []" "succeeded p [SignalProcess r] = []" "succeeded p [ProcessExit r] = []"
  "succeeded p [RanSync q r] = []" "succeeded p [RanLeaderSync q r] = []" "succeeded p [PilotStatus_sent q r] = []"
  "succeeded p [Recorded a b c d] = []"
  by (simp_all add: succeeded_def List.map_filter_def split: option.split)

lemma all_less_snoc: "(\<forall>i < Suc n. P i) \<longleftrightarrow> (\<forall>i < n. P i) \<and> P n"
  by (auto simp: less_Suc_eq)

lemma started_after_snoc:
  "started_after hooks (log @ [a]) \<longleftrightarrow> started_after hooks log \<and>
     (case a of StartProcess r \<Rightarrow> set hooks \<subseteq> set (succeeded ''PreStart'' log) | _ \<Rightarrow> True)"
  by (simp add: started_after_def all_less_snoc nth_append cong: action.case_cong)

fun quiet :: "action \<Rightarrow> bool" where
  "quiet (RanHook p h r) \<longleftrightarrow> r \<noteq> None"
| "quiet (StartProcess r) \<longleftrightarrow> False"
| "quiet _ \<longleftrightarrow> True"

lemma gp_inv_logs: "gp_inv opts g \<Longrightarrow> quiet a \<Longrightarrow> gp_inv opts (logs a g)"
  by (cases a) (auto simp: gp_inv_def logs_def started_after_snoc)

lemma logs_simps [simp]:
  "gp_process (logs a g) = gp_process g" "gp_shutdown (logs a g) = gp_shutdown g"
  "gp_executed (logs a g) = gp_executed g" "gp_log (logs a g) = gp_log g @ [a]"
  by (simp_all add: logs_def)

lemma gp_inv_shutdown [simp]: "gp_inv opts (g\<lparr>gp_shutdown := b\<rparr>) \<longleftrightarrow> gp_inv opts g"
  by (simp add: gp_inv_def)

lemma gp_inv_exited: "gp_inv opts g \<Longrightarrow> gp_process g = Some p \<Longrightarrow>
    gp_inv opts (g\<lparr>gp_process := Some (p\<lparr>proc_State := s, proc_doneErr := e\<rparr>)\<rparr>)"
  by (simp add: gp_inv_def)

lemma run_hooks_inv:
  assumes "run_hooks opts p hs g = (err, g')" and "gp_inv opts g"
  shows "gp_inv opts g' \<and> gp_process g' = gp_process g \<and> gp_shutdown g' = gp_shutdown g \<and>
    (err = None \<longrightarrow> set hs \<subseteq> gp_executed g' p) \<and> (\<forall>q. gp_executed g q \<subseteq> gp_executed g' q)"
  using assms
proof (induction hs arbitrary: g)
  case Nil
  then show ?case by simp
next
  case (Cons h hs)
  show ?case
  proof (cases "h \<in> gp_executed g p")
    case True
    with Cons show ?thesis by fastforce
  next
    case False
    show ?thesis
    proof (cases "gp_hook opts (gp_log g) p h")
      case None
      let ?g = "logs (RanHook p h None) (g\<lparr>gp_executed := (gp_executed g)(p := insert h (gp_executed g p))\<rparr>)"
      have "gp_inv opts ?g" using Cons.prems(2) False by (auto simp: gp_inv_def started_after_snoc)
      moreover have "run_hooks opts p hs ?g = (err, g')" using Cons.prems(1) False None by simp
      ultimately show ?thesis using Cons.IH [of ?g] by fastforce
    next
      case (Some e)
      with Cons.prems False show ?thesis by (auto intro: gp_inv_logs)
    qed
  qed
qed

lemma Transition_inv:
  assumes "Transition opts p (Some pilot) g = (err, g')" and "gp_inv opts g"
  shows "gp_inv opts g'" "gp_process g' = gp_process g" "gp_shutdown g' = gp_shutdown g"
    "err = None \<Longrightarrow> \<exists>hs. phase_hooks opts p = Some hs \<and> set hs \<subseteq> gp_executed g' p"
    "gp_executed g q \<subseteq> gp_executed g' q"
  using assms run_hooks_inv [of opts p _ g err g'] by (auto simp: Transition_def split: option.splits)

lemma process_Start_inv:
  assumes "process_Start opts p g = (err, g')" and "gp_inv opts g" "gp_process g = Some p"
    and "set (PreStart_hooks opts) \<subseteq> gp_executed g ''PreStart''"
  shows "gp_inv opts g'"
  using assms
  by (auto simp: process_Start_def Let_def gp_inv_def started_after_snoc split: sum.splits if_splits)

lemma ensure_started_inv:
  assumes "ensure_started opts g = (err, g')" and "gp_inv opts g"
    and "set (PreStart_hooks opts) \<subseteq> gp_executed g ''PreStart''"
  shows "gp_inv opts g'"
  using assms
  by (auto simp: ensure_started_def split: if_splits option.splits prod.splits intro: gp_inv_logs process_Start_inv)

lemma constructed_inv: "gp_inv opts g \<Longrightarrow> gp_process g = None \<Longrightarrow> gp_inv opts (g\<lparr>gp_process := Some process_New\<rparr>)"
  by (simp add: gp_inv_def process_New_def)

lemma ensure_process_inv:
  assumes "ensure_process opts pilot g = (err, g')" and "gp_inv opts g"
  shows "gp_inv opts g'" "gp_executed g' = gp_executed g"
  using assms by (auto simp: ensure_process_def constructProcess_def split: if_splits option.splits intro: constructed_inv)

lemma syncPilot_body_inv:
  assumes body: "syncPilot_body opts pilot g = (err, pilot', g')" and inv: "gp_inv opts g"
  shows "gp_inv opts g'"
proof (cases "IsThisPilot opts pilot")
  case False
  with assms show ?thesis by (simp add: syncPilot_body_def)
next
  case mine: True
  obtain e1 g1 where t1: "Transition opts ''PreStart'' (Some pilot) g = (e1, g1)" by fastforce
  note i1 = Transition_inv [OF t1 inv]
  obtain e2 g2 where t2: "ensure_process opts pilot g1 = (e2, g2)" by fastforce
  note i2 = ensure_process_inv [OF t2 i1(1)]
  obtain e3 g3 where t3: "ensure_started opts g2 = (e3, g3)" by fastforce
  obtain e4 g4 where t4: "Transition opts ''PostStart'' (Some pilot) g3 = (e4, g4)" by fastforce
  obtain e5 p5 where t5: "SyncFunc opts (gp_log g4) pilot = (e5, p5)" by fastforce
  show ?thesis
  proof (cases e1)
    case (Some e)
    with body mine t1 i1(1) show ?thesis
      by (auto simp: syncPilot_body_def hook_failed_def gp_inv_logs)
  next
    case None
    with i1(4) i2(2) have "set (PreStart_hooks opts) \<subseteq> gp_executed g2 ''PreStart''"
      by (auto simp: phase_hooks_def)
    note i3 = ensure_started_inv [OF t3 i2(1) this]
    note i4 = Transition_inv(1) [OF t4 i3]
    have "g' \<in> {g2, g3, logs (RanSync pilot e5) g4} \<or> (\<exists>e. g' = hook_failed e g4)"
      using body None by (cases e2; cases e3; cases e4) (auto simp: syncPilot_body_def mine t1 t2 t3 t4 t5)
    with i2(1) i3 i4 show ?thesis by (auto simp: hook_failed_def gp_inv_logs)
  qed
qed

lemma deferred_leader_inv: "gp_inv opts g \<Longrightarrow> deferred_leader opts (err, pilot, g) = (err', pilot', g') \<Longrightarrow> gp_inv opts g'"
  by (auto simp: deferred_leader_def Let_def split: option.splits if_splits prod.splits intro: gp_inv_logs)

lemma deferred_status_inv: "gp_inv opts g \<Longrightarrow> gp_inv opts (snd (deferred_status opts (err, pilot, g)))"
  by (simp add: deferred_status_def updatePilotStatus_def Let_def gp_inv_logs)

lemma syncPilot_inv:
  assumes "gp_inv opts g"
  shows "gp_inv opts (snd (syncPilot opts pilot g))"
proof -
  obtain e p g1 where b: "syncPilot_body opts pilot g = (e, p, g1)" by (rule prod_cases3)
  obtain e' p' g2 where l: "deferred_leader opts (e, p, g1) = (e', p', g2)" by (rule prod_cases3)
  show ?thesis
    using deferred_status_inv [OF deferred_leader_inv [OF syncPilot_body_inv [OF b assms] l], of e' p']
    by (simp add: syncPilot_def b l)
qed

lemma process_Stop_inv:
  assumes "process_Stop opts p g = Some (err, g')" and "gp_inv opts g" "gp_process g = Some p"
  shows "gp_inv opts g'"
  using assms
  by (auto simp: process_Stop_def Let_def split: if_splits option.splits intro!: gp_inv_logs gp_inv_exited)

lemma gp_stop_inv:
  assumes stop: "gp_stop opts pilot g = Some (err, g')" and inv: "gp_inv opts g"
  shows "gp_inv opts g'"
proof -
  let ?g = "g\<lparr>gp_shutdown := True\<rparr>"
  have inv': "gp_inv opts ?g" using inv by simp
  obtain e1 g1 where t1: "Transition opts ''PreStop'' (Some pilot) ?g = (e1, g1)" by fastforce
  note i1 = Transition_inv(1) [OF t1 inv']
  show ?thesis
  proof (cases "IsRunning ?g \<and> e1 = None \<and> gp_process g1 \<noteq> None")
    case False
    with stop t1 inv' i1 show ?thesis
      by (cases e1) (auto simp: gp_stop_def Let_def hook_failed_def split: if_splits intro: gp_inv_logs)
  next
    case True
    then obtain p where p: "gp_process g1 = Some p" by blast
    with stop True t1 obtain e2 g2 where t2: "process_Stop opts p g1 = Some (e2, g2)"
      by (auto simp: gp_stop_def Let_def split: option.splits)
    note i2 = process_Stop_inv [OF t2 i1 p]
    obtain e3 g3 where t3: "Transition opts ''PostStop'' (Some pilot) g2 = (e3, g3)" by fastforce
    note i3 = Transition_inv(1) [OF t3 i2]
    have "g' = g2 \<or> g' = g3 \<or> (\<exists>e. g' = hook_failed e g3)"
      using stop True p by (cases e2; cases e3) (auto simp: gp_stop_def Let_def t1 t2 t3)
    with i2 i3 show ?thesis by (auto simp: hook_failed_def gp_inv_logs)
  qed
qed

lemma startWait_inv: "gp_inv opts g \<Longrightarrow> gp_inv opts (startWait e g)"
  by (auto simp: startWait_def split: option.split intro!: gp_inv_logs gp_inv_exited)

lemma gp_life_inv: "gp_life opts g \<Longrightarrow> gp_inv opts g"
proof (induction rule: gp_life.induct)
  case new
  show ?case by (simp add: gp_inv_def gp_new_def started_after_def)
qed (auto intro: syncPilot_inv gp_stop_inv startWait_inv)

section \<open>Reporting and choosing\<close>

text \<open>The functions a database supplies may change a Pilot but not make another one of it.\<close>

definition keeps_identity :: "pilot_options \<Rightarrow> bool" where
  "keeps_identity opts \<longleftrightarrow>
     (\<forall>l p. IsThisPilot opts (snd (SyncFunc opts l p)) = IsThisPilot opts p) \<and>
     (\<forall>f l p. LeaderElectedSyncFunc opts = Some f \<longrightarrow> IsThisPilot opts (snd (f l p)) = IsThisPilot opts p)"

lemma syncPilot_body_identity:
  assumes "keeps_identity opts"
  shows "IsThisPilot opts (fst (snd (syncPilot_body opts pilot g))) = IsThisPilot opts pilot"
proof -
  have "IsThisPilot opts p = IsThisPilot opts pilot" if "SyncFunc opts l pilot = (e, p)" for l e p
    using assms that by (metis keeps_identity_def snd_conv)
  then show ?thesis by (auto simp: syncPilot_body_def Let_def split: option.split prod.split)
qed

lemma deferred_leader_identity:
  assumes "keeps_identity opts"
  shows "IsThisPilot opts (fst (snd (deferred_leader opts r))) = IsThisPilot opts (fst (snd r))"
proof -
  have "IsThisPilot opts p' = IsThisPilot opts p" if "LeaderElectedSyncFunc opts = Some f" "f l p = (e, p')" for f l p e p'
    using assms that by (metis keeps_identity_def snd_conv)
  then show ?thesis by (cases r) (auto simp: deferred_leader_def Let_def split: option.split prod.split)
qed

lemma IsPeer_same_owner:
  assumes "IsPeer env w c pilot = Some (Inr True)"
  obtains this_pilot r r' where "ThisPilot env w c = Inr this_pilot"
    "RootControllerRef env w '''' (pilot_ObjectMeta this_pilot) = Some (Inr (Some r))"
    "RootControllerRef env w '''' (pilot_ObjectMeta pilot) = Some (Inr (Some r'))" "same_owner r r'"
  using assms by (auto simp: IsPeer_def Let_def split: option.splits sum.splits)

lemma IsPeer_returns:
  assumes "owners_grounded w"
  shows "IsPeer env w c pilot \<noteq> None"
proof -
  have "RootControllerRef env w [] m \<noteq> None" for m using root_of_any [OF assms, of env "[]" m] by auto
  then show ?thesis by (simp add: IsPeer_def Let_def split: option.split sum.split del: not_None_eq)
qed

lemma pilot_choose_Act:
  "pilot_choose env w c key = Some (Act pilot, c') \<Longrightarrow> IsPeer env w c pilot = Some (Inr True)"
  by (auto simp: pilot_choose_def split: sum.splits prod.splits pilot_choice.splits option.splits if_splits)

lemma pilot_choose_returns:
  assumes "owners_grounded w"
  shows "pilot_choose env w c key \<noteq> None"
proof -
  have "IsPeer env w c p \<noteq> None" for p using assms by (rule IsPeer_returns)
  then show ?thesis
    by (simp add: pilot_choose_def split: sum.split prod.split pilot_choice.split option.split del: not_None_eq)
qed

section \<open>Sample pilot\<close>

definition sample_options :: pilot_options where
  "sample_options = \<lparr>PilotName = ''p'', PilotNamespace = ''ns'', PreStart_hooks = [''WriteConfig'', ''InstallPlugins''],
     PostStart_hooks = [], PreStop_hooks = [], PostStop_hooks = [], gp_hook = (\<lambda>_ _ _. None), gp_cmd = (\<lambda>_ _. None),
     gp_start = (\<lambda>_. Inr 7), gp_signal = (\<lambda>_. None), gp_exits = (\<lambda>_. Some None), SyncFunc = (\<lambda>_ p. (None, p)),
     LeaderElectedSyncFunc = None, Leading = (\<lambda>_. False), gp_update = (\<lambda>_ _. None), gp_now = 3\<rparr>"

definition sample_this :: Pilot where
  "sample_this = PilotForPod (sample_owned_pod ''p'' ''StatefulSet'' ''es-x-d'')"

lemma sample_this_is: "IsThisPilot sample_options sample_this"
  by (simp add: IsThisPilot_def sample_options_def sample_this_def PilotForPod_def empty_meta_def)

lemma sample_life: "gp_life sample_options (snd (syncPilot sample_options sample_this gp_new))"
  by (intro gp_life.intros)

lemma sample_synced:
  "\<exists>p. gp_log (snd (syncPilot sample_options sample_this gp_new)) =
     [RanHook ''PreStart'' ''WriteConfig'' None, RanHook ''PreStart'' ''InstallPlugins'' None, StartProcess None,
      Recorded ''Normal'' ''ProcessStarted'' ''Subprocess %q started'' [AStr ''7''], RanSync sample_this None,
      PilotStatus_sent p None]"
proof -
  have "show_nat 7 = ''7''" by code_simp
  with sample_this_is show ?thesis
    by (simp add: syncPilot_def syncPilot_body_def Transition_def phase_hooks_def ensure_process_def constructProcess_def
        ensure_started_def process_Start_def IsRunning_def Running_def process_New_def the_String_def process_String_def
        deferred_leader_def deferred_status_def updatePilotStatus_def sample_options_def gp_new_def Let_def)
qed

text \<open>Two pilots of one Elasticsearch cluster, seen by the first of them.\<close>

definition sample_peer :: "string \<Rightarrow> Pilot" where
  "sample_peer n = PilotForPod (sample_owned_pod n ''StatefulSet'' ''es-x-d'')"

definition peers_world :: world where
  "peers_world = (sample_owners_world ''StatefulSet'' ''es-x-d'')
     \<lparr>w_pods := [sample_owned_pod ''p'' ''StatefulSet'' ''es-x-d'', sample_owned_pod ''q'' ''StatefulSet'' ''es-x-d''],
      w_pilots := [sample_peer ''p'', sample_peer ''q'']\<rparr>"

definition this_peer :: pilot_controller where
  "this_peer = \<lparr>pc_Name = ''p'', pc_Namespace = ''ns'', pc_cached = None\<rparr>"

lemma sample_peer_facts:
  "Name (pilot_ObjectMeta (sample_peer n)) = n" "Namespace (pilot_ObjectMeta (sample_peer n)) = ''ns''"
  "\<exists>r. GetControllerOf (pilot_ObjectMeta (sample_peer n)) = Some r \<and> or_Kind r = ''Pod'' \<and> or_Name r = n"
  by (simp_all add: sample_peer_def PilotForPod_def GetControllerOf_def NewControllerRef_def)

lemma peers_world_grounded: "owners_grounded peers_world"
  by (rule sample_es_set_owner [of 1 "''6.1.1''"])
    (simp add: owners_grounded_def peers_world_def sample_owners_world_def)

lemma peers_world_root:
  assumes "n = ''p'' \<or> n = ''q''"
    and "GetControllerOf (ss_ObjectMeta (sample_es_set 1 ''6.1.1'')) = Some r" "or_Kind r = ''ElasticsearchCluster''"
  shows "RootControllerRef ok_env peers_world [] (pilot_ObjectMeta (sample_peer n)) = Some (Inr (Some r))"
proof -
  let ?pod = "sample_owned_pod n ''StatefulSet'' ''es-x-d''" and ?w = peers_world
  have pod: "lister_get ok_env ''pod'' pod_ObjectMeta (w_pods ?w) ''ns'' n = Inr ?pod"
    using assms(1) by (auto simp: lister_get_def ok_env_def peers_world_def)
  have set: "lister_get ok_env ''statefulset'' ss_ObjectMeta (w_statefulsets ?w) ''ns'' ''es-x-d'' = Inr (sample_es_set 1 ''6.1.1'')"
    by (simp add: lister_get_def ok_env_def peers_world_def sample_owners_world_def sample_es_set_facts)
  have "RootControllerRef ok_env ?w [] (ss_ObjectMeta (sample_es_set 1 ''6.1.1'')) = Some (Inr (Some r))"
    by (subst RootControllerRef.simps) (simp add: assms)
  then have "RootControllerRef ok_env ?w [] (pod_ObjectMeta ?pod) = Some (Inr (Some r))"
    by (subst RootControllerRef.simps) (simp add: set)
  moreover obtain c where "GetControllerOf (pilot_ObjectMeta (sample_peer n)) = Some c" "or_Kind c = ''Pod''" "or_Name c = n"
    using sample_peer_facts(3) by blast
  ultimately show ?thesis
    by (subst RootControllerRef.simps) (simp add: pod sample_peer_facts)
qed

lemma peers_world_this: "ThisPilot ok_env peers_world this_peer = Inr (sample_peer ''p'')"
  by (simp add: ThisPilot_def lister_get_def ok_env_def peers_world_def this_peer_def sample_peer_facts)

lemma peers_world_chooses:
  "pilot_choose ok_env peers_world this_peer ''ns/q'' = Some (Act (sample_peer ''q''), this_peer)"
proof -
  have key: "SplitMetaNamespaceKey ''ns/q'' = Inr (''ns'', ''q'')" by code_simp
  have get: "lister_get ok_env ''pilot'' pilot_ObjectMeta (w_pilots peers_world) ''ns'' ''q'' = Inr (sample_peer ''q'')"
    by (simp add: lister_get_def ok_env_def peers_world_def sample_peer_facts)
  obtain r where r: "GetControllerOf (ss_ObjectMeta (sample_es_set 1 ''6.1.1'')) = Some r" "or_Kind r = ''ElasticsearchCluster''"
    by (rule sample_es_set_owner)
  have "IsPeer ok_env peers_world this_peer (sample_peer ''q'') = Some (Inr True)"
    using peers_world_root [OF _ r, of "''p''"] peers_world_root [OF _ r, of "''q''"]
    by (simp add: IsPeer_def peers_world_this same_owner_def)
  then show ?thesis
    by (simp add: pilot_choose_def key get pc_isThisPilot_def this_peer_def sample_peer_facts)
qed

section \<open>Timers\<close>

lemmas sw_defs = clearTimer_def install_def AddWithKey_clear_def AddWithKey_install_def sw_Forget_def sw_fire_def sw_finish_def






lemma AddWithKey_facts [simp]:
  "sw_work (AddWithKey k s) = (sw_work s)(k \<mapsto> sw_next s)" "sw_next (AddWithKey k s) = Suc (sw_next s)"
  "sw_running (AddWithKey k s) = sw_running s" "(sw_next s, k) \<in> set (sw_armed (AddWithKey k s))"
  "x \<in> set (sw_armed (AddWithKey k s)) \<Longrightarrow> x \<in> set (sw_armed s) \<or> x = (sw_next s, k)"
  by (auto simp: AddWithKey_def sw_defs fun_eq_iff split: option.splits)



section \<open>Properties\<close>

text \<open>
  C22: over the whole life of a pilot, through any sequence of synchronisations, stops and exits of
  the process, and whatever hooks fail and are retried, no hook succeeds twice in its phase.
\<close>

theorem hooks_succeed_once:
  assumes "gp_life opts g"
  shows "distinct (succeeded p (gp_log g))"
  using gp_life_inv [OF assms] by (simp add: gp_inv_def)

theorem hooks_succeed_once_witness:
  "distinct (succeeded ''PreStart'' (gp_log (snd (syncPilot sample_options sample_this gp_new)))) \<and>
   succeeded ''PreStart'' (gp_log (snd (syncPilot sample_options sample_this gp_new))) = [''WriteConfig'', ''InstallPlugins'']"
  using hooks_succeed_once [OF sample_life] sample_synced by (auto simp: succeeded_def List.map_filter_simps)

text \<open>
  C9: whenever the process is started, every hook that is to precede it has succeeded before; and the
  process is started at most once, so a pilot never runs a second process beside or after the first.
\<close>

theorem process_started_once_after_hooks:
  assumes "gp_life opts g"
  shows "started_after (PreStart_hooks opts) (gp_log g) \<and> count_list (gp_log g) (StartProcess None) \<le> 1"
  using gp_life_inv [OF assms] by (simp add: gp_inv_def split: option.split)

theorem process_started_once_after_hooks_witness:
  "started_after [''WriteConfig'', ''InstallPlugins''] (gp_log (snd (syncPilot sample_options sample_this gp_new))) \<and>
   StartProcess None \<in> set (gp_log (snd (syncPilot sample_options sample_this gp_new)))"
  using process_started_once_after_hooks [OF sample_life] sample_synced by (auto simp: sample_options_def)

text \<open>
  C23: a synchronisation of the pilot's own resource ends by sending the status, whatever fails before,
  if the functions supplied for the database leave the Pilot's identity alone; and it succeeds only
  if the status was accepted.
\<close>

theorem sync_reports_status:
  assumes "keeps_identity opts" and "IsThisPilot opts pilot"
  shows "\<exists>log p err. gp_log (snd (syncPilot opts pilot g)) = log @ [PilotStatus_sent p err] \<and>
    (fst (syncPilot opts pilot g) = None \<longrightarrow> err = None)"
proof -
  obtain e p g1 where r: "deferred_leader opts (syncPilot_body opts pilot g) = (e, p, g1)" by (rule prod_cases3)
  have "IsThisPilot opts p"
    using deferred_leader_identity [OF assms(1), of "syncPilot_body opts pilot g"]
      syncPilot_body_identity [OF assms(1)] assms(2) r by simp
  then show ?thesis
    by (simp add: syncPilot_def r deferred_status_def updatePilotStatus_def Let_def NewAggregate_None)
qed

theorem sync_reports_status_witness:
  "\<exists>log p err. gp_log (snd (syncPilot sample_options sample_this gp_new)) = log @ [PilotStatus_sent p err] \<and>
    (fst (syncPilot sample_options sample_this gp_new) = None \<longrightarrow> err = None)"
  by (rule sync_reports_status) (simp_all add: sample_this_is, simp add: keeps_identity_def sample_options_def)

text \<open>
  C24: when no cached stateful set is controlled by a stateful set or a pod and no cached pod by a pod,
  a pilot always decides what to do with a key, and it acts on a Pilot only if the search for root
  owners finds owners for it and for the pilot itself that agree in name, UID, kind and API version.
\<close>

theorem pilot_acts_on_peers:
  assumes "owners_grounded w"
  shows "\<exists>choice c'. pilot_choose env w c key = Some (choice, c') \<and>
    (\<forall>pilot. choice = Act pilot \<longrightarrow> (\<exists>this_pilot r r'. ThisPilot env w c = Inr this_pilot \<and>
       RootControllerRef env w '''' (pilot_ObjectMeta this_pilot) = Some (Inr (Some r)) \<and>
       RootControllerRef env w '''' (pilot_ObjectMeta pilot) = Some (Inr (Some r')) \<and>
       or_Name r = or_Name r' \<and> or_UID r = or_UID r' \<and> or_Kind r = or_Kind r' \<and> or_APIVersion r = or_APIVersion r'))"
proof -
  obtain choice c' where chosen: "pilot_choose env w c key = Some (choice, c')"
    using pilot_choose_returns [OF assms, of env c key] by auto
  moreover have "\<exists>this_pilot r r'. ThisPilot env w c = Inr this_pilot \<and>
       RootControllerRef env w '''' (pilot_ObjectMeta this_pilot) = Some (Inr (Some r)) \<and>
       RootControllerRef env w '''' (pilot_ObjectMeta pilot) = Some (Inr (Some r')) \<and>
       or_Name r = or_Name r' \<and> or_UID r = or_UID r' \<and> or_Kind r = or_Kind r' \<and> or_APIVersion r = or_APIVersion r'"
    if "choice = Act pilot" for pilot
  proof -
    have act: "pilot_choose env w c key = Some (Act pilot, c')" using chosen that by simp
    obtain this_pilot r r' where peer: "ThisPilot env w c = Inr this_pilot"
      "RootControllerRef env w '''' (pilot_ObjectMeta this_pilot) = Some (Inr (Some r))"
      "RootControllerRef env w '''' (pilot_ObjectMeta pilot) = Some (Inr (Some r'))" "same_owner r r'"
      by (rule IsPeer_same_owner [OF pilot_choose_Act [OF act]])
    from peer(4) have "or_Name r = or_Name r' \<and> or_UID r = or_UID r' \<and> or_Kind r = or_Kind r' \<and> or_APIVersion r = or_APIVersion r'"
      by (simp add: same_owner_def)
    with peer(1-3) show ?thesis by blast
  qed
  ultimately show ?thesis by blast
qed

theorem pilot_acts_on_peers_witness:
  "\<exists>r r'. pilot_choose ok_env peers_world this_peer ''ns/q'' = Some (Act (sample_peer ''q''), this_peer) \<and>
     RootControllerRef ok_env peers_world [] (pilot_ObjectMeta (sample_peer ''p'')) = Some (Inr (Some r)) \<and>
     RootControllerRef ok_env peers_world [] (pilot_ObjectMeta (sample_peer ''q'')) = Some (Inr (Some r')) \<and>
     or_Name r = or_Name r' \<and> or_UID r = or_UID r'"
  using pilot_acts_on_peers [OF peers_world_grounded, of ok_env this_peer "''ns/q''"]
  by (auto simp: peers_world_chooses peers_world_this)



end
