(* ===== verification/Database_Pilots.thy ===== *)
theory Database_Pilots
  imports Generic_Pilot_Correct
begin

text \<open>
  What the two databases supply to the generic pilot. For Cassandra: the summary of the ring
  (\<open>cassandra/nodetool/nodetool.go\<close>), the probes and the sync function (\<open>pilot/cassandra/v3/pilot.go\<close>).
  For Elasticsearch: the sync functions (\<open>pilot/elasticsearch/v5/controller.go\<close>), the probes and the
  installation of plugins. Answers of the database and of its tools are arguments. A host id is
  kept as the text its \<open>String\<close> method gives.
\<close>

section \<open>Nodetool\<close>

record StorageService =
  HostIdMap :: "(string \<times> string) list"
  LiveNodes :: "string list"
  UnreachableNodes :: "string list"
  LeavingNodes :: "string list"
  JoiningNodes :: "string list"
  MovingNodes :: "string list"
  LocalHostId :: string
  ReleaseVersion :: "Version option"

datatype NodeState = NodeStateUnknown | NodeStateNormal | NodeStateLeaving | NodeStateJoining | NodeStateMoving

datatype NodeStatus = NodeStatusUnknown | NodeStatusUp | NodeStatusDown

record Node =
  node_Host :: string
  node_ID :: string
  node_State :: NodeState
  node_Status :: NodeStatus
  node_Local :: bool

text \<open>\<open>sets.String\<close> of a list, and the comparison of sizes that detects a common element.\<close>

definition setsIntersect :: "string list list \<Rightarrow> bool" where
  "setsIntersect setsToCheck \<longleftrightarrow>
     length (remdups (concat setsToCheck)) \<noteq> sum_list (map (\<lambda>s. length (remdups s)) setsToCheck)"

definition nodetool_node :: "StorageService \<Rightarrow> string \<times> string \<Rightarrow> Node" where
  "nodetool_node ss entry = (case entry of (host, hostId) \<Rightarrow>
     \<lparr>node_Host = host, node_ID = hostId,
      node_State = (if host \<in> set (LeavingNodes ss) then NodeStateLeaving
                    else if host \<in> set (JoiningNodes ss) then NodeStateJoining
                    else if host \<in> set (MovingNodes ss) then NodeStateMoving
                    else NodeStateNormal),
      node_Status = (if host \<in> set (LiveNodes ss) then NodeStatusUp
                     else if host \<in> set (UnreachableNodes ss) then NodeStatusDown
                     else NodeStatusUnknown),
      node_Local = (LocalHostId ss = hostId)\<rparr>)"

definition nodetool_Status :: "go_error + StorageService \<Rightarrow> go_error + Node list" where
  "nodetool_Status answer =
     (case answer of
        Inl err \<Rightarrow> Inl err
      | Inr ss \<Rightarrow>
          if setsIntersect [LiveNodes ss, UnreachableNodes ss]
          then Inl (Errorf (''unexpected state: some nodes were reported in more than one status. '' @
                 ''Live: %v, '' @ ''Unreachable: %v'') [AStrs (LiveNodes ss), AStrs (UnreachableNodes ss)])
          else if setsIntersect [LeavingNodes ss, JoiningNodes ss, MovingNodes ss]
          then Inl (Errorf (''unexpected state: some nodes were reported in more than one state. '' @
                 ''Leaving: %v, '' @ ''Joining: %v, '' @ ''Moving: %v'')
                 [AStrs (LeavingNodes ss), AStrs (JoiningNodes ss), AStrs (MovingNodes ss)])
          else Inr (map (nodetool_node ss) (HostIdMap ss)))"

definition nodetool_Version :: "go_error + StorageService \<Rightarrow> go_error + Version option" where
  "nodetool_Version answer = (case answer of Inl err \<Rightarrow> Inl err | Inr ss \<Rightarrow> Inr (ReleaseVersion ss))"

text \<open>The nodes come in the order in which Go happens to iterate over the map.\<close>

definition LocalNode :: "Node list \<Rightarrow> Node option" where
  "LocalNode nm = find_first node_Local nm"

section \<open>Cassandra pilot\<close>

text \<open>The operand that prints the nodes, a map of pointers, is left out of the error.\<close>

fun NodeStatus_text :: "NodeStatus \<Rightarrow> string" where
  "NodeStatus_text NodeStatusUnknown = ''Unknown''"
| "NodeStatus_text NodeStatusUp = ''Up''"
| "NodeStatus_text NodeStatusDown = ''Down''"

fun NodeState_text :: "NodeState \<Rightarrow> string" where
  "NodeState_text NodeStateUnknown = ''Unknown''"
| "NodeState_text NodeStateNormal = ''Normal''"
| "NodeState_text NodeStateLeaving = ''Leaving''"
| "NodeState_text NodeStateJoining = ''Joining''"
| "NodeState_text NodeStateMoving = ''Moving''"

definition localNodeUpAndNormal :: "go_error + StorageService \<Rightarrow> go_error option" where
  "localNodeUpAndNormal answer =
     (case nodetool_Status answer of
        Inl err \<Rightarrow> Some err
      | Inr nodes \<Rightarrow>
          (case LocalNode nodes of
             None \<Rightarrow> Some (Errorf ''Local node not found: %v'' [])
           | Some localNode \<Rightarrow>
               if node_Status localNode \<noteq> NodeStatusUp
               then Some (Errorf ''Unexpected local node status: %v'' [AStr (NodeStatus_text (node_Status localNode))])
               else if node_State localNode \<noteq> NodeStateNormal
               then Some (Errorf ''Unexpected local node state: %v'' [AStr (NodeState_text (node_State localNode))])
               else None))"

definition cass_ReadinessCheck :: "go_error + StorageService \<Rightarrow> go_error option" where
  "cass_ReadinessCheck answer = localNodeUpAndNormal answer"

definition cass_LivenessCheck :: "go_error + StorageService \<Rightarrow> go_error option" where
  "cass_LivenessCheck answer = (case nodetool_Status answer of Inl err \<Rightarrow> Some err | Inr _ \<Rightarrow> None)"

definition cass_syncFunc :: "go_error + StorageService \<Rightarrow> Pilot \<Rightarrow> go_error option \<times> Pilot" where
  "cass_syncFunc answer pilot =
     (let st = pilot_Status pilot;
          cass = (case pst_Cassandra st of None \<Rightarrow> \<lparr>cps_Version = None\<rparr> | Some c \<Rightarrow> c);
          version = (case nodetool_Version answer of Inl err \<Rightarrow> None | Inr v \<Rightarrow> v)
      in (None, pilot\<lparr>pilot_Status := st\<lparr>pst_Cassandra := Some (cass\<lparr>cps_Version := version\<rparr>)\<rparr>\<rparr>))"

section \<open>Elasticsearch pilot\<close>

text \<open>
  An answer lists the nodes in the order of iteration; a node whose \<open>Indices\<close> or \<open>Docs\<close> is nil has no
  count, and reading it panics. No answer is given while there is no client (\<open>None\<close>).
\<close>

definition es_status_of :: "Pilot \<Rightarrow> ElasticsearchPilotStatus" where
  "es_status_of pilot = (case pst_Elasticsearch (pilot_Status pilot) of
     None \<Rightarrow> \<lparr>eps_Documents = None, eps_Version = None\<rparr> | Some s \<Rightarrow> s)"

definition set_es_status :: "ElasticsearchPilotStatus \<Rightarrow> Pilot \<Rightarrow> Pilot" where
  "set_es_status s pilot = pilot\<lparr>pilot_Status := (pilot_Status pilot)\<lparr>pst_Elasticsearch := Some s\<rparr>\<rparr>"

fun apply_stats :: "int64 option list \<Rightarrow> Pilot \<Rightarrow> Pilot outcome" where
  "apply_stats [] pilot = Return pilot"
| "apply_stats (count # rest) pilot =
     bind_outcome (deref count) (\<lambda>docCount.
       apply_stats rest (set_es_status ((es_status_of pilot)\<lparr>eps_Documents := Some docCount\<rparr>) pilot))"

definition updateNodeStats ::
  "(go_error + int64 option list) option \<Rightarrow> Pilot \<Rightarrow> (go_error option \<times> Pilot) outcome" where
  "updateNodeStats stats pilot0 =
     (let pilot = set_es_status ((es_status_of pilot0)\<lparr>eps_Documents := None\<rparr>) pilot0
      in case stats of
           None \<Rightarrow> Return (Some (Errorf ''local elasticsearch client not available'' []), pilot)
         | Some (Inl err) \<Rightarrow> Return (Some err, pilot)
         | Some (Inr nodes) \<Rightarrow> bind_outcome (apply_stats nodes pilot) (\<lambda>p. Return (None, p)))"

fun apply_info :: "string list \<Rightarrow> Pilot \<Rightarrow> go_error option \<times> Pilot" where
  "apply_info [] pilot = (None, pilot)"
| "apply_info (version # rest) pilot =
     (case semver_Set version of
        Inl err \<Rightarrow> (Some err, pilot)
      | Inr ver \<Rightarrow> apply_info rest (set_es_status ((es_status_of pilot)\<lparr>eps_Version := Some ver\<rparr>) pilot))"

definition updateNodeInfo :: "(go_error + string list) option \<Rightarrow> Pilot \<Rightarrow> go_error option \<times> Pilot" where
  "updateNodeInfo info pilot0 =
     (let pilot = set_es_status (es_status_of pilot0) pilot0
      in case info of
           None \<Rightarrow> (Some (Errorf ''local elasticsearch client not available'' []), pilot)
         | Some (Inl err) \<Rightarrow> (Some err, pilot)
         | Some (Inr nodes) \<Rightarrow> apply_info nodes pilot)"

definition nodeStatsUpdateFrequency :: int where
  "nodeStatsUpdateFrequency = 1000000000 * 10"

definition es_syncFunc ::
  "int \<Rightarrow> int \<Rightarrow> (go_error + int64 option list) option \<Rightarrow> (go_error + string list) option \<Rightarrow> Pilot \<Rightarrow>
   (go_error option \<times> Pilot) outcome" where
  "es_syncFunc lastNodeStatsUpdate t stats info pilot0 =
     (let pilot = set_es_status (es_status_of pilot0) pilot0
      in if lastNodeStatsUpdate + nodeStatsUpdateFrequency > t then Return (None, pilot)
         else bind_outcome (updateNodeStats stats pilot) (\<lambda>(err, p1).
                case err of
                  Some e \<Rightarrow> Return (Some e, p1)
                | None \<Rightarrow> Return (updateNodeInfo info p1)))"

definition getOwningCluster :: "env \<Rightarrow> world \<Rightarrow> Pilot \<Rightarrow> (go_error + ElasticsearchCluster) option" where
  "getOwningCluster env w pilot =
     (let m = pilot_ObjectMeta pilot;
          undetermined = Inl (Errorf ''could not determine controller of Pilot %q'' [AStr (Name m)])
      in case RootControllerRef env w '''' m of
           None \<Rightarrow> None
         | Some (Inl err) \<Rightarrow> Some (Inl (Wrap err ''unable to get root controller reference'' []))
         | Some (Inr None) \<Rightarrow> Some undetermined
         | Some (Inr (Some ownerRef)) \<Rightarrow>
             Some (if or_Kind ownerRef \<noteq> ''ElasticsearchCluster'' then undetermined
                   else lister_get env ''elasticsearchcluster'' esc_ObjectMeta (w_elasticsearchclusters w)
                          (Namespace m) (or_Name ownerRef)))"

text \<open>Only names in ASCII are lowered here; letters outside it lower to nothing the cases accept.\<close>

definition parseHealth :: "string \<Rightarrow> ElasticsearchClusterHealth option" where
  "parseHealth s =
     (let l = map to_lower s
      in if l = ''green'' then Some ElasticsearchClusterHealthGreen
         else if l = ''yellow'' then Some ElasticsearchClusterHealthYellow
         else if l = ''red'' then Some ElasticsearchClusterHealthRed
         else None)"

definition updateElasticsearchClusterStatus ::
  "env \<Rightarrow> (go_error + string) option \<Rightarrow> ElasticsearchCluster \<Rightarrow> go_error option prog" where
  "updateElasticsearchClusterStatus env health esc =
     (case health of
        None \<Rightarrow> ret (Some (Errorf ''local elasticsearch client not available'' []))
      | Some (Inl err) \<Rightarrow> ret (Some err)
      | Some (Inr status) \<Rightarrow>
          api env (UpdateElasticsearchStatus
            (esc\<lparr>esc_Status := (esc_Status esc)\<lparr>est_Health := parseHealth status\<rparr>\<rparr>)))"

text \<open>\<open>CombineChecks\<close>: the first error of the checks in order.\<close>

fun CombineChecks :: "go_error option list \<Rightarrow> go_error option" where
  "CombineChecks [] = None"
| "CombineChecks (check # checks) = (case check of Some err \<Rightarrow> Some err | None \<Rightarrow> CombineChecks checks)"

text \<open>
  \<open>InstallPlugins\<close> with the plugins that were installed, the answer of the installer and the list of
  installations it attempted.
\<close>

fun install_each ::
  "(string \<Rightarrow> go_error option) \<Rightarrow> string list \<Rightarrow> string list \<Rightarrow> go_error option \<times> string list" where
  "install_each run installed [] = (None, [])"
| "install_each run installed (plugin # rest) =
     (if plugin \<in> set installed then install_each run installed rest
      else case run plugin of
             Some err \<Rightarrow> (Some err, [plugin])
           | None \<Rightarrow> (let (e, tried) = install_each run installed rest in (e, plugin # tried)))"

definition InstallPlugins ::
  "(string \<Rightarrow> go_error option) \<Rightarrow> go_error + string \<Rightarrow> string list \<Rightarrow> go_error option \<times> string list" where
  "InstallPlugins run listed plugins =
     (case listed of
        Inl err \<Rightarrow> (Some (Errorf ''error listing installed plugins: %s'' [AErr err]), [])
      | Inr output \<Rightarrow> install_each run (split_on (CHR 10) output) plugins)"

text \<open>\<open>None\<close> if the search for the owner does not return.\<close>

definition leaderElectedSyncFunc ::
  "env \<Rightarrow> (go_error + string) option \<Rightarrow> Pilot \<Rightarrow> world \<Rightarrow> go_error option run option" where
  "leaderElectedSyncFunc env health pilot w =
     (case getOwningCluster env w pilot of
        None \<Rightarrow> None
      | Some (Inl err) \<Rightarrow> Some (ret (Some err) w)
      | Some (Inr esc) \<Rightarrow>
          Some (andThen (updateElasticsearchClusterStatus env health esc) (\<lambda>err. ret
            (case err of
               None \<Rightarrow> None
             | Some e \<Rightarrow> Some (Errorf ''error updating elasticsearchcluster %q status: %s''
                 [AStr (Name (esc_ObjectMeta esc)), AErr e]))) w))"

subsection \<open>Probes, process and files\<close>

text \<open>The readiness check reads through the client, which panics while there is none.\<close>

definition localNodeHealth :: "(go_error + string) option \<Rightarrow> go_error option outcome" where
  "localNodeHealth health =
     bind_outcome (deref health) (\<lambda>resp. Return (case resp of Inl err \<Rightarrow> Some err | Inr _ \<Rightarrow> None))"

definition es_ReadinessCheck :: "(go_error + string) option \<Rightarrow> go_error option outcome" where
  "es_ReadinessCheck health = bind_outcome (localNodeHealth health) (\<lambda>err. Return (CombineChecks [err]))"

definition es_LivenessCheck :: "go_error option" where
  "es_LivenessCheck = CombineChecks [None]"

record esEnv =
  nodeData :: bool
  nodeIngest :: bool
  nodeMaster :: bool

definition add_role :: "string \<Rightarrow> esEnv \<Rightarrow> esEnv" where
  "add_role role e =
     (if role = ElasticsearchRoleData then e\<lparr>nodeData := True\<rparr>
      else if role = ElasticsearchRoleIngest then e\<lparr>nodeIngest := True\<rparr>
      else if role = ElasticsearchRoleMaster then e\<lparr>nodeMaster := True\<rparr>
      else e)"

definition es_env :: "string list \<Rightarrow> esEnv" where
  "es_env roles = fold add_role roles \<lparr>nodeData = False, nodeIngest = False, nodeMaster = False\<rparr>"

definition show_bool :: "bool \<Rightarrow> string" where
  "show_bool b = (if b then ''true'' else ''false'')"

definition esEnv_Strings :: "string list \<Rightarrow> esEnv \<Rightarrow> string list" where
  "esEnv_Strings environ e =
     environ @ [''NODE_DATA='' @ show_bool (nodeData e)] @ [''NODE_INGEST='' @ show_bool (nodeIngest e)] @
     [''NODE_MASTER='' @ show_bool (nodeMaster e)]"

text \<open>A command is its name and its environment.\<close>

definition es_CmdFunc :: "string list \<Rightarrow> string list \<Rightarrow> string \<times> string list" where
  "es_CmdFunc environ roles = (''elasticsearch'', esEnv_Strings environ (es_env roles))"

definition es_Hooks :: "string list" where
  "es_Hooks = [''WriteConfig'', ''InstallPlugins'']"

text \<open>
  \<open>copyFileContents\<close> over the errors of its system calls; the deferred \<open>Close\<close> counts only if nothing
  failed before.
\<close>

definition copyFileContents ::
  "go_error option \<Rightarrow> go_error option \<Rightarrow> go_error option \<Rightarrow> go_error option \<Rightarrow> go_error option \<Rightarrow> go_error option" where
  "copyFileContents opened created copied synced closed =
     (if opened \<noteq> None then opened
      else if created \<noteq> None then created
      else let err = (if copied \<noteq> None then copied else synced)
           in if err = None then closed else err)"

text \<open>
  The files behind \<open>WriteConfig\<close>: the names in a directory, what a name in it resolves to through
  symbolic links, the base name of a path and whether it is a directory, and the copying of one
  file. The result lists the copies attempted.
\<close>

record files =
  fs_ReadDir :: "string \<Rightarrow> go_error + string list"
  fs_EvalSymlinks :: "string \<Rightarrow> string \<Rightarrow> go_error + string"
  fs_Stat :: "string \<Rightarrow> go_error + string \<times> bool"
  fs_copy :: "string \<Rightarrow> string \<Rightarrow> go_error option"

fun write_each ::
  "files \<Rightarrow> string \<Rightarrow> string \<Rightarrow> string list \<Rightarrow> go_error option \<times> (string \<times> string) list" where
  "write_each fs src dst [] = (None, [])"
| "write_each fs src dst (name # names) =
     (case fs_EvalSymlinks fs src name of
        Inl err \<Rightarrow> (Some (Errorf ''error evaluating symlinks in path %q: %s'' [AStr [], AErr err]), [])
      | Inr path \<Rightarrow>
          (case fs_Stat fs path of
             Inl err \<Rightarrow> (Some (Errorf ''error getting info for path %q: %s'' [AStr path, AErr err]), [])
           | Inr (base, isDir) \<Rightarrow>
               if isDir then write_each fs src dst names
               else let dstPath = dst @ ''/'' @ base
                    in case fs_copy fs path dstPath of
                         Some err \<Rightarrow> (Some err, [(path, dstPath)])
                       | None \<Rightarrow> (let (e, done) = write_each fs src dst names in (e, (path, dstPath) # done))))"

definition WriteConfig ::
  "files \<Rightarrow> string \<Rightarrow> string \<Rightarrow> go_error option \<times> (string \<times> string) list" where
  "WriteConfig fs configDir esConfigDir =
     (let esConfigPath = configDir @ ''/'' @ ''elasticsearch/config''
      in case fs_ReadDir fs esConfigPath of
           Inl err \<Rightarrow> (Some (Errorf ''error listing provided config files: %s'' [AErr err]), [])
         | Inr names \<Rightarrow> write_each fs esConfigPath esConfigDir names)"

section \<open>Consequences\<close>

lemma card_disjoint_iff: "finite A \<Longrightarrow> finite B \<Longrightarrow> card (A \<union> B) = card A + card B \<longleftrightarrow> A \<inter> B = {}"
  using card_Un_Int [of A B] by (auto simp: card_eq_0_iff)

lemma setsIntersect_2: "setsIntersect [a, b] \<longleftrightarrow> set a \<inter> set b \<noteq> {}"
  by (simp add: setsIntersect_def length_remdups_card_conv card_disjoint_iff)

lemma setsIntersect_3:
  "setsIntersect [a, b, c] \<longleftrightarrow> set a \<inter> set b \<noteq> {} \<or> set a \<inter> set c \<noteq> {} \<or> set b \<inter> set c \<noteq> {}"
proof -
  have "card (set a \<union> (set b \<union> set c)) = card (set a) + (card (set b) + card (set c)) \<longleftrightarrow>
      set a \<inter> (set b \<union> set c) = {} \<and> set b \<inter> set c = {}"
    using card_Un_Int [of "set a" "set b \<union> set c"] card_Un_Int [of "set b" "set c"]
      card_disjoint_iff [of "set a" "set b \<union> set c"] card_disjoint_iff [of "set b" "set c"] by auto
  then show ?thesis by (auto simp: setsIntersect_def length_remdups_card_conv)
qed

lemma LocalNode_nodes:
  assumes "distinct (map snd (HostIdMap ss))" and "(h, LocalHostId ss) \<in> set (HostIdMap ss)"
  shows "LocalNode (map (nodetool_node ss) (HostIdMap ss)) = Some (nodetool_node ss (h, LocalHostId ss))"
proof (cases "LocalNode (map (nodetool_node ss) (HostIdMap ss))")
  case None
  then show ?thesis using assms(2) by (fastforce simp: LocalNode_def find_first_None nodetool_node_def)
next
  case (Some n)
  then obtain h' i' where n: "n = nodetool_node ss (h', i')" "(h', i') \<in> set (HostIdMap ss)" "node_Local n"
    unfolding LocalNode_def by (auto dest!: find_first_Some)
  then have "i' = LocalHostId ss" by (simp add: nodetool_node_def)
  with n(2) assms have "h' = h" by (metis distinct_map inj_onD prod.inject snd_conv)
  with Some n(1) \<open>i' = LocalHostId ss\<close> show ?thesis by simp
qed

lemma set_es_status_simps [simp]:
  "es_status_of (set_es_status s p) = s" "pilot_ObjectMeta (set_es_status s p) = pilot_ObjectMeta p"
  by (simp_all add: es_status_of_def set_es_status_def)

lemma apply_stats_Documents:
  "apply_stats nodes p = Return p' \<Longrightarrow>
     eps_Documents (es_status_of p') = (if nodes = [] then eps_Documents (es_status_of p) else last nodes) \<and>
     pilot_ObjectMeta p' = pilot_ObjectMeta p"
proof (induction nodes arbitrary: p)
  case (Cons c nodes)
  then obtain d where "c = Some d"
    "apply_stats nodes (set_es_status ((es_status_of p)\<lparr>eps_Documents := Some d\<rparr>) p) = Return p'"
    by (cases c) simp_all
  with Cons.IH show ?case by fastforce
qed simp

lemma apply_info_keeps:
  "apply_info vs p = (e, p') \<Longrightarrow>
     eps_Documents (es_status_of p') = eps_Documents (es_status_of p) \<and> pilot_ObjectMeta p' = pilot_ObjectMeta p"
proof (induction vs arbitrary: p)
  case (Cons v vs)
  then obtain q where "pilot_ObjectMeta q = pilot_ObjectMeta p" "p' = q \<or> apply_info vs q = (e, p')"
    "eps_Documents (es_status_of q) = eps_Documents (es_status_of p)"
    by (cases "semver_Set v") (fastforce simp del: bind_outcome.simps)+
  with Cons.IH [of q] show ?case by auto
qed simp

lemma updateNodeInfo_keeps:
  "updateNodeInfo info p = (e, p') \<Longrightarrow>
     eps_Documents (es_status_of p') = eps_Documents (es_status_of p) \<and> pilot_ObjectMeta p' = pilot_ObjectMeta p"
  by (auto simp: updateNodeInfo_def Let_def split: option.splits sum.splits dest: apply_info_keeps)

lemma updateNodeStats_Documents:
  assumes "updateNodeStats stats p = Return (e, p')" and "eps_Documents (es_status_of p') = Some d"
  shows "\<exists>nodes. stats = Some (Inr nodes) \<and> nodes \<noteq> [] \<and> last nodes = Some d"
  using assms
  by (auto simp: updateNodeStats_def Let_def bind_outcome_Return split: option.splits sum.splits if_splits
      dest!: apply_stats_Documents)

lemma pilot_drained_status: "pilot_drained p \<Longrightarrow> \<exists>d. eps_Documents (es_status_of p) = Some d \<and> sint d \<le> 0"
  by (auto simp: pilot_drained_def es_status_of_def)

lemma install_each_tried:
  "install_each run installed ps = (e, tried) \<Longrightarrow>
     set tried \<subseteq> set ps - set installed \<and> (e = None \<longrightarrow> set tried = set ps - set installed)"
  by (induction ps arbitrary: tried) (auto simp: Let_def split: if_splits option.splits prod.splits)

lemma es_env_roles:
  "nodeData (es_env roles) \<longleftrightarrow> ElasticsearchRoleData \<in> set roles"
  "nodeIngest (es_env roles) \<longleftrightarrow> ElasticsearchRoleIngest \<in> set roles"
  "nodeMaster (es_env roles) \<longleftrightarrow> ElasticsearchRoleMaster \<in> set roles"
proof -
  have "nodeData (fold add_role roles e) \<longleftrightarrow> nodeData e \<or> ElasticsearchRoleData \<in> set roles"
    "nodeIngest (fold add_role roles e) \<longleftrightarrow> nodeIngest e \<or> ElasticsearchRoleIngest \<in> set roles"
    "nodeMaster (fold add_role roles e) \<longleftrightarrow> nodeMaster e \<or> ElasticsearchRoleMaster \<in> set roles" for e
    by (induction roles arbitrary: e)
      (auto simp: add_role_def ElasticsearchRoleData_def ElasticsearchRoleIngest_def ElasticsearchRoleMaster_def)
  then show "nodeData (es_env roles) \<longleftrightarrow> ElasticsearchRoleData \<in> set roles"
    "nodeIngest (es_env roles) \<longleftrightarrow> ElasticsearchRoleIngest \<in> set roles"
    "nodeMaster (es_env roles) \<longleftrightarrow> ElasticsearchRoleMaster \<in> set roles"
    by (simp_all add: es_env_def)
qed

lemma copyFileContents_None:
  "copyFileContents a b c d e = None \<longleftrightarrow> a = None \<and> b = None \<and> c = None \<and> d = None \<and> e = None"
  by (auto simp: copyFileContents_def Let_def)

text \<open>The pilots' functions do not change which Pilot they are given.\<close>

lemma es_syncFunc_identity:
  assumes "es_syncFunc l t stats info pilot = Return (err, pilot')"
  shows "pilot_ObjectMeta pilot' = pilot_ObjectMeta pilot"
proof -
  have stats: "pilot_ObjectMeta p1 = pilot_ObjectMeta p" if "updateNodeStats stats p = Return (e, p1)" for p e p1
    using that by (auto simp: updateNodeStats_def Let_def bind_outcome_Return split: option.splits sum.splits
        dest!: apply_stats_Documents)
  show ?thesis
    using assms
    by (auto simp: es_syncFunc_def Let_def bind_outcome_Return split: if_splits option.splits
        dest!: stats updateNodeInfo_keeps)
qed

lemma cass_syncFunc_identity: "pilot_ObjectMeta (snd (cass_syncFunc answer pilot)) = pilot_ObjectMeta pilot"
  by (simp add: cass_syncFunc_def Let_def)

section \<open>Sample answers\<close>

definition sample_ring :: StorageService where
  "sample_ring = \<lparr>HostIdMap = [(''10.0.0.1'', ''h1''), (''10.0.0.2'', ''h2'')], LiveNodes = [''10.0.0.1'', ''10.0.0.2''],
     UnreachableNodes = [], LeavingNodes = [''10.0.0.2''], JoiningNodes = [], MovingNodes = [], LocalHostId = ''h1'',
     ReleaseVersion = None\<rparr>"

lemma cass_ready_answered:
  assumes "distinct (map snd (HostIdMap ss))"
  shows "cass_ReadinessCheck (Inr ss) = None \<longleftrightarrow>
    set (LiveNodes ss) \<inter> set (UnreachableNodes ss) = {} \<and>
    set (LeavingNodes ss) \<inter> set (JoiningNodes ss) = {} \<and> set (LeavingNodes ss) \<inter> set (MovingNodes ss) = {} \<and>
    set (JoiningNodes ss) \<inter> set (MovingNodes ss) = {} \<and>
    (\<exists>h. (h, LocalHostId ss) \<in> set (HostIdMap ss) \<and> h \<in> set (LiveNodes ss) \<and>
       h \<notin> set (LeavingNodes ss) \<union> set (JoiningNodes ss) \<union> set (MovingNodes ss))"
proof (cases "\<exists>h. (h, LocalHostId ss) \<in> set (HostIdMap ss)")
  case True
  then obtain h where h: "(h, LocalHostId ss) \<in> set (HostIdMap ss)" by blast
  have only: "h' = h" if "(h', LocalHostId ss) \<in> set (HostIdMap ss)" for h'
    using that h assms by (metis distinct_map inj_onD prod.inject snd_conv)
  note local = LocalNode_nodes [OF assms h]
  have ex: "(\<exists>h'. (h', LocalHostId ss) \<in> set (HostIdMap ss) \<and> P h') \<longleftrightarrow> P h" for P
    using h only by blast
  show ?thesis unfolding ex
    by (simp add: cass_ReadinessCheck_def localNodeUpAndNormal_def nodetool_Status_def setsIntersect_2 setsIntersect_3 local)
      (auto simp: nodetool_node_def)
next
  case False
  then have none: "LocalNode (map (nodetool_node ss) (HostIdMap ss)) = None"
    by (auto simp: LocalNode_def find_first_None nodetool_node_def)
  from False show ?thesis
    by (simp add: cass_ReadinessCheck_def localNodeUpAndNormal_def nodetool_Status_def none)
qed

section \<open>Properties\<close>

text \<open>
  C25: the readiness probe of a Cassandra pilot passes exactly when the node answers, no node is in two
  statuses or two states at once, and the node the answer calls local is live and neither leaving,
  joining nor moving; a request that fails never passes. It is assumed that no answer lists one host id
  for two hosts.
\<close>

theorem cass_ready_iff:
  assumes "\<And>ss. answer = Inr ss \<Longrightarrow> distinct (map snd (HostIdMap ss))"
  shows "cass_ReadinessCheck answer = None \<longleftrightarrow> (\<exists>ss. answer = Inr ss \<and>
    set (LiveNodes ss) \<inter> set (UnreachableNodes ss) = {} \<and>
    set (LeavingNodes ss) \<inter> set (JoiningNodes ss) = {} \<and> set (LeavingNodes ss) \<inter> set (MovingNodes ss) = {} \<and>
    set (JoiningNodes ss) \<inter> set (MovingNodes ss) = {} \<and>
    (\<exists>h. (h, LocalHostId ss) \<in> set (HostIdMap ss) \<and> h \<in> set (LiveNodes ss) \<and>
       h \<notin> set (LeavingNodes ss) \<union> set (JoiningNodes ss) \<union> set (MovingNodes ss)))"
proof (cases answer)
  case (Inl err)
  then show ?thesis by (simp add: cass_ReadinessCheck_def localNodeUpAndNormal_def nodetool_Status_def)
next
  case (Inr ss)
  with cass_ready_answered [OF assms [OF Inr]] show ?thesis by simp
qed

theorem cass_ready_iff_witness:
  "cass_ReadinessCheck (Inr sample_ring) = None \<and> cass_ReadinessCheck (Inr (sample_ring\<lparr>LocalHostId := ''h2''\<rparr>)) \<noteq> None \<and>
   cass_ReadinessCheck (Inl (Errorf ''connection refused'' [])) \<noteq> None"
  using cass_ready_iff [of "Inr sample_ring"] cass_ready_iff [of "Inr (sample_ring\<lparr>LocalHostId := ''h2''\<rparr>)"]
    cass_ready_iff [of "Inl (Errorf ''connection refused'' [])"]
  by (simp add: sample_ring_def)

text \<open>
  A Pilot counts as drained, so that its replica may be scaled away, only on a fresh answer of its
  own Elasticsearch. After a synchronisation that was due, whatever the Pilot said before, it is
  drained only if the node answered and the last count in the answer is not positive; a missing
  client, an error or an empty answer leaves the number of documents unknown.
\<close>

lemma drained_only_if_reported:
  assumes "lastUpdate + nodeStatsUpdateFrequency \<le> t"
    and "es_syncFunc lastUpdate t stats info pilot = Return (err, pilot')" and "pilot_drained pilot'"
  shows "\<exists>nodes d. stats = Some (Inr nodes) \<and> nodes \<noteq> [] \<and> last nodes = Some d \<and> sint d \<le> 0"
proof -
  obtain d where d: "eps_Documents (es_status_of pilot') = Some d" "sint d \<le> 0"
    using pilot_drained_status [OF assms(3)] by blast
  obtain e p1 where s: "updateNodeStats stats (set_es_status (es_status_of pilot) pilot) = Return (e, p1)"
    and p: "pilot' = p1 \<or> updateNodeInfo info p1 = (err, pilot')"
    using assms(1,2) by (auto simp: es_syncFunc_def Let_def bind_outcome_Return split: if_splits option.splits)
  from p d(1) have "eps_Documents (es_status_of p1) = Some d" using updateNodeInfo_keeps by force
  from updateNodeStats_Documents [OF s this] d(2) show ?thesis by blast
qed

end
