(* ===== verification/Pilot_Options.thy ===== *)
theory Pilot_Options
  imports Database_Pilots
begin

text \<open>
  The options of the pilots (\<open>genericpilot/options.go\<close>, \<open>pilot/*/options.go\<close>): how they are completed
  and validated before a pilot runs, and the command that does so (\<open>cmd/pilot-*/pilot.go\<close>). A
  reference is kept as whether it is set. Flags, clients and informers are made by libraries; whether
  making them fails is an argument.
\<close>

record Options =
  has_KubernetesClient :: bool
  has_NavigatorClient :: bool
  has_SharedInformerFactory :: bool
  has_KubeSharedInformerFactory :: bool
  opt_PilotName :: string
  opt_PilotNamespace :: string
  has_CmdFunc :: bool
  has_Stdout :: bool
  has_Stderr :: bool
  has_StopSignal :: bool
  has_StopCh :: bool
  has_Hooks :: bool
  has_SyncFunc :: bool

text \<open>A second signal handler panics, as it closes a closed channel.\<close>

definition SetupSignalHandler :: "bool \<Rightarrow> unit outcome" where
  "SetupSignalHandler installed = (if installed then Panic else Return ())"

definition Options_Complete ::
  "bool \<Rightarrow> go_error + string \<Rightarrow> Options \<Rightarrow> (go_error option \<times> Options) outcome" where
  "Options_Complete handlerInstalled hostname o0 =
     (case (if opt_PilotName o0 = '''' then hostname else Inr (opt_PilotName o0)) of
        Inl err \<Rightarrow> Return (Some (Errorf ''error obtaining pilot hostname: %s'' [AErr err]), o0\<lparr>opt_PilotName := ''''\<rparr>)
      | Inr name \<Rightarrow>
          bind_outcome (if has_StopCh o0 then Return () else SetupSignalHandler handlerInstalled) (\<lambda>_.
            Return (None, o0\<lparr>opt_PilotName := name, has_StopCh := True, has_Stdout := True, has_Stderr := True,
              has_StopSignal := True, has_Hooks := True\<rparr>)))"

definition require :: "bool \<Rightarrow> string \<Rightarrow> go_error list" where
  "require ok message = (if ok then [] else [Errorf message []])"

definition Options_Validate :: "Options \<Rightarrow> go_error list" where
  "Options_Validate opts =
     require (has_KubernetesClient opts) ''kubernetes client must be specified'' @
     require (has_NavigatorClient opts) ''navigator client must be specified'' @
     require (has_SharedInformerFactory opts) ''shared informer factory must be specified'' @
     require (has_KubeSharedInformerFactory opts) ''kube shared informer factory must be specified'' @
     require (has_CmdFunc opts) ''cmd func must be specified'' @
     require (has_Stderr opts) ''stderr must be specified'' @
     require (has_Stdout opts) ''stdout must be specified'' @
     require (opt_PilotName opts \<noteq> '''') ''pilot name must be specified'' @
     require (has_SyncFunc opts) ''syncfunc must be specified'' @
     require (has_Hooks opts) ''hooks must not be nil'' @
     require (opt_PilotNamespace opts \<noteq> '''') ''pilot namespace must be specified''"

record ElasticsearchOptions =
  eo_MasterURL :: string
  eo_Binary :: string
  eo_PluginBinary :: string

definition ElasticsearchOptions_Validate :: "ElasticsearchOptions \<Rightarrow> go_error list" where
  "ElasticsearchOptions_Validate e =
     require (eo_MasterURL e \<noteq> '''') ''elasticsearch master URL must be specified'' @
     require (eo_Binary e \<noteq> '''') ''elasticsearch binary must be specified'' @
     require (eo_PluginBinary e \<noteq> '''') ''elasticsearch plugin binary must be specified''"

text \<open>
  \<open>Complete\<close> of a database's options: the errors of the calls before the options are set, in order,
  then the options the database sets, then the generic \<open>Complete\<close>.
\<close>

definition db_options :: "Options \<Rightarrow> Options" where
  "db_options opts = opts\<lparr>has_KubernetesClient := True, has_NavigatorClient := True, has_SharedInformerFactory := True,
     has_KubeSharedInformerFactory := True, has_CmdFunc := True, has_SyncFunc := True, has_Hooks := True\<rparr>"

definition PilotOptions_Complete ::
  "go_error option list \<Rightarrow> bool \<Rightarrow> go_error + string \<Rightarrow> Options \<Rightarrow> (go_error option \<times> Options) outcome" where
  "PilotOptions_Complete calls handlerInstalled hostname opts =
     (case CombineChecks calls of
        Some err \<Rightarrow> Return (Some err, opts)
      | None \<Rightarrow> Options_Complete handlerInstalled hostname (db_options opts))"

definition es_PilotOptions_Validate :: "ElasticsearchOptions \<Rightarrow> Options \<Rightarrow> go_error option" where
  "es_PilotOptions_Validate e opts =
     NewAggregate (map Some (ElasticsearchOptions_Validate e @ Options_Validate opts))"

definition cass_PilotOptions_Validate :: "Options \<Rightarrow> go_error option" where
  "cass_PilotOptions_Validate opts = NewAggregate (map Some (Options_Validate opts))"

text \<open>The command up to \<open>Run\<close>: the first error, or the options the pilot runs with.\<close>

definition es_command ::
  "go_error option list \<Rightarrow> bool \<Rightarrow> go_error + string \<Rightarrow> ElasticsearchOptions \<Rightarrow> Options \<Rightarrow> (go_error + Options) outcome" where
  "es_command calls handlerInstalled hostname e opts =
     bind_outcome (PilotOptions_Complete calls handlerInstalled hostname opts) (\<lambda>(err, done).
       Return (case err of
         Some e' \<Rightarrow> Inl e'
       | None \<Rightarrow> (case es_PilotOptions_Validate e done of Some e' \<Rightarrow> Inl e' | None \<Rightarrow> Inr done)))"

lemma require_Nil [simp]: "require ok m = [] \<longleftrightarrow> ok"
  by (simp add: require_def)

lemma NewAggregate_Some_map: "NewAggregate (map Some es) = None \<longleftrightarrow> es = []"
  by (auto simp: NewAggregate_None)

lemma Options_Validate_Nil:
  "Options_Validate opts = [] \<longleftrightarrow>
     has_KubernetesClient opts \<and> has_NavigatorClient opts \<and> has_SharedInformerFactory opts \<and>
     has_KubeSharedInformerFactory opts \<and> has_CmdFunc opts \<and> has_Stderr opts \<and> has_Stdout opts \<and>
     opt_PilotName opts \<noteq> '''' \<and> has_SyncFunc opts \<and> has_Hooks opts \<and> opt_PilotNamespace opts \<noteq> ''''"
  by (simp add: Options_Validate_def)

text \<open>After completion only the names can be missing.\<close>

lemma completed_Validate:
  assumes "PilotOptions_Complete calls i hostname opts = Return (None, opts')"
  shows "Options_Validate opts' = [] \<longleftrightarrow> opt_PilotName opts' \<noteq> '''' \<and> opt_PilotNamespace opts \<noteq> ''''"
  using assms
  by (auto simp: PilotOptions_Complete_def Options_Complete_def db_options_def bind_outcome_Return Options_Validate_Nil
      split: option.splits sum.splits if_splits)

text \<open>The command installs the handler itself and passes its channel on, so it never panics.\<close>

lemma es_command_returns: "has_StopCh opts \<Longrightarrow> es_command calls i hostname e opts \<noteq> Panic"
  by (simp add: es_command_def PilotOptions_Complete_def Options_Complete_def db_options_def
      split: option.split sum.split prod.split)

lemma es_command_runs:
  assumes "es_command calls i hostname e opts = Return (Inr opts')"
  shows "eo_MasterURL e \<noteq> ''''" "eo_Binary e \<noteq> ''''" "eo_PluginBinary e \<noteq> ''''"
    "opt_PilotName opts' \<noteq> ''''" "opt_PilotNamespace opts' \<noteq> ''''" "has_SyncFunc opts'" "has_Hooks opts'"
proof -
  have "ElasticsearchOptions_Validate e = []" "Options_Validate opts' = []"
    using assms
    by (auto simp: es_command_def bind_outcome_Return es_PilotOptions_Validate_def NewAggregate_Some_map
        simp del: map_append split: option.splits)
  then show "eo_MasterURL e \<noteq> ''''" "eo_Binary e \<noteq> ''''" "eo_PluginBinary e \<noteq> ''''"
    "opt_PilotName opts' \<noteq> ''''" "opt_PilotNamespace opts' \<noteq> ''''" "has_SyncFunc opts'" "has_Hooks opts'"
    by (simp_all add: ElasticsearchOptions_Validate_def Options_Validate_Nil)
qed

end
