(* ===== verification/Pilot_Runtime.thy ===== *)
theory Pilot_Runtime
  imports Pilot_Options Cassandra_Correct
begin

text \<open>
  How a running pilot meets the world: the client of the Jolokia agent
  (\<open>cassandra/nodetool/client/client.go\<close>), the HTTP listeners of the probes
  (\<open>genericpilot/healthz.go\<close>, \<open>genericpilot/probe/listen.go\<close>) against the probes the controllers put
  into the pods, the configuration file a Cassandra pilot rewrites (\<open>NewPilot\<close> in
  \<open>pilot/cassandra/v3/pilot.go\<close>), and the end of a pilot (\<open>Run\<close> in \<open>genericpilot/genericpilot.go\<close>).
\<close>

section \<open>Client of the storage service\<close>

text \<open>
  The calls of the HTTP and JSON libraries are arguments: whether the request can be made, the answer
  with its status and its body, and the decoding of a body, whose value may be missing.
\<close>

definition client_StorageService ::
  "string \<Rightarrow> go_error option \<Rightarrow> go_error + (int \<times> (go_error + string)) \<Rightarrow>
   (string \<Rightarrow> go_error + StorageService option) \<Rightarrow> go_error + StorageService" where
  "client_StorageService url request answer unmarshal =
     (case request of
        Some err \<Rightarrow> Inl (Errorf ''failed to instantiate HTTP request: %v'' [AErr err])
      | None \<Rightarrow>
          (case answer of
             Inl err \<Rightarrow> Inl (Errorf ''failed to send HTTP request: %v'' [AErr err])
           | Inr (statusCode, read) \<Rightarrow>
               if statusCode \<noteq> 200
               then Inl (Errorf (''unexpected server response code for request %s. '' @ ''Expected %d. Got %d.'')
                      [AStr url, AInt 200, AInt statusCode])
               else (case read of
                       Inl err \<Rightarrow> Inl (Errorf ''failed to read response body: %v'' [AErr err])
                     | Inr body \<Rightarrow>
                         (case unmarshal body of
                            Inl err \<Rightarrow> Inl (Errorf ''failed to unmarshal JSON response: %v'' [AErr err])
                          | Inr None \<Rightarrow> Inl (Errorf ''the response had an empty Jolokia value'' [])
                          | Inr (Some ss) \<Rightarrow> Inr ss))))"

lemma client_StorageService_Inr:
  "client_StorageService url request answer unmarshal = Inr ss \<longleftrightarrow>
     request = None \<and> (\<exists>body. answer = Inr (200, Inr body) \<and> unmarshal body = Inr (Some ss))"
  by (auto simp: client_StorageService_def split: option.splits sum.splits prod.splits if_splits)

text \<open>So a Cassandra pod without a good answer is neither ready nor live.\<close>

lemma cass_checks_need_answer:
  assumes "cass_LivenessCheck (client_StorageService url request answer unmarshal) = None"
  shows "\<exists>body ss. answer = Inr (200, Inr body) \<and> unmarshal body = Inr (Some ss)"
proof (cases "client_StorageService url request answer unmarshal")
  case (Inl err)
  then show ?thesis using assms by (simp add: cass_LivenessCheck_def nodetool_Status_def)
next
  case (Inr ss)
  then show ?thesis unfolding client_StorageService_Inr by blast
qed

section \<open>Probes\<close>

text \<open>A listener answers every path with the outcome of its check; a status that is not written is 200.\<close>

definition probe_response :: "go_error option \<Rightarrow> int \<times> go_error option" where
  "probe_response check = (case check of None \<Rightarrow> (200, None) | Some err \<Rightarrow> (500, Some err))"

definition serveHealthz :: "go_error option \<Rightarrow> go_error option \<Rightarrow> (int \<times> go_error option) list" where
  "serveHealthz readiness liveness = [(12001, readiness), (12000, liveness)]"

text \<open>
  An HTTP probe succeeds on a status of at least 200 and below 400; without a listener on its port it
  fails, and a container without a probe passes.
\<close>

definition probe_passes :: "(int \<times> go_error option) list \<Rightarrow> Probe option \<Rightarrow> bool" where
  "probe_passes listeners probe =
     (case probe of
        None \<Rightarrow> True
      | Some p \<Rightarrow> (case map_of listeners (pr_Port p) of
                      None \<Rightarrow> False
                    | Some check \<Rightarrow> 200 \<le> fst (probe_response check) \<and> fst (probe_response check) < 400))"

lemma probe_response_passes [simp]:
  "200 \<le> fst (probe_response check) \<and> fst (probe_response check) < 400 \<longleftrightarrow> check = None"
  by (simp add: probe_response_def split: option.split)

definition pod_containers :: "StatefulSet \<Rightarrow> Container list" where
  "pod_containers ss = ps_Containers (pt_Spec (sss_Template (ss_Spec ss)))"

lemma es_containers:
  "nodePoolStatefulSet c np = Inr ss \<Longrightarrow> k \<in> set (pod_containers ss) \<Longrightarrow> \<exists>img. k = es_Container c np img"
  by (auto simp: nodePoolStatefulSet_def elasticsearchPodTemplateSpec_def pod_containers_def split: sum.splits)

lemma cass_containers:
  "StatefulSetForCluster cluster np = Return ss \<Longrightarrow> k \<in> set (pod_containers ss) \<Longrightarrow> \<exists>img. k = cass_Container cluster np img"
  by (auto simp: StatefulSetForCluster_def cass_PodTemplate_def pod_containers_def bind_outcome_Return Let_def)

text \<open>In the pods of an Elasticsearch node pool each probe asks for the check of its name.\<close>

lemma es_probes_match:
  assumes "nodePoolStatefulSet c np = Inr ss" and "k \<in> set (pod_containers ss)"
    and "es_ReadinessCheck health = Return ready"
  shows "probe_passes (serveHealthz ready es_LivenessCheck) (c_ReadinessProbe k) \<longleftrightarrow> ready = None"
    and "probe_passes (serveHealthz ready es_LivenessCheck) (c_LivenessProbe k)"
  using es_containers [OF assms(1,2)]
  by (auto simp: es_Container_def es_ReadinessProbe_def es_LivenessProbe_def probe_passes_def serveHealthz_def
      es_LivenessCheck_def)

section \<open>Configuration of Cassandra\<close>

text \<open>
  \<open>strings.Replace\<close> of every occurrence, for a text to look for that is not empty, and what
  \<open>NewPilot\<close> does with it: it reads the configuration file, puts another seed provider into it and
  writes it back. The result is the error and what was handed to the write.
\<close>

definition starts_with :: "string \<Rightarrow> string \<Rightarrow> bool" where
  "starts_with t s \<longleftrightarrow> take (length t) s = t"

function replace_all :: "string \<Rightarrow> string \<Rightarrow> string \<Rightarrow> string" where
  "replace_all old new [] = []"
| "replace_all old new (c # s) =
     (if old \<noteq> [] \<and> starts_with old (c # s) then new @ replace_all old new (drop (length old) (c # s))
      else c # replace_all old new s)"
  by pat_completeness auto
termination by (relation "measure (\<lambda>(old, new, s). length s)") auto

definition SimpleSeedProvider :: string where
  "SimpleSeedProvider = ''org.apache.cassandra.locator.SimpleSeedProvider''"

definition KubernetesSeedProvider :: string where
  "KubernetesSeedProvider = ''io.jetstack.cassandra.KubernetesSeedProvider''"

definition cass_NewPilot :: "go_error + string \<Rightarrow> (string \<Rightarrow> go_error option) \<Rightarrow> go_error option \<times> string option" where
  "cass_NewPilot read write =
     (case read of
        Inl err \<Rightarrow> (Some err, None)
      | Inr contents \<Rightarrow>
          (let newContents = replace_all SimpleSeedProvider KubernetesSeedProvider contents
           in (write newContents, Some newContents)))"

definition cass_CmdFunc :: string where
  "cass_CmdFunc = ''/docker-entrypoint.sh''"

definition cass_Hooks :: "string list" where
  "cass_Hooks = []"

text \<open>
  A replacement that can neither make nor break an occurrence at its edges leaves none, so replacing
  again changes nothing.
\<close>

fun occurs :: "string \<Rightarrow> string \<Rightarrow> bool" where
  "occurs t [] = (t = [])"
| "occurs t (c # s) \<longleftrightarrow> starts_with t (c # s) \<or> occurs t s"

fun tails :: "string \<Rightarrow> string list" where
  "tails [] = []"
| "tails (c # s) = (c # s) # tails s"

definition clean_replacement :: "string \<Rightarrow> string \<Rightarrow> bool" where
  "clean_replacement old new \<longleftrightarrow> old \<noteq> [] \<and> new \<noteq> [] \<and>
     list_all (\<lambda>t. \<not> starts_with t old \<and> \<not> starts_with old t) (tails new) \<and>
     list_all (\<lambda>t. \<not> starts_with t new \<and> \<not> starts_with new t) (tails old)"

lemma starts_with_append:
  "starts_with t (a @ b) \<longleftrightarrow> starts_with t a \<or> (starts_with a t \<and> starts_with (drop (length a) t) b)"
proof (induction a arbitrary: t)
  case (Cons c a)
  then show ?case by (cases t) (auto simp: starts_with_def)
qed (auto simp: starts_with_def)

lemma starts_with_Cons [simp]:
  "starts_with [] s" "\<not> starts_with (d # t) []" "starts_with (d # t) (c # s) \<longleftrightarrow> d = c \<and> starts_with t s"
  by (auto simp: starts_with_def)

lemma tails_next: "c # u \<in> set (tails s) \<Longrightarrow> u \<noteq> [] \<Longrightarrow> u \<in> set (tails s)"
proof (induction s)
  case (Cons d s)
  then show ?case by (cases s) auto
qed simp

lemma occurs_append:
  "occurs t (a @ b) \<Longrightarrow> t \<noteq> [] \<Longrightarrow> occurs t b \<or> (\<exists>x\<in>set (tails a). starts_with t (x @ b))"
  by (induction a) auto

lemma clean_replacementD:
  assumes "clean_replacement old new"
  shows "old \<noteq> []" "new \<noteq> []"
    "x \<in> set (tails new) \<Longrightarrow> \<not> starts_with x old" "x \<in> set (tails new) \<Longrightarrow> \<not> starts_with old x"
    "x \<in> set (tails old) \<Longrightarrow> \<not> starts_with x new" "x \<in> set (tails old) \<Longrightarrow> \<not> starts_with new x"
  using assms by (auto simp: clean_replacement_def list_all_iff)

text \<open>What a replaced text starts with, as far as it is a tail of \<open>old\<close>, the text started with before.\<close>

lemma replace_all_starts:
  assumes "clean_replacement old new" "t = [] \<or> t \<in> set (tails old)" "starts_with t (replace_all old new s)"
  shows "starts_with t s"
  using assms
proof (induction old new s arbitrary: t rule: replace_all.induct)
  case (2 old new c s)
  show ?case
  proof (cases t)
    case (Cons d u)
    with 2 have t: "t \<in> set (tails old)" by auto
    show ?thesis
    proof (cases "starts_with old (c # s)")
      case True
      with 2 have "starts_with t (new @ replace_all old new (drop (length old) (c # s)))"
        by (simp add: clean_replacementD(1))
      then show ?thesis using clean_replacementD(5,6) [OF 2(3) t] by (simp add: starts_with_append)
    next
      case False
      with 2(5) Cons have "d = c" "starts_with u (replace_all old new s)" by auto
      moreover have "u = [] \<or> u \<in> set (tails old)"
        using t Cons by (cases u) (auto dest: tails_next)
      ultimately show ?thesis using 2(2) [of u] False 2(3) Cons by auto
    qed
  qed simp
qed simp

lemma replace_all_clean:
  assumes "clean_replacement old new"
  shows "\<not> occurs old (replace_all old new s)"
  using assms
proof (induction old new s rule: replace_all.induct)
  case (1 old new)
  then show ?case by (simp add: clean_replacementD(1))
next
  case (2 old new c s)
  show ?case
  proof (cases "starts_with old (c # s)")
    case True
    let ?r = "replace_all old new (drop (length old) (c # s))"
    have "\<not> occurs old ?r" using 2(1,3) True by (simp add: clean_replacementD(1) del: drop_Cons')
    moreover have "\<not> starts_with old (x @ ?r)" if "x \<in> set (tails new)" for x
      using clean_replacementD(3,4) [OF 2(3) that] by (simp add: starts_with_append)
    ultimately have "\<not> occurs old (new @ ?r)"
      using occurs_append [of old new ?r] clean_replacementD(1) [OF 2(3)] by blast
    then show ?thesis using True by (simp add: clean_replacementD(1) [OF 2(3)])
  next
    case False
    obtain d u where old: "old = d # u" using clean_replacementD(1) [OF 2(3)] by (cases old) auto
    have "\<not> starts_with old (c # replace_all old new s)"
    proof
      assume "starts_with old (c # replace_all old new s)"
      then have "d = c" "starts_with u (replace_all old new s)" using old by auto
      moreover have "u = [] \<or> u \<in> set (tails old)" using old by (cases u) auto
      ultimately have "starts_with u s" "d = c" using replace_all_starts [OF 2(3)] by auto
      with False old show False by simp
    qed
    then show ?thesis using False 2(2,3) by simp
  qed
qed

lemma replace_all_none: "\<not> occurs old s \<Longrightarrow> replace_all old new s = s"
  by (induction s) auto

lemma seed_provider_clean: "clean_replacement SimpleSeedProvider KubernetesSeedProvider"
  by code_simp

text \<open>
  After \<open>NewPilot\<close> the file does not name the simple seed provider, and the next start of the pilot
  writes the file as it is.
\<close>

lemma cass_NewPilot_config:
  assumes "cass_NewPilot (Inr contents) write = (err, Some written)"
  shows "\<not> occurs SimpleSeedProvider written" "cass_NewPilot (Inr written) write = (err, Some written)"
proof -
  have w: "written = replace_all SimpleSeedProvider KubernetesSeedProvider contents" "err = write written"
    using assms by (auto simp: cass_NewPilot_def Let_def)
  show n: "\<not> occurs SimpleSeedProvider written" unfolding w(1) by (rule replace_all_clean [OF seed_provider_clean])
  show "cass_NewPilot (Inr written) write = (err, Some written)"
    by (simp add: cass_NewPilot_def replace_all_none [OF n] w(2))
qed

section \<open>The end of a pilot\<close>

text \<open>What ends the wait: the stop signal, or the end of the process, the control loop or the elector.\<close>

datatype run_event = StopSignal | ProcessExited | ControllerEnded "go_error option" | ElectorEnded "go_error option"

definition run_error :: "generic_pilot \<Rightarrow> run_event \<Rightarrow> go_error option" where
  "run_error g ev =
     (case ev of
        StopSignal \<Rightarrow> None
      | ProcessExited \<Rightarrow> (case gp_process g of None \<Rightarrow> None | Some p \<Rightarrow> proc_doneErr p)
      | ControllerEnded err \<Rightarrow> err
      | ElectorEnded err \<Rightarrow> err)"

text \<open>\<open>None\<close> if the process never ends after the stop signal. The error of the event is overwritten.\<close>

definition gp_Run ::
  "env \<Rightarrow> world \<Rightarrow> pilot_controller \<Rightarrow> pilot_options \<Rightarrow> generic_pilot \<Rightarrow> run_event \<Rightarrow> (go_error option \<times> generic_pilot) option" where
  "gp_Run env w c opts g ev =
     (let err = run_error g ev
      in case ThisPilot env w c of
           Inl err \<Rightarrow> Some (Some err, g)
         | Inr thisPilot \<Rightarrow> gp_stop opts thisPilot g)"

text \<open>
  A process that failed is no longer running, so the pilot then returns without an error, and the
  container ends as if it had succeeded.
\<close>

lemma failed_process_not_reported:
  assumes "gp_process g = Some p" "proc_State p" "proc_doneErr p = Some err" "ThisPilot env w c = Inr pilot"
  shows "run_error g ProcessExited = Some err"
    and "gp_Run env w c opts g ProcessExited = Some (None, g\<lparr>gp_shutdown := True\<rparr>)"
  using assms by (simp_all add: run_error_def gp_Run_def gp_stop_def IsRunning_def Running_def Let_def)

section \<open>Properties\<close>

text \<open>
  C34: in the pods of a Cassandra node pool the probes ask for each other's check. The pod is ready as
  soon as its node answers, also while it joins or leaves the ring, and it is restarted when the node
  answers that it is not up and normal.
\<close>

theorem cass_probes_swapped:
  assumes "StatefulSetForCluster cluster np = Return ss" and "k \<in> set (pod_containers ss)"
  shows "(probe_passes (serveHealthz (cass_ReadinessCheck answer) (cass_LivenessCheck answer)) (c_ReadinessProbe k) \<longleftrightarrow>
            cass_LivenessCheck answer = None) \<and>
         (probe_passes (serveHealthz (cass_ReadinessCheck answer) (cass_LivenessCheck answer)) (c_LivenessProbe k) \<longleftrightarrow>
            cass_ReadinessCheck answer = None)"
  using cass_containers [OF assms]
  by (auto simp: cass_Container_def cass_ReadinessProbe_def cass_LivenessProbe_def probe_passes_def serveHealthz_def)

text \<open>A node that is leaving the ring: its pod is ready and fails its liveness probe.\<close>

definition leaving_ring :: StorageService where
  "leaving_ring = sample_ring\<lparr>LocalHostId := ''h2''\<rparr>"

theorem cass_probes_swapped_witness:
  "\<exists>ss k. StatefulSetForCluster sample_x (sample_pool ''a'' (Some 2)) = Return ss \<and> k \<in> set (pod_containers ss) \<and>
    probe_passes (serveHealthz (cass_ReadinessCheck (Inr leaving_ring)) (cass_LivenessCheck (Inr leaving_ring))) (c_ReadinessProbe k) \<and>
    \<not> probe_passes (serveHealthz (cass_ReadinessCheck (Inr leaving_ring)) (cass_LivenessCheck (Inr leaving_ring))) (c_LivenessProbe k)"
proof -
  have "case cassImageToUse (cass_Spec sample_x) of Return img \<Rightarrow> True | Panic \<Rightarrow> False" by code_simp
  then obtain img where "cassImageToUse (cass_Spec sample_x) = Return img" by (auto split: outcome.splits)
  then obtain ss k where ss: "StatefulSetForCluster sample_x (sample_pool ''a'' (Some 2)) = Return ss" "k \<in> set (pod_containers ss)"
    by (simp add: StatefulSetForCluster_def pod_containers_def cass_PodTemplate_def Let_def)
  have "cass_LivenessCheck (Inr leaving_ring) = None" "cass_ReadinessCheck (Inr leaving_ring) \<noteq> None"
    by (simp_all add: leaving_ring_def sample_ring_def cass_LivenessCheck_def cass_ReadinessCheck_def
        localNodeUpAndNormal_def nodetool_Status_def setsIntersect_2 setsIntersect_3 LocalNode_def nodetool_node_def)
  with ss cass_probes_swapped [OF ss, of "Inr leaving_ring"] show ?thesis by blast
qed

end
