(* ===== verification/API_Server.thy ===== *)
theory API_Server
  imports Validation_Correct
begin

text \<open>
  What the API server of Navigator adds to the generic one: the strategies of the registry
  (\<open>registry/navigator/*/strategy.go\<close>), by which a resource and its status are created and updated, and
  the admission plugin for the life cycle of namespaces
  (\<open>plugin/pkg/admission/namespace/lifecycle/admission.go\<close>).
\<close>

section \<open>Strategies\<close>

text \<open>
  \<open>other_meta\<close> is the part of the metadata validation that is a parameter of the validation. The
  objects given to a strategy have its type, so the failures of the type assertions do not arise.
\<close>

definition es_strategy_Validate where
  "es_strategy_Validate other_meta esc = ValidateElasticsearchCluster other_meta esc"

definition es_strategy_ValidateUpdate where
  "es_strategy_ValidateUpdate other_meta new old = ValidateElasticsearchClusterUpdate other_meta old new"

definition es_status_PrepareForUpdate :: "nElasticsearchCluster \<Rightarrow> nElasticsearchCluster \<Rightarrow> nElasticsearchCluster" where
  "es_status_PrepareForUpdate new old = new\<lparr>nesc_Spec := nesc_Spec old\<rparr>"

definition es_status_ValidateUpdate :: "nElasticsearchCluster \<Rightarrow> nElasticsearchCluster \<Rightarrow> field_error list" where
  "es_status_ValidateUpdate new old = []"

definition cass_strategy_Validate where
  "cass_strategy_Validate other_meta c = ValidateCassandraCluster other_meta c"

definition cass_strategy_ValidateUpdate where
  "cass_strategy_ValidateUpdate other_meta new old = ValidateCassandraClusterUpdate other_meta old new"

definition cass_status_PrepareForUpdate :: "nCassandraCluster \<Rightarrow> nCassandraCluster \<Rightarrow> nCassandraCluster" where
  "cass_status_PrepareForUpdate new old = new\<lparr>ncass_Spec := ncass_Spec old\<rparr>"

definition cass_status_ValidateUpdate :: "nCassandraCluster \<Rightarrow> nCassandraCluster \<Rightarrow> field_error list" where
  "cass_status_ValidateUpdate new old = []"

text \<open>The specification of a Pilot is empty, so its status strategy changes nothing.\<close>

definition pilot_strategy_Validate :: "nPilot \<Rightarrow> field_error list" where
  "pilot_strategy_Validate p = []"

definition pilot_strategy_ValidateUpdate :: "nPilot \<Rightarrow> nPilot \<Rightarrow> field_error list" where
  "pilot_strategy_ValidateUpdate new old = []"

text \<open>
  The status strategies protect the specification, not the metadata: whatever the request carries in
  its labels or annotations is stored.
\<close>

lemma status_PrepareForUpdate_Spec:
  "nesc_Spec (es_status_PrepareForUpdate new old) = nesc_Spec old"
  "nesc_ObjectMeta (es_status_PrepareForUpdate new old) = nesc_ObjectMeta new"
  "ncass_Spec (cass_status_PrepareForUpdate c d) = ncass_Spec d"
  "ncass_ObjectMeta (cass_status_PrepareForUpdate c d) = ncass_ObjectMeta c"
  by (simp_all add: es_status_PrepareForUpdate_def cass_status_PrepareForUpdate_def)

section \<open>Namespace life cycle\<close>

datatype operation = Create | Update | Delete | Connect

text \<open>
  \<open>Admit\<close> over the answers it gets: whether the caches became ready, the cached namespace when first
  read and after the wait, and the namespace read from the API. A namespace is its phase.
\<close>

definition NamespaceTerminating :: string where
  "NamespaceTerminating = ''Terminating''"

definition NewInternalError :: "go_error \<Rightarrow> go_error" where
  "NewInternalError err = StatusMessage OtherReason err"

definition NewForbidden :: "go_error \<Rightarrow> go_error" where
  "NewForbidden err = StatusMessage OtherReason err"

definition check_phase :: "string \<Rightarrow> operation \<Rightarrow> string \<Rightarrow> go_error option" where
  "check_phase ns op phase =
     (if op = Create
      then if phase \<noteq> NamespaceTerminating then None
           else Some (NewForbidden (Errorf
             ''unable to create new content in namespace %q because it is being terminated'' [AStr ns]))
      else None)"

definition live_lookup :: "string \<Rightarrow> operation \<Rightarrow> go_error + string \<Rightarrow> go_error option" where
  "live_lookup ns op live =
     (case live of
        Inl err \<Rightarrow> if IsNotFound err then Some err else Some (NewInternalError err)
      | Inr phase \<Rightarrow> check_phase ns op phase)"

definition Admit ::
  "bool \<Rightarrow> go_error + string \<Rightarrow> go_error + string \<Rightarrow> go_error + string \<Rightarrow> string \<Rightarrow> operation \<Rightarrow> go_error option" where
  "Admit ready cached waited live ns op =
     (if \<not> ready then Some (NewForbidden (Errorf ''not yet ready to handle request'' []))
      else case cached of
        Inl err \<Rightarrow>
          if \<not> IsNotFound err then Some (NewInternalError err)
          else if length ns = 0 then None
          else if op = Create
          then (case waited of
                  Inl e \<Rightarrow> if IsNotFound e then live_lookup ns op live else Some (NewInternalError e)
                | Inr phase \<Rightarrow> check_phase ns op phase)
          else live_lookup ns op live
      | Inr phase \<Rightarrow> if length ns = 0 then None else check_phase ns op phase)"

lemma check_phase_Create: "check_phase ns Create phase = None \<longleftrightarrow> phase \<noteq> NamespaceTerminating"
  by (simp add: check_phase_def)

lemma live_lookup_None:
  "live_lookup ns op live = None \<longleftrightarrow> (\<exists>phase. live = Inr phase \<and> (op = Create \<longrightarrow> phase \<noteq> NamespaceTerminating))"
  by (auto simp: live_lookup_def check_phase_def split: sum.splits)

section \<open>Properties\<close>

text \<open>
  C26: an object is admitted into a namespace only if the namespace was found, in the cache, in the
  cache after the wait, or at the API server; and a new object only if the namespace found was not
  being terminated.
\<close>

theorem admitted_namespace_exists:
  assumes "Admit ready cached waited live ns op = None" and "ns \<noteq> ''''"
  shows "\<exists>phase. (cached = Inr phase \<or> (op = Create \<and> waited = Inr phase) \<or> live = Inr phase) \<and>
    (op = Create \<longrightarrow> phase \<noteq> NamespaceTerminating)"
  using assms
  by (auto simp: Admit_def check_phase_def live_lookup_None split: if_splits sum.splits)

theorem admitted_namespace_exists_witness:
  "\<exists>phase. (Inl (StatusError NotFound ''namespace'' ''ns'') = Inr phase \<or>
      (Create = Create \<and> Inl (StatusError NotFound ''namespace'' ''ns'') = Inr phase) \<or> Inr ''Active'' = (Inr phase :: go_error + string)) \<and>
    (Create = Create \<longrightarrow> phase \<noteq> NamespaceTerminating)"
  by (rule admitted_namespace_exists [of True _ _ _ "''ns''"])
    (simp_all add: Admit_def live_lookup_def check_phase_def NamespaceTerminating_def)

end
