(* ===== verification/Queue_Refinement.thy ===== *)
theory Queue_Refinement
  imports Work_Queue
begin

text \<open>
  The promise of the work queue, without its list: sets of keys that are to be processed, delayed and
  being processed. A key may be started when it is to be processed and is not being processed. The
  queue with its workers refines this: every run of it is a run of the sets, and it makes a worker
  wait only when no key may be started.
\<close>

section \<open>Specification\<close>

record key_sets =
  ks_pending :: "string set"
  ks_delayed :: "string set"
  ks_active :: "string set"
  ks_closed :: bool

inductive ks_step :: "key_sets \<Rightarrow> string list \<Rightarrow> key_sets \<Rightarrow> bool" where
  nothing: "ks_step a [] a"
| mark: "\<not> ks_closed a \<Longrightarrow> ks_step a [] (a\<lparr>ks_pending := insert k (ks_pending a)\<rparr>)"
| delay: "\<not> ks_closed a \<Longrightarrow> ks_step a [] (a\<lparr>ks_delayed := insert k (ks_delayed a)\<rparr>)"
| due: "k \<in> ks_delayed a \<Longrightarrow> \<not> ks_closed a \<Longrightarrow>
    ks_step a [] (a\<lparr>ks_delayed := ks_delayed a - {k}, ks_pending := insert k (ks_pending a)\<rparr>)"
| drop: "k \<in> ks_delayed a \<Longrightarrow> ks_closed a \<Longrightarrow> ks_step a [] (a\<lparr>ks_delayed := ks_delayed a - {k}\<rparr>)"
| begin_key: "k \<in> ks_pending a \<Longrightarrow> k \<notin> ks_active a \<Longrightarrow>
    ks_step a [k] (a\<lparr>ks_pending := ks_pending a - {k}, ks_active := insert k (ks_active a)\<rparr>)"
| end_key: "k \<in> ks_active a \<Longrightarrow> ks_step a [] (a\<lparr>ks_active := ks_active a - {k}\<rparr>)"
| retry: "k \<in> ks_active a \<Longrightarrow> \<not> ks_closed a \<Longrightarrow>
    ks_step a [] (a\<lparr>ks_active := ks_active a - {k}, ks_delayed := insert k (ks_delayed a)\<rparr>)"
| close: "ks_step a [] (a\<lparr>ks_closed := True\<rparr>)"

inductive ks_steps :: "key_sets \<Rightarrow> string list \<Rightarrow> key_sets \<Rightarrow> bool" where
  none: "ks_steps a [] a"
| more: "ks_steps a ks b \<Longrightarrow> ks_step b ls c \<Longrightarrow> ks_steps a (ks @ ls) c"

definition ks_start :: key_sets where
  "ks_start = \<lparr>ks_pending = {}, ks_delayed = {}, ks_active = {}, ks_closed = False\<rparr>"

section \<open>Abstraction\<close>

definition abs_queue :: "wq_state \<Rightarrow> key_sets" where
  "abs_queue s = \<lparr>ks_pending = wq_dirty (st_queue s), ks_delayed = wq_waiting (st_queue s),
     ks_active = wq_processing (st_queue s), ks_closed = wq_shuttingDown (st_queue s)\<rparr>"

lemma abs_start: "abs_queue wq_start = ks_start"
  by (simp add: abs_queue_def wq_start_def wq_New_def ks_start_def)

lemma abs_Add:
  "abs_queue (s\<lparr>st_queue := wq_Add k (st_queue s)\<rparr>) =
     (if ks_closed (abs_queue s) then abs_queue s
      else (abs_queue s)\<lparr>ks_pending := insert k (ks_pending (abs_queue s))\<rparr>)"
  by (auto simp: abs_queue_def wq_Add_def Let_def)

lemma abs_AddRateLimited:
  "abs_queue (s\<lparr>st_queue := wq_AddRateLimited b k (st_queue s)\<rparr>) =
     (if ks_closed (abs_queue s) then abs_queue s
      else (abs_queue s)\<lparr>ks_delayed := insert k (ks_delayed (abs_queue s))\<rparr>)"
  by (auto simp: abs_queue_def wq_AddRateLimited_waits Let_def)

lemma abs_ready:
  "abs_queue (s\<lparr>st_queue := wq_ready k (st_queue s)\<rparr>) =
     (let a = (abs_queue s)\<lparr>ks_delayed := ks_delayed (abs_queue s) - {k}\<rparr>
      in if ks_closed a then a else a\<lparr>ks_pending := insert k (ks_pending a)\<rparr>)"
  by (auto simp: abs_queue_def wq_ready_def wq_Add_def Let_def)

lemma abs_Get:
  assumes "wq_Get (st_queue s) = Some (Some k, q')"
  shows "abs_queue (s\<lparr>st_queue := q', busy := ks\<rparr>) =
    (abs_queue s)\<lparr>ks_pending := ks_pending (abs_queue s) - {k}, ks_active := insert k (ks_active (abs_queue s))\<rparr>"
  using assms by (auto simp: abs_queue_def wq_Get_Some)

lemma abs_finish:
  "abs_queue (s\<lparr>st_queue := finish_item b k err (st_queue s), busy := ks\<rparr>) =
     (let a = (abs_queue s)\<lparr>ks_active := ks_active (abs_queue s) - {k}\<rparr>
      in if err = None \<or> ks_closed a then a else a\<lparr>ks_delayed := insert k (ks_delayed a)\<rparr>)"
  by (auto simp: abs_queue_def wq_ops)

lemma abs_ShutDown: "abs_queue (s\<lparr>st_queue := wq_ShutDown (st_queue s)\<rparr>) = (abs_queue s)\<lparr>ks_closed := True\<rparr>"
  by (simp add: abs_queue_def wq_ShutDown_def)

lemma queue_simulates:
  assumes "wq_step s ls t" and "wq_inv s"
  shows "ks_step (abs_queue s) ls (abs_queue t)"
  using assms
proof cases
  case (add k)
  then show ?thesis by (simp add: abs_Add ks_step.intros)
next
  case (limited b k)
  then show ?thesis by (simp add: abs_AddRateLimited ks_step.intros)
next
  case (ready k)
  moreover from ready have "k \<in> ks_delayed (abs_queue s)" by (simp add: abs_queue_def)
  ultimately show ?thesis
    using ks_step.due [of k "abs_queue s"] ks_step.drop [of k "abs_queue s"] by (simp add: abs_ready Let_def)
next
  case (hand_out k q')
  then have "k \<in> set (wq_queue (st_queue s))" by (auto simp: wq_Get_Some)
  with assms(2) have "k \<in> ks_pending (abs_queue s)" "k \<notin> ks_active (abs_queue s)"
    by (auto simp: wq_inv_def Let_def abs_queue_def)
  with hand_out show ?thesis by (simp add: abs_Get ks_step.begin_key)
next
  case (finish k b err)
  with assms(2) have k: "k \<in> ks_active (abs_queue s)" by (auto simp: wq_inv_def Let_def abs_queue_def)
  with finish show ?thesis
    using ks_step.end_key [OF k] ks_step.retry [OF k] by (simp add: abs_finish Let_def)
next
  case shut
  then show ?thesis by (simp add: abs_ShutDown ks_step.close)
qed

lemma queue_refines_steps: "wq_steps s ks t \<Longrightarrow> wq_inv s \<Longrightarrow> ks_steps (abs_queue s) ks (abs_queue t)"
proof (induction rule: wq_steps.induct)
  case (none s)
  show ?case by (rule ks_steps.none)
next
  case (more s ks t ls u)
  then show ?case using wq_inv_steps [OF more.hyps(1) more.prems] by (auto intro: ks_steps.more queue_simulates)
qed

lemma Get_waits:
  assumes "wq_inv s" and "wq_Get (st_queue s) = None"
  shows "ks_pending (abs_queue s) \<subseteq> ks_active (abs_queue s)"
  using assms by (auto simp: wq_Get_def wq_inv_def Let_def abs_queue_def split: list.splits if_splits)

section \<open>Properties\<close>

text \<open>
  C4: every run of the work queue with its handlers, delays and workers is a run of the plain sets of
  keys, which start a key only when it is marked and not in work, and hand out the same keys in the
  same order; and a worker is kept waiting only when every marked key is already in work.
\<close>

theorem queue_refines_sets:
  assumes "wq_steps wq_start ks s"
  shows "ks_steps ks_start ks (abs_queue s) \<and>
    (wq_Get (st_queue s) = None \<longrightarrow> ks_pending (abs_queue s) \<subseteq> ks_active (abs_queue s))"
  using queue_refines_steps [OF assms wq_inv_start] Get_waits [OF wq_inv_steps [OF assms wq_inv_start]]
  by (simp add: abs_start)

theorem queue_refines_sets_witness:
  "ks_steps ks_start [] (abs_queue (wq_start\<lparr>st_queue := wq_Add ''a'' wq_New\<rparr>)) \<and>
   ks_pending (abs_queue (wq_start\<lparr>st_queue := wq_Add ''a'' wq_New\<rparr>)) = {''a''}"
proof -
  have "wq_step wq_start [] (wq_start\<lparr>st_queue := wq_Add ''a'' wq_New\<rparr>)"
    using wq_step.add [of wq_start "''a''"] by (simp add: wq_start_def)
  from wq_steps.more [OF wq_steps.none this]
  have "wq_steps wq_start [] (wq_start\<lparr>st_queue := wq_Add ''a'' wq_New\<rparr>)" by simp
  from queue_refines_sets [OF this] show ?thesis
    by (simp add: abs_queue_def wq_Add_def wq_New_def Let_def)
qed

end
