(* ===== verification/Deep_Copy.thy ===== *)
theory Deep_Copy
  imports Prelude
begin

text \<open>
  Go values with the addresses of what they refer to, the statements generated deep copies are made
  of, and the contract of a deep copy: it returns a value with the same contents that shares no memory
  with the original. The copies of the library types the API uses are here; those of the API types
  themselves are in \<open>Deep_Copy_API\<close>.
\<close>

section \<open>Values with addresses\<close>

datatype scalar = Text string | Number int | Truth bool

text \<open>
  A pointer, a slice or a map that is not nil is a \<open>Ref\<close>: an address and what is stored there, for
  a slice its elements and for a map its entries. A time and a decimal are values without methods
  that change them in place, so they are scalars here.
\<close>

datatype val =
    Scalar scalar
  | GoNil
  | Ref nat val
  | Items "val list"
  | Entries "(string \<times> val) list"
  | Struct "(string \<times> val) list"

primrec refs :: "val \<Rightarrow> nat set" where
  "refs (Scalar s) = {}"
| "refs GoNil = {}"
| "refs (Ref a v) = insert a (refs v)"
| "refs (Items vs) = \<Union> (set (map refs vs))"
| "refs (Entries kvs) = \<Union> (snd ` set (map (map_prod id refs) kvs))"
| "refs (Struct fs) = \<Union> (snd ` set (map (map_prod id refs) fs))"

text \<open>The contents of a value: what is left when addresses are forgotten.\<close>

primrec erase :: "val \<Rightarrow> val" where
  "erase (Scalar s) = Scalar s"
| "erase GoNil = GoNil"
| "erase (Ref a v) = Ref 0 (erase v)"
| "erase (Items vs) = Items (map erase vs)"
| "erase (Entries kvs) = Entries (map (map_prod id erase) kvs)"
| "erase (Struct fs) = Struct (map (map_prod id erase) fs)"

text \<open>A write through one address, as every holder of the value sees it.\<close>

primrec poke :: "nat \<Rightarrow> val \<Rightarrow> val \<Rightarrow> val" where
  "poke a x (Scalar s) = Scalar s"
| "poke a x GoNil = GoNil"
| "poke a x (Ref b v) = Ref b (if a = b then x else poke a x v)"
| "poke a x (Items vs) = Items (map (poke a x) vs)"
| "poke a x (Entries kvs) = Entries (map (map_prod id (poke a x)) kvs)"
| "poke a x (Struct fs) = Struct (map (map_prod id (poke a x)) fs)"

lemma refs_pairs [simp]:
  "refs (Entries kvs) = (\<Union>p\<in>set kvs. refs (snd p))" "refs (Struct kvs) = (\<Union>p\<in>set kvs. refs (snd p))"
  by (auto simp: image_image)

lemma map_pairs_id: "(\<And>p. p \<in> set fs \<Longrightarrow> h (snd p) = snd p) \<Longrightarrow> map (map_prod id h) fs = fs"
  by (rule map_idI) (simp add: prod_eq_iff)

lemma poke_other: "a \<notin> refs v \<Longrightarrow> poke a x v = v"
proof (induction v)
  case (Items vs)
  then show ?case by (auto intro: map_idI)
next
  case (Entries kvs)
  then show ?case by (auto intro!: map_pairs_id simp: snds.simps)
next
  case (Struct fs)
  then show ?case by (auto intro!: map_pairs_id simp: snds.simps)
qed auto

section \<open>Statements of a deep copy\<close>

text \<open>
  A copy takes the next free address and returns the copy and the next free address after it. What no
  value of the type looks like panics.
\<close>

type_synonym copier = "nat \<Rightarrow> val \<Rightarrow> (val \<times> nat) outcome"

definition assign :: copier where
  "assign n v = Return (v, n)"

definition copy_ptr :: "copier \<Rightarrow> copier" where
  "copy_ptr c n v =
     (case v of
        GoNil \<Rightarrow> Return (GoNil, n)
      | Ref a x \<Rightarrow> bind_outcome (c (Suc n) x) (\<lambda>(y, m). Return (Ref n y, m))
      | _ \<Rightarrow> Panic)"

fun copy_items :: "copier \<Rightarrow> nat \<Rightarrow> val list \<Rightarrow> (val list \<times> nat) outcome" where
  "copy_items c n [] = Return ([], n)"
| "copy_items c n (v # vs) =
     bind_outcome (c n v) (\<lambda>(w, m). bind_outcome (copy_items c m vs) (\<lambda>(ws, k). Return (w # ws, k)))"

definition copy_slice :: "copier \<Rightarrow> copier" where
  "copy_slice c n v =
     (case v of
        GoNil \<Rightarrow> Return (GoNil, n)
      | Ref a (Items vs) \<Rightarrow> bind_outcome (copy_items c (Suc n) vs) (\<lambda>(ws, m). Return (Ref n (Items ws), m))
      | _ \<Rightarrow> Panic)"

definition copy_map :: "copier \<Rightarrow> copier" where
  "copy_map c n v =
     (case v of
        GoNil \<Rightarrow> Return (GoNil, n)
      | Ref a (Entries kvs) \<Rightarrow>
          bind_outcome (copy_items c (Suc n) (map snd kvs)) (\<lambda>(ws, m). Return (Ref n (Entries (zip (map fst kvs) ws)), m))
      | _ \<Rightarrow> Panic)"

text \<open>
  \<open>*out = *in\<close>, then one statement per field that has one, in order, each reading the field of \<open>in\<close>
  and writing that of \<open>out\<close>.
\<close>

definition field_of :: "string \<Rightarrow> (string \<times> val) list \<Rightarrow> val" where
  "field_of f fs = (case map_of fs f of None \<Rightarrow> GoNil | Some v \<Rightarrow> v)"

definition set_field :: "string \<Rightarrow> val \<Rightarrow> (string \<times> val) list \<Rightarrow> (string \<times> val) list" where
  "set_field f x fs = map (\<lambda>(g, v). (g, if g = f then x else v)) fs"

fun copy_fields ::
  "(string \<times> copier) list \<Rightarrow> nat \<Rightarrow> (string \<times> val) list \<Rightarrow> (string \<times> val) list \<Rightarrow> ((string \<times> val) list \<times> nat) outcome"
where
  "copy_fields [] n ins out = Return (out, n)"
| "copy_fields ((f, c) # cs) n ins out =
     bind_outcome (c n (field_of f ins)) (\<lambda>(x, m). copy_fields cs m ins (set_field f x out))"

definition copy_struct :: "(string \<times> copier) list \<Rightarrow> copier" where
  "copy_struct cs n v =
     (case v of
        Struct fs \<Rightarrow> bind_outcome (copy_fields cs n fs fs) (\<lambda>(out, m). Return (Struct out, m))
      | _ \<Rightarrow> Panic)"

section \<open>Types\<close>

definition is_scalar :: "val \<Rightarrow> bool" where
  "is_scalar v = (case v of Scalar s \<Rightarrow> True | _ \<Rightarrow> False)"

definition is_ptr :: "(val \<Rightarrow> bool) \<Rightarrow> val \<Rightarrow> bool" where
  "is_ptr P v = (case v of GoNil \<Rightarrow> True | Ref a x \<Rightarrow> P x | _ \<Rightarrow> False)"

definition is_slice :: "(val \<Rightarrow> bool) \<Rightarrow> val \<Rightarrow> bool" where
  "is_slice P v = (case v of GoNil \<Rightarrow> True | Ref a (Items vs) \<Rightarrow> list_all P vs | _ \<Rightarrow> False)"

definition is_map :: "(val \<Rightarrow> bool) \<Rightarrow> val \<Rightarrow> bool" where
  "is_map P v = (case v of GoNil \<Rightarrow> True | Ref a (Entries kvs) \<Rightarrow> list_all (\<lambda>(k, x). P x) kvs | _ \<Rightarrow> False)"

definition is_struct :: "(string \<times> (val \<Rightarrow> bool)) list \<Rightarrow> val \<Rightarrow> bool" where
  "is_struct ts v = (case v of
     Struct fs \<Rightarrow> list_all2 (\<lambda>(f, P) (g, x). f = g \<and> P x) ts fs
   | _ \<Rightarrow> False)"

text \<open>A type without references: a plain assignment copies it.\<close>

definition flat :: "(val \<Rightarrow> bool) \<Rightarrow> bool" where
  "flat P \<longleftrightarrow> (\<forall>v. P v \<longrightarrow> refs v = {})"

section \<open>The contract\<close>

locale deep_copier =
  fixes shape :: "val \<Rightarrow> bool" and copy :: copier
  assumes copies: "shape v \<Longrightarrow>
    \<exists>w m. copy n v = Return (w, m) \<and> n \<le> m \<and> refs w \<subseteq> {n..<m} \<and> erase w = erase v \<and> shape w"
begin

lemma isolated:
  assumes "shape v" and "refs v \<subseteq> {..<n}"
  shows "\<exists>w m. copy n v = Return (w, m) \<and> shape w \<and> erase w = erase v \<and> refs w \<inter> refs v = {} \<and>
    (\<forall>a x. a \<in> refs w \<longrightarrow> poke a x v = v) \<and> (\<forall>a x. a \<in> refs v \<longrightarrow> poke a x w = w)"
proof -
  obtain w m where w: "copy n v = Return (w, m)" "refs w \<subseteq> {n..<m}" "erase w = erase v" "shape w"
    using copies [OF assms(1), of n] by blast
  then have "refs w \<inter> refs v = {}" using assms(2) by fastforce
  with w show ?thesis by (blast intro: poke_other)
qed

end

lemma assign_copies: "flat P \<Longrightarrow> deep_copier P assign"
  by unfold_locales (simp add: flat_def assign_def)

lemma ptr_copies:
  assumes "deep_copier P c"
  shows "deep_copier (is_ptr P) (copy_ptr c)"
proof
  fix v n assume v: "is_ptr P v"
  show "\<exists>w m. copy_ptr c n v = Return (w, m) \<and> n \<le> m \<and> refs w \<subseteq> {n..<m} \<and> erase w = erase v \<and> is_ptr P w"
  proof (cases v)
    case (Ref a x)
    with v obtain y m where "c (Suc n) x = Return (y, m)" "Suc n \<le> m" "refs y \<subseteq> {Suc n..<m}" "erase y = erase x" "P y"
      using deep_copier.copies [OF assms, of x "Suc n"] by (auto simp: is_ptr_def)
    then show ?thesis using Ref by (fastforce simp: copy_ptr_def is_ptr_def)
  qed (use v in \<open>auto simp: is_ptr_def copy_ptr_def\<close>)
qed

lemma items_copies:
  assumes "deep_copier P c" and "list_all P vs"
  shows "\<exists>ws m. copy_items c n vs = Return (ws, m) \<and> n \<le> m \<and> (\<Union> (refs ` set ws)) \<subseteq> {n..<m} \<and> map erase ws = map erase vs \<and> list_all P ws"
  using assms(2)
proof (induction vs arbitrary: n)
  case (Cons v vs)
  then obtain w m where w: "c n v = Return (w, m)" "n \<le> m" "refs w \<subseteq> {n..<m}" "erase w = erase v" "P w"
    using deep_copier.copies [OF assms(1), of v n] by auto
  obtain ws k where ws: "copy_items c m vs = Return (ws, k)" "m \<le> k" "(\<Union> (refs ` set ws)) \<subseteq> {m..<k}"
    "map erase ws = map erase vs" "list_all P ws"
    using Cons.IH [of m] Cons.prems by auto
  have "refs w \<union> (\<Union> (refs ` set ws)) \<subseteq> {n..<k}" using w(2,3) ws(2,3) atLeastLessThan_subset_iff [of n m n k]
      atLeastLessThan_subset_iff [of m k n k] by (intro Un_least) (auto intro: subset_trans)
  with w ws show ?case by (intro exI [of _ "w # ws"] exI [of _ k]) simp
qed simp

lemma slice_copies:
  assumes "deep_copier P c"
  shows "deep_copier (is_slice P) (copy_slice c)"
proof
  fix v n assume v: "is_slice P v"
  show "\<exists>w m. copy_slice c n v = Return (w, m) \<and> n \<le> m \<and> refs w \<subseteq> {n..<m} \<and> erase w = erase v \<and> is_slice P w"
  proof (cases v)
    case (Ref a x)
    with v obtain vs where vs: "x = Items vs" "list_all P vs" by (auto simp: is_slice_def split: val.splits)
    then obtain ws m where "copy_items c (Suc n) vs = Return (ws, m)" "Suc n \<le> m" "(\<Union> (refs ` set ws)) \<subseteq> {Suc n..<m}"
      "map erase ws = map erase vs" "list_all P ws"
      using items_copies [OF assms, of vs "Suc n"] by auto
    then show ?thesis using Ref vs by (fastforce simp: copy_slice_def is_slice_def)
  qed (use v in \<open>auto simp: is_slice_def copy_slice_def\<close>)
qed

lemma entries_erase:
  "map erase ws = map erase (map snd kvs) \<Longrightarrow> map (map_prod id erase) (zip (map fst kvs) ws) = map (map_prod id erase) kvs"
  by (induction kvs arbitrary: ws) auto

lemma map_copies:
  assumes "deep_copier P c"
  shows "deep_copier (is_map P) (copy_map c)"
proof
  fix v n assume v: "is_map P v"
  show "\<exists>w m. copy_map c n v = Return (w, m) \<and> n \<le> m \<and> refs w \<subseteq> {n..<m} \<and> erase w = erase v \<and> is_map P w"
  proof (cases v)
    case (Ref a x)
    with v obtain kvs where kvs: "x = Entries kvs" "list_all P (map snd kvs)"
      by (auto simp: is_map_def list_all_iff split_beta split: val.splits)
    then obtain ws m where ws: "copy_items c (Suc n) (map snd kvs) = Return (ws, m)" "Suc n \<le> m"
      "(\<Union> (refs ` set ws)) \<subseteq> {Suc n..<m}" "map erase ws = map erase (map snd kvs)" "list_all P ws"
      using items_copies [OF assms, of "map snd kvs" "Suc n"] by auto
    have "refs (Entries (zip (map fst kvs) ws)) \<subseteq> {Suc n..<m}"
      using ws(3) by (fastforce dest: set_zip_rightD)
    moreover have "is_map P (Ref n (Entries (zip (map fst kvs) ws)))"
      using ws(5) by (auto simp: is_map_def list_all_iff dest: set_zip_rightD)
    ultimately show ?thesis using Ref kvs ws(1,2) entries_erase [OF ws(4)] by (auto simp: copy_map_def)
  qed (use v in \<open>auto simp: is_map_def copy_map_def\<close>)
qed

subsection \<open>Structs\<close>

lemma set_field_simps [simp]:
  "map fst (set_field f x fs) = map fst fs" "length (set_field f x fs) = length fs"
  "i < length fs \<Longrightarrow> set_field f x fs ! i = (fst (fs ! i), if fst (fs ! i) = f then x else snd (fs ! i))"
  by (auto simp: set_field_def split: prod.splits)

definition copied_field ::
  "(string \<times> (val \<Rightarrow> bool)) list \<Rightarrow> (string \<times> copier) list \<Rightarrow> nat \<Rightarrow> nat \<Rightarrow> (string \<times> val) list \<Rightarrow> string \<times> val \<Rightarrow> val \<Rightarrow> bool"
where
  "copied_field ts cs n m ins p w \<longleftrightarrow>
     (if fst p \<in> fst ` set cs then erase w = erase (field_of (fst p) ins) \<and> refs w \<subseteq> {n..<m} \<and> (\<exists>P. map_of ts (fst p) = Some P \<and> P w)
      else w = snd p)"

lemma fields_copies:
  assumes "\<And>f c. (f, c) \<in> set cs \<Longrightarrow> \<exists>P. map_of ts f = Some P \<and> deep_copier P c \<and> P (field_of f ins)"
  shows "\<exists>res m. copy_fields cs n ins out = Return (res, m) \<and> n \<le> m \<and> map fst res = map fst out \<and>
    (\<forall>i<length out. copied_field ts cs n m ins (out ! i) (snd (res ! i)))"
  using assms
proof (induction cs arbitrary: n out)
  case Nil
  then show ?case by (simp add: copied_field_def)
next
  case (Cons fc cs)
  obtain f c where fc: "fc = (f, c)" by fastforce
  obtain P where P: "deep_copier P c" "P (field_of f ins)" and ty: "map_of ts f = Some P" using Cons.prems [of f c] fc by auto
  obtain x m where x: "c n (field_of f ins) = Return (x, m)" "n \<le> m" "refs x \<subseteq> {n..<m}"
    "erase x = erase (field_of f ins)" "P x"
    using deep_copier.copies [OF P, of n] by blast
  obtain res k where r: "copy_fields cs m ins (set_field f x out) = Return (res, k)" "m \<le> k"
    "map fst res = map fst (set_field f x out)"
    "\<forall>i<length (set_field f x out). copied_field ts cs m k ins (set_field f x out ! i) (snd (res ! i))"
    using Cons.IH [of m "set_field f x out"] Cons.prems by fastforce
  have "copied_field ts (fc # cs) n k ins (out ! i) (snd (res ! i))" if "i < length out" for i
    using r(4) [rule_format, of i] that x(2,3,4,5) r(2) fc ty
    by (auto simp: copied_field_def split: if_splits)
  then show ?case using x r fc by (intro exI [of _ res] exI [of _ k]) auto
qed

lemma is_struct_Struct:
  assumes "is_struct ts v"
  obtains fs where "v = Struct fs" "map fst fs = map fst ts" "length fs = length ts"
    "\<forall>i<length ts. snd (ts ! i) (snd (fs ! i))"
proof -
  obtain fs where fs: "v = Struct fs" "list_all2 (\<lambda>(f, P) (g, x). f = g \<and> P x) ts fs"
    using assms by (auto simp: is_struct_def split: val.splits)
  then have "map fst fs = map fst ts" by (auto simp: list_all2_conv_all_nth split_beta intro: nth_equalityI)
  with fs show ?thesis by (intro that [of fs]) (auto simp: list_all2_conv_all_nth split_beta)
qed

lemma field_of_nth:
  assumes "distinct (map fst fs)" "i < length fs"
  shows "field_of (fst (fs ! i)) fs = snd (fs ! i)"
proof -
  have "map_of fs (fst (fs ! i)) = Some (snd (fs ! i))"
    using assms by (metis map_of_eq_Some_iff nth_mem prod.collapse)
  then show ?thesis by (simp add: field_of_def)
qed

text \<open>What the fields of a struct need: a deep copy for each statement, and no reference where there is none.\<close>

definition fields_ok :: "(string \<times> copier) list \<Rightarrow> (string \<times> (val \<Rightarrow> bool)) list \<Rightarrow> bool" where
  "fields_ok cs ts \<longleftrightarrow> distinct (map fst ts) \<and>
     list_all (\<lambda>(f, P). f \<notin> fst ` set cs \<longrightarrow> flat P) ts \<and>
     list_all (\<lambda>(f, c). \<exists>P. map_of ts f = Some P \<and> deep_copier P c) cs"

lemma struct_copies:
  assumes "fields_ok cs ts"
  shows "deep_copier (is_struct ts) (copy_struct cs)"
proof
  fix v n assume "is_struct ts v"
  then obtain fs where fs: "v = Struct fs" "map fst fs = map fst ts" "length fs = length ts"
    "\<forall>i<length ts. snd (ts ! i) (snd (fs ! i))" by (rule is_struct_Struct)
  have d: "distinct (map fst fs)" using assms fs(2) by (simp add: fields_ok_def)
  have at: "fst (fs ! i) = fst (ts ! i)" if "i < length ts" for i using fs(2,3) that by (metis nth_map)
  have "\<exists>P. map_of ts f = Some P \<and> deep_copier P c \<and> P (field_of f fs)" if "(f, c) \<in> set cs" for f c
  proof -
    obtain P where P: "map_of ts f = Some P" "deep_copier P c"
      using assms \<open>(f, c) \<in> set cs\<close> by (auto simp: fields_ok_def list_all_iff)
    then obtain i where i: "i < length ts" "ts ! i = (f, P)" by (metis in_set_conv_nth map_of_SomeD)
    then have "P (field_of f fs)" using fs(3) fs(4) [rule_format, of i] at [of i] field_of_nth [OF d, of i] by simp
    with P show ?thesis by blast
  qed
  from fields_copies [OF this, where n = n and out = fs]
  obtain res m where r: "copy_fields cs n fs fs = Return (res, m)" "n \<le> m" "map fst res = map fst fs"
    "\<And>i. i < length fs \<Longrightarrow> copied_field ts cs n m fs (fs ! i) (snd (res ! i))" by blast
  have len: "length res = length fs" using r(3) by (metis length_map)
  have each: "erase (snd (res ! i)) = erase (snd (fs ! i)) \<and> refs (snd (res ! i)) \<subseteq> {n..<m} \<and> snd (ts ! i) (snd (res ! i))"
    if i: "i < length fs" for i
  proof (cases "fst (fs ! i) \<in> fst ` set cs")
    case True
    moreover have "map_of ts (fst (fs ! i)) = Some (snd (ts ! i))"
      using d fs(2,3) i at [of i] by (metis map_of_eq_Some_iff nth_mem prod.collapse)
    ultimately show ?thesis using r(4) [OF i] field_of_nth [OF d i] by (simp add: copied_field_def)
  next
    case False
    then have "flat (snd (ts ! i))"
      using assms i fs(3) at [of i] by (auto simp: fields_ok_def list_all_length split_beta)
    then show ?thesis using r(4) [OF i] False i fs(3,4) by (auto simp: copied_field_def flat_def)
  qed
  have "map (map_prod id erase) res = map (map_prod id erase) fs"
  proof (rule nth_equalityI)
    fix i assume "i < length (map (map_prod id erase) res)"
    then have i: "i < length fs" by (simp add: len)
    have "fst (res ! i) = fst (fs ! i)" using r(3) i len by (metis nth_map)
    then show "map (map_prod id erase) res ! i = map (map_prod id erase) fs ! i"
      using each [OF i] i len by (simp add: prod_eq_iff)
  qed (simp add: len)
  moreover have "refs (Struct res) \<subseteq> {n..<m}" using each len by (auto simp: in_set_conv_nth) (metis atLeastLessThan_iff snd_conv subsetD)+
  moreover have "is_struct ts (Struct res)"
  proof -
    have "fst (res ! i) = fst (ts ! i)" if "i < length ts" for i using r(3) fs(2,3) len that by (metis nth_map)
    then show ?thesis using each len fs(3) by (simp add: is_struct_def list_all2_conv_all_nth split_beta)
  qed
  ultimately show "\<exists>w m. copy_struct cs n v = Return (w, m) \<and> n \<le> m \<and> refs w \<subseteq> {n..<m} \<and> erase w = erase v \<and> is_struct ts w"
    using r(1,2) fs(1) by (auto simp: copy_struct_def)
qed

lemma flat_scalar: "flat is_scalar"
  by (auto simp: flat_def is_scalar_def split: val.splits)

lemma flat_struct: "list_all (\<lambda>(f, P). flat P) ts \<Longrightarrow> flat (is_struct ts)"
proof -
  assume ts: "list_all (\<lambda>(f, P). flat P) ts"
  show ?thesis unfolding flat_def
  proof (intro allI impI)
    fix v assume "is_struct ts v"
    then obtain fs where fs: "v = Struct fs" "map fst fs = map fst ts" "length fs = length ts"
      "\<forall>i<length ts. snd (ts ! i) (snd (fs ! i))" by (rule is_struct_Struct)
    have "refs (snd p) = {}" if "p \<in> set fs" for p
      using ts fs(3,4) that by (auto simp: list_all_length split_beta flat_def in_set_conv_nth)
    then show "refs v = {}" by (simp add: fs(1))
  qed
qed

named_theorems copy_intros

lemmas [copy_intros] = assign_copies ptr_copies slice_copies map_copies struct_copies flat_scalar

section \<open>Library types\<close>

text \<open>
  The version types of the two databases. A Cassandra version refers to the parsed version it was made
  from, and its deep copy parses the text again; \<open>parse\<close> stands for the parser of the version library,
  which gives the metadata, the pre-release, the segments and the number of segments.
\<close>

type_synonym version_parser = "string \<Rightarrow> (string \<times> string \<times> int list \<times> int) option"

definition semver_shape where
  "semver_shape = is_struct [
      (''Major'', is_scalar),
      (''Minor'', is_scalar),
      (''Patch'', is_scalar),
      (''PreRelease'', is_scalar),
      (''Metadata'', is_scalar)]"

lemma semver_flat [copy_intros]: "flat semver_shape"
  unfolding semver_shape_def by (rule flat_struct) (simp add: copy_intros)

fun parsed_version :: "nat \<Rightarrow> string \<times> string \<times> int list \<times> int \<Rightarrow> val" where
  "parsed_version n (metadata, pre, segments, si) = Struct [
      (''metadata'', Scalar (Text metadata)),
      (''pre'', Scalar (Text pre)),
      (''segments'', Ref n (Items (map (\<lambda>s. Scalar (Number s)) segments))),
      (''si'', Scalar (Number si))]"

definition version_of :: "string \<Rightarrow> val \<Rightarrow> val" where
  "version_of s sv = Struct [(''versionString'', Scalar (Text s)), (''semver'', sv)]"

definition text_of :: "val \<Rightarrow> string" where
  "text_of v = (case v of Scalar (Text s) \<Rightarrow> s | _ \<Rightarrow> [])"

definition fields_of :: "val \<Rightarrow> (string \<times> val) list" where
  "fields_of v = (case v of Struct fs \<Rightarrow> fs | _ \<Rightarrow> [])"

text \<open>\<open>New\<close> and the zero value are the only ways to make a version.\<close>

definition Version_shape :: "version_parser \<Rightarrow> val \<Rightarrow> bool" where
  "Version_shape parse v =
     (let s = text_of (field_of ''versionString'' (fields_of v)); sv = field_of ''semver'' (fields_of v)
      in v = version_of s sv \<and>
         (case sv of
            GoNil \<Rightarrow> s = []
          | Ref a x \<Rightarrow> (case parse s of None \<Rightarrow> False | Some p \<Rightarrow> erase x = erase (parsed_version 0 p))
          | _ \<Rightarrow> False))"

definition Version_New :: "version_parser \<Rightarrow> nat \<Rightarrow> string \<Rightarrow> (val \<times> nat) outcome" where
  "Version_New parse n s =
     (case parse s of
        None \<Rightarrow> Panic
      | Some p \<Rightarrow> Return (version_of s (Ref n (parsed_version (Suc n) p)), Suc (Suc n)))"

definition Version_DeepCopy :: "version_parser \<Rightarrow> copier" where
  "Version_DeepCopy parse n v =
     (if field_of ''semver'' (fields_of v) = GoNil then Return (version_of [] GoNil, n)
      else Version_New parse n (text_of (field_of ''versionString'' (fields_of v))))"

lemma parsed_version_simps:
  "refs (parsed_version n p) = {n}" "erase (parsed_version n p) = erase (parsed_version m p)"
  by (cases p; auto)+

lemma version_of_simps [simp]:
  "fields_of (version_of s sv) = [(''versionString'', Scalar (Text s)), (''semver'', sv)]"
  "refs (version_of s sv) = refs sv" "erase (version_of s sv) = version_of s (erase sv)"
  by (simp_all add: version_of_def fields_of_def)

lemma Version_copies [copy_intros]: "deep_copier (Version_shape parse) (Version_DeepCopy parse)"
proof
  fix v n assume v: "Version_shape parse v"
  define s where "s = text_of (field_of ''versionString'' (fields_of v))"
  define sv where "sv = field_of ''semver'' (fields_of v)"
  have eq: "v = version_of s sv" using v by (simp add: Version_shape_def s_def sv_def Let_def)
  show "\<exists>w m. Version_DeepCopy parse n v = Return (w, m) \<and> n \<le> m \<and> refs w \<subseteq> {n..<m} \<and> erase w = erase v \<and> Version_shape parse w"
  proof (cases sv)
    case GoNil
    then have "s = []" using v by (simp add: Version_shape_def s_def sv_def Let_def)
    with GoNil show ?thesis by (simp add: eq Version_DeepCopy_def Version_shape_def field_of_def text_of_def)
  next
    case (Ref a x)
    then obtain p where p: "parse s = Some p" "erase x = erase (parsed_version 0 p)"
      using v by (auto simp: Version_shape_def s_def [symmetric] sv_def [symmetric] Let_def split: option.splits)
    then show ?thesis using Ref parsed_version_simps(2) [of "Suc n" p 0]
      by (simp add: eq Version_DeepCopy_def Version_New_def Version_shape_def field_of_def text_of_def
          parsed_version_simps(1))
  qed (use v in \<open>simp_all add: Version_shape_def s_def [symmetric] sv_def [symmetric] Let_def\<close>)
qed

text \<open>A quantity may refer to a decimal, which its deep copy copies.\<close>

definition Quantity_shape where
  "Quantity_shape = is_struct [
      (''i'', is_struct [(''value'', is_scalar), (''scale'', is_scalar)]),
      (''d'', is_struct [(''Dec'', is_ptr is_scalar)]),
      (''s'', is_scalar),
      (''Format'', is_scalar)]"

definition Quantity_DeepCopy where
  "Quantity_DeepCopy = copy_struct [(''d'', copy_struct [(''Dec'', copy_ptr assign)])]"

lemma Quantity_copies [copy_intros]: "deep_copier Quantity_shape Quantity_DeepCopy"
proof -
  have "deep_copier (is_struct [(''Dec'', is_ptr is_scalar)]) (copy_struct [(''Dec'', copy_ptr assign)])"
    by (rule struct_copies) (simp add: fields_ok_def copy_intros)
  moreover have "flat (is_struct [(''value'', is_scalar), (''scale'', is_scalar)])"
    by (rule flat_struct) (simp add: copy_intros)
  ultimately show ?thesis unfolding Quantity_shape_def Quantity_DeepCopy_def
    by (intro struct_copies) (simp add: fields_ok_def copy_intros)
qed

text \<open>Metadata and resource requirements.\<close>

definition Time_DeepCopyInto :: copier where
  "Time_DeepCopyInto = assign"

lemma Time_copies [copy_intros]: "deep_copier is_scalar Time_DeepCopyInto"
  unfolding Time_DeepCopyInto_def by (rule assign_copies [OF flat_scalar])

definition TypeMeta_shape where
  "TypeMeta_shape = is_struct [
      (''Kind'', is_scalar),
      (''APIVersion'', is_scalar)]"

lemma TypeMeta_flat [copy_intros]: "flat TypeMeta_shape"
  unfolding TypeMeta_shape_def by (rule flat_struct) (simp add: copy_intros)

definition ListMeta_shape where
  "ListMeta_shape = is_struct [
      (''SelfLink'', is_scalar),
      (''ResourceVersion'', is_scalar),
      (''Continue'', is_scalar)]"

definition ListMeta_DeepCopyInto where
  "ListMeta_DeepCopyInto = copy_struct []"

lemma ListMeta_flat [copy_intros]: "flat ListMeta_shape"
  unfolding ListMeta_shape_def by (rule flat_struct) (simp add: copy_intros)

lemma ListMeta_copies [copy_intros]: "deep_copier ListMeta_shape ListMeta_DeepCopyInto"
  unfolding ListMeta_shape_def ListMeta_DeepCopyInto_def
  by (rule struct_copies) (simp add: fields_ok_def copy_intros)

definition OwnerReference_shape where
  "OwnerReference_shape = is_struct [
      (''APIVersion'', is_scalar),
      (''Kind'', is_scalar),
      (''Name'', is_scalar),
      (''UID'', is_scalar),
      (''Controller'', is_ptr is_scalar),
      (''BlockOwnerDeletion'', is_ptr is_scalar)]"

definition OwnerReference_DeepCopyInto where
  "OwnerReference_DeepCopyInto = copy_struct [
      (''Controller'', copy_ptr assign),
      (''BlockOwnerDeletion'', copy_ptr assign)]"

lemma OwnerReference_copies [copy_intros]: "deep_copier OwnerReference_shape OwnerReference_DeepCopyInto"
  unfolding OwnerReference_shape_def OwnerReference_DeepCopyInto_def
  by (rule struct_copies) (simp add: fields_ok_def copy_intros)

definition StatusCause_shape where
  "StatusCause_shape = is_struct [
      (''Type'', is_scalar),
      (''Message'', is_scalar),
      (''Field'', is_scalar)]"

definition StatusCause_DeepCopyInto where
  "StatusCause_DeepCopyInto = copy_struct []"

lemma StatusCause_flat [copy_intros]: "flat StatusCause_shape"
  unfolding StatusCause_shape_def by (rule flat_struct) (simp add: copy_intros)

lemma StatusCause_copies [copy_intros]: "deep_copier StatusCause_shape StatusCause_DeepCopyInto"
  unfolding StatusCause_shape_def StatusCause_DeepCopyInto_def
  by (rule struct_copies) (simp add: fields_ok_def copy_intros)

definition StatusDetails_shape where
  "StatusDetails_shape = is_struct [
      (''Name'', is_scalar),
      (''Group'', is_scalar),
      (''Kind'', is_scalar),
      (''UID'', is_scalar),
      (''Causes'', is_slice StatusCause_shape),
      (''RetryAfterSeconds'', is_scalar)]"

definition StatusDetails_DeepCopyInto where
  "StatusDetails_DeepCopyInto = copy_struct [
      (''Causes'', copy_slice assign)]"

lemma StatusDetails_copies [copy_intros]: "deep_copier StatusDetails_shape StatusDetails_DeepCopyInto"
  unfolding StatusDetails_shape_def StatusDetails_DeepCopyInto_def
  by (rule struct_copies) (simp add: fields_ok_def copy_intros)

definition Status_shape where
  "Status_shape = is_struct [
      (''TypeMeta'', TypeMeta_shape),
      (''ListMeta'', ListMeta_shape),
      (''Status'', is_scalar),
      (''Message'', is_scalar),
      (''Reason'', is_scalar),
      (''Details'', is_ptr StatusDetails_shape),
      (''Code'', is_scalar)]"

definition Status_DeepCopyInto where
  "Status_DeepCopyInto = copy_struct [
      (''TypeMeta'', assign),
      (''ListMeta'', assign),
      (''Details'', copy_ptr StatusDetails_DeepCopyInto)]"

lemma Status_copies [copy_intros]: "deep_copier Status_shape Status_DeepCopyInto"
  unfolding Status_shape_def Status_DeepCopyInto_def
  by (rule struct_copies) (simp add: fields_ok_def copy_intros)

definition Initializer_shape where
  "Initializer_shape = is_struct [
      (''Name'', is_scalar)]"

definition Initializer_DeepCopyInto where
  "Initializer_DeepCopyInto = copy_struct []"

lemma Initializer_flat [copy_intros]: "flat Initializer_shape"
  unfolding Initializer_shape_def by (rule flat_struct) (simp add: copy_intros)

lemma Initializer_copies [copy_intros]: "deep_copier Initializer_shape Initializer_DeepCopyInto"
  unfolding Initializer_shape_def Initializer_DeepCopyInto_def
  by (rule struct_copies) (simp add: fields_ok_def copy_intros)

definition Initializers_shape where
  "Initializers_shape = is_struct [
      (''Pending'', is_slice Initializer_shape),
      (''Result'', is_ptr Status_shape)]"

definition Initializers_DeepCopyInto where
  "Initializers_DeepCopyInto = copy_struct [
      (''Pending'', copy_slice assign),
      (''Result'', copy_ptr Status_DeepCopyInto)]"

lemma Initializers_copies [copy_intros]: "deep_copier Initializers_shape Initializers_DeepCopyInto"
  unfolding Initializers_shape_def Initializers_DeepCopyInto_def
  by (rule struct_copies) (simp add: fields_ok_def copy_intros)

definition ObjectMeta_shape where
  "ObjectMeta_shape = is_struct [
      (''Name'', is_scalar),
      (''GenerateName'', is_scalar),
      (''Namespace'', is_scalar),
      (''SelfLink'', is_scalar),
      (''UID'', is_scalar),
      (''ResourceVersion'', is_scalar),
      (''Generation'', is_scalar),
      (''CreationTimestamp'', is_scalar),
      (''DeletionTimestamp'', is_ptr is_scalar),
      (''DeletionGracePeriodSeconds'', is_ptr is_scalar),
      (''Labels'', is_map is_scalar),
      (''Annotations'', is_map is_scalar),
      (''OwnerReferences'', is_slice OwnerReference_shape),
      (''Initializers'', is_ptr Initializers_shape),
      (''Finalizers'', is_slice is_scalar),
      (''ClusterName'', is_scalar)]"

definition ObjectMeta_DeepCopyInto where
  "ObjectMeta_DeepCopyInto = copy_struct [
      (''CreationTimestamp'', Time_DeepCopyInto),
      (''DeletionTimestamp'', copy_ptr Time_DeepCopyInto),
      (''DeletionGracePeriodSeconds'', copy_ptr assign),
      (''Labels'', copy_map assign),
      (''Annotations'', copy_map assign),
      (''OwnerReferences'', copy_slice OwnerReference_DeepCopyInto),
      (''Initializers'', copy_ptr Initializers_DeepCopyInto),
      (''Finalizers'', copy_slice assign)]"

lemma ObjectMeta_copies [copy_intros]: "deep_copier ObjectMeta_shape ObjectMeta_DeepCopyInto"
  unfolding ObjectMeta_shape_def ObjectMeta_DeepCopyInto_def
  by (rule struct_copies) (simp add: fields_ok_def copy_intros)

definition ResourceRequirements_shape where
  "ResourceRequirements_shape = is_struct [
      (''Limits'', is_map Quantity_shape),
      (''Requests'', is_map Quantity_shape)]"

definition ResourceRequirements_DeepCopyInto where
  "ResourceRequirements_DeepCopyInto = copy_struct [
      (''Limits'', copy_map Quantity_DeepCopy),
      (''Requests'', copy_map Quantity_DeepCopy)]"

lemma ResourceRequirements_copies [copy_intros]: "deep_copier ResourceRequirements_shape ResourceRequirements_DeepCopyInto"
  unfolding ResourceRequirements_shape_def ResourceRequirements_DeepCopyInto_def
  by (rule struct_copies) (simp add: fields_ok_def copy_intros)

end
