(* ===== verification/Deep_Copy_API.thy ===== *)
theory Deep_Copy_API
  imports Deep_Copy
begin

text \<open>
  The deep copies of the API types, of the version \<open>v1alpha1\<close> and of the internal one (names with an
  \<open>n\<close>): \<open>zz_generated.deepcopy.go\<close> of both packages. For a type \<open>T\<close>, \<open>T_shape\<close> says which values it has
  (\<open>types.go\<close>), \<open>T_DeepCopyInto\<close> has one entry per statement of the function, and \<open>T_copies\<close> is its
  contract. A controller that changes only deep copies of what its caches hold leaves the caches as the
  API server sent them.
\<close>

text \<open>\<open>DeepCopyObject\<close>: a nil copy is the nil interface.\<close>

definition copy_object :: "copier \<Rightarrow> copier" where
  "copy_object d n v = bind_outcome (d n v) (\<lambda>(c, m). if c \<noteq> GoNil then Return (c, m) else Return (GoNil, m))"

lemma copy_object_same: "copy_object d = d"
proof (intro ext)
  fix n v show "copy_object d n v = d n v" by (cases "d n v") (auto simp: copy_object_def)
qed

section \<open>Version v1alpha1\<close>

definition ImageSpec_shape where
  "ImageSpec_shape = is_struct [
      (''Repository'', is_scalar),
      (''Tag'', is_scalar),
      (''PullPolicy'', is_scalar)]"

definition ImageSpec_DeepCopyInto where
  "ImageSpec_DeepCopyInto = copy_struct []"

lemma ImageSpec_flat [copy_intros]: "flat ImageSpec_shape"
  unfolding ImageSpec_shape_def by (rule flat_struct) (simp add: copy_intros)

lemma ImageSpec_copies [copy_intros]: "deep_copier ImageSpec_shape ImageSpec_DeepCopyInto"
  unfolding ImageSpec_shape_def ImageSpec_DeepCopyInto_def
  by (rule struct_copies) (simp add: fields_ok_def copy_intros)

definition ImageSpec_DeepCopy where
  "ImageSpec_DeepCopy = copy_ptr ImageSpec_DeepCopyInto"

definition NavigatorSecurityContext_shape where
  "NavigatorSecurityContext_shape = is_struct [
      (''RunAsUser'', is_ptr is_scalar)]"

definition NavigatorSecurityContext_DeepCopyInto where
  "NavigatorSecurityContext_DeepCopyInto = copy_struct [
      (''RunAsUser'', copy_ptr assign)]"

lemma NavigatorSecurityContext_copies [copy_intros]: "deep_copier NavigatorSecurityContext_shape NavigatorSecurityContext_DeepCopyInto"
  unfolding NavigatorSecurityContext_shape_def NavigatorSecurityContext_DeepCopyInto_def
  by (rule struct_copies) (simp add: fields_ok_def copy_intros)

definition NavigatorSecurityContext_DeepCopy where
  "NavigatorSecurityContext_DeepCopy = copy_ptr NavigatorSecurityContext_DeepCopyInto"

definition NavigatorClusterConfig_shape where
  "NavigatorClusterConfig_shape = is_struct [
      (''PilotImage'', ImageSpec_shape),
      (''SecurityContext'', NavigatorSecurityContext_shape),
      (''Paused'', is_scalar)]"

definition NavigatorClusterConfig_DeepCopyInto where
  "NavigatorClusterConfig_DeepCopyInto = copy_struct [
      (''PilotImage'', assign),
      (''SecurityContext'', NavigatorSecurityContext_DeepCopyInto)]"

lemma NavigatorClusterConfig_copies [copy_intros]: "deep_copier NavigatorClusterConfig_shape NavigatorClusterConfig_DeepCopyInto"
  unfolding NavigatorClusterConfig_shape_def NavigatorClusterConfig_DeepCopyInto_def
  by (rule struct_copies) (simp add: fields_ok_def copy_intros)

definition NavigatorClusterConfig_DeepCopy where
  "NavigatorClusterConfig_DeepCopy = copy_ptr NavigatorClusterConfig_DeepCopyInto"

definition PersistenceConfig_shape where
  "PersistenceConfig_shape = is_struct [
      (''Size'', Quantity_shape),
      (''StorageClass'', is_ptr is_scalar)]"

definition PersistenceConfig_DeepCopyInto where
  "PersistenceConfig_DeepCopyInto = copy_struct [
      (''Size'', Quantity_DeepCopy),
      (''StorageClass'', copy_ptr assign)]"

lemma PersistenceConfig_copies [copy_intros]: "deep_copier PersistenceConfig_shape PersistenceConfig_DeepCopyInto"
  unfolding PersistenceConfig_shape_def PersistenceConfig_DeepCopyInto_def
  by (rule struct_copies) (simp add: fields_ok_def copy_intros)

definition PersistenceConfig_DeepCopy where
  "PersistenceConfig_DeepCopy = copy_ptr PersistenceConfig_DeepCopyInto"

definition CassandraClusterNodePool_shape where
  "CassandraClusterNodePool_shape = is_struct [
      (''Name'', is_scalar),
      (''Replicas'', is_ptr is_scalar),
      (''Persistence'', is_ptr PersistenceConfig_shape),
      (''NodeSelector'', is_map is_scalar),
      (''Rack'', is_ptr is_scalar),
      (''Datacenter'', is_ptr is_scalar),
      (''Resources'', ResourceRequirements_shape),
      (''SchedulerName'', is_scalar)]"

definition CassandraClusterNodePool_DeepCopyInto where
  "CassandraClusterNodePool_DeepCopyInto = copy_struct [
      (''Replicas'', copy_ptr assign),
      (''Persistence'', copy_ptr PersistenceConfig_DeepCopyInto),
      (''NodeSelector'', copy_map assign),
      (''Rack'', copy_ptr assign),
      (''Datacenter'', copy_ptr assign),
      (''Resources'', ResourceRequirements_DeepCopyInto)]"

lemma CassandraClusterNodePool_copies [copy_intros]: "deep_copier CassandraClusterNodePool_shape CassandraClusterNodePool_DeepCopyInto"
  unfolding CassandraClusterNodePool_shape_def CassandraClusterNodePool_DeepCopyInto_def
  by (rule struct_copies) (simp add: fields_ok_def copy_intros)

definition CassandraClusterNodePool_DeepCopy where
  "CassandraClusterNodePool_DeepCopy = copy_ptr CassandraClusterNodePool_DeepCopyInto"

definition CassandraClusterSpec_shape where
  "CassandraClusterSpec_shape parse = is_struct [
      (''NavigatorClusterConfig'', NavigatorClusterConfig_shape),
      (''NodePools'', is_slice CassandraClusterNodePool_shape),
      (''Image'', is_ptr ImageSpec_shape),
      (''Version'', Version_shape parse)]"

definition CassandraClusterSpec_DeepCopyInto where
  "CassandraClusterSpec_DeepCopyInto parse = copy_struct [
      (''NavigatorClusterConfig'', NavigatorClusterConfig_DeepCopyInto),
      (''NodePools'', copy_slice CassandraClusterNodePool_DeepCopyInto),
      (''Image'', copy_ptr assign),
      (''Version'', Version_DeepCopy parse)]"

lemma CassandraClusterSpec_copies [copy_intros]: "deep_copier (CassandraClusterSpec_shape parse) (CassandraClusterSpec_DeepCopyInto parse)"
  unfolding CassandraClusterSpec_shape_def CassandraClusterSpec_DeepCopyInto_def
  by (rule struct_copies) (simp add: fields_ok_def copy_intros)

definition CassandraClusterSpec_DeepCopy where
  "CassandraClusterSpec_DeepCopy parse = copy_ptr (CassandraClusterSpec_DeepCopyInto parse)"

definition ClusterCondition_shape where
  "ClusterCondition_shape = is_struct [
      (''Type'', is_scalar),
      (''Status'', is_scalar),
      (''LastTransitionTime'', is_scalar),
      (''Reason'', is_scalar),
      (''Message'', is_scalar)]"

definition ClusterCondition_DeepCopyInto where
  "ClusterCondition_DeepCopyInto = copy_struct [
      (''LastTransitionTime'', Time_DeepCopyInto)]"

lemma ClusterCondition_flat [copy_intros]: "flat ClusterCondition_shape"
  unfolding ClusterCondition_shape_def by (rule flat_struct) (simp add: copy_intros)

lemma ClusterCondition_copies [copy_intros]: "deep_copier ClusterCondition_shape ClusterCondition_DeepCopyInto"
  unfolding ClusterCondition_shape_def ClusterCondition_DeepCopyInto_def
  by (rule struct_copies) (simp add: fields_ok_def copy_intros)

definition ClusterCondition_DeepCopy where
  "ClusterCondition_DeepCopy = copy_ptr ClusterCondition_DeepCopyInto"

definition NavigatorClusterStatus_shape where
  "NavigatorClusterStatus_shape = is_struct [
      (''Conditions'', is_slice ClusterCondition_shape)]"

definition NavigatorClusterStatus_DeepCopyInto where
  "NavigatorClusterStatus_DeepCopyInto = copy_struct [
      (''Conditions'', copy_slice ClusterCondition_DeepCopyInto)]"

lemma NavigatorClusterStatus_copies [copy_intros]: "deep_copier NavigatorClusterStatus_shape NavigatorClusterStatus_DeepCopyInto"
  unfolding NavigatorClusterStatus_shape_def NavigatorClusterStatus_DeepCopyInto_def
  by (rule struct_copies) (simp add: fields_ok_def copy_intros)

definition NavigatorClusterStatus_DeepCopy where
  "NavigatorClusterStatus_DeepCopy = copy_ptr NavigatorClusterStatus_DeepCopyInto"

definition CassandraClusterNodePoolStatus_shape where
  "CassandraClusterNodePoolStatus_shape = is_struct [
      (''ReadyReplicas'', is_scalar)]"

definition CassandraClusterNodePoolStatus_DeepCopyInto where
  "CassandraClusterNodePoolStatus_DeepCopyInto = copy_struct []"

lemma CassandraClusterNodePoolStatus_flat [copy_intros]: "flat CassandraClusterNodePoolStatus_shape"
  unfolding CassandraClusterNodePoolStatus_shape_def by (rule flat_struct) (simp add: copy_intros)

lemma CassandraClusterNodePoolStatus_copies [copy_intros]: "deep_copier CassandraClusterNodePoolStatus_shape CassandraClusterNodePoolStatus_DeepCopyInto"
  unfolding CassandraClusterNodePoolStatus_shape_def CassandraClusterNodePoolStatus_DeepCopyInto_def
  by (rule struct_copies) (simp add: fields_ok_def copy_intros)

definition CassandraClusterNodePoolStatus_DeepCopy where
  "CassandraClusterNodePoolStatus_DeepCopy = copy_ptr CassandraClusterNodePoolStatus_DeepCopyInto"

definition CassandraClusterStatus_shape where
  "CassandraClusterStatus_shape = is_struct [
      (''NavigatorClusterStatus'', NavigatorClusterStatus_shape),
      (''NodePools'', is_map CassandraClusterNodePoolStatus_shape)]"

definition CassandraClusterStatus_DeepCopyInto where
  "CassandraClusterStatus_DeepCopyInto = copy_struct [
      (''NavigatorClusterStatus'', NavigatorClusterStatus_DeepCopyInto),
      (''NodePools'', copy_map assign)]"

lemma CassandraClusterStatus_copies [copy_intros]: "deep_copier CassandraClusterStatus_shape CassandraClusterStatus_DeepCopyInto"
  unfolding CassandraClusterStatus_shape_def CassandraClusterStatus_DeepCopyInto_def
  by (rule struct_copies) (simp add: fields_ok_def copy_intros)

definition CassandraClusterStatus_DeepCopy where
  "CassandraClusterStatus_DeepCopy = copy_ptr CassandraClusterStatus_DeepCopyInto"

definition CassandraCluster_shape where
  "CassandraCluster_shape parse = is_struct [
      (''TypeMeta'', TypeMeta_shape),
      (''ObjectMeta'', ObjectMeta_shape),
      (''Spec'', CassandraClusterSpec_shape parse),
      (''Status'', CassandraClusterStatus_shape)]"

definition CassandraCluster_DeepCopyInto where
  "CassandraCluster_DeepCopyInto parse = copy_struct [
      (''TypeMeta'', assign),
      (''ObjectMeta'', ObjectMeta_DeepCopyInto),
      (''Spec'', CassandraClusterSpec_DeepCopyInto parse),
      (''Status'', CassandraClusterStatus_DeepCopyInto)]"

lemma CassandraCluster_copies [copy_intros]: "deep_copier (CassandraCluster_shape parse) (CassandraCluster_DeepCopyInto parse)"
  unfolding CassandraCluster_shape_def CassandraCluster_DeepCopyInto_def
  by (rule struct_copies) (simp add: fields_ok_def copy_intros)

definition CassandraCluster_DeepCopy where
  "CassandraCluster_DeepCopy parse = copy_ptr (CassandraCluster_DeepCopyInto parse)"

definition CassandraCluster_DeepCopyObject where
  "CassandraCluster_DeepCopyObject parse = copy_object (CassandraCluster_DeepCopy parse)"

definition CassandraClusterList_shape where
  "CassandraClusterList_shape parse = is_struct [
      (''TypeMeta'', TypeMeta_shape),
      (''ListMeta'', ListMeta_shape),
      (''Items'', is_slice (CassandraCluster_shape parse))]"

definition CassandraClusterList_DeepCopyInto where
  "CassandraClusterList_DeepCopyInto parse = copy_struct [
      (''TypeMeta'', assign),
      (''ListMeta'', assign),
      (''Items'', copy_slice (CassandraCluster_DeepCopyInto parse))]"

lemma CassandraClusterList_copies [copy_intros]: "deep_copier (CassandraClusterList_shape parse) (CassandraClusterList_DeepCopyInto parse)"
  unfolding CassandraClusterList_shape_def CassandraClusterList_DeepCopyInto_def
  by (rule struct_copies) (simp add: fields_ok_def copy_intros)

definition CassandraClusterList_DeepCopy where
  "CassandraClusterList_DeepCopy parse = copy_ptr (CassandraClusterList_DeepCopyInto parse)"

definition CassandraClusterList_DeepCopyObject where
  "CassandraClusterList_DeepCopyObject parse = copy_object (CassandraClusterList_DeepCopy parse)"

definition CassandraPilotStatus_shape where
  "CassandraPilotStatus_shape parse = is_struct [
      (''Version'', is_ptr (Version_shape parse))]"

definition CassandraPilotStatus_DeepCopyInto where
  "CassandraPilotStatus_DeepCopyInto parse = copy_struct [
      (''Version'', copy_ptr (Version_DeepCopy parse))]"

lemma CassandraPilotStatus_copies [copy_intros]: "deep_copier (CassandraPilotStatus_shape parse) (CassandraPilotStatus_DeepCopyInto parse)"
  unfolding CassandraPilotStatus_shape_def CassandraPilotStatus_DeepCopyInto_def
  by (rule struct_copies) (simp add: fields_ok_def copy_intros)

definition CassandraPilotStatus_DeepCopy where
  "CassandraPilotStatus_DeepCopy parse = copy_ptr (CassandraPilotStatus_DeepCopyInto parse)"

definition ElasticsearchClusterNodePool_shape where
  "ElasticsearchClusterNodePool_shape = is_struct [
      (''Name'', is_scalar),
      (''Replicas'', is_ptr is_scalar),
      (''Roles'', is_slice is_scalar),
      (''NodeSelector'', is_map is_scalar),
      (''Resources'', ResourceRequirements_shape),
      (''Persistence'', is_ptr PersistenceConfig_shape),
      (''SchedulerName'', is_scalar)]"

definition ElasticsearchClusterNodePool_DeepCopyInto where
  "ElasticsearchClusterNodePool_DeepCopyInto = copy_struct [
      (''Replicas'', copy_ptr assign),
      (''Roles'', copy_slice assign),
      (''NodeSelector'', copy_map assign),
      (''Resources'', ResourceRequirements_DeepCopyInto),
      (''Persistence'', copy_ptr PersistenceConfig_DeepCopyInto)]"

lemma ElasticsearchClusterNodePool_copies [copy_intros]: "deep_copier ElasticsearchClusterNodePool_shape ElasticsearchClusterNodePool_DeepCopyInto"
  unfolding ElasticsearchClusterNodePool_shape_def ElasticsearchClusterNodePool_DeepCopyInto_def
  by (rule struct_copies) (simp add: fields_ok_def copy_intros)

definition ElasticsearchClusterNodePool_DeepCopy where
  "ElasticsearchClusterNodePool_DeepCopy = copy_ptr ElasticsearchClusterNodePool_DeepCopyInto"

definition ElasticsearchClusterSpec_shape where
  "ElasticsearchClusterSpec_shape = is_struct [
      (''NavigatorClusterConfig'', NavigatorClusterConfig_shape),
      (''Version'', semver_shape),
      (''Plugins'', is_slice is_scalar),
      (''NodePools'', is_slice ElasticsearchClusterNodePool_shape),
      (''Image'', is_ptr ImageSpec_shape),
      (''MinimumMasters'', is_ptr is_scalar)]"

definition ElasticsearchClusterSpec_DeepCopyInto where
  "ElasticsearchClusterSpec_DeepCopyInto = copy_struct [
      (''NavigatorClusterConfig'', NavigatorClusterConfig_DeepCopyInto),
      (''Version'', assign),
      (''Plugins'', copy_slice assign),
      (''NodePools'', copy_slice ElasticsearchClusterNodePool_DeepCopyInto),
      (''Image'', copy_ptr assign),
      (''MinimumMasters'', copy_ptr assign)]"

lemma ElasticsearchClusterSpec_copies [copy_intros]: "deep_copier ElasticsearchClusterSpec_shape ElasticsearchClusterSpec_DeepCopyInto"
  unfolding ElasticsearchClusterSpec_shape_def ElasticsearchClusterSpec_DeepCopyInto_def
  by (rule struct_copies) (simp add: fields_ok_def copy_intros)

definition ElasticsearchClusterSpec_DeepCopy where
  "ElasticsearchClusterSpec_DeepCopy = copy_ptr ElasticsearchClusterSpec_DeepCopyInto"

definition ElasticsearchClusterNodePoolStatus_shape where
  "ElasticsearchClusterNodePoolStatus_shape = is_struct [
      (''ReadyReplicas'', is_scalar)]"

definition ElasticsearchClusterNodePoolStatus_DeepCopyInto where
  "ElasticsearchClusterNodePoolStatus_DeepCopyInto = copy_struct []"

lemma ElasticsearchClusterNodePoolStatus_flat [copy_intros]: "flat ElasticsearchClusterNodePoolStatus_shape"
  unfolding ElasticsearchClusterNodePoolStatus_shape_def by (rule flat_struct) (simp add: copy_intros)

lemma ElasticsearchClusterNodePoolStatus_copies [copy_intros]: "deep_copier ElasticsearchClusterNodePoolStatus_shape ElasticsearchClusterNodePoolStatus_DeepCopyInto"
  unfolding ElasticsearchClusterNodePoolStatus_shape_def ElasticsearchClusterNodePoolStatus_DeepCopyInto_def
  by (rule struct_copies) (simp add: fields_ok_def copy_intros)

definition ElasticsearchClusterNodePoolStatus_DeepCopy where
  "ElasticsearchClusterNodePoolStatus_DeepCopy = copy_ptr ElasticsearchClusterNodePoolStatus_DeepCopyInto"

definition ElasticsearchClusterStatus_shape where
  "ElasticsearchClusterStatus_shape = is_struct [
      (''NavigatorClusterStatus'', NavigatorClusterStatus_shape),
      (''NodePools'', is_map ElasticsearchClusterNodePoolStatus_shape),
      (''Health'', is_ptr is_scalar)]"

definition ElasticsearchClusterStatus_DeepCopyInto where
  "ElasticsearchClusterStatus_DeepCopyInto = copy_struct [
      (''NavigatorClusterStatus'', NavigatorClusterStatus_DeepCopyInto),
      (''NodePools'', copy_map assign),
      (''Health'', copy_ptr assign)]"

lemma ElasticsearchClusterStatus_copies [copy_intros]: "deep_copier ElasticsearchClusterStatus_shape ElasticsearchClusterStatus_DeepCopyInto"
  unfolding ElasticsearchClusterStatus_shape_def ElasticsearchClusterStatus_DeepCopyInto_def
  by (rule struct_copies) (simp add: fields_ok_def copy_intros)

definition ElasticsearchClusterStatus_DeepCopy where
  "ElasticsearchClusterStatus_DeepCopy = copy_ptr ElasticsearchClusterStatus_DeepCopyInto"

definition ElasticsearchCluster_shape where
  "ElasticsearchCluster_shape = is_struct [
      (''TypeMeta'', TypeMeta_shape),
      (''ObjectMeta'', ObjectMeta_shape),
      (''Spec'', ElasticsearchClusterSpec_shape),
      (''Status'', ElasticsearchClusterStatus_shape)]"

definition ElasticsearchCluster_DeepCopyInto where
  "ElasticsearchCluster_DeepCopyInto = copy_struct [
      (''TypeMeta'', assign),
      (''ObjectMeta'', ObjectMeta_DeepCopyInto),
      (''Spec'', ElasticsearchClusterSpec_DeepCopyInto),
      (''Status'', ElasticsearchClusterStatus_DeepCopyInto)]"

lemma ElasticsearchCluster_copies [copy_intros]: "deep_copier ElasticsearchCluster_shape ElasticsearchCluster_DeepCopyInto"
  unfolding ElasticsearchCluster_shape_def ElasticsearchCluster_DeepCopyInto_def
  by (rule struct_copies) (simp add: fields_ok_def copy_intros)

definition ElasticsearchCluster_DeepCopy where
  "ElasticsearchCluster_DeepCopy = copy_ptr ElasticsearchCluster_DeepCopyInto"

definition ElasticsearchCluster_DeepCopyObject where
  "ElasticsearchCluster_DeepCopyObject = copy_object ElasticsearchCluster_DeepCopy"

definition ElasticsearchClusterList_shape where
  "ElasticsearchClusterList_shape = is_struct [
      (''TypeMeta'', TypeMeta_shape),
      (''ListMeta'', ListMeta_shape),
      (''Items'', is_slice ElasticsearchCluster_shape)]"

definition ElasticsearchClusterList_DeepCopyInto where
  "ElasticsearchClusterList_DeepCopyInto = copy_struct [
      (''TypeMeta'', assign),
      (''ListMeta'', assign),
      (''Items'', copy_slice ElasticsearchCluster_DeepCopyInto)]"

lemma ElasticsearchClusterList_copies [copy_intros]: "deep_copier ElasticsearchClusterList_shape ElasticsearchClusterList_DeepCopyInto"
  unfolding ElasticsearchClusterList_shape_def ElasticsearchClusterList_DeepCopyInto_def
  by (rule struct_copies) (simp add: fields_ok_def copy_intros)

definition ElasticsearchClusterList_DeepCopy where
  "ElasticsearchClusterList_DeepCopy = copy_ptr ElasticsearchClusterList_DeepCopyInto"

definition ElasticsearchClusterList_DeepCopyObject where
  "ElasticsearchClusterList_DeepCopyObject = copy_object ElasticsearchClusterList_DeepCopy"

definition ElasticsearchPilotStatus_shape where
  "ElasticsearchPilotStatus_shape = is_struct [
      (''Documents'', is_ptr is_scalar),
      (''Version'', is_ptr semver_shape)]"

definition ElasticsearchPilotStatus_DeepCopyInto where
  "ElasticsearchPilotStatus_DeepCopyInto = copy_struct [
      (''Documents'', copy_ptr assign),
      (''Version'', copy_ptr assign)]"

lemma ElasticsearchPilotStatus_copies [copy_intros]: "deep_copier ElasticsearchPilotStatus_shape ElasticsearchPilotStatus_DeepCopyInto"
  unfolding ElasticsearchPilotStatus_shape_def ElasticsearchPilotStatus_DeepCopyInto_def
  by (rule struct_copies) (simp add: fields_ok_def copy_intros)

definition ElasticsearchPilotStatus_DeepCopy where
  "ElasticsearchPilotStatus_DeepCopy = copy_ptr ElasticsearchPilotStatus_DeepCopyInto"

definition PilotSpec_shape where
  "PilotSpec_shape = is_struct []"

definition PilotSpec_DeepCopyInto where
  "PilotSpec_DeepCopyInto = copy_struct []"

lemma PilotSpec_flat [copy_intros]: "flat PilotSpec_shape"
  unfolding PilotSpec_shape_def by (rule flat_struct) (simp add: copy_intros)

lemma PilotSpec_copies [copy_intros]: "deep_copier PilotSpec_shape PilotSpec_DeepCopyInto"
  unfolding PilotSpec_shape_def PilotSpec_DeepCopyInto_def
  by (rule struct_copies) (simp add: fields_ok_def copy_intros)

definition PilotSpec_DeepCopy where
  "PilotSpec_DeepCopy = copy_ptr PilotSpec_DeepCopyInto"

definition PilotCondition_shape where
  "PilotCondition_shape = is_struct [
      (''Type'', is_scalar),
      (''Status'', is_scalar),
      (''LastTransitionTime'', is_scalar),
      (''Reason'', is_scalar),
      (''Message'', is_scalar)]"

definition PilotCondition_DeepCopyInto where
  "PilotCondition_DeepCopyInto = copy_struct [
      (''LastTransitionTime'', Time_DeepCopyInto)]"

lemma PilotCondition_flat [copy_intros]: "flat PilotCondition_shape"
  unfolding PilotCondition_shape_def by (rule flat_struct) (simp add: copy_intros)

lemma PilotCondition_copies [copy_intros]: "deep_copier PilotCondition_shape PilotCondition_DeepCopyInto"
  unfolding PilotCondition_shape_def PilotCondition_DeepCopyInto_def
  by (rule struct_copies) (simp add: fields_ok_def copy_intros)

definition PilotCondition_DeepCopy where
  "PilotCondition_DeepCopy = copy_ptr PilotCondition_DeepCopyInto"

definition PilotStatus_shape where
  "PilotStatus_shape parse = is_struct [
      (''Conditions'', is_slice PilotCondition_shape),
      (''Elasticsearch'', is_ptr ElasticsearchPilotStatus_shape),
      (''Cassandra'', is_ptr (CassandraPilotStatus_shape parse))]"

definition PilotStatus_DeepCopyInto where
  "PilotStatus_DeepCopyInto parse = copy_struct [
      (''Conditions'', copy_slice PilotCondition_DeepCopyInto),
      (''Elasticsearch'', copy_ptr ElasticsearchPilotStatus_DeepCopyInto),
      (''Cassandra'', copy_ptr (CassandraPilotStatus_DeepCopyInto parse))]"

lemma PilotStatus_copies [copy_intros]: "deep_copier (PilotStatus_shape parse) (PilotStatus_DeepCopyInto parse)"
  unfolding PilotStatus_shape_def PilotStatus_DeepCopyInto_def
  by (rule struct_copies) (simp add: fields_ok_def copy_intros)

definition PilotStatus_DeepCopy where
  "PilotStatus_DeepCopy parse = copy_ptr (PilotStatus_DeepCopyInto parse)"

definition Pilot_shape where
  "Pilot_shape parse = is_struct [
      (''TypeMeta'', TypeMeta_shape),
      (''ObjectMeta'', ObjectMeta_shape),
      (''Spec'', PilotSpec_shape),
      (''Status'', PilotStatus_shape parse)]"

definition Pilot_DeepCopyInto where
  "Pilot_DeepCopyInto parse = copy_struct [
      (''TypeMeta'', assign),
      (''ObjectMeta'', ObjectMeta_DeepCopyInto),
      (''Spec'', assign),
      (''Status'', PilotStatus_DeepCopyInto parse)]"

lemma Pilot_copies [copy_intros]: "deep_copier (Pilot_shape parse) (Pilot_DeepCopyInto parse)"
  unfolding Pilot_shape_def Pilot_DeepCopyInto_def
  by (rule struct_copies) (simp add: fields_ok_def copy_intros)

definition Pilot_DeepCopy where
  "Pilot_DeepCopy parse = copy_ptr (Pilot_DeepCopyInto parse)"

definition Pilot_DeepCopyObject where
  "Pilot_DeepCopyObject parse = copy_object (Pilot_DeepCopy parse)"

definition PilotList_shape where
  "PilotList_shape parse = is_struct [
      (''TypeMeta'', TypeMeta_shape),
      (''ListMeta'', ListMeta_shape),
      (''Items'', is_slice (Pilot_shape parse))]"

definition PilotList_DeepCopyInto where
  "PilotList_DeepCopyInto parse = copy_struct [
      (''TypeMeta'', assign),
      (''ListMeta'', assign),
      (''Items'', copy_slice (Pilot_DeepCopyInto parse))]"

lemma PilotList_copies [copy_intros]: "deep_copier (PilotList_shape parse) (PilotList_DeepCopyInto parse)"
  unfolding PilotList_shape_def PilotList_DeepCopyInto_def
  by (rule struct_copies) (simp add: fields_ok_def copy_intros)

definition PilotList_DeepCopy where
  "PilotList_DeepCopy parse = copy_ptr (PilotList_DeepCopyInto parse)"

definition PilotList_DeepCopyObject where
  "PilotList_DeepCopyObject parse = copy_object (PilotList_DeepCopy parse)"

section \<open>Internal version\<close>

definition nImageSpec_shape where
  "nImageSpec_shape = is_struct [
      (''Repository'', is_scalar),
      (''Tag'', is_scalar),
      (''PullPolicy'', is_scalar)]"

definition nImageSpec_DeepCopyInto where
  "nImageSpec_DeepCopyInto = copy_struct []"

lemma nImageSpec_flat [copy_intros]: "flat nImageSpec_shape"
  unfolding nImageSpec_shape_def by (rule flat_struct) (simp add: copy_intros)

lemma nImageSpec_copies [copy_intros]: "deep_copier nImageSpec_shape nImageSpec_DeepCopyInto"
  unfolding nImageSpec_shape_def nImageSpec_DeepCopyInto_def
  by (rule struct_copies) (simp add: fields_ok_def copy_intros)

definition nImageSpec_DeepCopy where
  "nImageSpec_DeepCopy = copy_ptr nImageSpec_DeepCopyInto"

definition nNavigatorSecurityContext_shape where
  "nNavigatorSecurityContext_shape = is_struct [
      (''RunAsUser'', is_ptr is_scalar)]"

definition nNavigatorSecurityContext_DeepCopyInto where
  "nNavigatorSecurityContext_DeepCopyInto = copy_struct [
      (''RunAsUser'', copy_ptr assign)]"

lemma nNavigatorSecurityContext_copies [copy_intros]: "deep_copier nNavigatorSecurityContext_shape nNavigatorSecurityContext_DeepCopyInto"
  unfolding nNavigatorSecurityContext_shape_def nNavigatorSecurityContext_DeepCopyInto_def
  by (rule struct_copies) (simp add: fields_ok_def copy_intros)

definition nNavigatorSecurityContext_DeepCopy where
  "nNavigatorSecurityContext_DeepCopy = copy_ptr nNavigatorSecurityContext_DeepCopyInto"

definition nNavigatorClusterConfig_shape where
  "nNavigatorClusterConfig_shape = is_struct [
      (''PilotImage'', nImageSpec_shape),
      (''SecurityContext'', nNavigatorSecurityContext_shape),
      (''Paused'', is_scalar)]"

definition nNavigatorClusterConfig_DeepCopyInto where
  "nNavigatorClusterConfig_DeepCopyInto = copy_struct [
      (''PilotImage'', assign),
      (''SecurityContext'', nNavigatorSecurityContext_DeepCopyInto)]"

lemma nNavigatorClusterConfig_copies [copy_intros]: "deep_copier nNavigatorClusterConfig_shape nNavigatorClusterConfig_DeepCopyInto"
  unfolding nNavigatorClusterConfig_shape_def nNavigatorClusterConfig_DeepCopyInto_def
  by (rule struct_copies) (simp add: fields_ok_def copy_intros)

definition nNavigatorClusterConfig_DeepCopy where
  "nNavigatorClusterConfig_DeepCopy = copy_ptr nNavigatorClusterConfig_DeepCopyInto"

definition nPersistenceConfig_shape where
  "nPersistenceConfig_shape = is_struct [
      (''Size'', Quantity_shape),
      (''StorageClass'', is_ptr is_scalar)]"

definition nPersistenceConfig_DeepCopyInto where
  "nPersistenceConfig_DeepCopyInto = copy_struct [
      (''Size'', Quantity_DeepCopy),
      (''StorageClass'', copy_ptr assign)]"

lemma nPersistenceConfig_copies [copy_intros]: "deep_copier nPersistenceConfig_shape nPersistenceConfig_DeepCopyInto"
  unfolding nPersistenceConfig_shape_def nPersistenceConfig_DeepCopyInto_def
  by (rule struct_copies) (simp add: fields_ok_def copy_intros)

definition nPersistenceConfig_DeepCopy where
  "nPersistenceConfig_DeepCopy = copy_ptr nPersistenceConfig_DeepCopyInto"

definition nCassandraClusterNodePool_shape where
  "nCassandraClusterNodePool_shape = is_struct [
      (''Name'', is_scalar),
      (''Replicas'', is_ptr is_scalar),
      (''Persistence'', is_ptr nPersistenceConfig_shape),
      (''NodeSelector'', is_map is_scalar),
      (''Rack'', is_ptr is_scalar),
      (''Datacenter'', is_ptr is_scalar),
      (''Resources'', ResourceRequirements_shape),
      (''SchedulerName'', is_scalar)]"

definition nCassandraClusterNodePool_DeepCopyInto where
  "nCassandraClusterNodePool_DeepCopyInto = copy_struct [
      (''Replicas'', copy_ptr assign),
      (''Persistence'', copy_ptr nPersistenceConfig_DeepCopyInto),
      (''NodeSelector'', copy_map assign),
      (''Rack'', copy_ptr assign),
      (''Datacenter'', copy_ptr assign),
      (''Resources'', ResourceRequirements_DeepCopyInto)]"

lemma nCassandraClusterNodePool_copies [copy_intros]: "deep_copier nCassandraClusterNodePool_shape nCassandraClusterNodePool_DeepCopyInto"
  unfolding nCassandraClusterNodePool_shape_def nCassandraClusterNodePool_DeepCopyInto_def
  by (rule struct_copies) (simp add: fields_ok_def copy_intros)

definition nCassandraClusterNodePool_DeepCopy where
  "nCassandraClusterNodePool_DeepCopy = copy_ptr nCassandraClusterNodePool_DeepCopyInto"

definition nCassandraClusterSpec_shape where
  "nCassandraClusterSpec_shape parse = is_struct [
      (''NavigatorClusterConfig'', nNavigatorClusterConfig_shape),
      (''NodePools'', is_slice nCassandraClusterNodePool_shape),
      (''Version'', Version_shape parse),
      (''Image'', is_ptr nImageSpec_shape)]"

definition nCassandraClusterSpec_DeepCopyInto where
  "nCassandraClusterSpec_DeepCopyInto parse = copy_struct [
      (''NavigatorClusterConfig'', nNavigatorClusterConfig_DeepCopyInto),
      (''NodePools'', copy_slice nCassandraClusterNodePool_DeepCopyInto),
      (''Version'', Version_DeepCopy parse),
      (''Image'', copy_ptr assign)]"

lemma nCassandraClusterSpec_copies [copy_intros]: "deep_copier (nCassandraClusterSpec_shape parse) (nCassandraClusterSpec_DeepCopyInto parse)"
  unfolding nCassandraClusterSpec_shape_def nCassandraClusterSpec_DeepCopyInto_def
  by (rule struct_copies) (simp add: fields_ok_def copy_intros)

definition nCassandraClusterSpec_DeepCopy where
  "nCassandraClusterSpec_DeepCopy parse = copy_ptr (nCassandraClusterSpec_DeepCopyInto parse)"

definition nClusterCondition_shape where
  "nClusterCondition_shape = is_struct [
      (''Type'', is_scalar),
      (''Status'', is_scalar),
      (''LastTransitionTime'', is_scalar),
      (''Reason'', is_scalar),
      (''Message'', is_scalar)]"

definition nClusterCondition_DeepCopyInto where
  "nClusterCondition_DeepCopyInto = copy_struct [
      (''LastTransitionTime'', Time_DeepCopyInto)]"

lemma nClusterCondition_flat [copy_intros]: "flat nClusterCondition_shape"
  unfolding nClusterCondition_shape_def by (rule flat_struct) (simp add: copy_intros)

lemma nClusterCondition_copies [copy_intros]: "deep_copier nClusterCondition_shape nClusterCondition_DeepCopyInto"
  unfolding nClusterCondition_shape_def nClusterCondition_DeepCopyInto_def
  by (rule struct_copies) (simp add: fields_ok_def copy_intros)

definition nClusterCondition_DeepCopy where
  "nClusterCondition_DeepCopy = copy_ptr nClusterCondition_DeepCopyInto"

definition nNavigatorClusterStatus_shape where
  "nNavigatorClusterStatus_shape = is_struct [
      (''Conditions'', is_slice nClusterCondition_shape)]"

definition nNavigatorClusterStatus_DeepCopyInto where
  "nNavigatorClusterStatus_DeepCopyInto = copy_struct [
      (''Conditions'', copy_slice nClusterCondition_DeepCopyInto)]"

lemma nNavigatorClusterStatus_copies [copy_intros]: "deep_copier nNavigatorClusterStatus_shape nNavigatorClusterStatus_DeepCopyInto"
  unfolding nNavigatorClusterStatus_shape_def nNavigatorClusterStatus_DeepCopyInto_def
  by (rule struct_copies) (simp add: fields_ok_def copy_intros)

definition nNavigatorClusterStatus_DeepCopy where
  "nNavigatorClusterStatus_DeepCopy = copy_ptr nNavigatorClusterStatus_DeepCopyInto"

definition nCassandraClusterNodePoolStatus_shape where
  "nCassandraClusterNodePoolStatus_shape = is_struct [
      (''ReadyReplicas'', is_scalar)]"

definition nCassandraClusterNodePoolStatus_DeepCopyInto where
  "nCassandraClusterNodePoolStatus_DeepCopyInto = copy_struct []"

lemma nCassandraClusterNodePoolStatus_flat [copy_intros]: "flat nCassandraClusterNodePoolStatus_shape"
  unfolding nCassandraClusterNodePoolStatus_shape_def by (rule flat_struct) (simp add: copy_intros)

lemma nCassandraClusterNodePoolStatus_copies [copy_intros]: "deep_copier nCassandraClusterNodePoolStatus_shape nCassandraClusterNodePoolStatus_DeepCopyInto"
  unfolding nCassandraClusterNodePoolStatus_shape_def nCassandraClusterNodePoolStatus_DeepCopyInto_def
  by (rule struct_copies) (simp add: fields_ok_def copy_intros)

definition nCassandraClusterNodePoolStatus_DeepCopy where
  "nCassandraClusterNodePoolStatus_DeepCopy = copy_ptr nCassandraClusterNodePoolStatus_DeepCopyInto"

definition nCassandraClusterStatus_shape where
  "nCassandraClusterStatus_shape = is_struct [
      (''NavigatorClusterStatus'', nNavigatorClusterStatus_shape),
      (''NodePools'', is_map nCassandraClusterNodePoolStatus_shape)]"

definition nCassandraClusterStatus_DeepCopyInto where
  "nCassandraClusterStatus_DeepCopyInto = copy_struct [
      (''NavigatorClusterStatus'', nNavigatorClusterStatus_DeepCopyInto),
      (''NodePools'', copy_map assign)]"

lemma nCassandraClusterStatus_copies [copy_intros]: "deep_copier nCassandraClusterStatus_shape nCassandraClusterStatus_DeepCopyInto"
  unfolding nCassandraClusterStatus_shape_def nCassandraClusterStatus_DeepCopyInto_def
  by (rule struct_copies) (simp add: fields_ok_def copy_intros)

definition nCassandraClusterStatus_DeepCopy where
  "nCassandraClusterStatus_DeepCopy = copy_ptr nCassandraClusterStatus_DeepCopyInto"

definition nCassandraCluster_shape where
  "nCassandraCluster_shape parse = is_struct [
      (''TypeMeta'', TypeMeta_shape),
      (''ObjectMeta'', ObjectMeta_shape),
      (''Spec'', nCassandraClusterSpec_shape parse),
      (''Status'', nCassandraClusterStatus_shape)]"

definition nCassandraCluster_DeepCopyInto where
  "nCassandraCluster_DeepCopyInto parse = copy_struct [
      (''TypeMeta'', assign),
      (''ObjectMeta'', ObjectMeta_DeepCopyInto),
      (''Spec'', nCassandraClusterSpec_DeepCopyInto parse),
      (''Status'', nCassandraClusterStatus_DeepCopyInto)]"

lemma nCassandraCluster_copies [copy_intros]: "deep_copier (nCassandraCluster_shape parse) (nCassandraCluster_DeepCopyInto parse)"
  unfolding nCassandraCluster_shape_def nCassandraCluster_DeepCopyInto_def
  by (rule struct_copies) (simp add: fields_ok_def copy_intros)

definition nCassandraCluster_DeepCopy where
  "nCassandraCluster_DeepCopy parse = copy_ptr (nCassandraCluster_DeepCopyInto parse)"

definition nCassandraCluster_DeepCopyObject where
  "nCassandraCluster_DeepCopyObject parse = copy_object (nCassandraCluster_DeepCopy parse)"

definition nCassandraClusterList_shape where
  "nCassandraClusterList_shape parse = is_struct [
      (''TypeMeta'', TypeMeta_shape),
      (''ListMeta'', ListMeta_shape),
      (''Items'', is_slice (nCassandraCluster_shape parse))]"

definition nCassandraClusterList_DeepCopyInto where
  "nCassandraClusterList_DeepCopyInto parse = copy_struct [
      (''TypeMeta'', assign),
      (''ListMeta'', assign),
      (''Items'', copy_slice (nCassandraCluster_DeepCopyInto parse))]"

lemma nCassandraClusterList_copies [copy_intros]: "deep_copier (nCassandraClusterList_shape parse) (nCassandraClusterList_DeepCopyInto parse)"
  unfolding nCassandraClusterList_shape_def nCassandraClusterList_DeepCopyInto_def
  by (rule struct_copies) (simp add: fields_ok_def copy_intros)

definition nCassandraClusterList_DeepCopy where
  "nCassandraClusterList_DeepCopy parse = copy_ptr (nCassandraClusterList_DeepCopyInto parse)"

definition nCassandraClusterList_DeepCopyObject where
  "nCassandraClusterList_DeepCopyObject parse = copy_object (nCassandraClusterList_DeepCopy parse)"

definition nCassandraPilotStatus_shape where
  "nCassandraPilotStatus_shape parse = is_struct [
      (''Version'', is_ptr (Version_shape parse))]"

definition nCassandraPilotStatus_DeepCopyInto where
  "nCassandraPilotStatus_DeepCopyInto parse = copy_struct [
      (''Version'', copy_ptr (Version_DeepCopy parse))]"

lemma nCassandraPilotStatus_copies [copy_intros]: "deep_copier (nCassandraPilotStatus_shape parse) (nCassandraPilotStatus_DeepCopyInto parse)"
  unfolding nCassandraPilotStatus_shape_def nCassandraPilotStatus_DeepCopyInto_def
  by (rule struct_copies) (simp add: fields_ok_def copy_intros)

definition nCassandraPilotStatus_DeepCopy where
  "nCassandraPilotStatus_DeepCopy parse = copy_ptr (nCassandraPilotStatus_DeepCopyInto parse)"

definition nElasticsearchClusterNodePool_shape where
  "nElasticsearchClusterNodePool_shape = is_struct [
      (''Name'', is_scalar),
      (''Replicas'', is_ptr is_scalar),
      (''Roles'', is_slice is_scalar),
      (''NodeSelector'', is_map is_scalar),
      (''Resources'', ResourceRequirements_shape),
      (''Persistence'', is_ptr nPersistenceConfig_shape),
      (''SchedulerName'', is_scalar)]"

definition nElasticsearchClusterNodePool_DeepCopyInto where
  "nElasticsearchClusterNodePool_DeepCopyInto = copy_struct [
      (''Replicas'', copy_ptr assign),
      (''Roles'', copy_slice assign),
      (''NodeSelector'', copy_map assign),
      (''Resources'', ResourceRequirements_DeepCopyInto),
      (''Persistence'', copy_ptr nPersistenceConfig_DeepCopyInto)]"

lemma nElasticsearchClusterNodePool_copies [copy_intros]: "deep_copier nElasticsearchClusterNodePool_shape nElasticsearchClusterNodePool_DeepCopyInto"
  unfolding nElasticsearchClusterNodePool_shape_def nElasticsearchClusterNodePool_DeepCopyInto_def
  by (rule struct_copies) (simp add: fields_ok_def copy_intros)

definition nElasticsearchClusterNodePool_DeepCopy where
  "nElasticsearchClusterNodePool_DeepCopy = copy_ptr nElasticsearchClusterNodePool_DeepCopyInto"

definition nElasticsearchClusterSpec_shape where
  "nElasticsearchClusterSpec_shape = is_struct [
      (''NavigatorClusterConfig'', nNavigatorClusterConfig_shape),
      (''Version'', semver_shape),
      (''Image'', is_ptr nImageSpec_shape),
      (''Plugins'', is_slice is_scalar),
      (''NodePools'', is_slice nElasticsearchClusterNodePool_shape),
      (''MinimumMasters'', is_ptr is_scalar)]"

definition nElasticsearchClusterSpec_DeepCopyInto where
  "nElasticsearchClusterSpec_DeepCopyInto = copy_struct [
      (''NavigatorClusterConfig'', nNavigatorClusterConfig_DeepCopyInto),
      (''Version'', assign),
      (''Image'', copy_ptr assign),
      (''Plugins'', copy_slice assign),
      (''NodePools'', copy_slice nElasticsearchClusterNodePool_DeepCopyInto),
      (''MinimumMasters'', copy_ptr assign)]"

lemma nElasticsearchClusterSpec_copies [copy_intros]: "deep_copier nElasticsearchClusterSpec_shape nElasticsearchClusterSpec_DeepCopyInto"
  unfolding nElasticsearchClusterSpec_shape_def nElasticsearchClusterSpec_DeepCopyInto_def
  by (rule struct_copies) (simp add: fields_ok_def copy_intros)

definition nElasticsearchClusterSpec_DeepCopy where
  "nElasticsearchClusterSpec_DeepCopy = copy_ptr nElasticsearchClusterSpec_DeepCopyInto"

definition nElasticsearchClusterNodePoolStatus_shape where
  "nElasticsearchClusterNodePoolStatus_shape = is_struct [
      (''ReadyReplicas'', is_scalar)]"

definition nElasticsearchClusterNodePoolStatus_DeepCopyInto where
  "nElasticsearchClusterNodePoolStatus_DeepCopyInto = copy_struct []"

lemma nElasticsearchClusterNodePoolStatus_flat [copy_intros]: "flat nElasticsearchClusterNodePoolStatus_shape"
  unfolding nElasticsearchClusterNodePoolStatus_shape_def by (rule flat_struct) (simp add: copy_intros)

lemma nElasticsearchClusterNodePoolStatus_copies [copy_intros]: "deep_copier nElasticsearchClusterNodePoolStatus_shape nElasticsearchClusterNodePoolStatus_DeepCopyInto"
  unfolding nElasticsearchClusterNodePoolStatus_shape_def nElasticsearchClusterNodePoolStatus_DeepCopyInto_def
  by (rule struct_copies) (simp add: fields_ok_def copy_intros)

definition nElasticsearchClusterNodePoolStatus_DeepCopy where
  "nElasticsearchClusterNodePoolStatus_DeepCopy = copy_ptr nElasticsearchClusterNodePoolStatus_DeepCopyInto"

definition nElasticsearchClusterStatus_shape where
  "nElasticsearchClusterStatus_shape = is_struct [
      (''NavigatorClusterStatus'', nNavigatorClusterStatus_shape),
      (''NodePools'', is_map nElasticsearchClusterNodePoolStatus_shape),
      (''Health'', is_ptr is_scalar)]"

definition nElasticsearchClusterStatus_DeepCopyInto where
  "nElasticsearchClusterStatus_DeepCopyInto = copy_struct [
      (''NavigatorClusterStatus'', nNavigatorClusterStatus_DeepCopyInto),
      (''NodePools'', copy_map assign),
      (''Health'', copy_ptr assign)]"

lemma nElasticsearchClusterStatus_copies [copy_intros]: "deep_copier nElasticsearchClusterStatus_shape nElasticsearchClusterStatus_DeepCopyInto"
  unfolding nElasticsearchClusterStatus_shape_def nElasticsearchClusterStatus_DeepCopyInto_def
  by (rule struct_copies) (simp add: fields_ok_def copy_intros)

definition nElasticsearchClusterStatus_DeepCopy where
  "nElasticsearchClusterStatus_DeepCopy = copy_ptr nElasticsearchClusterStatus_DeepCopyInto"

definition nElasticsearchCluster_shape where
  "nElasticsearchCluster_shape = is_struct [
      (''TypeMeta'', TypeMeta_shape),
      (''ObjectMeta'', ObjectMeta_shape),
      (''Spec'', nElasticsearchClusterSpec_shape),
      (''Status'', nElasticsearchClusterStatus_shape)]"

definition nElasticsearchCluster_DeepCopyInto where
  "nElasticsearchCluster_DeepCopyInto = copy_struct [
      (''TypeMeta'', assign),
      (''ObjectMeta'', ObjectMeta_DeepCopyInto),
      (''Spec'', nElasticsearchClusterSpec_DeepCopyInto),
      (''Status'', nElasticsearchClusterStatus_DeepCopyInto)]"

lemma nElasticsearchCluster_copies [copy_intros]: "deep_copier nElasticsearchCluster_shape nElasticsearchCluster_DeepCopyInto"
  unfolding nElasticsearchCluster_shape_def nElasticsearchCluster_DeepCopyInto_def
  by (rule struct_copies) (simp add: fields_ok_def copy_intros)

definition nElasticsearchCluster_DeepCopy where
  "nElasticsearchCluster_DeepCopy = copy_ptr nElasticsearchCluster_DeepCopyInto"

definition nElasticsearchCluster_DeepCopyObject where
  "nElasticsearchCluster_DeepCopyObject = copy_object nElasticsearchCluster_DeepCopy"

definition nElasticsearchClusterList_shape where
  "nElasticsearchClusterList_shape = is_struct [
      (''TypeMeta'', TypeMeta_shape),
      (''ListMeta'', ListMeta_shape),
      (''Items'', is_slice nElasticsearchCluster_shape)]"

definition nElasticsearchClusterList_DeepCopyInto where
  "nElasticsearchClusterList_DeepCopyInto = copy_struct [
      (''TypeMeta'', assign),
      (''ListMeta'', assign),
      (''Items'', copy_slice nElasticsearchCluster_DeepCopyInto)]"

lemma nElasticsearchClusterList_copies [copy_intros]: "deep_copier nElasticsearchClusterList_shape nElasticsearchClusterList_DeepCopyInto"
  unfolding nElasticsearchClusterList_shape_def nElasticsearchClusterList_DeepCopyInto_def
  by (rule struct_copies) (simp add: fields_ok_def copy_intros)

definition nElasticsearchClusterList_DeepCopy where
  "nElasticsearchClusterList_DeepCopy = copy_ptr nElasticsearchClusterList_DeepCopyInto"

definition nElasticsearchClusterList_DeepCopyObject where
  "nElasticsearchClusterList_DeepCopyObject = copy_object nElasticsearchClusterList_DeepCopy"

definition nElasticsearchPilotStatus_shape where
  "nElasticsearchPilotStatus_shape = is_struct [
      (''Documents'', is_ptr is_scalar),
      (''Version'', is_ptr semver_shape)]"

definition nElasticsearchPilotStatus_DeepCopyInto where
  "nElasticsearchPilotStatus_DeepCopyInto = copy_struct [
      (''Documents'', copy_ptr assign),
      (''Version'', copy_ptr assign)]"

lemma nElasticsearchPilotStatus_copies [copy_intros]: "deep_copier nElasticsearchPilotStatus_shape nElasticsearchPilotStatus_DeepCopyInto"
  unfolding nElasticsearchPilotStatus_shape_def nElasticsearchPilotStatus_DeepCopyInto_def
  by (rule struct_copies) (simp add: fields_ok_def copy_intros)

definition nElasticsearchPilotStatus_DeepCopy where
  "nElasticsearchPilotStatus_DeepCopy = copy_ptr nElasticsearchPilotStatus_DeepCopyInto"

definition nPilotSpec_shape where
  "nPilotSpec_shape = is_struct []"

definition nPilotSpec_DeepCopyInto where
  "nPilotSpec_DeepCopyInto = copy_struct []"

lemma nPilotSpec_flat [copy_intros]: "flat nPilotSpec_shape"
  unfolding nPilotSpec_shape_def by (rule flat_struct) (simp add: copy_intros)

lemma nPilotSpec_copies [copy_intros]: "deep_copier nPilotSpec_shape nPilotSpec_DeepCopyInto"
  unfolding nPilotSpec_shape_def nPilotSpec_DeepCopyInto_def
  by (rule struct_copies) (simp add: fields_ok_def copy_intros)

definition nPilotSpec_DeepCopy where
  "nPilotSpec_DeepCopy = copy_ptr nPilotSpec_DeepCopyInto"

definition nPilotCondition_shape where
  "nPilotCondition_shape = is_struct [
      (''Type'', is_scalar),
      (''Status'', is_scalar),
      (''LastTransitionTime'', is_scalar),
      (''Reason'', is_scalar),
      (''Message'', is_scalar)]"

definition nPilotCondition_DeepCopyInto where
  "nPilotCondition_DeepCopyInto = copy_struct [
      (''LastTransitionTime'', Time_DeepCopyInto)]"

lemma nPilotCondition_flat [copy_intros]: "flat nPilotCondition_shape"
  unfolding nPilotCondition_shape_def by (rule flat_struct) (simp add: copy_intros)

lemma nPilotCondition_copies [copy_intros]: "deep_copier nPilotCondition_shape nPilotCondition_DeepCopyInto"
  unfolding nPilotCondition_shape_def nPilotCondition_DeepCopyInto_def
  by (rule struct_copies) (simp add: fields_ok_def copy_intros)

definition nPilotCondition_DeepCopy where
  "nPilotCondition_DeepCopy = copy_ptr nPilotCondition_DeepCopyInto"

definition nPilotStatus_shape where
  "nPilotStatus_shape parse = is_struct [
      (''Conditions'', is_slice nPilotCondition_shape),
      (''Elasticsearch'', is_ptr nElasticsearchPilotStatus_shape),
      (''Cassandra'', is_ptr (nCassandraPilotStatus_shape parse))]"

definition nPilotStatus_DeepCopyInto where
  "nPilotStatus_DeepCopyInto parse = copy_struct [
      (''Conditions'', copy_slice nPilotCondition_DeepCopyInto),
      (''Elasticsearch'', copy_ptr nElasticsearchPilotStatus_DeepCopyInto),
      (''Cassandra'', copy_ptr (nCassandraPilotStatus_DeepCopyInto parse))]"

lemma nPilotStatus_copies [copy_intros]: "deep_copier (nPilotStatus_shape parse) (nPilotStatus_DeepCopyInto parse)"
  unfolding nPilotStatus_shape_def nPilotStatus_DeepCopyInto_def
  by (rule struct_copies) (simp add: fields_ok_def copy_intros)

definition nPilotStatus_DeepCopy where
  "nPilotStatus_DeepCopy parse = copy_ptr (nPilotStatus_DeepCopyInto parse)"

definition nPilot_shape where
  "nPilot_shape parse = is_struct [
      (''TypeMeta'', TypeMeta_shape),
      (''ObjectMeta'', ObjectMeta_shape),
      (''Spec'', nPilotSpec_shape),
      (''Status'', nPilotStatus_shape parse)]"

definition nPilot_DeepCopyInto where
  "nPilot_DeepCopyInto parse = copy_struct [
      (''TypeMeta'', assign),
      (''ObjectMeta'', ObjectMeta_DeepCopyInto),
      (''Spec'', assign),
      (''Status'', nPilotStatus_DeepCopyInto parse)]"

lemma nPilot_copies [copy_intros]: "deep_copier (nPilot_shape parse) (nPilot_DeepCopyInto parse)"
  unfolding nPilot_shape_def nPilot_DeepCopyInto_def
  by (rule struct_copies) (simp add: fields_ok_def copy_intros)

definition nPilot_DeepCopy where
  "nPilot_DeepCopy parse = copy_ptr (nPilot_DeepCopyInto parse)"

definition nPilot_DeepCopyObject where
  "nPilot_DeepCopyObject parse = copy_object (nPilot_DeepCopy parse)"

definition nPilotList_shape where
  "nPilotList_shape parse = is_struct [
      (''TypeMeta'', TypeMeta_shape),
      (''ListMeta'', ListMeta_shape),
      (''Items'', is_slice (nPilot_shape parse))]"

definition nPilotList_DeepCopyInto where
  "nPilotList_DeepCopyInto parse = copy_struct [
      (''TypeMeta'', assign),
      (''ListMeta'', assign),
      (''Items'', copy_slice (nPilot_DeepCopyInto parse))]"

lemma nPilotList_copies [copy_intros]: "deep_copier (nPilotList_shape parse) (nPilotList_DeepCopyInto parse)"
  unfolding nPilotList_shape_def nPilotList_DeepCopyInto_def
  by (rule struct_copies) (simp add: fields_ok_def copy_intros)

definition nPilotList_DeepCopy where
  "nPilotList_DeepCopy parse = copy_ptr (nPilotList_DeepCopyInto parse)"

definition nPilotList_DeepCopyObject where
  "nPilotList_DeepCopyObject parse = copy_object (nPilotList_DeepCopy parse)"

section \<open>The objects of the API\<close>

interpretation CassandraCluster_copy: deep_copier "is_ptr (CassandraCluster_shape parse)" "CassandraCluster_DeepCopy parse" for parse
  unfolding CassandraCluster_DeepCopy_def by (intro copy_intros)

interpretation CassandraClusterList_copy: deep_copier "is_ptr (CassandraClusterList_shape parse)" "CassandraClusterList_DeepCopy parse" for parse
  unfolding CassandraClusterList_DeepCopy_def by (intro copy_intros)

interpretation ElasticsearchCluster_copy: deep_copier "is_ptr ElasticsearchCluster_shape" "ElasticsearchCluster_DeepCopy"
  unfolding ElasticsearchCluster_DeepCopy_def by (intro copy_intros)

interpretation ElasticsearchClusterList_copy: deep_copier "is_ptr ElasticsearchClusterList_shape" "ElasticsearchClusterList_DeepCopy"
  unfolding ElasticsearchClusterList_DeepCopy_def by (intro copy_intros)

interpretation Pilot_copy: deep_copier "is_ptr (Pilot_shape parse)" "Pilot_DeepCopy parse" for parse
  unfolding Pilot_DeepCopy_def by (intro copy_intros)

interpretation PilotList_copy: deep_copier "is_ptr (PilotList_shape parse)" "PilotList_DeepCopy parse" for parse
  unfolding PilotList_DeepCopy_def by (intro copy_intros)

interpretation nCassandraCluster_copy: deep_copier "is_ptr (nCassandraCluster_shape parse)" "nCassandraCluster_DeepCopy parse" for parse
  unfolding nCassandraCluster_DeepCopy_def by (intro copy_intros)

interpretation nCassandraClusterList_copy: deep_copier "is_ptr (nCassandraClusterList_shape parse)" "nCassandraClusterList_DeepCopy parse" for parse
  unfolding nCassandraClusterList_DeepCopy_def by (intro copy_intros)

interpretation nElasticsearchCluster_copy: deep_copier "is_ptr nElasticsearchCluster_shape" "nElasticsearchCluster_DeepCopy"
  unfolding nElasticsearchCluster_DeepCopy_def by (intro copy_intros)

interpretation nElasticsearchClusterList_copy: deep_copier "is_ptr nElasticsearchClusterList_shape" "nElasticsearchClusterList_DeepCopy"
  unfolding nElasticsearchClusterList_DeepCopy_def by (intro copy_intros)

interpretation nPilot_copy: deep_copier "is_ptr (nPilot_shape parse)" "nPilot_DeepCopy parse" for parse
  unfolding nPilot_DeepCopy_def by (intro copy_intros)

interpretation nPilotList_copy: deep_copier "is_ptr (nPilotList_shape parse)" "nPilotList_DeepCopy parse" for parse
  unfolding nPilotList_DeepCopy_def by (intro copy_intros)

definition copied_kinds :: "version_parser \<Rightarrow> ((val \<Rightarrow> bool) \<times> copier) list" where
  "copied_kinds parse = [
      (is_ptr (CassandraCluster_shape parse), CassandraCluster_DeepCopyObject parse),
      (is_ptr (CassandraClusterList_shape parse), CassandraClusterList_DeepCopyObject parse),
      (is_ptr ElasticsearchCluster_shape, ElasticsearchCluster_DeepCopyObject),
      (is_ptr ElasticsearchClusterList_shape, ElasticsearchClusterList_DeepCopyObject),
      (is_ptr (Pilot_shape parse), Pilot_DeepCopyObject parse),
      (is_ptr (PilotList_shape parse), PilotList_DeepCopyObject parse),
      (is_ptr (nCassandraCluster_shape parse), nCassandraCluster_DeepCopyObject parse),
      (is_ptr (nCassandraClusterList_shape parse), nCassandraClusterList_DeepCopyObject parse),
      (is_ptr nElasticsearchCluster_shape, nElasticsearchCluster_DeepCopyObject),
      (is_ptr nElasticsearchClusterList_shape, nElasticsearchClusterList_DeepCopyObject),
      (is_ptr (nPilot_shape parse), nPilot_DeepCopyObject parse),
      (is_ptr (nPilotList_shape parse), nPilotList_DeepCopyObject parse)]"

text \<open>
  C8: the deep copy of any object or list of the API, made when the addresses in use are below \<open>n\<close>,
  never panics and is again a value of its type. It has the contents of the original and shares no
  memory with it: no write through the copy changes the original, and none through the original
  changes the copy.
\<close>

theorem deep_copy_isolated:
  assumes "(shape, copy) \<in> set (copied_kinds parse)" and "shape v" and "refs v \<subseteq> {..<n}"
  shows "\<exists>w m. copy n v = Return (w, m) \<and> shape w \<and> erase w = erase v \<and> refs w \<inter> refs v = {} \<and>
    (\<forall>a x. a \<in> refs w \<longrightarrow> poke a x v = v) \<and> (\<forall>a x. a \<in> refs v \<longrightarrow> poke a x w = w)"
proof -
  have "deep_copier shape copy" using assms(1)
    by (auto simp: copied_kinds_def copy_object_same
        CassandraCluster_DeepCopyObject_def CassandraClusterList_DeepCopyObject_def
          ElasticsearchCluster_DeepCopyObject_def ElasticsearchClusterList_DeepCopyObject_def
          Pilot_DeepCopyObject_def PilotList_DeepCopyObject_def nCassandraCluster_DeepCopyObject_def
          nCassandraClusterList_DeepCopyObject_def nElasticsearchCluster_DeepCopyObject_def
          nElasticsearchClusterList_DeepCopyObject_def nPilot_DeepCopyObject_def
          nPilotList_DeepCopyObject_def
        intro: CassandraCluster_copy.deep_copier_axioms CassandraClusterList_copy.deep_copier_axioms
          ElasticsearchCluster_copy.deep_copier_axioms
          ElasticsearchClusterList_copy.deep_copier_axioms Pilot_copy.deep_copier_axioms
          PilotList_copy.deep_copier_axioms nCassandraCluster_copy.deep_copier_axioms
          nCassandraClusterList_copy.deep_copier_axioms
          nElasticsearchCluster_copy.deep_copier_axioms
          nElasticsearchClusterList_copy.deep_copier_axioms nPilot_copy.deep_copier_axioms
          nPilotList_copy.deep_copier_axioms)
  from deep_copier.isolated [OF this assms(2,3)] show ?thesis .
qed

definition sample_parse :: version_parser where
  "sample_parse s = (if s = ''3.11'' then Some ([], [], [3, 11, 0], 2) else None)"

definition sample_meta :: val where
  "sample_meta = Struct [(''Name'', Scalar (Text ''x'')), (''GenerateName'', Scalar (Text [])),
     (''Namespace'', Scalar (Text ''ns'')), (''SelfLink'', Scalar (Text [])), (''UID'', Scalar (Text ''u'')),
     (''ResourceVersion'', Scalar (Text ''7'')), (''Generation'', Scalar (Number 1)),
     (''CreationTimestamp'', Scalar (Number 0)), (''DeletionTimestamp'', GoNil),
     (''DeletionGracePeriodSeconds'', GoNil),
     (''Labels'', Ref 1 (Entries [(''a'', Scalar (Text ''b''))])), (''Annotations'', GoNil),
     (''OwnerReferences'', Ref 2 (Items [Struct [(''APIVersion'', Scalar (Text ''v1'')), (''Kind'', Scalar (Text ''Pod'')),
        (''Name'', Scalar (Text ''x'')), (''UID'', Scalar (Text ''p'')), (''Controller'', Ref 3 (Scalar (Truth True))),
        (''BlockOwnerDeletion'', GoNil)]])),
     (''Initializers'', GoNil), (''Finalizers'', GoNil), (''ClusterName'', Scalar (Text []))]"

definition sample_value :: val where
  "sample_value = Ref 0 (Struct [
     (''TypeMeta'', Struct [(''Kind'', Scalar (Text ''Pilot'')), (''APIVersion'', Scalar (Text ''v1alpha1''))]),
     (''ObjectMeta'', sample_meta),
     (''Spec'', Struct []),
     (''Status'', Struct [(''Conditions'', GoNil),
        (''Elasticsearch'', Ref 4 (Struct [(''Documents'', Ref 5 (Scalar (Number 3))), (''Version'', GoNil)])),
        (''Cassandra'', Ref 6 (Struct [(''Version'', Ref 7 (version_of ''3.11'' (Ref 8 (parsed_version 9 ([], [], [3, 11, 0], 2)))))]))])])"

theorem deep_copy_isolated_witness:
  "\<exists>w m. Pilot_DeepCopyObject sample_parse 10 sample_value = Return (w, m) \<and> is_ptr (Pilot_shape sample_parse) w \<and>
    erase w = erase sample_value \<and>
    refs w \<inter> refs sample_value = {} \<and> (\<forall>a x. a \<in> refs w \<longrightarrow> poke a x sample_value = sample_value) \<and>
    (\<forall>a x. a \<in> refs sample_value \<longrightarrow> poke a x w = w)"
proof (rule deep_copy_isolated)
  show "(is_ptr (Pilot_shape sample_parse), Pilot_DeepCopyObject sample_parse) \<in> set (copied_kinds sample_parse)"
    by (simp add: copied_kinds_def)
  show "is_ptr (Pilot_shape sample_parse) sample_value" by code_simp
  show "refs sample_value \<subseteq> {..<10}" by code_simp
qed

end
