(* ===== verification/Spec2Isabelle.thy ===== *)
theory Spec2Isabelle
  imports Cassandra_Correct Validation_Correct Pilot_Runtime API_Server Queue_Refinement Deep_Copy_API
begin

text \<open>
  \<^bold>\<open>The program.\<close> Navigator manages Cassandra and Elasticsearch on Kubernetes. Users create
  \<open>CassandraCluster\<close> and \<open>ElasticsearchCluster\<close> resources at its API server, which converts, defaults
  and validates them. Controllers watch these resources and the objects they own through informer
  caches: an event puts the key of a cluster into a work queue, a worker takes it and synchronises the
  cluster, that is, it compares the specification with the caches and sends requests for services,
  accounts, roles and stateful sets. A further controller creates a \<open>Pilot\<close> resource for every pod. In
  the pod a pilot process runs the database, asks it for its state and writes that to the status of
  its \<open>Pilot\<close>, which the controllers read in turn before they scale down or change versions.

  \<^bold>\<open>How it is modelled.\<close> Definitions translate the Go functions under \<open>src/\<close>, with their names, early
  returns and error paths; where a name exists for both databases it starts with \<open>cass_\<close> or \<open>es_\<close>, and
  the internal API types start with \<open>n\<close>. A pointer that may be nil is an \<open>option\<close>, a fallible call
  returns a sum with the error on the left, a call that may panic returns an \<open>outcome\<close>, integers with a
  width are words read through \<open>sint\<close>. Methods of the controllers are programs over a \<open>world\<close>: the
  caches, the requests sent so far and the events recorded; a run ends with a result, panics, or loops
  for ever. An \<open>env\<close> holds what the program does not
  decide: the answer of the API server to each request, faults of the listers, the time, the order in
  which Go iterates over a map.

  \<^bold>\<open>Foundations.\<close>
  \<^item> \<open>Prelude\<close>: words, strings, string maps, outcomes, generic lemmas and collections of facts.
  \<^item> \<open>Kube_Meta\<close>, \<open>Kube_Objects\<close>: the Kubernetes machinery the code is written against (errors,
    metadata, owner references, selectors, keys) and the objects it reads and writes.
  \<^item> \<open>Versions\<close>: semantic versions and Cassandra versions, parsing, printing, comparison, constraints.
  \<^item> \<open>Navigator_API\<close>, \<open>Navigator_Helpers\<close>: the API types, defaults, status conditions, roles, quorum.
  \<^item> \<open>Machine\<close>: worlds, requests, events and programs, with the rules by which the properties follow
    what a program may send (\<open>sends\<close>), how often (\<open>at_most\<close>) and whether it returns (\<open>returns\<close>), and the
    contract \<open>lister\<close> of the caches.

  \<^bold>\<open>Controllers.\<close>
  \<^item> \<open>Cassandra_Resources\<close>, \<open>Cassandra_Control\<close>: \<open>pkg/controllers/cassandra\<close>. \<open>cass_Sync\<close> is the whole
    synchronisation, \<open>cass_NextAction\<close> the choice of the action, \<open>ScaleOut_Execute\<close> and
    \<open>cass_CreateNodePool_Execute\<close> the actions, \<open>cass_controller_sync\<close> the handling of a key.
    \<open>Cassandra_Correct\<close> shows that the requests keep a contract, at most one of them touches a stateful
    set, a synchronisation does not panic on defaulted clusters, what the status reports, when nothing
    is left to do, and that a paused cluster is left alone.
  \<^item> \<open>Elasticsearch_Resources\<close>, \<open>Elasticsearch_Actions\<close>, \<open>Elasticsearch_Control\<close>:
    \<open>pkg/controllers/elasticsearch\<close>, with \<open>es_Sync\<close>, \<open>nextActionForNodePool\<close>, \<open>Scale_Execute\<close>,
    \<open>UpdateVersion_Execute\<close>, \<open>reconcileNodePools\<close>. \<open>Elasticsearch_Correct\<close> and \<open>Elasticsearch_Properties\<close>
    show the contract of the requests, that only drained replicas are removed, what is deleted, when
    the loop over the replicas ends and a synchronisation returns, and what the status reports.
  \<^item> \<open>Work_Queue\<close>, \<open>Queue_Refinement\<close>: the rate limited queue with its workers as a step relation, and
    its refinement of plain sets of keys. \<open>Event_Handlers\<close>, \<open>Event_Correct\<close>: from notifications to keys,
    the pilot controller, and the search for the root owner, a partial function as it may not end.

  \<^bold>\<open>API server.\<close>
  \<^item> \<open>Internal_API\<close>: the internal types and every conversion, with the contracts \<open>conversion\<close> (both ways
    give back what was converted) interpreted for each part of an object, and \<open>object_conversion\<close> (the
    same but for \<open>TypeMeta\<close>, which no conversion copies) for each object and list.
  \<^item> \<open>Validation\<close>, \<open>Validation_Correct\<close>: \<open>pkg/apis/navigator/validation\<close>; which specifications are
    accepted, what updates cannot change, and that accepted clusters have a quorum.
  \<^item> \<open>API_Server\<close>: the strategies of the registry and the admission by namespaces.
  \<^item> \<open>Deep_Copy\<close>, \<open>Deep_Copy_API\<close>: the generated deep copies on values with addresses, with the contract
    \<open>deep_copier\<close> interpreted for every object and list of the API.

  \<^bold>\<open>Pilots.\<close>
  \<^item> \<open>Generic_Pilot\<close>, \<open>Generic_Pilot_Correct\<close>: \<open>pkg/pilot/genericpilot\<close>: hooks, process, synchronisation,
    stop, peers, timers; the life of a pilot is an inductive relation with an invariant, and the critical
    sections of the timers are the steps of another.
  \<^item> \<open>Database_Pilots\<close>: what the Cassandra and the Elasticsearch pilot add, and the summary of the ring in
    \<open>pkg/cassandra/nodetool\<close>. \<open>Pilot_Options\<close>: their options. \<open>Pilot_Runtime\<close>: clients, probes against
    the pods the controllers build, and the end of a pilot.

  \<^bold>\<open>Bounds.\<close> Nothing is bounded by fuel. Loops are structural recursion, or partial functions where
  they may not end (\<open>removal_loop\<close>, \<open>RootControllerRef\<close>), and for these it is proved when they return. A
  program that calls the first when it does not end is a run that loops (\<open>diverge\<close> in \<open>Machine\<close>).

  \<^bold>\<open>Errors of the code.\<close> Several theorems show behaviour the code does not mean: conditions that are
  never added, a seed label that is not retried, a status that is lost, a version change that is
  stuck, probes that are swapped, a timer that cancels its successor. Their texts say so.

  \<^bold>\<open>Not modelled.\<close> Flags, wiring and start of the commands (\<open>cmd\<close>, \<open>pkg/apiserver\<close>); the generated
  clients, informers and listers (\<open>pkg/client\<close>), whose requests and caches are those of \<open>Machine\<close>; leader
  election, a wrapper of the library's, whose outcome is an argument of the pilot; registration of
  types; the packages for hashing and transient errors, which nothing uses; logging. The validation of
  metadata other than names, the parser of Cassandra versions, HTTP, JSON, the Elasticsearch client and
  the file system are parameters of the definitions that use them.
\<close>

section \<open>From the node to the controller\<close>

text \<open>
  C3: from end to end, no data is scaled away. Suppose the Elasticsearch status of every cached
  Pilot is as its own pilot set it in a synchronisation that was due, with the answer \<open>stats\<close> of its
  node; the time of the last update is zero, as the code never sets it. When the Elasticsearch
  controller then lowers the replicas of a data pool, for every replica that goes away the node itself
  answered that it has no documents left.
\<close>

theorem es_scale_down_reported:
  assumes get: "lister_get env ''statefulset'' ss_ObjectMeta (w_statefulsets w) (esc_Namespace c)
      (es_NodePoolResourceName c np) = Inr ss"
    and cur: "ss_Replicas ss = Some cur" and r: "0 \<le> sint r" "sint r < sint cur"
    and data: "ElasticsearchRoleData \<in> set (enp_Roles np)" and ns: "esc_Namespace c \<noteq> ''''"
    and sent: "requests (final (Scale_Execute env c np r w)) \<noteq> requests w"
    and written: "list_all (\<lambda>p. \<exists>t info p0 err q. nodeStatsUpdateFrequency \<le> t \<and>
      es_syncFunc 0 t (stats p) info p0 = Return (err, q) \<and>
      pst_Elasticsearch (pilot_Status p) = pst_Elasticsearch (pilot_Status q)) (w_pilots w)"
    and j: "sint r \<le> j" "j < sint cur"
  shows "\<exists>p \<in> set (w_pilots w). Namespace (pilot_ObjectMeta p) = Namespace (ss_ObjectMeta ss) \<and>
    pilot_Name p = ss_Name ss @ ''-'' @ show_int j \<and>
    (\<exists>nodes d. stats p = Some (Inr nodes) \<and> nodes \<noteq> [] \<and> last nodes = Some d \<and> sint d \<le> 0)"
proof -
  obtain p where p: "p \<in> set (w_pilots w)" "Namespace (pilot_ObjectMeta p) = Namespace (ss_ObjectMeta ss)"
    "pilot_Name p = ss_Name ss @ ''-'' @ show_int j" "pilot_drained p"
    using scale_down_drained [OF get cur r data ns sent] j by (auto simp: replica_drained_def)
  obtain t info p0 err q where q: "nodeStatsUpdateFrequency \<le> t" "es_syncFunc 0 t (stats p) info p0 = Return (err, q)"
    "pst_Elasticsearch (pilot_Status p) = pst_Elasticsearch (pilot_Status q)"
    using written p(1) by (auto simp: list_all_iff)
  have "pilot_drained q" using p(4) q(3) by (simp add: pilot_drained_def)
  then show ?thesis using drained_only_if_reported [of 0 t "stats p" info p0 err q] p q by auto
qed

theorem es_scale_down_reported_witness:
  "\<exists>p \<in> set (w_pilots (sample_es_world 2 ''6.1.1'')).
    Namespace (pilot_ObjectMeta p) = Namespace (ss_ObjectMeta (sample_es_set 2 ''6.1.1'')) \<and>
    pilot_Name p = ss_Name (sample_es_set 2 ''6.1.1'') @ ''-'' @ show_int 1 \<and>
    (\<exists>nodes d. Some (Inr [eps_Documents (es_status_of p)]) = Some (Inr nodes :: go_error + int64 option list) \<and>
      nodes \<noteq> [] \<and> last nodes = Some d \<and> sint d \<le> 0)"
proof (rule es_scale_down_reported [where r = 1 and cur = 2 and env = ok_env and c = "sample_es False []"
      and np = "sample_data_pool (Some 1)"])
  let ?w = "sample_es_world 2 ''6.1.1''"
  have "length (requests (final (Scale_Execute ok_env (sample_es False []) (sample_data_pool (Some 1)) 1 ?w))) = 1"
    by code_simp
  moreover have "requests ?w = []" by (simp add: sample_es_world_def empty_world_def)
  ultimately show "requests (final (Scale_Execute ok_env (sample_es False []) (sample_data_pool (Some 1)) 1 ?w)) \<noteq> requests ?w"
    by auto
  have synced: "es_syncFunc 0 nodeStatsUpdateFrequency (Some (Inr [eps_Documents (es_status_of (sample_pilot n d))])) (Some (Inr []))
      (sample_pilot n d) = Return (None, sample_pilot n d)" for n d
    by (simp add: es_syncFunc_def updateNodeStats_def updateNodeInfo_def Let_def
        set_es_status_def es_status_of_def sample_pilot_def)
  then show "list_all (\<lambda>p. \<exists>t info p0 err q. nodeStatsUpdateFrequency \<le> t \<and>
      es_syncFunc 0 t (Some (Inr [eps_Documents (es_status_of p)])) info p0 = Return (err, q) \<and>
      pst_Elasticsearch (pilot_Status p) = pst_Elasticsearch (pilot_Status q)) (w_pilots ?w)"
    by (simp add: sample_es_world_def) blast
  show "ElasticsearchRoleData \<in> set (enp_Roles (sample_data_pool (Some 1)))" by code_simp
qed (rule sample_es_get, simp_all add: sample_es_set_facts sample_es_def)

end
